(* ===== verification/Prelude.thy ===== *)
theory Prelude
  imports Main "HOL-Library.Char_ord" "HOL-Library.List_Lexorder" "HOL-Library.Sublist"
    "HOL-Library.Word"
begin

text \<open>
  Shared notation and generic lemmas of the development.

  Rust's \<open>Result<T, E>\<close> is the sum type \<open>'e + 'a\<close> with \<open>Inl\<close> for \<open>Err\<close> and \<open>Inr\<close> for \<open>Ok\<close>;
  \<open>?\<close> is \<^theory_text>\<open>bind_result\<close>, \<open>collect::<Result<Vec<_>, _>>()\<close> is \<^theory_text>\<open>try_map\<close> and a
  loop over a collection that may return early with an error is \<^theory_text>\<open>try_fold\<close>.
  A Rust \<open>String\<close> is its sequence of UTF-8 bytes, one HOL \<^theory_text>\<open>char\<close> per byte; a
  \<open>Vec<u8>\<close> is the same list of bytes. A computation that can also panic (an \<open>unwrap\<close> on
  \<open>None\<close>, a slice out of range) has the type \<^theory_text>\<open>'a exec\<close>.
\<close>

named_theorems result_simps "equations that evaluate results and early returns"
named_theorems exec_simps "equations that evaluate computations that may panic"

type_synonym bytes = string
type_synonym u16 = "16 word"
type_synonym u32 = "32 word"
type_synonym i32 = "32 word"
type_synonym u64 = "64 word"
type_synonym i64 = "64 word"

subsection \<open>Results\<close>

definition bind_result :: "'e + 'a \<Rightarrow> ('a \<Rightarrow> 'e + 'b) \<Rightarrow> 'e + 'b" where
  "bind_result r f = (case r of Inl e \<Rightarrow> Inl e | Inr a \<Rightarrow> f a)"

definition map_err :: "('e \<Rightarrow> 'f) \<Rightarrow> 'e + 'a \<Rightarrow> 'f + 'a" where
  "map_err f r = (case r of Inl e \<Rightarrow> Inl (f e) | Inr a \<Rightarrow> Inr a)"

definition ok_or :: "'e \<Rightarrow> 'a option \<Rightarrow> 'e + 'a" where
  "ok_or e x = (case x of None \<Rightarrow> Inl e | Some a \<Rightarrow> Inr a)"

definition unwrap_or :: "'a \<Rightarrow> 'a option \<Rightarrow> 'a" where
  "unwrap_or d x = (case x of None \<Rightarrow> d | Some a \<Rightarrow> a)"

definition is_ok :: "'e + 'a \<Rightarrow> bool" where
  "is_ok r = (case r of Inl _ \<Rightarrow> False | Inr _ \<Rightarrow> True)"

lemma bind_result_simps [simp, result_simps]:
  "bind_result (Inl e) f = Inl e" "bind_result (Inr a) f = f a"
  by (simp_all add: bind_result_def)

lemma bind_result_Inr_iff [simp]:
  "bind_result r f = Inr b \<longleftrightarrow> (\<exists>a. r = Inr a \<and> f a = Inr b)"
  by (cases r) simp_all

lemma bind_result_Inl_iff:
  "bind_result r f = Inl e \<longleftrightarrow> r = Inl e \<or> (\<exists>a. r = Inr a \<and> f a = Inl e)"
  by (cases r) simp_all

lemma map_err_simps [simp, result_simps]:
  "map_err f (Inl e) = Inl (f e)" "map_err f (Inr a) = Inr a"
  by (simp_all add: map_err_def)

lemma map_err_Inr_iff [simp]: "map_err f r = Inr a \<longleftrightarrow> r = Inr a"
  by (cases r) simp_all

lemma ok_or_simps [simp, result_simps]:
  "ok_or e None = Inl e" "ok_or e (Some a) = Inr a"
  by (simp_all add: ok_or_def)

lemma ok_or_Inr_iff [simp]: "ok_or e x = Inr a \<longleftrightarrow> x = Some a"
  by (cases x) simp_all

lemma unwrap_or_simps [simp, result_simps]:
  "unwrap_or d None = d" "unwrap_or d (Some a) = a"
  by (simp_all add: unwrap_or_def)

lemma is_ok_simps [simp, result_simps]:
  "\<not> is_ok (Inl e)" "is_ok (Inr a)"
  by (simp_all add: is_ok_def)

lemma is_ok_iff: "is_ok r \<longleftrightarrow> (\<exists>a. r = Inr a)"
  by (cases r) simp_all

fun try_map :: "('a \<Rightarrow> 'e + 'b) \<Rightarrow> 'a list \<Rightarrow> 'e + 'b list" where
  "try_map f [] = Inr []"
| "try_map f (x # xs) = bind_result (f x) (\<lambda>y. bind_result (try_map f xs) (\<lambda>ys. Inr (y # ys)))"

fun try_fold :: "('s \<Rightarrow> 'a \<Rightarrow> 'e + 's) \<Rightarrow> 's \<Rightarrow> 'a list \<Rightarrow> 'e + 's" where
  "try_fold f s [] = Inr s"
| "try_fold f s (x # xs) = bind_result (f s x) (\<lambda>s'. try_fold f s' xs)"

lemma try_map_length: "try_map f xs = Inr ys \<Longrightarrow> length ys = length xs"
  by (induction xs arbitrary: ys) auto

lemma try_map_nth: "try_map f xs = Inr ys \<Longrightarrow> i < length xs \<Longrightarrow> f (xs ! i) = Inr (ys ! i)"
proof (induction xs arbitrary: ys i)
  case (Cons x xs)
  then show ?case by (cases i) auto
qed simp

lemma try_map_Inr: "(\<forall>x \<in> set xs. f x = Inr (g x)) \<Longrightarrow> try_map f xs = Inr (map g xs)"
  by (induction xs) simp_all

lemma try_map_Inl: "try_map f xs = Inl e \<Longrightarrow> \<exists>x \<in> set xs. f x = Inl e"
  by (induction xs) (auto simp: bind_result_Inl_iff)

lemma try_fold_append:
  "try_fold f s (xs @ ys) = bind_result (try_fold f s xs) (\<lambda>s'. try_fold f s' ys)"
proof (induction xs arbitrary: s)
  case (Cons x xs)
  then show ?case by (cases "f s x") simp_all
qed simp

lemma try_fold_invariant:
  assumes step: "\<And>s x s'. P s \<Longrightarrow> x \<in> set xs \<Longrightarrow> f s x = Inr s' \<Longrightarrow> P s'"
    and "P s" and "try_fold f s xs = Inr t"
  shows "P t"
  using assms
proof (induction xs arbitrary: s)
  case Nil
  then show ?case by simp
next
  case (Cons x xs)
  from Cons.prems(3) obtain s' where s': "f s x = Inr s'" and t: "try_fold f s' xs = Inr t"
    by auto
  have p: "P s'" by (rule Cons.prems(1) [OF Cons.prems(2) _ s']) simp
  show ?case
  proof (rule Cons.IH [OF _ p t])
    fix s x' s'
    assume "P s" and "x' \<in> set xs" and "f s x' = Inr s'"
    then show "P s'" using Cons.prems(1) [of s x' s'] by simp
  qed
qed

lemma find_SomeD: "find P xs = Some x \<Longrightarrow> x \<in> set xs \<and> P x"
  by (induction xs) (auto split: if_splits)

subsection \<open>Computations that may panic\<close>

datatype 'a exec = Ret 'a | Panic string

definition bind_exec :: "'a exec \<Rightarrow> ('a \<Rightarrow> 'b exec) \<Rightarrow> 'b exec" where
  "bind_exec m f = (case m of Panic p \<Rightarrow> Panic p | Ret a \<Rightarrow> f a)"

definition no_panic :: "'a exec \<Rightarrow> bool" where
  "no_panic m = (case m of Panic _ \<Rightarrow> False | Ret _ \<Rightarrow> True)"

text \<open>The sequencing of a step that can fail with \<open>Err\<close> inside code that can also panic.\<close>

definition try_exec :: "('e + 'a) exec \<Rightarrow> ('a \<Rightarrow> ('e + 'b) exec) \<Rightarrow> ('e + 'b) exec" where
  "try_exec m f =
     (case m of Panic p \<Rightarrow> Panic p | Ret (Inl e) \<Rightarrow> Ret (Inl e) | Ret (Inr a) \<Rightarrow> f a)"

lemma bind_exec_simps [simp, exec_simps]:
  "bind_exec (Ret a) f = f a" "bind_exec (Panic p) f = Panic p"
  by (simp_all add: bind_exec_def)

lemma bind_exec_Ret_iff [simp]: "bind_exec m f = Ret b \<longleftrightarrow> (\<exists>a. m = Ret a \<and> f a = Ret b)"
  by (cases m) simp_all

lemma try_exec_simps [simp, exec_simps]:
  "try_exec (Ret (Inr a)) f = f a" "try_exec (Ret (Inl e)) f = Ret (Inl e)"
  "try_exec (Panic p) f = Panic p"
  by (simp_all add: try_exec_def)

lemma try_exec_Ok_iff [simp]:
  "try_exec m f = Ret (Inr b) \<longleftrightarrow> (\<exists>a. m = Ret (Inr a) \<and> f a = Ret (Inr b))"
  by (auto simp: try_exec_def split: exec.splits sum.splits)

lemma no_panic_simps [simp, exec_simps]:
  "no_panic (Ret a)" "\<not> no_panic (Panic p)"
  by (simp_all add: no_panic_def)

fun exec_map :: "('a \<Rightarrow> 'b exec) \<Rightarrow> 'a list \<Rightarrow> 'b list exec" where
  "exec_map f [] = Ret []"
| "exec_map f (x # xs) = bind_exec (f x) (\<lambda>y. bind_exec (exec_map f xs) (\<lambda>ys. Ret (y # ys)))"

fun try_exec_map :: "('a \<Rightarrow> ('e + 'b) exec) \<Rightarrow> 'a list \<Rightarrow> ('e + 'b list) exec" where
  "try_exec_map f [] = Ret (Inr [])"
| "try_exec_map f (x # xs) =
     try_exec (f x) (\<lambda>y. try_exec (try_exec_map f xs) (\<lambda>ys. Ret (Inr (y # ys))))"

subsection \<open>Fallible computations on a state\<close>

text \<open>
  Code that may fail and, on the way, changes a state that survives the failure.
\<close>

type_synonym ('st, 'e, 'a) result_st = "'st \<Rightarrow> ('e + 'a) \<times> 'st"

definition bind_st ::
  "('st, 'e, 'a) result_st \<Rightarrow> ('a \<Rightarrow> ('st, 'e, 'b) result_st) \<Rightarrow> ('st, 'e, 'b) result_st" where
  "bind_st m f st = (case m st of (Inl e, st') \<Rightarrow> (Inl e, st') | (Inr a, st') \<Rightarrow> f a st')"

definition lift_st :: "'e + 'a \<Rightarrow> ('st, 'e, 'a) result_st" where
  "lift_st r st = (r, st)"

fun fold_st ::
  "('s \<Rightarrow> 'a \<Rightarrow> ('st, 'e, 's) result_st) \<Rightarrow> 's \<Rightarrow> 'a list \<Rightarrow> ('st, 'e, 's) result_st" where
  "fold_st f s [] st = (Inr s, st)"
| "fold_st f s (x # xs) st = bind_st (f s x) (\<lambda>s'. fold_st f s' xs) st"

lemma lift_st_simps [simp, result_simps]: "lift_st r st = (r, st)"
  by (simp add: lift_st_def)

lemma bind_st_Inr_iff:
  "bind_st m f st = (Inr b, st') \<longleftrightarrow> (\<exists>a st1. m st = (Inr a, st1) \<and> f a st1 = (Inr b, st'))"
  by (auto simp: bind_st_def split: prod.splits sum.splits)

lemma bind_st_eqs [result_simps]:
  "m st = (Inl e, st1) \<Longrightarrow> bind_st m f st = (Inl e, st1)"
  "m st = (Inr a, st1) \<Longrightarrow> bind_st m f st = f a st1"
  by (simp_all add: bind_st_def)

end
