(* ===== verification/BTreeMap.thy ===== *)
theory BTreeMap
  imports Prelude
begin

text \<open>
  Rust's \<open>BTreeMap\<close> and \<open>BTreeSet\<close> as strictly sorted association lists: iteration is in key
  order, \<open>insert\<close> replaces the value of a present key. The locale \<open>kv_map\<close> is the contract the
  components use (lookup after insert, the invariant, the content after a sequence of inserts);
  the sorted lists interpret it, and so does the unordered association list that stands for
  a \<open>HashMap\<close> in some iteration order.
\<close>

named_theorems map_simps "lookup laws of the map containers"

type_synonym ('k, 'v) btmap = "('k \<times> 'v) list"
type_synonym 'k btset = "'k list"

locale kv_map =
  fixes empty :: 'm
    and insert :: "'k \<Rightarrow> 'v \<Rightarrow> 'm \<Rightarrow> 'm"
    and lookup :: "'m \<Rightarrow> 'k \<Rightarrow> 'v option"
    and invar :: "'m \<Rightarrow> bool"
  assumes lookup_empty: "lookup empty k = None"
    and lookup_insert: "invar m \<Longrightarrow> lookup (insert k v m) k' = (if k' = k then Some v else lookup m k')"
    and invar_empty: "invar empty"
    and invar_insert: "invar m \<Longrightarrow> invar (insert k v m)"
begin

text \<open>The map built by inserting a list of bindings in order, as \<open>FromIterator\<close> does.\<close>

definition from_pairs :: "('k \<times> 'v) list \<Rightarrow> 'm" where
  "from_pairs ps = fold (\<lambda>(k, v) m. insert k v m) ps empty"

lemma fold_insert_invar: "invar m \<Longrightarrow> invar (fold (\<lambda>(k, v) m. insert k v m) ps m)"
  by (induction ps arbitrary: m) (auto simp: invar_insert)

lemma invar_from_pairs: "invar (from_pairs ps)"
  by (simp add: from_pairs_def fold_insert_invar invar_empty)

lemma lookup_fold_insert:
  "invar m \<Longrightarrow> lookup (fold (\<lambda>(k, v) m. insert k v m) ps m) k =
     (case map_of (rev ps) k of Some v \<Rightarrow> Some v | None \<Rightarrow> lookup m k)"
proof (induction ps arbitrary: m)
  case (Cons p ps)
  obtain k' v' where p: "p = (k', v')" by (cases p) auto
  have "invar (insert k' v' m)" using Cons.prems by (rule invar_insert)
  from Cons.IH [OF this] show ?case
    by (auto simp: p lookup_insert [OF Cons.prems] map_add_def split: option.splits)
qed simp

lemma lookup_from_pairs: "lookup (from_pairs ps) k = map_of (rev ps) k"
  by (simp add: from_pairs_def lookup_fold_insert invar_empty lookup_empty split: option.splits)

lemma lookup_from_pairs_distinct:
  assumes "distinct (map fst ps)"
  shows "lookup (from_pairs ps) k = map_of ps k"
proof -
  have "map_of (rev ps) k = map_of ps k"
    using assms by (metis distinct_rev map_of_eq_Some_iff not_None_eq rev_map set_rev)
  then show ?thesis by (simp add: lookup_from_pairs)
qed

end

subsection \<open>Sorted association lists\<close>

fun bt_insert :: "'k::linorder \<Rightarrow> 'v \<Rightarrow> ('k, 'v) btmap \<Rightarrow> ('k, 'v) btmap" where
  "bt_insert k v [] = [(k, v)]"
| "bt_insert k v ((k', v') # xs) =
     (if k < k' then (k, v) # (k', v') # xs
      else if k = k' then (k, v) # xs
      else (k', v') # bt_insert k v xs)"

definition bt_get :: "('k, 'v) btmap \<Rightarrow> 'k \<Rightarrow> 'v option" where
  "bt_get m k = map_of m k"

definition bt_keys :: "('k, 'v) btmap \<Rightarrow> 'k list" where
  "bt_keys m = map fst m"

definition bt_sorted :: "('k::linorder, 'v) btmap \<Rightarrow> bool" where
  "bt_sorted m \<longleftrightarrow> sorted_wrt (<) (map fst m)"

definition bs_insert :: "'k::linorder \<Rightarrow> 'k btset \<Rightarrow> 'k btset" where
  "bs_insert k s = map fst (bt_insert k () (map (\<lambda>x. (x, ())) s))"

definition bs_from_iter :: "'k::linorder list \<Rightarrow> 'k btset" where
  "bs_from_iter xs = fold bs_insert xs []"

lemma set_bt_insert_keys: "fst ` set (bt_insert k v m) = insert k (fst ` set m)"
  by (induction k v m rule: bt_insert.induct) auto

lemma bt_sorted_Nil [simp]: "bt_sorted []"
  by (simp add: bt_sorted_def)

lemma bt_sorted_Cons: "bt_sorted ((k, v) # m) \<longleftrightarrow> (\<forall>k' \<in> fst ` set m. k < k') \<and> bt_sorted m"
  by (auto simp: bt_sorted_def)

lemma bt_sorted_insert [intro]: "bt_sorted m \<Longrightarrow> bt_sorted (bt_insert k v m)"
proof (induction k v m rule: bt_insert.induct)
  case (2 k v k' v' xs)
  then show ?case
    by (auto simp: bt_sorted_Cons set_bt_insert_keys simp del: image_insert
        dest: less_trans)
qed (simp add: bt_sorted_Cons)

lemma bt_get_insert: "bt_get (bt_insert k v m) k' = (if k' = k then Some v else bt_get m k')"
  by (induction k v m rule: bt_insert.induct) (auto simp: bt_get_def)

lemma bt_get_Nil [simp]: "bt_get [] k = None"
  by (simp add: bt_get_def)

lemma bt_get_single [simp]: "bt_get [(k, v)] k' = (if k' = k then Some v else None)"
  by (simp add: bt_get_def)

lemma bt_sorted_distinct: "bt_sorted m \<Longrightarrow> distinct (map fst m)"
  by (auto simp: bt_sorted_def strict_sorted_iff)

lemma bt_get_not_None: "bt_get m k \<noteq> None \<longleftrightarrow> k \<in> fst ` set m"
  by (metis bt_get_def map_of_eq_None_iff)

interpretation bt: kv_map "[]" bt_insert bt_get bt_sorted
  by unfold_locales (auto simp: bt_get_insert bt_get_def [of "[]"])

lemmas bt_map_simps [map_simps] = bt.lookup_insert bt_get_insert bt_get_def [of "[]", simplified]

lemma bs_insert_set: "set (bs_insert k s) = insert k (set s)"
  using set_bt_insert_keys [of k "()" "map (\<lambda>x. (x, ())) s"]
  by (simp add: bs_insert_def image_image)

lemma bs_insert_sorted: "sorted_wrt (<) s \<Longrightarrow> sorted_wrt (<) (bs_insert k s)"
  using bt_sorted_insert [of "map (\<lambda>x. (x, ())) s" k "()"]
  by (simp add: bs_insert_def bt_sorted_def comp_def)

lemma bs_from_iter_props: "sorted_wrt (<) (bs_from_iter xs) \<and> set (bs_from_iter xs) = set xs"
proof -
  have "sorted_wrt (<) s \<Longrightarrow> sorted_wrt (<) (fold bs_insert xs s) \<and> set (fold bs_insert xs s) = set xs \<union> set s"
    for s :: "'a list"
    by (induction xs arbitrary: s) (auto simp: bs_insert_set bs_insert_sorted)
  then show ?thesis by (simp add: bs_from_iter_def)
qed

lemmas bs_from_iter_set [simp] = bs_from_iter_props [THEN conjunct2]
  and bs_from_iter_sorted = bs_from_iter_props [THEN conjunct1]

text \<open>Two sorted maps with the same lookups are the same map.\<close>

lemma bt_sorted_unique:
  assumes "bt_sorted m" "bt_sorted m'" "\<And>k. bt_get m k = bt_get m' k"
  shows "m = m'"
proof -
  have *: "set m = set m'"
  proof (rule set_eqI)
    fix p :: "'a \<times> 'b"
    obtain k v where p: "p = (k, v)" by (cases p) auto
    show "p \<in> set m \<longleftrightarrow> p \<in> set m'"
      using assms(3) [of k] bt_sorted_distinct [OF assms(1)] bt_sorted_distinct [OF assms(2)]
      unfolding p bt_get_def by (metis map_of_eq_Some_iff)
  qed
  have "sorted (map fst m)" "sorted (map fst m')"
    using assms(1,2) by (simp_all add: bt_sorted_def strict_sorted_imp_sorted)
  moreover have "distinct (map fst m)" "distinct (map fst m')"
    using assms(1,2) by (simp_all add: bt_sorted_distinct)
  moreover have "inj_on fst (set m \<union> set m')"
    using * bt_sorted_distinct [OF assms(1)] by (simp add: distinct_map)
  ultimately show ?thesis
    using * by (metis map_sorted_distinct_set_unique)
qed

subsection \<open>Hash maps\<close>

text \<open>
  A \<open>HashMap\<close> is an association list with distinct keys: its order is the iteration order,
  which Rust leaves open, so every statement over it holds for any order.
\<close>

fun hm_insert :: "'k \<Rightarrow> 'v \<Rightarrow> ('k \<times> 'v) list \<Rightarrow> ('k \<times> 'v) list" where
  "hm_insert k v [] = [(k, v)]"
| "hm_insert k v ((k', v') # xs) = (if k = k' then (k, v) # xs else (k', v') # hm_insert k v xs)"

definition hm_get :: "('k \<times> 'v) list \<Rightarrow> 'k \<Rightarrow> 'v option" where
  "hm_get m k = map_of m k"

definition hm_wf :: "('k \<times> 'v) list \<Rightarrow> bool" where
  "hm_wf m \<longleftrightarrow> distinct (map fst m)"

lemma hm_get_insert: "hm_get (hm_insert k v m) k' = (if k' = k then Some v else hm_get m k')"
  by (induction k v m rule: hm_insert.induct) (auto simp: hm_get_def)

lemma set_hm_insert_keys: "fst ` set (hm_insert k v m) = insert k (fst ` set m)"
  by (induction k v m rule: hm_insert.induct) auto

lemma hm_wf_insert: "hm_wf m \<Longrightarrow> hm_wf (hm_insert k v m)"
  by (induction k v m rule: hm_insert.induct)
    (auto simp: hm_wf_def set_hm_insert_keys [unfolded image_set [symmetric], simplified])

interpretation hm: kv_map "[]" hm_insert hm_get hm_wf
  by unfold_locales (auto simp: hm_get_insert hm_wf_insert hm_get_def [of "[]"] hm_wf_def [of "[]"])

end
