(* ===== verification/Strings.thy ===== *)
theory Strings
  imports Prelude
begin

text \<open>
  The operations of Rust's \<open>str\<close> and \<open>String\<close> that the code uses, on byte strings:
  \<open>split\<close>, \<open>split_once\<close>, \<open>splitn(2, _)\<close>, \<open>join\<close>, \<open>contains\<close>, \<open>trim_start_matches\<close>,
  \<open>trim_end_matches\<close>, the decimal \<open>Display\<close> of integers and the \<open>Debug\<close> form of a string.
\<close>

named_theorems str_simps "equations of the string operations"

fun split_on :: "char \<Rightarrow> string \<Rightarrow> string list" where
  "split_on c [] = [[]]"
| "split_on c (x # xs) =
     (if x = c then [] # split_on c xs
      else (case split_on c xs of [] \<Rightarrow> [[x]] | p # ps \<Rightarrow> (x # p) # ps))"

fun split_once :: "char \<Rightarrow> string \<Rightarrow> (string \<times> string) option" where
  "split_once c [] = None"
| "split_once c (x # xs) =
     (if x = c then Some ([], xs)
      else map_option (\<lambda>(a, b). (x # a, b)) (split_once c xs))"

definition splitn2 :: "char \<Rightarrow> string \<Rightarrow> string list" where
  "splitn2 c s = (case split_once c s of None \<Rightarrow> [s] | Some (a, b) \<Rightarrow> [a, b])"

fun join_with :: "string \<Rightarrow> string list \<Rightarrow> string" where
  "join_with sep [] = []"
| "join_with sep [s] = s"
| "join_with sep (s # ss) = s @ sep @ join_with sep ss"

fun contains_str :: "string \<Rightarrow> string \<Rightarrow> bool" where
  "contains_str pat [] = (pat = [])"
| "contains_str pat (x # xs) = (take (length pat) (x # xs) = pat \<or> contains_str pat xs)"

definition trim_start_matches :: "char \<Rightarrow> string \<Rightarrow> string" where
  "trim_start_matches c s = dropWhile (\<lambda>x. x = c) s"

definition trim_end_matches :: "char \<Rightarrow> string \<Rightarrow> string" where
  "trim_end_matches c s = rev (dropWhile (\<lambda>x. x = c) (rev s))"

abbreviation squote :: string where
  "squote \<equiv> [CHR 0x27]"

subsection \<open>Splitting and joining\<close>

lemma split_on_not_Nil [simp]: "split_on c s \<noteq> []"
  by (induction s) (auto split: list.splits)

lemma join_split_on: "join_with [c] (split_on c s) = s"
proof (induction s)
  case (Cons x xs)
  obtain p ps where "split_on c xs = p # ps" by (cases "split_on c xs") auto
  with Cons.IH show ?case by (cases ps) auto
qed simp

lemma split_on_pieces: "p \<in> set (split_on c s) \<Longrightarrow> c \<notin> set p"
proof (induction s arbitrary: p)
  case (Cons x xs)
  obtain q qs where "split_on c xs = q # qs" by (cases "split_on c xs") auto
  with Cons show ?case by (auto split: if_splits)
qed simp

lemma split_on_none: "c \<notin> set s \<Longrightarrow> split_on c s = [s]"
  by (induction s) auto

lemma split_on_append: "c \<notin> set s \<Longrightarrow> split_on c (s @ c # t) = s # split_on c t"
  by (induction s) auto

lemma join_with_Cons: "ss \<noteq> [] \<Longrightarrow> join_with sep (s # ss) = s @ sep @ join_with sep ss"
  by (cases ss) simp_all

lemma split_on_join:
  "ss \<noteq> [] \<Longrightarrow> (\<forall>s \<in> set ss. c \<notin> set s) \<Longrightarrow> split_on c (join_with [c] ss) = ss"
proof (induction ss)
  case (Cons s ss)
  show ?case
  proof (cases "ss = []")
    case True
    with Cons.prems show ?thesis by (simp add: split_on_none)
  next
    case False
    then have "split_on c (join_with [c] ss) = ss" by (rule Cons.IH) (use Cons.prems in simp)
    moreover have "c \<notin> set s" using Cons.prems by simp
    then have "split_on c (s @ c # join_with [c] ss) = s # split_on c (join_with [c] ss)"
      by (rule split_on_append)
    ultimately show ?thesis using False by (simp add: join_with_Cons)
  qed
qed simp

lemma split_on_length: "length (split_on c s) = Suc (length (filter (\<lambda>x. x = c) s))"
proof (induction s)
  case (Cons x xs)
  then show ?case by (cases "split_on c xs") auto
qed simp

lemma split_once_Some:
  "split_once c s = Some (a, b) \<longleftrightarrow> s = a @ c # b \<and> c \<notin> set a"
proof (induction s arbitrary: a)
  case Nil
  then show ?case by simp
next
  case (Cons x xs)
  show ?case
  proof (cases "x = c")
    case True
    then show ?thesis by (cases a) auto
  next
    case False
    then have "split_once c (x # xs) = Some (a, b) \<longleftrightarrow>
        (\<exists>a'. split_once c xs = Some (a', b) \<and> a = x # a')"
      by auto
    also have "\<dots> \<longleftrightarrow> (\<exists>a'. xs = a' @ c # b \<and> c \<notin> set a' \<and> a = x # a')"
      by (simp add: Cons.IH)
    also have "\<dots> \<longleftrightarrow> x # xs = a @ c # b \<and> c \<notin> set a"
      using False by (cases a) auto
    finally show ?thesis .
  qed
qed

lemma split_once_None: "split_once c s = None \<longleftrightarrow> c \<notin> set s"
  by (induction s) auto

lemma split_once_hit [simp]: "c \<notin> set a \<Longrightarrow> split_once c (a @ c # b) = Some (a, b)"
  by (simp add: split_once_Some)

lemma splitn2_cases:
  obtains (one) "c \<notin> set s" "splitn2 c s = [s]"
  | (two) a b where "s = a @ c # b" "c \<notin> set a" "splitn2 c s = [a, b]"
  by (cases "split_once c s") (auto simp: splitn2_def split_once_None split_once_Some)

subsection \<open>Search\<close>

lemma contains_str_sublist: "contains_str pat s \<longleftrightarrow> sublist pat s"
proof (induction s)
  case Nil
  then show ?case by simp
next
  case (Cons x xs)
  have "take (length pat) (x # xs) = pat \<longleftrightarrow> prefix pat (x # xs)"
    by (metis append_eq_conv_conj prefix_def)
  with Cons show ?case by (simp add: sublist_Cons_right)
qed

lemma contains_str_append [simp]: "contains_str pat (a @ pat @ b)"
  by (simp add: contains_str_sublist sublist_appendI)

subsection \<open>Numbers and the Debug form\<close>

fun nat_digits :: "nat \<Rightarrow> string" where
  "nat_digits n =
     (if n < 10 then [char_of (48 + n)] else nat_digits (n div 10) @ [char_of (48 + n mod 10)])"

declare nat_digits.simps [simp del]

definition int_str :: "int \<Rightarrow> string" where
  "int_str i = (if i < 0 then ''-'' @ nat_digits (nat (- i)) else nat_digits (nat i))"

text \<open>
  \<open>{:?}\<close> of a \<open>str\<close>: quotes, backslashes and control characters are escaped, \<open>\u{..}\<close> in lower
  case hexadecimal. Bytes from 128 on belong to characters that are copied as they are when
  printable, which is what is modelled.
\<close>

definition hex_digit :: "nat \<Rightarrow> char" where
  "hex_digit n = (if n < 10 then char_of (48 + n) else char_of (87 + n))"

definition bs :: char where
  "bs = CHR 0x5C"

definition dquote :: char where
  "dquote = CHR 0x22"

definition debug_char :: "char \<Rightarrow> string" where
  "debug_char c =
     (if c = CHR 0x00 then [bs, CHR ''0'']
      else if c = CHR 0x09 then [bs, CHR ''t'']
      else if c = CHR 0x0D then [bs, CHR ''r'']
      else if c = CHR 0x0A then [bs, CHR ''n'']
      else if c = bs \<or> c = dquote then [bs, c]
      else if (of_char c :: nat) < 16 then [bs, CHR ''u'', CHR ''{'', hex_digit (of_char c), CHR ''}'']
      else if (of_char c :: nat) < 32 \<or> (of_char c :: nat) = 127
        then [bs, CHR ''u'', CHR ''{'', hex_digit (of_char c div 16), hex_digit (of_char c mod 16), CHR ''}'']
      else [c])"

definition debug_str :: "string \<Rightarrow> string" where
  "debug_str s = [dquote] @ concat (map debug_char s) @ [dquote]"

definition debug_opt :: "('a \<Rightarrow> string) \<Rightarrow> 'a option \<Rightarrow> string" where
  "debug_opt f x = (case x of None \<Rightarrow> ''None'' | Some a \<Rightarrow> ''Some('' @ f a @ '')'')"

definition debug_list :: "('a \<Rightarrow> string) \<Rightarrow> 'a list \<Rightarrow> string" where
  "debug_list f xs = ''['' @ join_with '', '' (map f xs) @ '']''"

lemma debug_char_not_Nil [simp]: "debug_char c \<noteq> []"
  by (simp add: debug_char_def)

text \<open>
  Reading an escaped string back up to its closing quote: the first unescaped quote ends it, so
  the \<open>Debug\<close> forms of two strings are never proper prefixes of each other.
\<close>

fun until_quote :: "string \<Rightarrow> string" where
  "until_quote [] = []"
| "until_quote (c # cs) =
     (if c = dquote then [c]
      else if c = bs then (case cs of [] \<Rightarrow> [c] | d # ds \<Rightarrow> c # d # until_quote ds)
      else c # until_quote cs)"

lemma of_char_hex_digit:
  "n < 16 \<Longrightarrow> (of_char (hex_digit n) :: nat) = (if n < 10 then 48 + n else 87 + n)"
  by (simp add: hex_digit_def)

lemma hex_digit_plain:
  assumes "n < 16"
  shows "hex_digit n \<noteq> bs" "hex_digit n \<noteq> dquote"
proof -
  have "(of_char bs :: nat) = 92" "(of_char dquote :: nat) = 34"
    by (simp_all add: bs_def dquote_def)
  with of_char_hex_digit [OF assms] assms
  show "hex_digit n \<noteq> bs" "hex_digit n \<noteq> dquote"
    by (auto split: if_splits)
qed

lemma bs_dquote [simp]: "bs \<noteq> dquote" "dquote \<noteq> bs"
  by (simp_all add: bs_def dquote_def)

lemma until_quote_plain [simp]:
  "c \<noteq> dquote \<Longrightarrow> c \<noteq> bs \<Longrightarrow> until_quote (c # t) = c # until_quote t"
  by simp

lemma until_quote_escape [simp]: "until_quote (bs # d # t) = bs # d # until_quote t"
  by simp

lemma debug_char_cases:
  obtains (escape) d where "debug_char c = [bs, d]"
  | (unicode) ds where "debug_char c = bs # CHR ''u'' # ds" "bs \<notin> set ds" "dquote \<notin> set ds"
  | (plain) "debug_char c = [c]" "c \<noteq> bs" "c \<noteq> dquote"
proof -
  let ?n = "of_char c :: nat"
  have braces: "CHR ''{'' \<noteq> bs" "CHR ''{'' \<noteq> dquote" "CHR ''}'' \<noteq> bs" "CHR ''}'' \<noteq> dquote"
    by (simp_all add: bs_def dquote_def)
  consider (short) "c \<in> {CHR 0x00, CHR 0x09, CHR 0x0D, CHR 0x0A, bs, dquote}"
    | (one) "c \<notin> {CHR 0x00, CHR 0x09, CHR 0x0D, CHR 0x0A, bs, dquote}" "?n < 16"
    | (two) "c \<notin> {CHR 0x00, CHR 0x09, CHR 0x0D, CHR 0x0A, bs, dquote}" "\<not> ?n < 16"
        "?n < 32 \<or> ?n = 127"
    | (none) "c \<notin> {CHR 0x00, CHR 0x09, CHR 0x0D, CHR 0x0A, bs, dquote}" "\<not> ?n < 16"
        "\<not> (?n < 32 \<or> ?n = 127)"
    by blast
  then show ?thesis
  proof cases
    case short
    then have "\<exists>d. debug_char c = [bs, d]" unfolding debug_char_def by auto
    then show ?thesis using escape by blast
  next
    case one
    have "debug_char c = bs # CHR ''u'' # [CHR ''{'', hex_digit ?n, CHR ''}'']"
      using one by (simp add: debug_char_def)
    then show ?thesis by (rule unicode) (use braces hex_digit_plain [OF one(2)] in auto)
  next
    case two
    have lt: "?n div 16 < 16" "?n mod 16 < 16" by (simp_all add: less_mult_imp_div_less)
    have "debug_char c = bs # CHR ''u'' # [CHR ''{'', hex_digit (?n div 16), hex_digit (?n mod 16), CHR ''}'']"
      using two by (simp add: debug_char_def)
    then show ?thesis
      by (rule unicode) (use braces hex_digit_plain [OF lt(1)] hex_digit_plain [OF lt(2)] in auto)
  next
    case none
    then show ?thesis using plain by (simp add: debug_char_def)
  qed
qed

lemma until_quote_skip:
  "bs \<notin> set ds \<Longrightarrow> dquote \<notin> set ds \<Longrightarrow> until_quote (ds @ t) = ds @ until_quote t"
  by (induction ds) auto

lemma until_quote_debug_char: "until_quote (debug_char c @ t) = debug_char c @ until_quote t"
  by (cases c rule: debug_char_cases) (simp_all add: until_quote_skip del: until_quote.simps)

subsection \<open>UTF-8 and trimming\<close>

text \<open>
  \<open>String::from_utf8\<close>: the length of the character at the front of the bytes, or the length of the
  invalid sequence (\<^theory_text>\<open>None\<close> when the input ends inside a character).
\<close>

definition is_cont :: "char \<Rightarrow> bool" where
  "is_cont c \<longleftrightarrow> 0x80 \<le> (of_char c :: nat) \<and> (of_char c :: nat) \<le> 0xBF"

definition second_ok :: "char \<Rightarrow> char \<Rightarrow> bool" where
  "second_ok a b =
     (let x = (of_char a :: nat); y = (of_char b :: nat) in
      if x = 0xE0 then 0xA0 \<le> y \<and> y \<le> 0xBF
      else if x = 0xED then 0x80 \<le> y \<and> y \<le> 0x9F
      else if x = 0xF0 then 0x90 \<le> y \<and> y \<le> 0xBF
      else if x = 0xF4 then 0x80 \<le> y \<and> y \<le> 0x8F
      else 0x80 \<le> y \<and> y \<le> 0xBF)"

fun conts :: "nat \<Rightarrow> nat \<Rightarrow> bytes \<Rightarrow> nat option + nat" where
  "conts k w [] = (if w = 0 then Inr k else Inl None)"
| "conts k 0 (c # cs) = Inr k"
| "conts k (Suc w) (c # cs) = (if is_cont c then conts (Suc k) w cs else Inl (Some k))"

definition utf8_width :: "char \<Rightarrow> nat" where
  "utf8_width c =
     (let x = (of_char c :: nat) in
      if x < 0x80 then 1 else if 0xC2 \<le> x \<and> x \<le> 0xDF then 2
      else if 0xE0 \<le> x \<and> x \<le> 0xEF then 3 else if 0xF0 \<le> x \<and> x \<le> 0xF4 then 4 else 0)"

fun utf8_step :: "bytes \<Rightarrow> nat option + nat" where
  "utf8_step [] = Inr 0"
| "utf8_step [a] = (if utf8_width a = 1 then Inr 1 else if utf8_width a = 0 then Inl (Some 1) else Inl None)"
| "utf8_step (a # b # cs) =
     (if utf8_width a = 1 then Inr 1
      else if utf8_width a = 0 then Inl (Some 1)
      else if \<not> second_ok a b then Inl (Some 1)
      else conts 2 (utf8_width a - 2) cs)"

function utf8_check :: "nat \<Rightarrow> bytes \<Rightarrow> (nat \<times> nat option) + unit" where
  "utf8_check i [] = Inr ()"
| "utf8_check i (c # cs) =
     (case utf8_step (c # cs) of
        Inl l \<Rightarrow> Inl (i, l)
      | Inr w \<Rightarrow> utf8_check (i + w) (drop (w - 1) cs))"
  by pat_completeness auto
termination by (relation "measure (\<lambda>(i, s). length s)") auto

definition from_utf8 :: "bytes \<Rightarrow> (nat \<times> nat option) + string" where
  "from_utf8 b = bind_result (utf8_check 0 b) (\<lambda>_. Inr b)"

definition display_utf8_error :: "nat \<times> nat option \<Rightarrow> string" where
  "display_utf8_error e =
     (case snd e of
        Some len \<Rightarrow> ''invalid utf-8 sequence of '' @ nat_digits len @ '' bytes from index '' @ nat_digits (fst e)
      | None \<Rightarrow> ''incomplete utf-8 byte sequence from index '' @ nat_digits (fst e))"

lemma utf8_check_ascii: "(\<forall>c \<in> set s. (of_char c :: nat) < 128) \<Longrightarrow> utf8_check i s = Inr ()"
proof (induction s arbitrary: i)
  case (Cons c cs)
  then have "utf8_width c = 1" by (simp add: utf8_width_def)
  then have "utf8_step (c # cs) = Inr 1" by (cases cs) simp_all
  with Cons show ?case by simp
qed simp

lemma from_utf8_ascii: "(\<forall>c \<in> set s. (of_char c :: nat) < 128) \<Longrightarrow> from_utf8 s = Inr s"
  by (simp add: from_utf8_def utf8_check_ascii)

lemma from_utf8_id: "from_utf8 b = Inr s \<Longrightarrow> s = b"
  by (auto simp: from_utf8_def)

text \<open>\<open>str::trim\<close>: the UTF-8 forms of the characters with the property \<open>White_Space\<close>.\<close>

definition white_space :: "string list" where
  "white_space =
     [[CHR 0x09], [CHR 0x0A], [CHR 0x0B], [CHR 0x0C], [CHR 0x0D], [CHR 0x20],
      [CHR 0xC2, CHR 0x85], [CHR 0xC2, CHR 0xA0], [CHR 0xE1, CHR 0x9A, CHR 0x80]]
     @ map (\<lambda>n. [CHR 0xE2, CHR 0x80, char_of n])
         [0x80, 0x81, 0x82, 0x83, 0x84, 0x85, 0x86, 0x87, 0x88, 0x89, 0x8A, 0xA8, 0xA9, 0xAF :: nat]
     @ [[CHR 0xE2, CHR 0x81, CHR 0x9F], [CHR 0xE3, CHR 0x80, CHR 0x80]]"

function strip_start :: "string list \<Rightarrow> string \<Rightarrow> string" where
  "strip_start ws s =
     (case find (\<lambda>w. w \<noteq> [] \<and> prefix w s) ws of None \<Rightarrow> s | Some w \<Rightarrow> strip_start ws (drop (length w) s))"
  by auto
termination
proof (relation "measure (\<lambda>(ws, s). length s)")
  fix ws s w
  assume "find (\<lambda>w. w \<noteq> [] \<and> prefix w s) ws = Some w"
  then have "w \<noteq> []" "prefix w s" by (auto simp: find_Some_iff)
  then show "((ws, drop (length w) s), ws, s) \<in> measure (\<lambda>(ws, s). length s)"
    by (auto simp: prefix_def)
qed simp

declare strip_start.simps [simp del]

definition trim :: "string \<Rightarrow> string" where
  "trim s = rev (strip_start (map rev white_space) (rev (strip_start white_space s)))"

lemma strip_start_none: "find (\<lambda>w. w \<noteq> [] \<and> prefix w s) ws = None \<Longrightarrow> strip_start ws s = s"
  by (subst strip_start.simps) simp

lemma strip_start_suffix: "suffix (strip_start ws s) s"
proof (induction ws s rule: strip_start.induct)
  case (1 ws s)
  show ?case
  proof (cases "find (\<lambda>w. w \<noteq> [] \<and> prefix w s) ws")
    case None
    then show ?thesis by (simp add: strip_start_none)
  next
    case (Some w)
    have "suffix (strip_start ws (drop (length w) s)) (drop (length w) s)"
      by (rule 1) (use Some in simp)
    then have "suffix (strip_start ws (drop (length w) s)) s"
      using suffix_drop suffix_order.trans by blast
    with Some show ?thesis by (subst strip_start.simps) simp
  qed
qed

lemma trim_Nil [simp]: "trim [] = []"
  using strip_start_suffix [of white_space "[]"] strip_start_suffix [of "map rev white_space" "[]"]
  by (simp add: trim_def)

lemma trim_sublist: "sublist (trim s) s"
proof -
  have "prefix (trim s) (strip_start white_space s)"
    using strip_start_suffix [of "map rev white_space" "rev (strip_start white_space s)"]
    by (simp add: trim_def suffix_to_prefix)
  then show ?thesis
    using strip_start_suffix [of white_space s]
    by (meson prefix_imp_sublist sublist_order.order.trans suffix_imp_sublist)
qed

end
