(* ===== verification/Json.thy ===== *)
theory Json
  imports BTreeMap Strings
begin

text \<open>
  \<open>serde_json::Value\<close>: the JSON documents the code builds and inspects, with the accessors it
  calls (\<open>get\<close>, \<open>as_str\<close>, \<open>as_i64\<close>, \<open>as_array\<close>, \<open>as_object\<close>). A \<open>Number\<close> keeps \<open>serde_json\<close>'s
  three cases: a \<open>u64\<close>, a negative \<open>i64\<close> or a float, whose value the code never reads. An
  \<open>Object\<close> is a \<open>serde_json::Map\<close>, that is a \<open>BTreeMap<String, Value>\<close>.
\<close>

datatype number = PosInt u64 | NegInt i64 | Float string

datatype json =
    Null
  | Bool bool
  | Number number
  | String string
  | Array "json list"
  | Object "(string \<times> json) list"

type_synonym json_map = "(string, json) btmap"

fun get_key :: "json \<Rightarrow> string \<Rightarrow> json option" where
  "get_key (Object m) k = bt_get m k"
| "get_key _ k = None"

fun get_index :: "json \<Rightarrow> nat \<Rightarrow> json option" where
  "get_index (Array xs) i = (if i < length xs then Some (xs ! i) else None)"
| "get_index _ i = None"

fun as_str :: "json \<Rightarrow> string option" where
  "as_str (String s) = Some s"
| "as_str _ = None"

fun as_i64 :: "json \<Rightarrow> i64 option" where
  "as_i64 (Number (PosInt n)) = (if n \<le> 0x7FFFFFFFFFFFFFFF then Some n else None)"
| "as_i64 (Number (NegInt n)) = Some n"
| "as_i64 _ = None"

fun as_array :: "json \<Rightarrow> json list option" where
  "as_array (Array xs) = Some xs"
| "as_array _ = None"

fun as_object :: "json \<Rightarrow> json_map option" where
  "as_object (Object m) = Some m"
| "as_object _ = None"

text \<open>The map constructor of the \<open>json!\<close> macro: the bindings are inserted in order.\<close>

definition json_obj :: "(string \<times> json) list \<Rightarrow> json" where
  "json_obj ps = Object (fold (\<lambda>(k, v) m. bt_insert k v m) ps [])"

lemma json_obj_from_pairs: "json_obj ps = Object (bt.from_pairs ps)"
  by (simp add: json_obj_def bt.from_pairs_def)

text \<open>A struct serialized with \<open>skip_serializing_if = "Option::is_none"\<close>: absent fields are dropped.\<close>

fun opt_fields :: "(string \<times> json option) list \<Rightarrow> (string \<times> json) list" where
  "opt_fields [] = []"
| "opt_fields ((k, None) # xs) = opt_fields xs"
| "opt_fields ((k, Some j) # xs) = (k, j) # opt_fields xs"

definition opt_obj :: "(string \<times> json option) list \<Rightarrow> json" where
  "opt_obj xs = json_obj (opt_fields xs)"

lemma opt_fields_keys: "fst ` set (opt_fields xs) \<subseteq> fst ` set xs"
  by (induction xs rule: opt_fields.induct) auto

lemma opt_fields_distinct: "distinct (map fst xs) \<Longrightarrow> distinct (map fst (opt_fields xs))"
  by (induction xs rule: opt_fields.induct) (use opt_fields_keys in force)+

lemma map_of_opt_fields:
  "distinct (map fst xs) \<Longrightarrow> map_of (opt_fields xs) k = Option.bind (map_of xs k) id"
proof (induction xs rule: opt_fields.induct)
  case (2 k' xs)
  have "map_of xs k' = None" using "2.prems" by (simp add: map_of_eq_None_iff)
  with 2 show ?case by simp
qed auto

lemma get_key_json_obj: "get_key (json_obj ps) k = map_of (rev ps) k"
  by (simp add: json_obj_from_pairs bt.lookup_from_pairs)

lemma get_key_json_obj_distinct:
  "distinct (map fst ps) \<Longrightarrow> get_key (json_obj ps) k = map_of ps k"
  by (simp add: json_obj_from_pairs bt.lookup_from_pairs_distinct)

lemma get_key_opt_fields:
  "distinct (map fst xs) \<Longrightarrow> get_key (json_obj (opt_fields xs)) k = Option.bind (map_of xs k) id"
  by (simp add: get_key_json_obj_distinct opt_fields_distinct map_of_opt_fields)

lemma get_key_opt_obj:
  "distinct (map fst xs) \<Longrightarrow> get_key (opt_obj xs) k = Option.bind (map_of xs k) id"
  by (simp add: opt_obj_def get_key_opt_fields)

text \<open>Every object of a well-formed document has its keys in order, each once.\<close>

fun json_wf :: "json \<Rightarrow> bool" where
  "json_wf (Array xs) = list_all json_wf xs"
| "json_wf (Object m) = (bt_sorted m \<and> list_all (\<lambda>(k, v). json_wf v) m)"
| "json_wf _ = True"

lemma json_wf_get: "json_wf j \<Longrightarrow> get_key j k = Some v \<Longrightarrow> json_wf v"
proof (cases j)
  case (Object m)
  assume "json_wf j" and "get_key j k = Some v"
  with Object show ?thesis
    by (auto simp: bt_get_def list_all_iff dest!: map_of_SomeD)
qed auto

lemma as_i64_range: "as_i64 j = Some n \<Longrightarrow> j = Number (PosInt n) \<or> j = Number (NegInt n)"
  by (cases j rule: as_i64.cases) (auto split: if_splits)

end
