(* ===== verification/Requests.thy ===== *)
theory Requests
  imports Json
begin

text \<open>
  The input side of an evaluation: \<open>src/admission_request.rs\<close> (the Kubernetes
  \<open>AdmissionRequest\<close> and its JSON form) and \<open>src/policy_evaluator.rs\<close> (the execution modes, the
  validation request with its \<open>uid\<close>, and the policy settings).
\<close>

subsection \<open>AdmissionRequest\<close>

record GroupVersionKind =
  gvk_group :: string
  gvk_version :: string
  gvk_kind :: string

record GroupVersionResource =
  gvr_group :: string
  gvr_version :: string
  gvr_resource :: string

text \<open>\<open>user_info\<close>, \<open>object\<close>, \<open>old_object\<close> and \<open>options\<close> are Kubernetes types carried as JSON.\<close>

record AdmissionRequest =
  req_uid :: string
  req_kind :: GroupVersionKind
  req_resource :: GroupVersionResource
  req_sub_resource :: "string option"
  req_request_kind :: "GroupVersionKind option"
  req_request_resource :: "GroupVersionResource option"
  req_request_sub_resource :: "string option"
  req_name :: "string option"
  req_namespace :: "string option"
  req_operation :: string
  req_user_info :: json
  req_object :: "json option"
  req_old_object :: "json option"
  req_dry_run :: "bool option"
  req_options :: "json option"

definition gvk_to_json :: "GroupVersionKind \<Rightarrow> json" where
  "gvk_to_json g = json_obj
     [(''group'', String (gvk_group g)), (''version'', String (gvk_version g)),
      (''kind'', String (gvk_kind g))]"

definition gvr_to_json :: "GroupVersionResource \<Rightarrow> json" where
  "gvr_to_json g = json_obj
     [(''group'', String (gvr_group g)), (''version'', String (gvr_version g)),
      (''resource'', String (gvr_resource g))]"

definition admission_request_fields :: "AdmissionRequest \<Rightarrow> (string \<times> json option) list" where
  "admission_request_fields r =
     [(''uid'', Some (String (req_uid r))),
      (''kind'', Some (gvk_to_json (req_kind r))),
      (''resource'', Some (gvr_to_json (req_resource r))),
      (''subResource'', map_option String (req_sub_resource r)),
      (''requestKind'', map_option gvk_to_json (req_request_kind r)),
      (''requestResource'', map_option gvr_to_json (req_request_resource r)),
      (''requestSubResource'', map_option String (req_request_sub_resource r)),
      (''name'', map_option String (req_name r)),
      (''namespace'', map_option String (req_namespace r)),
      (''operation'', Some (String (req_operation r))),
      (''userInfo'', Some (req_user_info r)),
      (''object'', req_object r),
      (''oldObject'', req_old_object r),
      (''dryRun'', map_option Bool (req_dry_run r)),
      (''options'', req_options r)]"

definition admission_request_to_json :: "AdmissionRequest \<Rightarrow> json" where
  "admission_request_to_json r = json_obj (opt_fields (admission_request_fields r))"

lemma admission_request_json_get:
  "get_key (admission_request_to_json r) k = Option.bind (map_of (admission_request_fields r) k) id"
proof -
  have "distinct (map fst (admission_request_fields r))"
    by (simp add: admission_request_fields_def)
  then show ?thesis by (simp add: admission_request_to_json_def get_key_opt_fields)
qed

lemma admission_request_json_object: "get_key (admission_request_to_json r) ''object'' = req_object r"
  by (simp add: admission_request_json_get admission_request_fields_def)

lemma admission_request_json_uid: "get_key (admission_request_to_json r) ''uid'' = Some (String (req_uid r))"
  by (simp add: admission_request_json_get admission_request_fields_def)

subsection \<open>Execution modes\<close>

datatype PolicyExecutionMode = KubewardenWapc | Opa | OpaGatekeeper | Wasi

definition default_execution_mode :: PolicyExecutionMode where
  "default_execution_mode = KubewardenWapc"

fun execution_mode_name :: "PolicyExecutionMode \<Rightarrow> string" where
  "execution_mode_name KubewardenWapc = ''kubewarden-wapc''"
| "execution_mode_name Opa = ''opa''"
| "execution_mode_name OpaGatekeeper = ''gatekeeper''"
| "execution_mode_name Wasi = ''wasi''"

text \<open>\<open>Display\<close>: the JSON string of the mode with its quotes removed.\<close>

definition display_execution_mode :: "PolicyExecutionMode \<Rightarrow> string" where
  "display_execution_mode m =
     filter (\<lambda>c. c \<noteq> dquote) ([dquote] @ execution_mode_name m @ [dquote])"

datatype RegoPolicyExecutionMode = RegoOpa | RegoGatekeeper

fun rego_mode_try_from :: "PolicyExecutionMode \<Rightarrow> string + RegoPolicyExecutionMode" where
  "rego_mode_try_from Opa = Inr RegoOpa"
| "rego_mode_try_from OpaGatekeeper = Inr RegoGatekeeper"
| "rego_mode_try_from KubewardenWapc =
     Inl ''execution mode not convertible to a Rego based execution mode''"
| "rego_mode_try_from Wasi =
     Inl ''execution mode not convertible to a Rego based execution mode''"

lemma display_execution_mode_name: "display_execution_mode m = execution_mode_name m"
  by (cases m) (simp_all add: display_execution_mode_def dquote_def)

lemma display_execution_mode_inj: "display_execution_mode m = display_execution_mode m' \<Longrightarrow> m = m'"
  by (cases m; cases m') (simp_all add: display_execution_mode_name)

subsection \<open>Validation requests and settings\<close>

datatype ValidateRequest = Raw json | AdmissionReq AdmissionRequest

fun request_uid :: "ValidateRequest \<Rightarrow> string" where
  "request_uid (Raw raw_req) =
     unwrap_or [] (Option.bind (get_key raw_req ''uid'') as_str)"
| "request_uid (AdmissionReq adm_req) = req_uid adm_req"

text \<open>The enum is serialized untagged: the JSON of the request is the JSON of its content.\<close>

fun request_to_json :: "ValidateRequest \<Rightarrow> json" where
  "request_to_json (Raw raw_req) = raw_req"
| "request_to_json (AdmissionReq adm_req) = admission_request_to_json adm_req"

type_synonym PolicySettings = json_map

fun settings_try_from :: "json \<Rightarrow> string + PolicySettings" where
  "settings_try_from Null = Inr []"
| "settings_try_from (Object obj) = Inr obj"
| "settings_try_from _ = Inl ''Invalid settings in CRD, not an object''"

text \<open>The \<open>uid\<close> of a request can be read back from the JSON form that policies receive.\<close>

lemma request_uid_json:
  "request_uid r = unwrap_or [] (Option.bind (get_key (request_to_json r) ''uid'') as_str)"
  by (cases r) (simp_all add: admission_request_json_uid)

end
