(* ===== verification/Metadata.thy ===== *)
theory Metadata
  imports Requests
begin

text \<open>
  \<open>src/policy_metadata.rs\<close>: the metadata embedded in a policy, its validation and its extraction
  from the Wasm module. \<open>validate_resources\<close> is translated as the loop it is; \<open>resources_ok\<close>
  says what the loop accepts.
\<close>

subsection \<open>Operations and rules\<close>

datatype Operation = Create | Update | Delete | Connect | All

fun operation_name :: "Operation \<Rightarrow> string" where
  "operation_name Create = ''CREATE''"
| "operation_name Update = ''UPDATE''"
| "operation_name Delete = ''DELETE''"
| "operation_name Connect = ''CONNECT''"
| "operation_name All = ''*''"

definition operation_try_from :: "string \<Rightarrow> string + Operation" where
  "operation_try_from op =
     (if op = ''CREATE'' then Inr Create
      else if op = ''UPDATE'' then Inr Update
      else if op = ''DELETE'' then Inr Delete
      else if op = ''CONNECT'' then Inr Connect
      else if op = ''*'' then Inr All
      else Inl ''unknown operation'')"

lemma operation_roundtrip: "operation_try_from (operation_name op) = Inr op"
  by (cases op) (simp_all add: operation_try_from_def)

lemma operation_try_from_Inr: "operation_try_from s = Inr op \<longleftrightarrow> s = operation_name op"
  by (cases op) (auto simp: operation_try_from_def)

record Rule =
  rule_api_groups :: "string list"
  rule_api_versions :: "string list"
  rule_resources :: "string list"
  rule_operations :: "Operation list"

text \<open>The Kubernetes \<open>NamedRuleWithOperations\<close>, with the fields the conversion reads.\<close>

record NamedRuleWithOperations =
  nr_operations :: "string list option"
  nr_api_groups :: "string list option"
  nr_api_versions :: "string list option"
  nr_resources :: "string list option"

definition rule_try_from :: "NamedRuleWithOperations \<Rightarrow> string + Rule" where
  "rule_try_from rule =
     bind_result
       (case nr_operations rule of
          Some operations \<Rightarrow> try_map operation_try_from operations
        | None \<Rightarrow> Inr [])
       (\<lambda>operations. Inr \<lparr>
          rule_api_groups = unwrap_or [] (nr_api_groups rule),
          rule_api_versions = unwrap_or [] (nr_api_versions rule),
          rule_resources = unwrap_or [] (nr_resources rule),
          rule_operations = operations\<rparr>)"

subsection \<open>Field validators\<close>

definition validate_asterisk_usage :: "string list \<Rightarrow> string + unit" where
  "validate_asterisk_usage data =
     (if ''*'' \<in> set data \<and> length data > 1
      then Inl ''No other elements can be defined when '*' is used'' else Inr ())"

definition validate_asterisk_usage_inside_of_operations :: "Operation list \<Rightarrow> string + unit" where
  "validate_asterisk_usage_inside_of_operations data =
     (if All \<in> set data \<and> length data > 1
      then Inl ''No other elements can be defined when '*' is used'' else Inr ())"

text \<open>The five variables of \<open>validate_resources\<close>, with the source's names and comments.\<close>

record resources_scan =
  resources_with_wildcard_subresources :: "string set" \<comment> \<open>\<open>*/x\<close>\<close>
  subresources_with_wildcard_resource :: "string set" \<comment> \<open>\<open>x/*\<close>\<close>
  has_double_wildcard :: bool
  has_single_wildcard :: bool
  has_resource_without_subresource :: bool

definition resources_scan_init :: resources_scan where
  "resources_scan_init = \<lparr>
     resources_with_wildcard_subresources = {}, subresources_with_wildcard_resource = {},
     has_double_wildcard = False, has_single_wildcard = False,
     has_resource_without_subresource = False\<rparr>"

definition scan_flags :: "resources_scan \<Rightarrow> string \<Rightarrow> resources_scan" where
  "scan_flags st resource =
     (if resource = ''*/*'' then st\<lparr>has_double_wildcard := True\<rparr>
      else if resource = ''*'' then st\<lparr>has_single_wildcard := True\<rparr>
      else st)"

definition scan_subresource ::
  "resources_scan \<Rightarrow> string \<Rightarrow> string \<Rightarrow> string \<Rightarrow> string + resources_scan" where
  "scan_subresource st resource res sub =
     (if res \<in> resources_with_wildcard_subresources st
      then Inl (''if '' @ squote @ resource @ ''/*'' @ squote @ '' is present, must not specify '' @ res)
      else if sub \<in> subresources_with_wildcard_resource st
      then Inl (''if '' @ squote @ ''*/'' @ sub @ squote @ '' is present, must not specify '' @ resource)
      else
        (let st1 = (if sub = ''*'' then st\<lparr>resources_with_wildcard_subresources :=
                      insert res (resources_with_wildcard_subresources st)\<rparr> else st);
             st2 = (if res = ''*'' then st1\<lparr>subresources_with_wildcard_resource :=
                      insert sub (subresources_with_wildcard_resource st1)\<rparr> else st1)
         in Inr st2))"

definition scan_resource :: "resources_scan \<Rightarrow> string \<Rightarrow> string + resources_scan" where
  "scan_resource st resource =
     (if resource = [] then Inl ''empty resource is not allowed''
      else
        (let st1 = scan_flags st resource in
         case splitn2 (CHR ''/'') resource of
           [res, sub] \<Rightarrow> scan_subresource st1 resource res sub
         | _ \<Rightarrow> Inr (st1\<lparr>has_resource_without_subresource := (resource \<noteq> ''*'')\<rparr>)))"

definition validate_resources :: "string list \<Rightarrow> string + unit" where
  "validate_resources data =
     bind_result (try_fold scan_resource resources_scan_init data) (\<lambda>st.
       if length data > 1 \<and> has_double_wildcard st
       then Inl ''if '*/*' is present, must not specify other resources''
       else if has_single_wildcard st \<and> has_resource_without_subresource st
       then Inl ''if '*' is present, must not specify other resources without subresources''
       else Inr ())"

text \<open>
  What \<^theory_text>\<open>validate_resources\<close> accepts. An entry \<^theory_text>\<open>r\<close> before an entry \<^theory_text>\<open>s\<close> rules \<^theory_text>\<open>s\<close> out when
  \<^theory_text>\<open>r\<close> is \<^theory_text>\<open>res/*\<close> and \<^theory_text>\<open>s\<close> names the same resource, or \<^theory_text>\<open>r\<close> is \<^theory_text>\<open>*/sub\<close> and \<^theory_text>\<open>s\<close> the
  same subresource; only the order of the list decides which entry is the earlier one. The last
  entry without a slash is the only one that counts against a single wildcard.
\<close>

definition shadows :: "string \<Rightarrow> string \<Rightarrow> bool" where
  "shadows r s =
     (case (split_once (CHR ''/'') r, split_once (CHR ''/'') s) of
        (Some (res, sub), Some (res', sub')) \<Rightarrow>
          sub = ''*'' \<and> res = res' \<or> res = ''*'' \<and> sub = sub'
      | _ \<Rightarrow> False)"

definition plain_entries :: "string list \<Rightarrow> string list" where
  "plain_entries data = filter (\<lambda>s. CHR ''/'' \<notin> set s) data"

definition resources_ok :: "string list \<Rightarrow> bool" where
  "resources_ok data \<longleftrightarrow>
     [] \<notin> set data \<and> sorted_wrt (\<lambda>r s. \<not> shadows r s) data \<and>
     (''*/*'' \<in> set data \<longrightarrow> length data = 1) \<and>
     (''*'' \<in> set data \<longrightarrow> plain_entries data = [] \<or> last (plain_entries data) = ''*'')"

definition scan_of :: "string list \<Rightarrow> resources_scan" where
  "scan_of xs = \<lparr>
     resources_with_wildcard_subresources =
       {res. \<exists>r \<in> set xs. split_once (CHR ''/'') r = Some (res, ''*'')},
     subresources_with_wildcard_resource =
       {sub. \<exists>r \<in> set xs. split_once (CHR ''/'') r = Some (''*'', sub)},
     has_double_wildcard = (''*/*'' \<in> set xs),
     has_single_wildcard = (''*'' \<in> set xs),
     has_resource_without_subresource =
       (plain_entries xs \<noteq> [] \<and> last (plain_entries xs) \<noteq> ''*'')\<rparr>"

lemma scan_of_Nil: "scan_of [] = resources_scan_init"
  by (simp add: scan_of_def resources_scan_init_def plain_entries_def)

lemma shadowed_iff:
  assumes "split_once (CHR ''/'') x = Some (res, sub)"
  shows "(\<exists>r \<in> set xs. shadows r x) \<longleftrightarrow>
    res \<in> resources_with_wildcard_subresources (scan_of xs) \<or>
    sub \<in> subresources_with_wildcard_resource (scan_of xs)"
  using assms by (force simp: shadows_def scan_of_def split: option.splits prod.splits)

lemma scan_plain:
  assumes "x \<noteq> []" "CHR ''/'' \<notin> set x"
  shows "scan_resource (scan_of xs) x = Inr (scan_of (xs @ [x]))"
proof -
  have none: "split_once (CHR ''/'') x = None" and "x \<noteq> ''*/*''"
    using assms(2) by (auto simp: split_once_None)
  then show ?thesis
    using assms by (auto simp: scan_resource_def splitn2_def scan_flags_def scan_of_def
        plain_entries_def)
qed

lemma scan_flags_sets [simp]:
  "resources_with_wildcard_subresources (scan_flags st x) = resources_with_wildcard_subresources st"
  "subresources_with_wildcard_resource (scan_flags st x) = subresources_with_wildcard_resource st"
  by (simp_all add: scan_flags_def)

lemma scan_slash:
  assumes x: "split_once (CHR ''/'') x = Some (res, sub)"
    and ok: "\<not> (\<exists>r \<in> set xs. shadows r x)"
  shows "scan_resource (scan_of xs) x = Inr (scan_of (xs @ [x]))"
proof -
  have xs: "x = res @ CHR ''/'' # sub" using x by (simp add: split_once_Some)
  have "res \<notin> resources_with_wildcard_subresources (scan_of xs)"
    and "sub \<notin> subresources_with_wildcard_resource (scan_of xs)"
    using ok shadowed_iff [OF x] by simp_all
  moreover have "x \<noteq> ''*''" "x \<noteq> []" "CHR ''/'' \<in> set x" using xs by (auto simp: append_eq_Cons_conv)
  moreover have "x = ''*/*'' \<longleftrightarrow> res = ''*'' \<and> sub = ''*''"
    using x xs by auto
  ultimately show ?thesis
    using x by (auto simp: scan_resource_def splitn2_def scan_subresource_def Let_def
        scan_flags_def scan_of_def plain_entries_def)
qed

lemma scan_step:
  "scan_resource (scan_of xs) x = Inr st \<longleftrightarrow>
     x \<noteq> [] \<and> \<not> (\<exists>r \<in> set xs. shadows r x) \<and> st = scan_of (xs @ [x])"
proof (cases "x = []")
  case True
  then show ?thesis by (simp add: scan_resource_def)
next
  case nonempty: False
  show ?thesis
  proof (cases "split_once (CHR ''/'') x")
    case None
    then have "\<not> shadows r x" for r by (simp add: shadows_def split: option.splits)
    then show ?thesis
      using None nonempty scan_plain by (auto simp: split_once_None)
  next
    case (Some p)
    obtain res sub where p: "p = (res, sub)" by (cases p) auto
    show ?thesis
    proof (cases "\<exists>r \<in> set xs. shadows r x")
      case True
      then have "scan_resource (scan_of xs) x \<noteq> Inr st"
        using shadowed_iff [of x res sub xs] Some p nonempty
        by (auto simp: scan_resource_def splitn2_def scan_subresource_def Let_def)
      with True show ?thesis by blast
    next
      case False
      then show ?thesis using scan_slash [of x res sub xs] Some p nonempty by auto
    qed
  qed
qed

lemma scan_list:
  "try_fold scan_resource resources_scan_init xs = Inr st \<longleftrightarrow>
     [] \<notin> set xs \<and> sorted_wrt (\<lambda>r s. \<not> shadows r s) xs \<and> st = scan_of xs"
proof (induction xs arbitrary: st rule: rev_induct)
  case Nil
  then show ?case by (auto simp: scan_of_Nil)
next
  case (snoc x xs)
  have "try_fold scan_resource resources_scan_init (xs @ [x]) = Inr st \<longleftrightarrow>
    ([] \<notin> set xs \<and> sorted_wrt (\<lambda>r s. \<not> shadows r s) xs \<and> scan_resource (scan_of xs) x = Inr st)"
    using snoc.IH by (auto simp: try_fold_append)
  then show ?case by (auto simp: scan_step sorted_wrt_append)
qed

lemma validate_resources_ok: "validate_resources data = Inr () \<longleftrightarrow> resources_ok data"
proof (cases "try_fold scan_resource resources_scan_init data")
  case (Inl e)
  then have "\<not> ([] \<notin> set data \<and> sorted_wrt (\<lambda>r s. \<not> shadows r s) data)"
    using scan_list [of data "scan_of data"] by auto
  with Inl show ?thesis by (auto simp: validate_resources_def resources_ok_def)
next
  case (Inr st)
  then have st: "[] \<notin> set data" "sorted_wrt (\<lambda>r s. \<not> shadows r s) data" "st = scan_of data"
    using scan_list [of data st] by auto
  have len: "\<not> 1 < length data \<longleftrightarrow> length data = 1" if "''*/*'' \<in> set data"
    using that by (cases data) auto
  show ?thesis
    using Inr st len by (auto simp: validate_resources_def resources_ok_def scan_of_def)
qed

text \<open>The verdict depends on the order of the entries.\<close>

lemma validate_resources_order:
  "validate_resources [''pods'', ''*''] = Inr ()"
  "validate_resources [''*'', ''pods''] =
     Inl ''if '*' is present, must not specify other resources without subresources''"
  "validate_resources [''pods/status'', ''pods/*''] = Inr ()"
  "validate_resources [''pods/*'', ''pods/status''] \<noteq> Inr ()"
  by (simp_all add: validate_resources_def scan_resource_def scan_flags_def splitn2_def
      resources_scan_init_def scan_subresource_def)

subsection \<open>Metadata\<close>

datatype ContextAwareResource =
  ContextAwareResource (car_api_version: string) (car_kind: string)

instantiation ContextAwareResource :: linorder
begin

text \<open>The derived \<^theory_text>\<open>Ord\<close>: the fields are compared in order.\<close>

definition less_eq_ContextAwareResource ::
  "ContextAwareResource \<Rightarrow> ContextAwareResource \<Rightarrow> bool" where
  "a \<le> b \<longleftrightarrow> car_api_version a < car_api_version b \<or>
     car_api_version a = car_api_version b \<and> car_kind a \<le> car_kind b"

definition less_ContextAwareResource ::
  "ContextAwareResource \<Rightarrow> ContextAwareResource \<Rightarrow> bool" where
  "a < b \<longleftrightarrow> car_api_version a < car_api_version b \<or>
     car_api_version a = car_api_version b \<and> car_kind a < car_kind b"

instance
proof
  fix a b c :: ContextAwareResource
  show "a < b \<longleftrightarrow> a \<le> b \<and> \<not> b \<le> a"
    by (auto simp: less_ContextAwareResource_def less_eq_ContextAwareResource_def)
  show "a \<le> a"
    by (simp add: less_eq_ContextAwareResource_def)
  show "a \<le> c" if "a \<le> b" "b \<le> c"
    using that by (auto simp: less_eq_ContextAwareResource_def)
  show "a = b" if "a \<le> b" "b \<le> a"
    using that by (cases a; cases b) (auto simp: less_eq_ContextAwareResource_def)
  show "a \<le> b \<or> b \<le> a"
    by (auto simp: less_eq_ContextAwareResource_def)
qed

end

definition car_from :: "string \<times> string \<Rightarrow> ContextAwareResource" where
  "car_from resource = ContextAwareResource (fst resource) (snd resource)"

datatype PolicyType = Kubernetes | RawPolicy

fun policy_type_name :: "PolicyType \<Rightarrow> string" where
  "policy_type_name Kubernetes = ''kubernetes''"
| "policy_type_name RawPolicy = ''raw''"

definition display_policy_type :: "PolicyType \<Rightarrow> string" where
  "display_policy_type t = filter (\<lambda>c. c \<noteq> dquote) ([dquote] @ policy_type_name t @ [dquote])"

text \<open>\<^theory_text>\<open>ProtocolVersion\<close> belongs to the policy SDK; the code uses its two values.\<close>

datatype ProtocolVersion = UnknownProtocol | V1

record Metadata =
  md_protocol_version :: "ProtocolVersion option"
  md_rules :: "Rule list"
  md_annotations :: "(string, string) btmap option"
  md_mutating :: bool
  md_background_audit :: bool
  md_execution_mode :: PolicyExecutionMode
  md_policy_type :: PolicyType
  md_context_aware_resources :: "ContextAwareResource btset"
  md_minimum_kubewarden_version :: "string option"

definition default_metadata :: Metadata where
  "default_metadata = \<lparr>
     md_protocol_version = None, md_rules = [], md_annotations = Some [], md_mutating = False,
     md_background_audit = True, md_execution_mode = KubewardenWapc,
     md_policy_type = Kubernetes, md_context_aware_resources = [],
     md_minimum_kubewarden_version = None\<rparr>"

definition validate_metadata :: "Metadata \<Rightarrow> string + unit" where
  "validate_metadata metadata =
     (if md_execution_mode metadata = KubewardenWapc
        \<and> md_protocol_version metadata = Some UnknownProtocol
      then Inl ''Must specify a valid protocol version'' else Inr ())"

text \<open>
  \<^theory_text>\<open>validate()\<close> of the derived \<^theory_text>\<open>Validate\<close>: every validator of every field runs and the errors
  are collected, each with the name of its field; a \<^theory_text>\<open>length\<close> or \<^theory_text>\<open>required\<close> failure has the code
  of that name, a custom validator the code it returns.
\<close>

definition check_length_min1 :: "string \<Rightarrow> 'a list \<Rightarrow> (string \<times> string) list" where
  "check_length_min1 field xs = (if length xs < 1 then [(field, ''length'')] else [])"

definition check_custom :: "string \<Rightarrow> string + unit \<Rightarrow> (string \<times> string) list" where
  "check_custom field r = (case r of Inl code \<Rightarrow> [(field, code)] | Inr _ \<Rightarrow> [])"

definition rule_errors :: "Rule \<Rightarrow> (string \<times> string) list" where
  "rule_errors r =
     check_length_min1 ''api_groups'' (rule_api_groups r)
     @ check_custom ''api_groups'' (validate_asterisk_usage (rule_api_groups r))
     @ check_length_min1 ''api_versions'' (rule_api_versions r)
     @ check_custom ''api_versions'' (validate_asterisk_usage (rule_api_versions r))
     @ check_length_min1 ''resources'' (rule_resources r)
     @ check_custom ''resources'' (validate_resources (rule_resources r))
     @ check_length_min1 ''operations'' (rule_operations r)
     @ check_custom ''operations'' (validate_asterisk_usage_inside_of_operations (rule_operations r))"

definition car_errors :: "ContextAwareResource \<Rightarrow> (string \<times> string) list" where
  "car_errors c =
     check_length_min1 ''api_version'' (car_api_version c)
     @ check_length_min1 ''kind'' (car_kind c)"

definition metadata_errors :: "Metadata \<Rightarrow> (string \<times> string) list" where
  "metadata_errors m =
     (if md_protocol_version m = None then [(''protocol_version'', ''required'')] else [])
     @ concat (map rule_errors (md_rules m))
     @ concat (map car_errors (md_context_aware_resources m))
     @ check_custom ''__all__'' (validate_metadata m)"

definition metadata_validate :: "Metadata \<Rightarrow> (string \<times> string) list + unit" where
  "metadata_validate m = (if metadata_errors m = [] then Inr () else Inl (metadata_errors m))"

definition rule_ok :: "Rule \<Rightarrow> bool" where
  "rule_ok r \<longleftrightarrow>
     (rule_api_groups r \<noteq> [] \<and> (''*'' \<in> set (rule_api_groups r) \<longrightarrow> length (rule_api_groups r) = 1)) \<and>
     (rule_api_versions r \<noteq> [] \<and> (''*'' \<in> set (rule_api_versions r) \<longrightarrow> length (rule_api_versions r) = 1)) \<and>
     (rule_resources r \<noteq> [] \<and> resources_ok (rule_resources r)) \<and>
     (rule_operations r \<noteq> [] \<and> (All \<in> set (rule_operations r) \<longrightarrow> length (rule_operations r) = 1))"

lemma check_length_min1_Nil [simp]: "check_length_min1 f xs = [] \<longleftrightarrow> xs \<noteq> []"
  by (cases xs) (simp_all add: check_length_min1_def)

lemma check_custom_Nil [simp]: "check_custom f r = [] \<longleftrightarrow> r = Inr ()"
  by (cases r) (simp_all add: check_custom_def)

lemma one_element: "xs \<noteq> [] \<Longrightarrow> length xs = Suc 0 \<longleftrightarrow> \<not> Suc 0 < length xs"
  by (cases xs) auto

lemma rule_errors_ok: "rule_errors r = [] \<longleftrightarrow> rule_ok r"
  by (auto simp: rule_errors_def rule_ok_def validate_resources_ok validate_asterisk_usage_def
      validate_asterisk_usage_inside_of_operations_def one_element split: if_splits)

lemma metadata_validate_ok:
  "metadata_validate m = Inr () \<longleftrightarrow>
     md_protocol_version m \<noteq> None
     \<and> (md_execution_mode m = KubewardenWapc \<longrightarrow> md_protocol_version m = Some V1)
     \<and> (\<forall>r \<in> set (md_rules m). rule_ok r)
     \<and> (\<forall>c \<in> set (md_context_aware_resources m). car_api_version c \<noteq> [] \<and> car_kind c \<noteq> [])"
proof -
  have "v = V1 \<longleftrightarrow> v \<noteq> UnknownProtocol" for v
    by (cases v) simp_all
  then show ?thesis
    by (auto simp: metadata_validate_def metadata_errors_def rule_errors_ok car_errors_def
        validate_metadata_def)
qed

subsection \<open>Extraction from the Wasm module\<close>

datatype ('io, 'w, 'd) MetadataError =
    MdPath 'io
  | MdWasmPayload 'w
  | MdDeserialize string 'd

text \<open>
  \<^theory_text>\<open>wasmparser\<close> yields a sequence of payloads, or errors; of a payload the code looks at custom
  sections only. \<^theory_text>\<open>de\<close> is \<^theory_text>\<open>serde_json::from_slice\<close>.
\<close>

datatype payload = CustomSection string bytes | OtherPayload

definition metadata_section :: string where
  "metadata_section = ''io.kubewarden.metadata''"

fun from_contents ::
  "(bytes \<Rightarrow> 'd + Metadata) \<Rightarrow> ('w + payload) list \<Rightarrow> ('io, 'w, 'd) MetadataError + Metadata option" where
  "from_contents de [] = Inr None"
| "from_contents de (Inl e # ps) = Inl (MdWasmPayload e)"
| "from_contents de (Inr OtherPayload # ps) = from_contents de ps"
| "from_contents de (Inr (CustomSection name data) # ps) =
     (if name = metadata_section
      then map_err (MdDeserialize name) (bind_result (de data) (\<lambda>m. Inr (Some m)))
      else from_contents de ps)"

definition from_path ::
  "(bytes \<Rightarrow> 'd + Metadata) \<Rightarrow> (bytes \<Rightarrow> ('w + payload) list) \<Rightarrow> 'io + bytes
   \<Rightarrow> ('io, 'w, 'd) MetadataError + Metadata option" where
  "from_path de parse_all read =
     bind_result (map_err MdPath read) (\<lambda>policy. from_contents de (parse_all policy))"

text \<open>The first metadata section decides; an error before it hides it.\<close>

lemma from_contents_first:
  assumes "\<forall>p \<in> set ps. p = Inr OtherPayload \<or> (\<exists>n d. p = Inr (CustomSection n d) \<and> n \<noteq> metadata_section)"
  shows "from_contents de (ps @ Inr (CustomSection metadata_section data) # rest) =
     (case de data of Inl e \<Rightarrow> Inl (MdDeserialize metadata_section e) | Inr m \<Rightarrow> Inr (Some m))"
  using assms by (induction ps) (auto split: sum.splits)

lemma from_contents_none:
  assumes "\<forall>p \<in> set ps. p = Inr OtherPayload \<or> (\<exists>n d. p = Inr (CustomSection n d) \<and> n \<noteq> metadata_section)"
  shows "from_contents de ps = Inr None"
  using assms by (induction ps) auto

lemma from_contents_wasm_error:
  assumes "\<forall>p \<in> set ps. p = Inr OtherPayload \<or> (\<exists>n d. p = Inr (CustomSection n d) \<and> n \<noteq> metadata_section)"
  shows "from_contents de (ps @ Inl e # rest) = Inl (MdWasmPayload e)"
  using assms by (induction ps) auto

subsection \<open>Properties\<close>

text \<open>C31: the resources of a rule pass validation exactly when none is empty, no entry comes after
  one that covers its resource or its subresource with a wildcard, a double wildcard stands alone,
  and next to a single wildcard the last entry without slash is the wildcard itself.\<close>

theorem validate_resources_spec: "validate_resources data = Inr () \<longleftrightarrow> resources_ok data"
  by (rule validate_resources_ok)

text \<open>C32: metadata pass validation exactly when they name a protocol version (the known one for a
  waPC policy), every rule has non-empty fields without a wildcard next to other entries and valid
  resources, and every context-aware resource has an API version and a kind.\<close>

theorem metadata_validation_spec:
  "metadata_validate m = Inr () \<longleftrightarrow>
     md_protocol_version m \<in> (if md_execution_mode m = KubewardenWapc then {Some V1}
                               else {Some V1, Some UnknownProtocol})
     \<and> list_all rule_ok (md_rules m)
     \<and> list_all (\<lambda>c. car_api_version c \<noteq> [] \<and> car_kind c \<noteq> []) (md_context_aware_resources m)"
proof -
  have "v = V1 \<or> v = UnknownProtocol" for v
    by (cases v) simp_all
  then show ?thesis
    unfolding metadata_validate_ok list_all_iff by (cases "md_protocol_version m") auto
qed

definition other_payload :: "'w + payload \<Rightarrow> bool" where
  "other_payload p =
     (case p of Inr OtherPayload \<Rightarrow> True | Inr (CustomSection n d) \<Rightarrow> n \<noteq> metadata_section | Inl _ \<Rightarrow> False)"

text \<open>The metadata of a module come from its first section with the Kubewarden name. What
  precedes it is skipped, unless the parser fails there; a section that cannot be read is an error
  and a later one is never tried; a module without the section has no metadata.\<close>

theorem from_contents_spec:
  "from_contents de ps =
     (case dropWhile other_payload ps of
        [] \<Rightarrow> Inr None
      | Inl e # _ \<Rightarrow> Inl (MdWasmPayload e)
      | Inr (CustomSection n data) # _ \<Rightarrow>
          (case de data of Inl e \<Rightarrow> Inl (MdDeserialize metadata_section e) | Inr m \<Rightarrow> Inr (Some m))
      | Inr OtherPayload # _ \<Rightarrow> Inr None)"
  by (induction de ps rule: from_contents.induct)
    (auto simp: other_payload_def bind_result_def split: sum.splits)

end
