(* ===== verification/Response.thy ===== *)
theory Response
  imports Requests
begin

text \<open>
  \<open>src/admission_response.rs\<close>: the response given to Kubernetes, its JSON form, and how the answer
  of a policy becomes one. The JSON-Patch difference, its serialization and base64 come from
  crates: they are the parameters \<open>diff\<close>, \<open>patch_to_string\<close> and \<open>b64\<close> of
  \<^theory_text>\<open>from_policy_validation_response\<close>.
\<close>

subsection \<open>Data\<close>

datatype PatchType = JSONPatch

datatype AdmissionResponseStatusValue = Success | Failure

datatype StatusReason =
    ReasonUnknown | Unauthorized | Forbidden | NotFound | AlreadyExists | Conflict | Gone
  | ReasonInvalid | ServerTimeout | Timeout | TooManyRequests | BadRequest | MethodNotAllowed
  | NotAcceptable | RequestEntityTooLarge | UnsupportedMediaType | ReasonInternalError | Expired
  | ServiceUnavailable

datatype CauseType =
    FieldValueNotFound | FieldValueRequired | FieldValueDuplicate | FieldValueInvalid
  | FieldValueNotSupported | FieldValueForbidden | FieldValueTooLong | FieldValueTooMany
  | CauseInternalError | FieldValueTypeInvalid | UnexpectedServerResponse | FieldManagerConflict
  | ResourceVersionTooLarge

record StatusCause =
  sc_reason :: "CauseType option"
  sc_message :: "string option"
  sc_field :: "string option"

record StatusDetails =
  sd_name :: "string option"
  sd_group :: "string option"
  sd_kind :: "string option"
  sd_uid :: "string option"
  sd_causes :: "StatusCause list"
  sd_retry_after_seconds :: "i32 option"

record AdmissionResponseStatus =
  st_status :: "AdmissionResponseStatusValue option"
  st_message :: "string option"
  st_reason :: "StatusReason option"
  st_details :: "StatusDetails option"
  st_code :: "u16 option"

record AdmissionResponse =
  resp_uid :: string
  resp_allowed :: bool
  resp_patch_type :: "PatchType option"
  resp_patch :: "string option"
  resp_status :: "AdmissionResponseStatus option"
  resp_audit_annotations :: "(string \<times> string) list option"
  resp_warnings :: "string list option"

text \<open>The \<open>Default\<close> values the code fills structures with.\<close>

definition default_cause :: StatusCause where
  "default_cause = \<lparr>sc_reason = None, sc_message = None, sc_field = None\<rparr>"

definition default_details :: StatusDetails where
  "default_details = \<lparr>sd_name = None, sd_group = None, sd_kind = None, sd_uid = None,
     sd_causes = [], sd_retry_after_seconds = None\<rparr>"

definition default_status :: AdmissionResponseStatus where
  "default_status = \<lparr>st_status = None, st_message = None, st_reason = None,
     st_details = None, st_code = None\<rparr>"

definition default_response :: AdmissionResponse where
  "default_response = \<lparr>resp_uid = [], resp_allowed = False, resp_patch_type = None,
     resp_patch = None, resp_status = None, resp_audit_annotations = None, resp_warnings = None\<rparr>"

subsection \<open>JSON form\<close>

fun status_value_name :: "AdmissionResponseStatusValue \<Rightarrow> string" where
  "status_value_name Success = ''Success''"
| "status_value_name Failure = ''Failure''"

fun status_reason_name :: "StatusReason \<Rightarrow> string" where
  "status_reason_name ReasonUnknown = ''''"
| "status_reason_name Unauthorized = ''Unauthorized''"
| "status_reason_name Forbidden = ''Forbidden''"
| "status_reason_name NotFound = ''NotFound''"
| "status_reason_name AlreadyExists = ''AlreadyExists''"
| "status_reason_name Conflict = ''Conflict''"
| "status_reason_name Gone = ''Gone''"
| "status_reason_name ReasonInvalid = ''Invalid''"
| "status_reason_name ServerTimeout = ''ServerTimeout''"
| "status_reason_name Timeout = ''Timeout''"
| "status_reason_name TooManyRequests = ''TooManyRequests''"
| "status_reason_name BadRequest = ''BadRequest''"
| "status_reason_name MethodNotAllowed = ''MethodNotAllowed''"
| "status_reason_name NotAcceptable = ''NotAcceptable''"
| "status_reason_name RequestEntityTooLarge = ''RequestEntityTooLarge''"
| "status_reason_name UnsupportedMediaType = ''UnsupportedMediaType''"
| "status_reason_name ReasonInternalError = ''InternalError''"
| "status_reason_name Expired = ''Expired''"
| "status_reason_name ServiceUnavailable = ''ServiceUnavailable''"

fun cause_type_name :: "CauseType \<Rightarrow> string" where
  "cause_type_name FieldValueNotFound = ''FieldValueNotFound''"
| "cause_type_name FieldValueRequired = ''FieldValueRequired''"
| "cause_type_name FieldValueDuplicate = ''FieldValueDuplicate''"
| "cause_type_name FieldValueInvalid = ''FieldValueInvalid''"
| "cause_type_name FieldValueNotSupported = ''FieldValueNotSupported''"
| "cause_type_name FieldValueForbidden = ''FieldValueForbidden''"
| "cause_type_name FieldValueTooLong = ''FieldValueTooLong''"
| "cause_type_name FieldValueTooMany = ''FieldValueTooMany''"
| "cause_type_name CauseInternalError = ''InternalError''"
| "cause_type_name FieldValueTypeInvalid = ''FieldValueTypeInvalid''"
| "cause_type_name UnexpectedServerResponse = ''UnexpectedServerResponse''"
| "cause_type_name FieldManagerConflict = ''FieldManagerConflict''"
| "cause_type_name ResourceVersionTooLarge = ''ResourceVersionTooLarge''"

text \<open>An \<open>Option\<close> field without \<open>skip_serializing_if\<close> is written as \<open>null\<close>.\<close>

definition nullable :: "('a \<Rightarrow> json) \<Rightarrow> 'a option \<Rightarrow> json option" where
  "nullable f x = Some (case x of None \<Rightarrow> Null | Some a \<Rightarrow> f a)"

definition json_u16 :: "u16 \<Rightarrow> json" where
  "json_u16 n = Number (PosInt (ucast n))"

definition json_i32 :: "i32 \<Rightarrow> json" where
  "json_i32 n = (if sint n < 0 then Number (NegInt (scast n)) else Number (PosInt (scast n)))"

definition cause_to_json :: "StatusCause \<Rightarrow> json" where
  "cause_to_json c = opt_obj
     [(''reason'', nullable (\<lambda>r. String (cause_type_name r)) (sc_reason c)),
      (''message'', nullable String (sc_message c)),
      (''field'', nullable String (sc_field c))]"

definition details_to_json :: "StatusDetails \<Rightarrow> json" where
  "details_to_json d = opt_obj
     [(''name'', map_option String (sd_name d)),
      (''group'', map_option String (sd_group d)),
      (''kind'', map_option String (sd_kind d)),
      (''uid'', map_option String (sd_uid d)),
      (''causes'', if sd_causes d = [] then None else Some (Array (map cause_to_json (sd_causes d)))),
      (''retry_after_seconds'', map_option json_i32 (sd_retry_after_seconds d))]"

definition status_to_json :: "AdmissionResponseStatus \<Rightarrow> json" where
  "status_to_json s = opt_obj
     [(''status'', map_option (\<lambda>v. String (status_value_name v)) (st_status s)),
      (''message'', map_option String (st_message s)),
      (''reason'', map_option (\<lambda>r. String (status_reason_name r)) (st_reason s)),
      (''details'', map_option details_to_json (st_details s)),
      (''code'', map_option json_u16 (st_code s))]"

definition response_to_json :: "AdmissionResponse \<Rightarrow> json" where
  "response_to_json r = opt_obj
     [(''uid'', Some (String (resp_uid r))),
      (''allowed'', Some (Bool (resp_allowed r))),
      (''patchType'', map_option (\<lambda>p. String ''JSONPatch'') (resp_patch_type r)),
      (''patch'', map_option String (resp_patch r)),
      (''status'', map_option status_to_json (resp_status r)),
      (''auditAnnotations'',
         nullable (\<lambda>m. json_obj (map (\<lambda>(k, v). (k, String v)) m)) (resp_audit_annotations r)),
      (''warnings'', nullable (\<lambda>ws. Array (map String ws)) (resp_warnings r))]"

lemma response_json_get:
  "get_key (response_to_json r) ''uid'' = Some (String (resp_uid r))"
  "get_key (response_to_json r) ''allowed'' = Some (Bool (resp_allowed r))"
  "get_key (response_to_json r) ''patch'' = map_option String (resp_patch r)"
  "get_key (response_to_json r) ''patchType'' = map_option (\<lambda>p. String ''JSONPatch'') (resp_patch_type r)"
  "get_key (response_to_json r) ''status'' = map_option status_to_json (resp_status r)"
  by (simp_all add: response_to_json_def get_key_opt_obj nullable_def)

lemma status_reason_name_inj: "status_reason_name a = status_reason_name b \<Longrightarrow> a = b"
  by (cases a; cases b) simp_all

lemma cause_type_name_inj: "cause_type_name a = cause_type_name b \<Longrightarrow> a = b"
  by (cases a; cases b) simp_all

text \<open>The retry delay keeps its Rust field name, while Kubernetes reads \<open>retryAfterSeconds\<close>.\<close>

lemma details_json_retry:
  "get_key (details_to_json d) ''retryAfterSeconds'' = None"
  "get_key (details_to_json d) ''retry_after_seconds'' = map_option json_i32 (sd_retry_after_seconds d)"
  by (simp_all add: details_to_json_def get_key_opt_obj)

subsection \<open>Building responses\<close>

text \<open>The answer of a policy, a type of the policy SDK, with the fields the code reads.\<close>

record PolicyValidationResponse =
  vr_accepted :: bool
  vr_message :: "string option"
  vr_code :: "u16 option"
  vr_mutated_object :: "json option"
  vr_audit_annotations :: "(string \<times> string) list option"
  vr_warnings :: "string list option"

datatype 'e ResponseError = ResponseDeserialize 'e

definition reject :: "string \<Rightarrow> string \<Rightarrow> u16 \<Rightarrow> AdmissionResponse" where
  "reject uid message code =
     default_response\<lparr>resp_uid := uid, resp_allowed := False,
       resp_status := Some (default_status\<lparr>st_message := Some message, st_code := Some code\<rparr>)\<rparr>"

definition reject_internal_server_error :: "string \<Rightarrow> string \<Rightarrow> AdmissionResponse" where
  "reject_internal_server_error uid message = reject uid (''internal server error: '' @ message) 500"

definition delete_mutation_message :: string where
  "delete_mutation_message =
     ''Incoming object is null, which happens only with DELETE operations, but the policy is attempting a mutation. This is not allowed''"

definition patch_of ::
  "(json \<Rightarrow> json \<Rightarrow> 'op list) \<Rightarrow> ('op list \<Rightarrow> 'e + string) \<Rightarrow> (string \<Rightarrow> string)
   \<Rightarrow> json option \<Rightarrow> json option \<Rightarrow> ('e ResponseError + string option) exec" where
  "patch_of diff patch_to_string b64 req_obj mutated =
     (case mutated of
        Some mut_obj \<Rightarrow>
          (case req_obj of
             None \<Rightarrow> Panic ''called Option::unwrap() on a None value''
           | Some obj \<Rightarrow>
               (let d = diff obj mut_obj in
                if d = [] then Ret (Inr None)
                else Ret (map_err ResponseDeserialize
                       (bind_result (patch_to_string d) (\<lambda>s. Inr (Some (b64 s)))))))
      | None \<Rightarrow> Ret (Inr None))"

definition from_policy_validation_response ::
  "(json \<Rightarrow> json \<Rightarrow> 'op list) \<Rightarrow> ('op list \<Rightarrow> 'e + string) \<Rightarrow> (string \<Rightarrow> string)
   \<Rightarrow> string \<Rightarrow> json option \<Rightarrow> PolicyValidationResponse \<Rightarrow> ('e ResponseError + AdmissionResponse) exec" where
  "from_policy_validation_response diff patch_to_string b64 uid req_obj pol_val_resp =
     (if vr_mutated_object pol_val_resp \<noteq> None \<and> req_obj = None
      then Ret (Inr \<lparr>resp_uid = uid, resp_allowed = False, resp_patch_type = None,
             resp_patch = None,
             resp_status = Some (default_status\<lparr>st_message := Some delete_mutation_message, st_code := None\<rparr>),
             resp_audit_annotations = None, resp_warnings = None\<rparr>)
      else
        try_exec (patch_of diff patch_to_string b64 req_obj (vr_mutated_object pol_val_resp)) (\<lambda>patch.
        let patch_type = (if patch \<noteq> None then Some JSONPatch else None);
            status = (if vr_message pol_val_resp \<noteq> None \<or> vr_code pol_val_resp \<noteq> None
                      then Some (default_status\<lparr>st_message := vr_message pol_val_resp,
                             st_code := vr_code pol_val_resp\<rparr>)
                      else None)
        in Ret (Inr \<lparr>resp_uid = uid, resp_allowed = vr_accepted pol_val_resp,
             resp_patch_type = patch_type, resp_patch = patch, resp_status = status,
             resp_audit_annotations = vr_audit_annotations pol_val_resp,
             resp_warnings = vr_warnings pol_val_resp\<rparr>)))"

subsection \<open>Well-formed responses\<close>

text \<open>A response carries a patch type exactly when it carries a patch.\<close>

definition patch_wf :: "AdmissionResponse \<Rightarrow> bool" where
  "patch_wf r \<longleftrightarrow> (resp_patch r = None \<longleftrightarrow> resp_patch_type r = None)"

lemma reject_simps [simp]:
  "resp_uid (reject uid m c) = uid" "\<not> resp_allowed (reject uid m c)"
  "resp_patch (reject uid m c) = None" "resp_patch_type (reject uid m c) = None"
  "resp_warnings (reject uid m c) = None" "resp_audit_annotations (reject uid m c) = None"
  "resp_status (reject uid m c) = Some (default_status\<lparr>st_message := Some m, st_code := Some c\<rparr>)"
  by (simp_all add: reject_def default_response_def)

lemma reject_wf [intro, simp]: "patch_wf (reject uid m c)"
  by (simp add: patch_wf_def)

lemma reject_inj: "reject u m c = reject u' m' c' \<longleftrightarrow> u = u' \<and> m = m' \<and> c = c'"
  by (auto simp: reject_def default_response_def default_status_def)

lemma ise_simps [simp]:
  "resp_uid (reject_internal_server_error uid m) = uid"
  "\<not> resp_allowed (reject_internal_server_error uid m)"
  "resp_patch (reject_internal_server_error uid m) = None"
  by (simp_all add: reject_internal_server_error_def)

lemma ise_wf [intro, simp]: "patch_wf (reject_internal_server_error uid m)"
  by (simp add: reject_internal_server_error_def)

lemma patch_of_no_panic:
  "mutated = None \<or> req_obj \<noteq> None \<Longrightarrow> no_panic (patch_of diff ts b64 req_obj mutated)"
  by (auto simp: patch_of_def Let_def split: option.splits)

text \<open>
  What becomes of an answer. The conversion never panics, never fails without a patch to print,
  carries the verdict over, and a mutation of a deleted object is a rejection.
\<close>

lemma from_response_no_panic:
  "no_panic (from_policy_validation_response diff ts b64 uid obj v)"
proof (cases "vr_mutated_object v \<noteq> None \<and> obj = None")
  case True
  then show ?thesis by (simp add: from_policy_validation_response_def)
next
  case False
  then have "no_panic (patch_of diff ts b64 obj (vr_mutated_object v))"
    by (intro patch_of_no_panic) auto
  then show ?thesis
    using False by (cases "patch_of diff ts b64 obj (vr_mutated_object v)")
      (auto simp: from_policy_validation_response_def try_exec_def Let_def split: sum.splits)
qed

lemma from_response_ok:
  assumes "from_policy_validation_response diff ts b64 uid obj v = Ret (Inr r)"
  shows "resp_uid r = uid" "patch_wf r"
    "resp_allowed r \<longleftrightarrow> vr_accepted v \<and> (vr_mutated_object v = None \<or> obj \<noteq> None)"
    "vr_mutated_object v = None \<Longrightarrow> resp_patch r = None"
  using assms
  by (auto simp: from_policy_validation_response_def patch_of_def patch_wf_def Let_def split: if_splits)

lemma from_response_patch:
  "from_policy_validation_response diff ts b64 uid (Some obj) v = Ret (Inr r) \<Longrightarrow>
   resp_patch r = Some p \<longleftrightarrow>
     (\<exists>new s. vr_mutated_object v = Some new \<and> diff obj new \<noteq> [] \<and> ts (diff obj new) = Inr s \<and> p = b64 s)"
  by (cases "vr_mutated_object v")
    (auto simp: from_policy_validation_response_def patch_of_def Let_def split: if_splits)

definition expected_status ::
  "PolicyValidationResponse \<Rightarrow> json option \<Rightarrow> AdmissionResponseStatus option" where
  "expected_status v obj =
     (if vr_mutated_object v \<noteq> None \<and> obj = None
      then Some (default_status\<lparr>st_message := Some delete_mutation_message\<rparr>)
      else if vr_message v = None \<and> vr_code v = None then None
      else Some (default_status\<lparr>st_message := vr_message v, st_code := vr_code v\<rparr>))"

lemma from_response_status:
  "from_policy_validation_response diff ts b64 uid obj v = Ret (Inr r) \<Longrightarrow>
   resp_status r = expected_status v obj"
  by (cases "vr_mutated_object v"; cases obj)
    (auto simp: from_policy_validation_response_def patch_of_def expected_status_def
      default_status_def Let_def split: if_splits)

lemma from_response_err:
  "from_policy_validation_response diff ts b64 uid obj v = Ret (Inl e) \<longleftrightarrow>
   (\<exists>old new x. obj = Some old \<and> vr_mutated_object v = Some new \<and> diff old new \<noteq> [] \<and>
      ts (diff old new) = Inl x \<and> e = ResponseDeserialize x)"
proof (cases "obj = None \<or> vr_mutated_object v = None")
  case True
  then show ?thesis
    by (auto simp: from_policy_validation_response_def patch_of_def)
next
  case False
  then obtain old new where on: "obj = Some old" "vr_mutated_object v = Some new" by auto
  show ?thesis
    by (cases "diff old new = []"; cases "ts (diff old new)")
      (auto simp: on from_policy_validation_response_def patch_of_def Let_def)
qed



end
