(* ===== verification/ResponseHandler.thy ===== *)
theory ResponseHandler
  imports Response
begin

text \<open>
  \<open>src/admission_response_handler.rs\<close> and its modules \<open>policy_id\<close>, \<open>policy_mode\<close> and \<open>errors\<close>:
  the constraints the server applies to the response of a policy before it is sent. The three
  passes share a contract, the locale \<^theory_text>\<open>response_pass\<close>; the facts about the whole handler
  come from the composition of the passes.
\<close>

subsection \<open>Policy identifiers\<close>

datatype PolicyID = Policy string | PolicyGroupPolicy (pid_group: string) (pid_name: string)

datatype EvaluationError =
    InvalidPolicyId string
  | PolicyInitialization string
  | PolicyNotFound string
  | BootstrapFailure string
  | WebAssemblyError string
  | CannotRehydratePolicyGroup string

fun display_evaluation_error :: "EvaluationError \<Rightarrow> string" where
  "display_evaluation_error (InvalidPolicyId s) = ''Not a valid Policy ID: '' @ s"
| "display_evaluation_error (PolicyInitialization s) = s"
| "display_evaluation_error (PolicyNotFound s) = ''unknown policy: '' @ s"
| "display_evaluation_error (BootstrapFailure s) = ''bootstrap failure: '' @ s"
| "display_evaluation_error (WebAssemblyError s) = ''WebAssembly failure: '' @ s"
| "display_evaluation_error (CannotRehydratePolicyGroup s) =
     ''Attempted to rehydrated policy group '' @ squote @ s @ squote"

fun display_policy_id :: "PolicyID \<Rightarrow> string" where
  "display_policy_id (Policy name) = name"
| "display_policy_id (PolicyGroupPolicy grp name) = grp @ ''/'' @ name"

definition policy_id_from_str :: "string \<Rightarrow> EvaluationError + PolicyID" where
  "policy_id_from_str s =
     (if s = [] then Inl (InvalidPolicyId s)
      else (case split_on (CHR ''/'') s of
              [_] \<Rightarrow> Inr (Policy s)
            | [grp, name] \<Rightarrow> Inr (PolicyGroupPolicy grp name)
            | _ \<Rightarrow> Inl (InvalidPolicyId s)))"

fun policy_id_wf :: "PolicyID \<Rightarrow> bool" where
  "policy_id_wf (Policy name) \<longleftrightarrow> name \<noteq> [] \<and> CHR ''/'' \<notin> set name"
| "policy_id_wf (PolicyGroupPolicy grp name) \<longleftrightarrow> CHR ''/'' \<notin> set grp \<and> CHR ''/'' \<notin> set name"

lemma policy_id_print_parse: "policy_id_wf p \<Longrightarrow> policy_id_from_str (display_policy_id p) = Inr p"
  by (cases p) (simp_all add: policy_id_from_str_def split_on_none split_on_append)

lemma policy_id_parse_print:
  assumes "policy_id_from_str s = Inr p"
  shows "display_policy_id p = s \<and> policy_id_wf p"
proof -
  have s: "s \<noteq> []" and parts: "split_on (CHR ''/'') s \<noteq> []"
    using assms by (auto simp: policy_id_from_str_def)
  from parts obtain a as where as: "split_on (CHR ''/'') s = a # as"
    by (cases "split_on (CHR ''/'') s") auto
  have join: "join_with ''/'' (split_on (CHR ''/'') s) = s" by (rule join_split_on)
  have free: "\<forall>q \<in> set (split_on (CHR ''/'') s). CHR ''/'' \<notin> set q"
    using split_on_pieces by blast
  show ?thesis
    using assms s as join free
    by (auto simp: policy_id_from_str_def split: list.splits)
qed

lemma policy_id_parse_iff:
  "(\<exists>p. policy_id_from_str s = Inr p) \<longleftrightarrow> s \<noteq> [] \<and> length (filter (\<lambda>c. c = CHR ''/'') s) \<le> 1"
  using split_on_length [of "CHR ''/''" s]
  by (auto simp: policy_id_from_str_def split: list.splits)

subsection \<open>Policy mode\<close>

datatype PolicyMode = Monitor | Protect

fun policy_mode_to_string :: "PolicyMode \<Rightarrow> string" where
  "policy_mode_to_string Monitor = ''monitor''"
| "policy_mode_to_string Protect = ''protect''"

datatype PolicyModeSdk = SdkProtect | SdkMonitor

fun policy_mode_from :: "PolicyModeSdk \<Rightarrow> PolicyMode" where
  "policy_mode_from SdkProtect = Protect"
| "policy_mode_from SdkMonitor = Monitor"

subsection \<open>The handler\<close>

record AdmissionResponseHandler =
  h_policy_id :: PolicyID
  h_policy_mode :: PolicyMode
  h_allowed_to_mutate :: bool
  h_custom_rejection_message :: "string option"

definition handler_new ::
  "PolicyID \<Rightarrow> PolicyMode \<Rightarrow> bool \<Rightarrow> string option \<Rightarrow> AdmissionResponseHandler" where
  "handler_new policy_id policy_mode allowed_to_mutate custom_rejection_message =
     \<lparr>h_policy_id = policy_id, h_policy_mode = policy_mode,
      h_allowed_to_mutate = allowed_to_mutate,
      h_custom_rejection_message = custom_rejection_message\<rparr>"

definition rejection_message_because_policy_is_not_allowed_to_mutate :: "PolicyID \<Rightarrow> string" where
  "rejection_message_because_policy_is_not_allowed_to_mutate policy_id =
     ''Request rejected by policy '' @ display_policy_id policy_id @
     ''. The policy attempted to mutate the request, but it is currently configured to not allow mutations.''"

definition apply_monitor_mode ::
  "AdmissionResponseHandler \<Rightarrow> AdmissionResponse \<Rightarrow> AdmissionResponse" where
  "apply_monitor_mode self admission_response =
     (if h_policy_mode self \<noteq> Monitor then admission_response
      else admission_response\<lparr>resp_allowed := True, resp_patch_type := None,
             resp_patch := None, resp_status := None\<rparr>)"

definition apply_mutation_constraint ::
  "AdmissionResponseHandler \<Rightarrow> AdmissionResponse \<Rightarrow> AdmissionResponse" where
  "apply_mutation_constraint self admission_response =
     (if h_policy_mode self \<noteq> Protect then admission_response
      else if h_allowed_to_mutate self then admission_response
      else if resp_patch admission_response = None then admission_response
      else admission_response\<lparr>
        resp_allowed := False,
        resp_status := Some (default_status\<lparr>
          st_message := Some (rejection_message_because_policy_is_not_allowed_to_mutate (h_policy_id self)),
          st_code := None\<rparr>),
        resp_patch := None,
        resp_patch_type := None\<rparr>)"

definition apply_custom_rejection_message ::
  "AdmissionResponseHandler \<Rightarrow> AdmissionResponse \<Rightarrow> AdmissionResponse" where
  "apply_custom_rejection_message self admission_response =
     (if resp_allowed admission_response then admission_response
      else if h_custom_rejection_message self = None then admission_response
      else
        (let status = unwrap_or default_status (resp_status admission_response);
             original_rejection_message = unwrap_or [] (st_message status);
             causes = sd_causes (unwrap_or default_details (st_details status))
               @ [default_cause\<lparr>sc_message := Some original_rejection_message\<rparr>]
         in admission_response\<lparr>resp_status := Some (status\<lparr>
              st_message := h_custom_rejection_message self,
              st_details := Some ((unwrap_or default_details (st_details status))\<lparr>sd_causes := causes\<rparr>)\<rparr>)\<rparr>))"

definition process_response ::
  "AdmissionResponseHandler \<Rightarrow> AdmissionResponse \<Rightarrow> AdmissionResponse" where
  "process_response self admission_response =
     (let admission_response = apply_monitor_mode self admission_response;
          admission_response = apply_mutation_constraint self admission_response
      in apply_custom_rejection_message self admission_response)"

subsection \<open>The contract of a pass\<close>

text \<open>
  A pass never touches the uid, the warnings and the audit annotations, and it either keeps the
  patch with its type or drops both.
\<close>

locale response_pass =
  fixes pass :: "AdmissionResponse \<Rightarrow> AdmissionResponse"
  assumes pass_uid: "resp_uid (pass r) = resp_uid r"
    and pass_warnings: "resp_warnings (pass r) = resp_warnings r"
    and pass_audit: "resp_audit_annotations (pass r) = resp_audit_annotations r"
    and pass_patch: "resp_patch (pass r) = resp_patch r \<and> resp_patch_type (pass r) = resp_patch_type r
      \<or> resp_patch (pass r) = None \<and> resp_patch_type (pass r) = None"
begin

lemma pass_wf: "patch_wf r \<Longrightarrow> patch_wf (pass r)"
  using pass_patch [of r] by (auto simp: patch_wf_def)

lemma pass_no_new_patch: "resp_patch (pass r) = Some p \<Longrightarrow> resp_patch r = Some p"
  using pass_patch [of r] by auto

end

locale pass_chain = first: response_pass f + second: response_pass g
  for f g :: "AdmissionResponse \<Rightarrow> AdmissionResponse"

sublocale pass_chain \<subseteq> chain: response_pass "\<lambda>r. g (f r)"
proof
  fix r
  show "resp_uid (g (f r)) = resp_uid r"
    by (simp add: first.pass_uid second.pass_uid)
  show "resp_warnings (g (f r)) = resp_warnings r"
    by (simp add: first.pass_warnings second.pass_warnings)
  show "resp_audit_annotations (g (f r)) = resp_audit_annotations r"
    by (simp add: first.pass_audit second.pass_audit)
  show "resp_patch (g (f r)) = resp_patch r \<and> resp_patch_type (g (f r)) = resp_patch_type r
      \<or> resp_patch (g (f r)) = None \<and> resp_patch_type (g (f r)) = None"
    using first.pass_patch [of r] second.pass_patch [of "f r"] by auto
qed

interpretation monitor: response_pass "apply_monitor_mode h" for h
  by unfold_locales (auto simp: apply_monitor_mode_def)

interpretation mutation: response_pass "apply_mutation_constraint h" for h
  by unfold_locales (auto simp: apply_mutation_constraint_def)

interpretation custom: response_pass "apply_custom_rejection_message h" for h
  by unfold_locales (auto simp: apply_custom_rejection_message_def Let_def)

interpretation constraints: pass_chain "apply_monitor_mode h" "apply_mutation_constraint h" for h
  by unfold_locales

interpretation handler: pass_chain
  "\<lambda>r. apply_mutation_constraint h (apply_monitor_mode h r)" "apply_custom_rejection_message h" for h
  by unfold_locales

lemma process_response_chain:
  "process_response h r =
     apply_custom_rejection_message h (apply_mutation_constraint h (apply_monitor_mode h r))"
  by (simp add: process_response_def)

lemmas process_keeps = handler.chain.pass_uid [folded process_response_chain]
  handler.chain.pass_warnings [folded process_response_chain]
  handler.chain.pass_audit [folded process_response_chain]
  and process_wf = handler.chain.pass_wf [folded process_response_chain]
  and process_no_new_patch = handler.chain.pass_no_new_patch [folded process_response_chain]

lemma handler_new_simps [simp]:
  "h_policy_id (handler_new i m a c) = i" "h_policy_mode (handler_new i m a c) = m"
  "h_allowed_to_mutate (handler_new i m a c) = a" "h_custom_rejection_message (handler_new i m a c) = c"
  by (simp_all add: handler_new_def)

lemma custom_allowed [simp]: "resp_allowed (apply_custom_rejection_message h r) = resp_allowed r"
  "resp_patch (apply_custom_rejection_message h r) = resp_patch r"
  "resp_patch_type (apply_custom_rejection_message h r) = resp_patch_type r"
  by (simp_all add: apply_custom_rejection_message_def Let_def)

lemma custom_none [simp]:
  "h_custom_rejection_message h = None \<Longrightarrow> apply_custom_rejection_message h r = r"
  by (simp add: apply_custom_rejection_message_def)

lemma process_monitor:
  "h_policy_mode h = Monitor \<Longrightarrow> resp_allowed (process_response h r) \<and> resp_patch (process_response h r) = None"
  by (simp add: process_response_def apply_monitor_mode_def apply_mutation_constraint_def)

lemma process_protect:
  "h_policy_mode h = Protect \<Longrightarrow>
     resp_allowed (process_response h r) = (resp_allowed r \<and> (h_allowed_to_mutate h \<or> resp_patch r = None)) \<and>
     resp_patch (process_response h r) = (if h_allowed_to_mutate h then resp_patch r else None)"
  by (auto simp: process_response_def apply_monitor_mode_def apply_mutation_constraint_def)

subsection \<open>Properties\<close>

text \<open>C26: a policy in monitor mode never blocks or changes a request. Whatever the policy answered,
  the processed response allows the request, carries no patch and no status, and keeps the uid,
  the warnings and the audit annotations.\<close>

theorem monitor_mode_allows:
  "process_response (handler_new pid Monitor mutates message) r =
     r\<lparr>resp_allowed := True, resp_patch_type := None, resp_patch := None, resp_status := None\<rparr>"
  by (simp add: process_response_def apply_monitor_mode_def apply_mutation_constraint_def
      apply_custom_rejection_message_def)

text \<open>C9: in protect mode a policy that may not mutate cannot get a patch through, and its attempt
  turns the response into a rejection that names the policy; all other verdicts are kept.\<close>

theorem protect_mode_verdict:
  "let r' = process_response (handler_new pid Protect mutates message) r in
     (resp_allowed r' \<longleftrightarrow> resp_allowed r \<and> (mutates \<or> resp_patch r = None)) \<and>
     resp_patch r' = (if mutates then resp_patch r else None) \<and>
     (if mutates \<or> resp_patch r = None then resp_patch_type r' = resp_patch_type r
      else resp_patch_type r' = None \<and>
        process_response (handler_new pid Protect mutates None) r =
          r\<lparr>resp_allowed := False, resp_patch_type := None, resp_patch := None,
            resp_status := Some (default_status\<lparr>st_message :=
              Some (rejection_message_because_policy_is_not_allowed_to_mutate pid)\<rparr>)\<rparr>)"
  by (cases r) (auto simp: process_response_def Let_def apply_monitor_mode_def
      apply_mutation_constraint_def default_status_def)

text \<open>A custom rejection message replaces the message of a rejection and of nothing else: the
  response is the one produced without it, except that, when it is a rejection, the status has the
  custom message and the replaced message is appended to the causes already listed.\<close>

theorem custom_message_override:
  "let base = process_response (handler_new pid mode mutates None) r;
       st = unwrap_or default_status (resp_status base);
       d = unwrap_or default_details (st_details st)
   in process_response (handler_new pid mode mutates (Some m)) r =
        (if resp_allowed base then base
         else base\<lparr>resp_status := Some (st\<lparr>st_message := Some m,
           st_details := Some (d\<lparr>sd_causes := sd_causes d @
             [default_cause\<lparr>sc_message := Some (unwrap_or [] (st_message st))\<rparr>]\<rparr>)\<rparr>)\<rparr>)"
proof -
  have "apply_custom_rejection_message (handler_new pid mode mutates None) r' = r'" for r'
    by (simp add: apply_custom_rejection_message_def)
  moreover have "apply_monitor_mode (handler_new pid mode mutates (Some m)) r' =
      apply_monitor_mode (handler_new pid mode mutates None) r'"
    "apply_mutation_constraint (handler_new pid mode mutates (Some m)) r' =
      apply_mutation_constraint (handler_new pid mode mutates None) r'" for r'
    by (simp_all add: apply_monitor_mode_def apply_mutation_constraint_def)
  ultimately show ?thesis
    by (simp add: process_response_def Let_def
        apply_custom_rejection_message_def [of "handler_new pid mode mutates (Some m)"])
qed

text \<open>The handler of any policy answers the request it was given, keeps the warnings and the
  audit annotations, and sends either the patch of the policy with its type or neither.\<close>

theorem handler_preserves:
  "resp_uid (process_response h r) = resp_uid r \<and>
   resp_warnings (process_response h r) = resp_warnings r \<and>
   resp_audit_annotations (process_response h r) = resp_audit_annotations r \<and>
   (resp_patch (process_response h r), resp_patch_type (process_response h r))
     \<in> {(None, None), (resp_patch r, resp_patch_type r)}"
  using process_keeps [of h r] handler.chain.pass_patch [of h r, folded process_response_chain]
  by auto

text \<open>Parsing a policy identifier inverts printing it. A string parses exactly when it is
  the printed form of a well-formed identifier: a non-empty name without slash, or a group and a
  member name without slashes.\<close>

theorem policy_id_roundtrip:
  "policy_id_from_str s = Inr p \<longleftrightarrow> display_policy_id p = s \<and> policy_id_wf p"
  using policy_id_print_parse policy_id_parse_print by blast

end
