(* ===== verification/EvalContext.thy ===== *)
theory EvalContext
  imports Metadata
begin

text \<open>
  \<open>src/callback_requests.rs\<close>, \<open>src/evaluation_context.rs\<close> and \<open>src/policy_tracing.rs\<close>: the
  requests that synchronous code sends to the asynchronous side of the host, the context a policy
  is evaluated in, and the log events of policies.

  The two ends of the callback channel are threads. The synchronous side sends one request and
  blocks on its answer, so what it can observe of the other side is one \<^theory_text>\<open>reply\<close> per
  request; a \<^theory_text>\<open>peer\<close> chooses it from the requests sent before and the present one.
\<close>

subsection \<open>Requests\<close>

type_synonym annotations = "(string, string) btmap option"

text \<open>Types of the policy SDK that the requests carry.\<close>

datatype CertificateEncoding = Der | Pem

record Certificate =
  cert_encoding :: CertificateEncoding
  cert_data :: bytes

record CertificateVerificationRequest =
  cvr_cert :: Certificate
  cvr_cert_chain :: "Certificate list option"
  cvr_not_after :: "string option"

record KeylessInfo =
  keyless_issuer :: string
  keyless_subject :: string

record KeylessPrefixInfo =
  keyless_prefix_issuer :: string
  keyless_prefix_url_prefix :: string

datatype SubjectAccessReview = SubjectAccessReview json

type_synonym instant = nat

datatype CallbackRequestType =
    OciManifestDigest string
  | OciManifest string
  | OciManifestAndConfig string
  | SigstorePubKeyVerify string "string list" annotations
  | SigstoreKeylessVerify string "KeylessInfo list" annotations
  | SigstoreKeylessPrefixVerify string "KeylessPrefixInfo list" annotations
  | SigstoreGithubActionsVerify string string "string option" annotations
  | SigstoreCertificateVerify string bytes "bytes list option" bool annotations
  | DNSLookupHost string
  | KubernetesListResourceNamespace string string string "string option" "string option"
  | KubernetesListResourceAll string string "string option" "string option"
  | KubernetesGetResource string string string "string option" bool
  | KubernetesGetResourcePluralName string string
  | HasKubernetesListResourceAllResultChangedSinceInstant string string "string option" "string option" instant
  | KubernetesCanI SubjectAccessReview bool
  | CryptoIsCertificateTrusted CertificateVerificationRequest

text \<open>The requests of the policy SDK and their conversions.\<close>

datatype SigstoreVerificationInputV2 =
    V2PubKeyVerify string "string list" annotations
  | V2KeylessVerify string "KeylessInfo list" annotations
  | V2KeylessPrefixVerify string "KeylessPrefixInfo list" annotations
  | V2GithubActionsVerify string string "string option" annotations
  | V2CertificateVerify string bytes "bytes list option" bool annotations

datatype SigstoreVerificationInputV1 =
    V1PubKeyVerify string "string list" annotations
  | V1KeylessVerify string "KeylessInfo list" annotations

record ListResourcesByNamespaceRequest =
  ln_api_version :: string
  ln_kind :: string
  ln_namespace :: string
  ln_label_selector :: "string option"
  ln_field_selector :: "string option"

record ListAllResourcesRequest =
  la_api_version :: string
  la_kind :: string
  la_label_selector :: "string option"
  la_field_selector :: "string option"

record GetResourceRequest =
  gr_api_version :: string
  gr_kind :: string
  gr_name :: string
  gr_namespace :: "string option"
  gr_disable_cache :: bool

record CanIRequest =
  ci_subject_access_review :: SubjectAccessReview
  ci_disable_cache :: bool

fun request_from_v2 :: "SigstoreVerificationInputV2 \<Rightarrow> CallbackRequestType" where
  "request_from_v2 (V2PubKeyVerify img pub_keys anns) = SigstorePubKeyVerify img pub_keys anns"
| "request_from_v2 (V2KeylessVerify img keyless anns) = SigstoreKeylessVerify img keyless anns"
| "request_from_v2 (V2KeylessPrefixVerify img keyless_prefix anns) =
     SigstoreKeylessPrefixVerify img keyless_prefix anns"
| "request_from_v2 (V2GithubActionsVerify img owner repo anns) =
     SigstoreGithubActionsVerify img owner repo anns"
| "request_from_v2 (V2CertificateVerify img certificate certificate_chain require_rekor_bundle anns) =
     SigstoreCertificateVerify img certificate certificate_chain require_rekor_bundle anns"

fun request_from_v1 :: "SigstoreVerificationInputV1 \<Rightarrow> CallbackRequestType" where
  "request_from_v1 (V1PubKeyVerify img pub_keys anns) = SigstorePubKeyVerify img pub_keys anns"
| "request_from_v1 (V1KeylessVerify img keyless anns) = SigstoreKeylessVerify img keyless anns"

definition request_from_list_namespace :: "ListResourcesByNamespaceRequest \<Rightarrow> CallbackRequestType" where
  "request_from_list_namespace req = KubernetesListResourceNamespace (ln_api_version req)
     (ln_kind req) (ln_namespace req) (ln_label_selector req) (ln_field_selector req)"

definition request_from_list_all :: "ListAllResourcesRequest \<Rightarrow> CallbackRequestType" where
  "request_from_list_all req = KubernetesListResourceAll (la_api_version req) (la_kind req)
     (la_label_selector req) (la_field_selector req)"

definition request_from_get_resource :: "GetResourceRequest \<Rightarrow> CallbackRequestType" where
  "request_from_get_resource req = KubernetesGetResource (gr_api_version req) (gr_kind req)
     (gr_name req) (gr_namespace req) (gr_disable_cache req)"

definition request_from_can_i :: "CanIRequest \<Rightarrow> CallbackRequestType" where
  "request_from_can_i req = KubernetesCanI (ci_subject_access_review req) (ci_disable_cache req)"

definition request_from_certificate :: "CertificateVerificationRequest \<Rightarrow> CallbackRequestType" where
  "request_from_certificate req = CryptoIsCertificateTrusted req"

text \<open>
  \<open>tokio_instant_serializer\<close>: an instant is written as the time elapsed since it and read back
  relative to the present; times are counted from the start of the clock.
\<close>

definition instant_serialize :: "instant \<Rightarrow> instant \<Rightarrow> nat" where
  "instant_serialize now instant = now - instant"

definition instant_deserialize :: "instant \<Rightarrow> string + nat \<Rightarrow> string + instant" where
  "instant_deserialize now r =
     bind_result r (\<lambda>duration.
       if duration \<le> now then Inr (now - duration) else Inl ''Error checked_sub'')"

lemma instant_roundtrip:
  "i \<le> t \<Longrightarrow> t \<le> t' \<Longrightarrow> instant_deserialize t' (Inr (instant_serialize t i)) = Inr (i + (t' - t))"
  by (auto simp: instant_deserialize_def instant_serialize_def)

subsection \<open>The evaluation context\<close>

text \<open>An error of a library, of which the code uses the \<open>Display\<close> and \<open>Debug\<close> texts.\<close>

record lib_error =
  le_display :: string
  le_debug :: string

datatype reply = SendError lib_error | Dropped | Answer "lib_error + bytes"

type_synonym peer = "CallbackRequestType list \<Rightarrow> CallbackRequestType \<Rightarrow> reply"

record EvaluationContext =
  ctx_policy_id :: string
  ctx_callback_channel :: "peer option"
  ctx_aware_resources_allow_list :: "ContextAwareResource btset"
  ctx_epoch_deadline :: "u64 option"

definition can_access_kubernetes_resource :: "EvaluationContext \<Rightarrow> string \<Rightarrow> string \<Rightarrow> bool" where
  "can_access_kubernetes_resource self api_version kind =
     (let wanted_resource = ContextAwareResource api_version kind
      in wanted_resource \<in> set (ctx_aware_resources_allow_list self))"

definition debug_resource :: "ContextAwareResource \<Rightarrow> string" where
  "debug_resource r = ''ContextAwareResource { api_version: '' @ debug_str (car_api_version r) @
     '', kind: '' @ debug_str (car_kind r) @ '' }''"

definition debug_evaluation_context :: "EvaluationContext \<Rightarrow> string" where
  "debug_evaluation_context self =
     ''EvaluationContext { policy_id: '' @ [dquote] @ ctx_policy_id self @ [dquote] @
     '', callback_channel: '' @
     (case ctx_callback_channel self of Some _ \<Rightarrow> ''Some(...)'' | None \<Rightarrow> ''None'') @
     '', allowed_kubernetes_resources: {'' @
     join_with '', '' (map debug_resource (ctx_aware_resources_allow_list self)) @ ''} }''"

text \<open>
  What the host keeps while synchronous code runs: the requests sent over the callback channel,
  oldest first, and the events logged for the policy.
\<close>

datatype PolicyLogEntryLevel = LevelTrace | LevelDebug | LevelInfo | LevelWarning | LevelError

record PolicyLogEntry =
  log_level :: PolicyLogEntryLevel
  log_message :: "string option"
  log_data :: "json_map option"

record host_state =
  hs_sent :: "CallbackRequestType list"
  hs_events :: "(PolicyLogEntryLevel \<times> json \<times> string) list"

definition host_init :: host_state where
  "host_init = \<lparr>hs_sent = [], hs_events = []\<rparr>"

subsection \<open>Log events\<close>

text \<open>\<open>to_uppercase\<close> of Unicode strings is the parameter \<open>upper\<close>.\<close>

definition log_level_deserialize :: "(string \<Rightarrow> string) \<Rightarrow> string \<Rightarrow> string + PolicyLogEntryLevel" where
  "log_level_deserialize upper s =
     (let u = upper s in
      if u = ''TRACE'' then Inr LevelTrace
      else if u = ''DEBUG'' then Inr LevelDebug
      else if u = ''INFO'' then Inr LevelInfo
      else if u = ''WARNING'' then Inr LevelWarning
      else if u = ''ERROR'' then Inr LevelError
      else Inl (''unknown log level '' @ s))"

text \<open>
  The derived deserialization of an entry: the level is required, the message is optional, and the
  flattened \<open>data\<close> takes the remaining members.
\<close>

fun log_entry_from_json :: "(string \<Rightarrow> string) \<Rightarrow> json \<Rightarrow> string + PolicyLogEntry" where
  "log_entry_from_json upper (Object m) =
     bind_result (case bt_get m ''level'' of
         Some (String s) \<Rightarrow> log_level_deserialize upper s
       | Some _ \<Rightarrow> Inl ''invalid type: expected a string''
       | None \<Rightarrow> Inl ''missing field level'') (\<lambda>level.
     bind_result (case bt_get m ''message'' of
         Some (String s) \<Rightarrow> Inr (Some s)
       | Some Null \<Rightarrow> Inr None
       | Some _ \<Rightarrow> Inl ''invalid type: expected a string''
       | None \<Rightarrow> Inr None) (\<lambda>message.
     Inr \<lparr>log_level = level, log_message = message,
       log_data = Some (filter (\<lambda>(k, v). k \<noteq> ''level'' \<and> k \<noteq> ''message'') m)\<rparr>))"
| "log_entry_from_json upper _ = Inl ''invalid type: expected a map''"

definition policy_log ::
  "(string \<Rightarrow> string) \<Rightarrow> string + json \<Rightarrow> host_state \<Rightarrow> ((string + unit) \<times> host_state) exec" where
  "policy_log upper contents st =
     (case bind_result contents (log_entry_from_json upper) of
        Inl e \<Rightarrow> Ret (Inl e, st)
      | Inr entry \<Rightarrow>
          (case log_data entry of
             None \<Rightarrow> Panic ''called Option::unwrap() on a None value''
           | Some data \<Rightarrow> Ret (Inr (), st\<lparr>hs_events := hs_events st @
               [(log_level entry, Object data, unwrap_or [] (log_message entry))]\<rparr>)))"

lemma log_entry_data: "log_entry_from_json upper j = Inr e \<Longrightarrow> log_data e \<noteq> None"
  by (cases "(upper, j)" rule: log_entry_from_json.cases) auto

lemma policy_log_no_panic: "no_panic (policy_log upper contents st)"
proof (cases "bind_result contents (log_entry_from_json upper)")
  case (Inr e)
  then have "log_data e \<noteq> None" using log_entry_data by auto
  with Inr show ?thesis by (auto simp: policy_log_def)
qed (simp add: policy_log_def)

lemma policy_log_sent:
  "policy_log upper contents st = Ret (r, st') \<Longrightarrow> hs_sent st' = hs_sent st"
  by (auto simp: policy_log_def split: sum.splits option.splits)

end
