(* ===== verification/HostCallback.thy ===== *)
theory HostCallback
  imports EvalContext
begin

text \<open>
  \<open>src/runtimes/callback.rs\<close>: the host callback of waPC and WASI policies. It decodes the payload,
  checks the allow list where the code does, sends at most one request over the callback channel
  and waits for its answer. A Rust match on binding, namespace and operation is split by
  namespace, one definition each; the \<^theory_text>\<open>codec\<close> holds the deserializers of the request types
  (\<^theory_text>\<open>serde_json::from_slice\<close>).
\<close>

record codec =
  de_verify_v1 :: "bytes \<Rightarrow> string + SigstoreVerificationInputV1"
  de_verify_v2 :: "bytes \<Rightarrow> string + SigstoreVerificationInputV2"
  de_string :: "bytes \<Rightarrow> string + string"
  de_certificate :: "bytes \<Rightarrow> string + CertificateVerificationRequest"
  de_list_namespace :: "bytes \<Rightarrow> string + ListResourcesByNamespaceRequest"
  de_list_all :: "bytes \<Rightarrow> string + ListAllResourcesRequest"
  de_get_resource :: "bytes \<Rightarrow> string + GetResourceRequest"
  de_can_i :: "bytes \<Rightarrow> string + CanIRequest"
  de_json :: "bytes \<Rightarrow> string + json"
  to_upper :: "string \<Rightarrow> string"

type_synonym host_result = "((string + bytes) \<times> host_state) exec"

definition unknown_operation :: "string \<Rightarrow> string \<Rightarrow> string + bytes" where
  "unknown_operation ns op = Inl (''unknown operation: '' @ op)"

definition unknown_namespace :: "string \<Rightarrow> string + bytes" where
  "unknown_namespace ns = Inl (''unknown namespace: '' @ ns)"

definition send_request_and_wait_for_response ::
  "EvaluationContext \<Rightarrow> CallbackRequestType \<Rightarrow> host_state \<Rightarrow> (string + bytes) \<times> host_state" where
  "send_request_and_wait_for_response eval_ctx req st =
     (case ctx_callback_channel eval_ctx of
        None \<Rightarrow> (Inl ''Cannot process Wasm guest request: callback channel not provided'', st)
      | Some cb_channel \<Rightarrow>
          (case cb_channel (hs_sent st) req of
             SendError e \<Rightarrow> (Inl (''Error sending request over callback channel: '' @ le_debug e), st)
           | Dropped \<Rightarrow> (Inl ''Error obtaining response over callback channel'',
                          st\<lparr>hs_sent := hs_sent st @ [req]\<rparr>)
           | Answer (Inr payload) \<Rightarrow> (Inr payload, st\<lparr>hs_sent := hs_sent st @ [req]\<rparr>)
           | Answer (Inl e) \<Rightarrow> (Inl (''Callback evaluation failure: '' @ le_debug e),
                          st\<lparr>hs_sent := hs_sent st @ [req]\<rparr>)))"

text \<open>Decode the payload, then send the request made from it.\<close>

definition decode_and_send ::
  "EvaluationContext \<Rightarrow> string + 'r \<Rightarrow> ('r \<Rightarrow> CallbackRequestType) \<Rightarrow> host_state
   \<Rightarrow> (string + bytes) \<times> host_state" where
  "decode_and_send eval_ctx decoded into st =
     (case decoded of
        Inl e \<Rightarrow> (Inl e, st)
      | Inr req \<Rightarrow> send_request_and_wait_for_response eval_ctx (into req) st)"

definition access_denied :: "string \<Rightarrow> string \<Rightarrow> string" where
  "access_denied api_version kind =
     ''Policy has not been granted access to Kubernetes '' @ api_version @ ''/'' @ kind @
     '' resources. The violation has been reported.''"

text \<open>The same with the check of the allow list between the two.\<close>

definition guard_and_send ::
  "EvaluationContext \<Rightarrow> string + 'r \<Rightarrow> ('r \<Rightarrow> string) \<Rightarrow> ('r \<Rightarrow> string) \<Rightarrow> ('r \<Rightarrow> CallbackRequestType)
   \<Rightarrow> host_state \<Rightarrow> (string + bytes) \<times> host_state" where
  "guard_and_send eval_ctx decoded api_version kind into st =
     (case decoded of
        Inl e \<Rightarrow> (Inl e, st)
      | Inr req \<Rightarrow>
          if \<not> can_access_kubernetes_resource eval_ctx (api_version req) (kind req)
          then (Inl (access_denied (api_version req) (kind req)), st)
          else send_request_and_wait_for_response eval_ctx (into req) st)"

definition tracing_callback :: "codec \<Rightarrow> string \<Rightarrow> string \<Rightarrow> bytes \<Rightarrow> host_state \<Rightarrow> host_result" where
  "tracing_callback c ns op payload st =
     (if op = ''log'' then
        bind_exec (policy_log (to_upper c) (de_json c payload) st) (\<lambda>(r, st'). Ret (Inr [], st'))
      else Ret (unknown_operation ns op, st))"

definition oci_callback ::
  "codec \<Rightarrow> EvaluationContext \<Rightarrow> string \<Rightarrow> string \<Rightarrow> bytes \<Rightarrow> host_state \<Rightarrow> (string + bytes) \<times> host_state" where
  "oci_callback c eval_ctx ns op payload st =
     (if op = ''v1/verify'' then decode_and_send eval_ctx (de_verify_v1 c payload) request_from_v1 st
      else if op = ''v2/verify'' then decode_and_send eval_ctx (de_verify_v2 c payload) request_from_v2 st
      else if op = ''v1/manifest_digest'' then decode_and_send eval_ctx (de_string c payload) OciManifestDigest st
      else if op = ''v1/oci_manifest'' then decode_and_send eval_ctx (de_string c payload) OciManifest st
      else if op = ''v1/oci_manifest_config''
        then decode_and_send eval_ctx (de_string c payload) OciManifestAndConfig st
      else (unknown_operation ns op, st))"

definition net_callback ::
  "codec \<Rightarrow> EvaluationContext \<Rightarrow> string \<Rightarrow> string \<Rightarrow> bytes \<Rightarrow> host_state \<Rightarrow> (string + bytes) \<times> host_state" where
  "net_callback c eval_ctx ns op payload st =
     (if op = ''v1/dns_lookup_host'' then decode_and_send eval_ctx (de_string c payload) DNSLookupHost st
      else (unknown_operation ns op, st))"

definition crypto_callback ::
  "codec \<Rightarrow> EvaluationContext \<Rightarrow> string \<Rightarrow> string \<Rightarrow> bytes \<Rightarrow> host_state \<Rightarrow> (string + bytes) \<times> host_state" where
  "crypto_callback c eval_ctx ns op payload st =
     (if op = ''v1/is_certificate_trusted''
      then decode_and_send eval_ctx (de_certificate c payload) request_from_certificate st
      else (unknown_operation ns op, st))"

definition kubernetes_callback ::
  "codec \<Rightarrow> EvaluationContext \<Rightarrow> string \<Rightarrow> string \<Rightarrow> bytes \<Rightarrow> host_state \<Rightarrow> (string + bytes) \<times> host_state" where
  "kubernetes_callback c eval_ctx ns op payload st =
     (if op = ''list_resources_by_namespace''
        then guard_and_send eval_ctx (de_list_namespace c payload) ln_api_version ln_kind
               request_from_list_namespace st
      else if op = ''list_resources_all''
        then guard_and_send eval_ctx (de_list_all c payload) la_api_version la_kind
               request_from_list_all st
      else if op = ''get_resource''
        then guard_and_send eval_ctx (de_get_resource c payload) gr_api_version gr_kind
               request_from_get_resource st
      else if op = ''can_i''
        then decode_and_send eval_ctx (de_can_i c payload) request_from_can_i st
      else (unknown_operation ns op, st))"

text \<open>The deprecated \<open>ClusterContext\<close> queries of the binding \<open>kubernetes\<close>.\<close>

definition list_all_ingresses :: CallbackRequestType where
  "list_all_ingresses = KubernetesListResourceAll ''networking.k8s.io/v1'' ''Ingress'' None None"

definition list_all_namespaces :: CallbackRequestType where
  "list_all_namespaces = KubernetesListResourceAll ''v1'' ''Namespace'' None None"

definition list_all_services :: CallbackRequestType where
  "list_all_services = KubernetesListResourceAll ''v1'' ''Service'' None None"

definition cluster_context_callback ::
  "EvaluationContext \<Rightarrow> string \<Rightarrow> host_state \<Rightarrow> (string + bytes) \<times> host_state" where
  "cluster_context_callback eval_ctx ns st =
     (if ns = ''ingresses'' then send_request_and_wait_for_response eval_ctx list_all_ingresses st
      else if ns = ''namespaces'' then send_request_and_wait_for_response eval_ctx list_all_namespaces st
      else if ns = ''services'' then send_request_and_wait_for_response eval_ctx list_all_services st
      else (unknown_namespace ns, st))"

definition host_callback ::
  "codec \<Rightarrow> EvaluationContext \<Rightarrow> string \<Rightarrow> string \<Rightarrow> string \<Rightarrow> bytes \<Rightarrow> host_state \<Rightarrow> host_result" where
  "host_callback c eval_ctx binding ns op payload st =
     (if binding = ''kubewarden'' then
        (if ns = ''tracing'' then tracing_callback c ns op payload st
         else if ns = ''oci'' then Ret (oci_callback c eval_ctx ns op payload st)
         else if ns = ''net'' then Ret (net_callback c eval_ctx ns op payload st)
         else if ns = ''crypto'' then Ret (crypto_callback c eval_ctx ns op payload st)
         else if ns = ''kubernetes'' then Ret (kubernetes_callback c eval_ctx ns op payload st)
         else Ret (unknown_namespace ns, st))
      else if binding = ''kubernetes'' then Ret (cluster_context_callback eval_ctx ns st)
      else Ret (Inl (''unknown binding: '' @ binding), st))"

subsection \<open>What is sent\<close>

text \<open>
  The requests a policy may cause: reads of Kubernetes resources on the allow list, the three
  \<^theory_text>\<open>ClusterContext\<close> queries, and any request that is not a read of Kubernetes resources.
\<close>

fun request_granted :: "EvaluationContext \<Rightarrow> CallbackRequestType \<Rightarrow> bool" where
  "request_granted ctx (KubernetesListResourceNamespace a k _ _ _) = can_access_kubernetes_resource ctx a k"
| "request_granted ctx (KubernetesListResourceAll a k l f) =
     (can_access_kubernetes_resource ctx a k \<or>
      KubernetesListResourceAll a k l f \<in> {list_all_ingresses, list_all_namespaces, list_all_services})"
| "request_granted ctx (KubernetesGetResource a k _ _ _) = can_access_kubernetes_resource ctx a k"
| "request_granted ctx (KubernetesGetResourcePluralName _ _) = False"
| "request_granted ctx (HasKubernetesListResourceAllResultChangedSinceInstant _ _ _ _ _) = False"
| "request_granted ctx _ = True"

text \<open>
  Synchronous code that calls the host: it ends with a result, or makes a call and goes on with
  the answer. The Wasm guest of a policy is such a tree, whatever its code is.
\<close>

datatype 'r guest =
    GuestDone 'r
  | GuestCall string string string bytes "string + bytes \<Rightarrow> 'r guest"

primrec run_guest ::
  "(string \<Rightarrow> string \<Rightarrow> string \<Rightarrow> bytes \<Rightarrow> 's \<Rightarrow> ((string + bytes) \<times> 's) exec) \<Rightarrow> 'r guest \<Rightarrow> 's \<Rightarrow> ('r \<times> 's) exec" where
  "run_guest cb (GuestDone r) st = Ret (r, st)"
| "run_guest cb (GuestCall binding ns op payload k) st =
     bind_exec (cb binding ns op payload st) (\<lambda>(r, st'). run_guest cb (k r) st')"

text \<open>The contract of a host callback: it does not panic and sends at most one request, a granted one.\<close>

locale gated_host =
  fixes cb :: "string \<Rightarrow> string \<Rightarrow> string \<Rightarrow> bytes \<Rightarrow> 's \<Rightarrow> ((string + bytes) \<times> 's) exec"
    and sent :: "'s \<Rightarrow> 'q list"
    and granted :: "'q \<Rightarrow> bool"
  assumes cb_sends: "\<exists>r st' qs. cb binding ns op payload st = Ret (r, st') \<and>
    sent st' = sent st @ qs \<and> length qs \<le> 1 \<and> list_all granted qs"
begin

lemma run_sends:
  "\<exists>r st' qs. run_guest cb g st = Ret (r, st') \<and> sent st' = sent st @ qs \<and> list_all granted qs"
proof (induction g arbitrary: st)
  case (GuestDone r)
  then show ?case by simp
next
  case (GuestCall binding ns op payload k)
  obtain a st1 qs where a: "cb binding ns op payload st = Ret (a, st1)"
    "sent st1 = sent st @ qs" "list_all granted qs"
    using cb_sends by blast
  obtain r st2 qs2 where "run_guest cb (k a) st1 = Ret (r, st2)"
    "sent st2 = sent st1 @ qs2" "list_all granted qs2"
    using GuestCall by blast
  with a show ?case by auto
qed

end

text \<open>Every branch of the callback either sends nothing or one request, which it grants.\<close>

definition sends_granted ::
  "EvaluationContext \<Rightarrow> host_state \<Rightarrow> (string + bytes) \<times> host_state \<Rightarrow> bool" where
  "sends_granted ctx st res =
     (\<exists>qs. hs_sent (snd res) = hs_sent st @ qs \<and> length qs \<le> 1 \<and> list_all (request_granted ctx) qs)"

lemma sends_nothing [simp, intro]: "sends_granted ctx st (r, st)"
  by (simp add: sends_granted_def)

lemma send_granted:
  "request_granted ctx q \<Longrightarrow> sends_granted ctx st (send_request_and_wait_for_response ctx q st)"
  by (auto simp: send_request_and_wait_for_response_def sends_granted_def
      split: option.splits reply.splits sum.splits)

lemma decode_and_send_granted:
  "(\<And>r. request_granted ctx (into r)) \<Longrightarrow> sends_granted ctx st (decode_and_send ctx d into st)"
  by (cases d) (simp_all add: decode_and_send_def send_granted)

lemma guard_and_send_granted:
  "(\<And>r. can_access_kubernetes_resource ctx (a r) (k r) \<Longrightarrow> request_granted ctx (into r)) \<Longrightarrow>
   sends_granted ctx st (guard_and_send ctx d a k into st)"
  by (cases d) (auto simp: guard_and_send_def intro: send_granted)

lemma granted_v1: "request_granted ctx (request_from_v1 r)"
  by (cases r) simp_all

lemma granted_v2: "request_granted ctx (request_from_v2 r)"
  by (cases r) simp_all

lemma granted_cluster_context:
  "request_granted ctx list_all_ingresses" "request_granted ctx list_all_namespaces"
  "request_granted ctx list_all_services"
  unfolding list_all_ingresses_def list_all_namespaces_def list_all_services_def request_granted.simps
  by simp_all

lemmas callback_grants = decode_and_send_granted guard_and_send_granted send_granted
  granted_v1 granted_v2 granted_cluster_context

lemma oci_callback_granted: "sends_granted ctx st (oci_callback c ctx ns op payload st)"
  by (simp add: oci_callback_def callback_grants)

lemma net_callback_granted: "sends_granted ctx st (net_callback c ctx ns op payload st)"
  by (simp add: net_callback_def callback_grants)

lemma crypto_callback_granted: "sends_granted ctx st (crypto_callback c ctx ns op payload st)"
  by (simp add: crypto_callback_def callback_grants request_from_certificate_def)

lemma kubernetes_callback_granted: "sends_granted ctx st (kubernetes_callback c ctx ns op payload st)"
  by (simp add: kubernetes_callback_def callback_grants request_from_can_i_def
      request_from_list_namespace_def request_from_list_all_def request_from_get_resource_def)

lemma cluster_context_callback_granted: "sends_granted ctx st (cluster_context_callback ctx ns st)"
  by (simp add: cluster_context_callback_def callback_grants)

lemmas namespace_callbacks_granted = oci_callback_granted net_callback_granted
  crypto_callback_granted kubernetes_callback_granted cluster_context_callback_granted

lemma tracing_callback_sends:
  "\<exists>r st'. tracing_callback c ns op payload st = Ret (r, st') \<and> hs_sent st' = hs_sent st"
proof -
  obtain r st' where "policy_log (to_upper c) (de_json c payload) st = Ret (r, st')"
    using policy_log_no_panic [of "to_upper c" "de_json c payload" st]
    by (cases "policy_log (to_upper c) (de_json c payload) st") auto
  then show ?thesis using policy_log_sent by (auto simp: tracing_callback_def)
qed

lemma host_callback_granted:
  "\<exists>r st'. host_callback c ctx binding ns op payload st = Ret (r, st') \<and> sends_granted ctx st (r, st')"
proof -
  have pure: "\<exists>r st'. res = (r, st') \<and> sends_granted ctx st (r, st')"
    if "sends_granted ctx st res" for res :: "(string + bytes) \<times> host_state"
    using that by (cases res) simp
  have tracing: "\<exists>r st'. tracing_callback c ns op payload st = Ret (r, st') \<and> sends_granted ctx st (r, st')" for ns
    using tracing_callback_sends [of c ns op payload st] by (auto simp: sends_granted_def)
  show ?thesis
    unfolding host_callback_def
    by (simp add: tracing namespace_callbacks_granted [THEN pure])
qed

interpretation host: gated_host "host_callback c ctx" hs_sent "request_granted ctx" for c ctx
proof
  fix binding ns op payload st
  obtain r st' where "host_callback c ctx binding ns op payload st = Ret (r, st')"
    "sends_granted ctx st (r, st')"
    using host_callback_granted by blast
  then show "\<exists>r st' qs. host_callback c ctx binding ns op payload st = Ret (r, st') \<and>
      hs_sent st' = hs_sent st @ qs \<and> length qs \<le> 1 \<and> list_all (request_granted ctx) qs"
    by (auto simp: sends_granted_def)
qed

text \<open>The resource an operation of the namespace \<open>kubernetes\<close> asks for.\<close>

definition requested_resource :: "codec \<Rightarrow> string \<Rightarrow> bytes \<Rightarrow> (string \<times> string) option" where
  "requested_resource c op payload =
     (if op = ''list_resources_by_namespace'' then
        (case de_list_namespace c payload of Inr r \<Rightarrow> Some (ln_api_version r, ln_kind r) | _ \<Rightarrow> None)
      else if op = ''list_resources_all'' then
        (case de_list_all c payload of Inr r \<Rightarrow> Some (la_api_version r, la_kind r) | _ \<Rightarrow> None)
      else if op = ''get_resource'' then
        (case de_get_resource c payload of Inr r \<Rightarrow> Some (gr_api_version r, gr_kind r) | _ \<Rightarrow> None)
      else None)"

text \<open>A context and a codec for closed examples: no resource is granted.\<close>

definition deny_all_context :: EvaluationContext where
  "deny_all_context = \<lparr>ctx_policy_id = ''p'', ctx_callback_channel = Some (\<lambda>sent q. Answer (Inr ''{}'')),
     ctx_aware_resources_allow_list = [], ctx_epoch_deadline = None\<rparr>"

definition example_codec :: codec where
  "example_codec = \<lparr>de_verify_v1 = \<lambda>p. Inl ''json'', de_verify_v2 = \<lambda>p. Inl ''json'',
     de_string = \<lambda>p. Inr p, de_certificate = \<lambda>p. Inl ''json'', de_list_namespace = \<lambda>p. Inl ''json'',
     de_list_all = \<lambda>p. Inl ''json'',
     de_get_resource = \<lambda>p. Inr \<lparr>gr_api_version = ''v1'', gr_kind = ''Secret'', gr_name = p,
       gr_namespace = None, gr_disable_cache = False\<rparr>,
     de_can_i = \<lambda>p. Inl ''json'', de_json = \<lambda>p. Inl ''json'', to_upper = \<lambda>s. s\<rparr>"

subsection \<open>Properties\<close>

text \<open>C1: whatever the code of a policy is, running it against the host callback ends without panic,
  and every request it sends over the callback channel is granted: a read of Kubernetes resources
  on the allow list of the policy or one of the three deprecated cluster context queries, or a
  request that reads no Kubernetes resource. Plural names and reflector changes are never asked.\<close>

theorem policy_requests_granted:
  "\<exists>r st. run_guest (host_callback c ctx) policy host_init = Ret (r, st) \<and>
     list_all (request_granted ctx) (hs_sent st)"
  using host.run_sends [where c = c and ctx = ctx and g = policy and st = host_init]
  by (auto simp: host_init_def)

text \<open>A read of Kubernetes resources that are not on the allow list is refused before anything
  is sent: the caller gets the error that names the resource and the state of the host is the one
  before the call.\<close>

theorem denied_read_sends_nothing:
  assumes "requested_resource c op payload = Some (api_version, kind)"
    and "\<not> can_access_kubernetes_resource ctx api_version kind"
  shows "host_callback c ctx ''kubewarden'' ''kubernetes'' op payload st =
    Ret (Inl (access_denied api_version kind), st)"
proof -
  have "kubernetes_callback c ctx ''kubernetes'' op payload st = (Inl (access_denied api_version kind), st)"
    using assms
    by (auto simp: requested_resource_def kubernetes_callback_def guard_and_send_def
        split: if_splits sum.splits)
  then show ?thesis by (simp add: host_callback_def)
qed

text \<open>The deprecated cluster context queries are answered without a look at the allow list: a
  policy that has been granted nothing can list the namespaces of the cluster.\<close>

theorem cluster_context_not_gated:
  "ctx_aware_resources_allow_list deny_all_context = [] \<and>
   host_callback c deny_all_context ''kubernetes'' ''namespaces'' op payload host_init =
     Ret (Inr ''{}'', host_init\<lparr>hs_sent := [list_all_namespaces]\<rparr>)"
  by (simp add: deny_all_context_def host_callback_def cluster_context_callback_def
      send_request_and_wait_for_response_def host_init_def)

end
