(* ===== verification/RuntimeBase.thy ===== *)
theory RuntimeBase
  imports HostCallback ResponseHandler
begin

text \<open>
  What the runtimes share: the library calls around a policy (JSON printing and parsing, the patch
  difference, base64), kept in a record \<^theory_text>\<open>wire\<close>; the answer of a settings validation; the
  computation of the response from the answer of a policy; and the contract of a runtime,
  the locale \<^theory_text>\<open>policy_runtime\<close>.
\<close>

record SettingsValidationResponse =
  svr_valid :: bool
  svr_message :: "string option"

record 'op wire =
  json_to_string :: "json \<Rightarrow> lib_error + string"
  de_response :: "bytes \<Rightarrow> lib_error + PolicyValidationResponse"
  de_settings_response :: "bytes \<Rightarrow> lib_error + SettingsValidationResponse"
  de_admission_response :: "json \<Rightarrow> lib_error + AdmissionResponse"
  patch_diff :: "json \<Rightarrow> json \<Rightarrow> 'op list"
  patch_to_string :: "'op list \<Rightarrow> lib_error + string"
  base64_encode :: "string \<Rightarrow> string"

definition display_response_error :: "lib_error ResponseError \<Rightarrow> string" where
  "display_response_error e =
     (case e of ResponseDeserialize l \<Rightarrow> ''cannot deserialize JSONPatch: '' @ le_display l)"

text \<open>Library calls for closed examples.\<close>

definition example_wire :: "unit wire" where
  "example_wire = \<lparr>json_to_string = \<lambda>j. Inr ''{}'', de_response = \<lambda>b. Inl \<lparr>le_display = ''bad'', le_debug = ''bad''\<rparr>,
     de_settings_response = \<lambda>b. Inl \<lparr>le_display = ''bad'', le_debug = ''bad''\<rparr>,
     de_admission_response = \<lambda>j. Inl \<lparr>le_display = ''bad'', le_debug = ''bad''\<rparr>,
     patch_diff = \<lambda>a b. [], patch_to_string = \<lambda>d. Inr [], base64_encode = \<lambda>s. s\<rparr>"

text \<open>The object a mutation is compared with: the whole raw request, or the object of the request.\<close>

fun request_object :: "ValidateRequest \<Rightarrow> json option" where
  "request_object (Raw raw_req) = Some raw_req"
| "request_object (AdmissionReq adm_req) = get_key (admission_request_to_json adm_req) ''object''"

definition validate_params :: "PolicySettings \<Rightarrow> ValidateRequest \<Rightarrow> json" where
  "validate_params settings request =
     json_obj [(''request'', request_to_json request), (''settings'', Object settings)]"

definition response_of_answer ::
  "'op wire \<Rightarrow> string \<Rightarrow> json option \<Rightarrow> PolicyValidationResponse
   \<Rightarrow> (lib_error ResponseError + AdmissionResponse) exec" where
  "response_of_answer w uid req_obj v =
     from_policy_validation_response (patch_diff w) (patch_to_string w) (base64_encode w) uid req_obj v"

lemma request_object_admission: "request_object (AdmissionReq r) = req_object r"
  by (simp add: admission_request_json_object)

lemma response_of_answer_ok:
  obtains (err) e where "response_of_answer w uid obj v = Ret (Inl e)"
  | (ok) r where "response_of_answer w uid obj v = Ret (Inr r)" "resp_uid r = uid" "patch_wf r"
proof (cases "response_of_answer w uid obj v")
  case (Ret res)
  then show ?thesis
  proof (cases res)
    case (Inl e)
    with Ret err show ?thesis by blast
  next
    case (Inr r)
    with Ret ok from_response_ok [of "patch_diff w" "patch_to_string w" "base64_encode w" uid obj v r]
    show ?thesis by (auto simp: response_of_answer_def)
  qed
next
  case (Panic p)
  with from_response_no_panic [of "patch_diff w" "patch_to_string w" "base64_encode w" uid obj v]
  show ?thesis by (simp add: response_of_answer_def)
qed

subsection \<open>The contract of a runtime\<close>

text \<open>
  A runtime answers every validation request: it does not panic, its response carries the uid of
  the request and a patch type exactly when it carries a patch, and what it sends to the
  asynchronous side is granted. \<open>invar\<close> is what the runtime keeps of its stack.
\<close>

definition sent_granted :: "('q \<Rightarrow> bool) \<Rightarrow> 'q list \<Rightarrow> 'q list \<Rightarrow> bool" where
  "sent_granted granted before after = (\<exists>qs. after = before @ qs \<and> list_all granted qs)"

lemma sent_granted_refl [simp]: "sent_granted P xs xs"
  by (simp add: sent_granted_def)

lemma sent_granted_trans: "sent_granted P xs ys \<Longrightarrow> sent_granted P ys zs \<Longrightarrow> sent_granted P xs zs"
  by (auto simp: sent_granted_def)

text \<open>Requests evaluated one after the other on the same stack.\<close>

fun run_all ::
  "('stack \<Rightarrow> ValidateRequest \<Rightarrow> 's \<Rightarrow> ((AdmissionResponse \<times> 'stack) \<times> 's) exec)
   \<Rightarrow> 'stack \<Rightarrow> ValidateRequest list \<Rightarrow> 's \<Rightarrow> ((AdmissionResponse list \<times> 'stack) \<times> 's) exec" where
  "run_all run stack [] st = Ret (([], stack), st)"
| "run_all run stack (q # qs) st =
     bind_exec (run stack q st) (\<lambda>((r, stack'), st').
       bind_exec (run_all run stack' qs st') (\<lambda>((rs, stack''), st''). Ret ((r # rs, stack''), st'')))"

locale policy_runtime =
  fixes run :: "'stack \<Rightarrow> ValidateRequest \<Rightarrow> 's \<Rightarrow> ((AdmissionResponse \<times> 'stack) \<times> 's) exec"
    and invar :: "'stack \<Rightarrow> bool"
    and sent :: "'s \<Rightarrow> 'q list"
    and granted :: "'q \<Rightarrow> bool"
  assumes answers: "invar stack \<Longrightarrow> \<exists>r stack' st'. run stack request st = Ret ((r, stack'), st') \<and>
    resp_uid r = request_uid request \<and> patch_wf r \<and> invar stack' \<and>
    sent_granted granted (sent st) (sent st')"
begin

lemma run_all_answers:
  "invar stack \<Longrightarrow> \<exists>rs stack' st'. run_all run stack qs st = Ret ((rs, stack'), st') \<and>
     map resp_uid rs = map request_uid qs \<and> list_all patch_wf rs \<and> invar stack' \<and>
     sent_granted granted (sent st) (sent st')"
proof (induction qs arbitrary: stack st)
  case (Cons q qs)
  obtain r s1 st1 where 1: "run stack q st = Ret ((r, s1), st1)" "resp_uid r = request_uid q"
    "patch_wf r" "invar s1" "sent_granted granted (sent st) (sent st1)"
    using answers [OF Cons.prems] by blast
  obtain rs s2 st2 where 2: "run_all run s1 qs st1 = Ret ((rs, s2), st2)"
    "map resp_uid rs = map request_uid qs" "list_all patch_wf rs" "invar s2"
    "sent_granted granted (sent st1) (sent st2)"
    using Cons.IH [OF 1(4)] by blast
  from 1 2 show ?case by (auto intro: sent_granted_trans)
qed simp

end

end
