(* ===== verification/Wapc.thy ===== *)
theory Wapc
  imports RuntimeBase
begin

text \<open>
  \<open>src/runtimes/wapc/\<close>: the stack of a waPC policy and its runtime. The engine (wasmtime and the
  waPC host) is the parameter \<^theory_text>\<open>wapc_backend\<close>: rehydrating a provider, making a host, and
  calling a guest function, which is a \<^theory_text>\<open>guest\<close> that ends with the answer and the new state of
  the host (the Store of the module, which survives between calls).
\<close>

datatype WapcRuntimeError =
    InvalidResponseFormat string
  | InvalidResponseWithError lib_error
  | CreateProtocolVersion bytes string
  | InvokeProtocolVersion lib_error
  | WasmtimeEngineBuilder lib_error
  | WapcHostBuilder lib_error

definition debug_bytes :: "bytes \<Rightarrow> string" where
  "debug_bytes b = debug_list (\<lambda>c. nat_digits (of_char c)) b"

fun display_wapc_error :: "WapcRuntimeError \<Rightarrow> string" where
  "display_wapc_error (InvalidResponseFormat s) = ''invalid response format: '' @ s"
| "display_wapc_error (InvalidResponseWithError e) = ''invalid response from policy: '' @ le_display e"
| "display_wapc_error (CreateProtocolVersion res e) =
     ''cannot create ProtocolVersion object from '' @ debug_bytes res @ '': '' @ e"
| "display_wapc_error (InvokeProtocolVersion e) =
     ''cannot invoke '' @ squote @ ''protocol_version'' @ squote @ '' waPC function : '' @ le_display e"
| "display_wapc_error (WasmtimeEngineBuilder e) = ''cannot build Wasmtime engine: '' @ le_display e"
| "display_wapc_error (WapcHostBuilder e) = ''cannot build Wapc host: '' @ le_display e"

fun debug_wapc_error :: "WapcRuntimeError \<Rightarrow> string" where
  "debug_wapc_error (InvalidResponseFormat s) = ''InvalidResponseFormat('' @ s @ '')''"
| "debug_wapc_error (InvalidResponseWithError e) = ''InvalidResponseWithError('' @ le_debug e @ '')''"
| "debug_wapc_error (CreateProtocolVersion res e) =
     ''CreateProtocolVersion { res: '' @ debug_bytes res @ '', error: '' @ e @ '' }''"
| "debug_wapc_error (InvokeProtocolVersion e) = ''InvokeProtocolVersion('' @ le_debug e @ '')''"
| "debug_wapc_error (WasmtimeEngineBuilder e) = ''WasmtimeEngineBuilder('' @ le_debug e @ '')''"
| "debug_wapc_error (WapcHostBuilder e) = ''WapcHostBuilder('' @ le_debug e @ '')''"

record ('pre, 'engine, 'h) wapc_backend =
  wb_rehydrate :: "'pre \<Rightarrow> (u64 \<times> u64) option \<Rightarrow> lib_error + 'engine"
  wb_host_new :: "'engine \<Rightarrow> (lib_error + 'h) guest"
  wb_call :: "'h \<Rightarrow> string \<Rightarrow> bytes \<Rightarrow> ((lib_error + bytes) \<times> 'h) guest"
  wb_build_pre :: "lib_error + 'pre"

record ('pre, 'h) WapcStack =
  ws_wapc_host :: 'h
  ws_stack_pre :: 'pre
  ws_eval_ctx :: EvaluationContext

subsection \<open>The stack\<close>

definition wapc_stack_pre_new :: "('pre, 'engine, 'h) wapc_backend \<Rightarrow> WapcRuntimeError + 'pre" where
  "wapc_stack_pre_new bk = map_err WasmtimeEngineBuilder (wb_build_pre bk)"

definition wapc_rehydrate ::
  "('pre, 'engine, 'h) wapc_backend \<Rightarrow> 'pre \<Rightarrow> u64 option \<Rightarrow> WapcRuntimeError + 'engine" where
  "wapc_rehydrate bk pre epoch_deadline =
     (let wapc_epoch_deadlines = map_option (\<lambda>deadline. (deadline, deadline)) epoch_deadline
      in map_err WasmtimeEngineBuilder (wb_rehydrate bk pre wapc_epoch_deadlines))"

definition wapc_host_from_pre ::
  "codec \<Rightarrow> ('pre, 'engine, 'h) wapc_backend \<Rightarrow> 'pre \<Rightarrow> EvaluationContext \<Rightarrow> host_state
   \<Rightarrow> ((WapcRuntimeError + 'h) \<times> host_state) exec" where
  "wapc_host_from_pre c bk pre eval_ctx st =
     (case wapc_rehydrate bk pre (ctx_epoch_deadline eval_ctx) of
        Inl e \<Rightarrow> Ret (Inl e, st)
      | Inr engine_provider \<Rightarrow>
          bind_exec (run_guest (host_callback c eval_ctx) (wb_host_new bk engine_provider) st)
            (\<lambda>(r, st'). Ret (map_err WapcHostBuilder r, st')))"

definition wapc_stack_new_from_pre ::
  "codec \<Rightarrow> ('pre, 'engine, 'h) wapc_backend \<Rightarrow> 'pre \<Rightarrow> EvaluationContext \<Rightarrow> host_state
   \<Rightarrow> ((WapcRuntimeError + ('pre, 'h) WapcStack) \<times> host_state) exec" where
  "wapc_stack_new_from_pre c bk stack_pre eval_ctx st =
     bind_exec (wapc_host_from_pre c bk stack_pre eval_ctx st) (\<lambda>(r, st').
       Ret (bind_result r (\<lambda>wapc_host. Inr \<lparr>ws_wapc_host = wapc_host, ws_stack_pre = stack_pre,
         ws_eval_ctx = eval_ctx\<rparr>), st'))"

definition wapc_reset ::
  "codec \<Rightarrow> ('pre, 'engine, 'h) wapc_backend \<Rightarrow> ('pre, 'h) WapcStack \<Rightarrow> host_state
   \<Rightarrow> (((WapcRuntimeError + unit) \<times> ('pre, 'h) WapcStack) \<times> host_state) exec" where
  "wapc_reset c bk self st =
     bind_exec (wapc_host_from_pre c bk (ws_stack_pre self) (ws_eval_ctx self) st) (\<lambda>(r, st').
       case r of
         Inl e \<Rightarrow> Ret ((Inl e, self), st')
       | Inr new_wapc_host \<Rightarrow> Ret ((Inr (), self\<lparr>ws_wapc_host := new_wapc_host\<rparr>), st'))"

definition wapc_call ::
  "codec \<Rightarrow> ('pre, 'engine, 'h) wapc_backend \<Rightarrow> ('pre, 'h) WapcStack \<Rightarrow> string \<Rightarrow> bytes \<Rightarrow> host_state
   \<Rightarrow> (((lib_error + bytes) \<times> ('pre, 'h) WapcStack) \<times> host_state) exec" where
  "wapc_call c bk self op payload st =
     bind_exec (run_guest (host_callback c (ws_eval_ctx self)) (wb_call bk (ws_wapc_host self) op payload) st)
       (\<lambda>((r, h), st'). Ret ((r, self\<lparr>ws_wapc_host := h\<rparr>), st'))"

subsection \<open>The runtime\<close>

definition wapc_epoch_interruption_err_msg :: string where
  "wapc_epoch_interruption_err_msg = ''guest code interrupted, execution deadline exceeded''"

definition execution_time_exceeded :: string where
  "execution_time_exceeded =
     ''Policy execution interrupted because it exceeded the allowed execution time''"

definition wapc_answer ::
  "'op wire \<Rightarrow> string \<Rightarrow> json option \<Rightarrow> bytes \<Rightarrow> AdmissionResponse exec" where
  "wapc_answer w uid req_obj res =
     (case map_err InvalidResponseWithError (de_response w res) of
        Inl e \<Rightarrow> Ret (reject_internal_server_error uid (display_wapc_error e))
      | Inr pol_val_resp \<Rightarrow>
          bind_exec (response_of_answer w uid req_obj pol_val_resp) (\<lambda>r.
            case r of
              Inr response \<Rightarrow> Ret response
            | Inl e \<Rightarrow> Ret (reject_internal_server_error uid
                (display_wapc_error (InvalidResponseFormat (display_response_error e))))))"

definition wapc_call_failed ::
  "codec \<Rightarrow> ('pre, 'engine, 'h) wapc_backend \<Rightarrow> ('pre, 'h) WapcStack \<Rightarrow> string \<Rightarrow> lib_error \<Rightarrow> host_state
   \<Rightarrow> ((AdmissionResponse \<times> ('pre, 'h) WapcStack) \<times> host_state) exec" where
  "wapc_call_failed c bk self uid e st =
     (if contains_str wapc_epoch_interruption_err_msg (le_display e)
      then bind_exec (wapc_reset c bk self st) (\<lambda>((reset_result, self'), st').
             Ret ((reject uid execution_time_exceeded 500, self'), st'))
      else Ret ((reject_internal_server_error uid (le_display e), self), st))"

definition wapc_validate ::
  "codec \<Rightarrow> 'op wire \<Rightarrow> ('pre, 'engine, 'h) wapc_backend \<Rightarrow> ('pre, 'h) WapcStack \<Rightarrow> PolicySettings
   \<Rightarrow> ValidateRequest \<Rightarrow> host_state \<Rightarrow> ((AdmissionResponse \<times> ('pre, 'h) WapcStack) \<times> host_state) exec" where
  "wapc_validate c w bk self settings request st =
     (let uid = request_uid request;
          req_obj = request_object request
      in case json_to_string w (validate_params settings request) of
           Inl e \<Rightarrow> Ret ((reject_internal_server_error uid (le_display e), self), st)
         | Inr validate_str \<Rightarrow>
             bind_exec (wapc_call c bk self ''validate'' validate_str st) (\<lambda>((r, self'), st').
               case r of
                 Inr res \<Rightarrow> bind_exec (wapc_answer w uid req_obj res) (\<lambda>response. Ret ((response, self'), st'))
               | Inl e \<Rightarrow> wapc_call_failed c bk self' uid e st'))"

definition wapc_validate_settings ::
  "codec \<Rightarrow> 'op wire \<Rightarrow> ('pre, 'engine, 'h) wapc_backend \<Rightarrow> ('pre, 'h) WapcStack \<Rightarrow> string \<Rightarrow> host_state
   \<Rightarrow> ((SettingsValidationResponse \<times> ('pre, 'h) WapcStack) \<times> host_state) exec" where
  "wapc_validate_settings c w bk self settings st =
     bind_exec (wapc_call c bk self ''validate_settings'' settings st) (\<lambda>((r, self'), st').
       Ret ((case r of
           Inr res \<Rightarrow>
             (case map_err InvalidResponseWithError (de_settings_response w res) of
                Inr vr \<Rightarrow> vr
              | Inl e \<Rightarrow> \<lparr>svr_valid = False, svr_message = Some (''error: '' @ debug_wapc_error e)\<rparr>)
         | Inl err \<Rightarrow> \<lparr>svr_valid = False,
             svr_message = Some (''Error invoking settings validation callback: '' @ le_debug err)\<rparr>, self'), st'))"

text \<open>\<open>ProtocolVersion::try_from\<close> of the policy SDK is the parameter \<open>to_version\<close>.\<close>

definition wapc_protocol_version ::
  "(bytes \<Rightarrow> string + ProtocolVersion) \<Rightarrow> codec \<Rightarrow> ('pre, 'engine, 'h) wapc_backend \<Rightarrow> ('pre, 'h) WapcStack
   \<Rightarrow> host_state \<Rightarrow> (((WapcRuntimeError + ProtocolVersion) \<times> ('pre, 'h) WapcStack) \<times> host_state) exec" where
  "wapc_protocol_version to_version c bk self st =
     bind_exec (wapc_call c bk self ''protocol_version'' [] st) (\<lambda>((r, self'), st').
       Ret ((case r of
           Inr res \<Rightarrow> map_err (\<lambda>e. CreateProtocolVersion res e) (to_version res)
         | Inl e \<Rightarrow> Inl (InvokeProtocolVersion e), self'), st'))"

subsection \<open>Lemmas\<close>

lemma run_host_guest:
  "\<exists>r st'. run_guest (host_callback c ctx) g st = Ret (r, st') \<and>
     sent_granted (request_granted ctx) (hs_sent st) (hs_sent st')"
  unfolding sent_granted_def
  using host.run_sends [where c = c and ctx = ctx and g = g and st = st] by blast

lemma wapc_host_from_pre_returns:
  "\<exists>r st'. wapc_host_from_pre c bk pre ctx st = Ret (r, st') \<and>
     sent_granted (request_granted ctx) (hs_sent st) (hs_sent st')"
proof (cases "wapc_rehydrate bk pre (ctx_epoch_deadline ctx)")
  case (Inr eng)
  obtain r st' where "run_guest (host_callback c ctx) (wb_host_new bk eng) st = Ret (r, st')"
    "sent_granted (request_granted ctx) (hs_sent st) (hs_sent st')"
    using run_host_guest [of c ctx "wb_host_new bk eng" st] by auto
  with Inr show ?thesis by (simp add: wapc_host_from_pre_def)
qed (simp add: wapc_host_from_pre_def)

text \<open>What every operation keeps of a stack: the precompiled module and the context.\<close>

definition same_policy :: "('pre, 'h) WapcStack \<Rightarrow> ('pre, 'h) WapcStack \<Rightarrow> bool" where
  "same_policy s s' \<longleftrightarrow> ws_stack_pre s' = ws_stack_pre s \<and> ws_eval_ctx s' = ws_eval_ctx s"

lemma wapc_reset_returns:
  "\<exists>r s' st'. wapc_reset c bk s st = Ret ((r, s'), st') \<and> same_policy s s' \<and>
     sent_granted (request_granted (ws_eval_ctx s)) (hs_sent st) (hs_sent st')"
proof -
  obtain r st' where "wapc_host_from_pre c bk (ws_stack_pre s) (ws_eval_ctx s) st = Ret (r, st')"
    "sent_granted (request_granted (ws_eval_ctx s)) (hs_sent st) (hs_sent st')"
    using wapc_host_from_pre_returns [of c bk "ws_stack_pre s" "ws_eval_ctx s" st] by auto
  then show ?thesis
    by (cases r) (auto simp: wapc_reset_def same_policy_def)
qed

lemma wapc_call_returns:
  "\<exists>r s' st'. wapc_call c bk s op payload st = Ret ((r, s'), st') \<and> same_policy s s' \<and>
     sent_granted (request_granted (ws_eval_ctx s)) (hs_sent st) (hs_sent st')"
proof -
  obtain r h st' where "run_guest (host_callback c (ws_eval_ctx s)) (wb_call bk (ws_wapc_host s) op payload) st
      = Ret ((r, h), st')"
    "sent_granted (request_granted (ws_eval_ctx s)) (hs_sent st) (hs_sent st')"
    using run_host_guest [of c "ws_eval_ctx s" "wb_call bk (ws_wapc_host s) op payload" st] by auto
  then show ?thesis
    by (auto simp: wapc_call_def same_policy_def)
qed

lemma wapc_answer_returns: "\<exists>r. wapc_answer w uid obj res = Ret r \<and> resp_uid r = uid \<and> patch_wf r"
proof (cases "de_response w res")
  case (Inr v)
  show ?thesis
    by (rule response_of_answer_ok [of w uid obj v]) (use Inr in \<open>auto simp: wapc_answer_def\<close>)
qed (simp add: wapc_answer_def)

lemma wapc_call_failed_returns:
  "\<exists>r s' st'. wapc_call_failed c bk s uid e st = Ret ((r, s'), st') \<and> resp_uid r = uid \<and> patch_wf r \<and>
     same_policy s s' \<and> sent_granted (request_granted (ws_eval_ctx s)) (hs_sent st) (hs_sent st')"
  using wapc_reset_returns [of c bk s st]
  by (auto simp: wapc_call_failed_def same_policy_def)

lemma wapc_validate_returns:
  "\<exists>r s' st'. wapc_validate c w bk s settings request st = Ret ((r, s'), st') \<and>
     resp_uid r = request_uid request \<and> patch_wf r \<and> same_policy s s' \<and>
     sent_granted (request_granted (ws_eval_ctx s)) (hs_sent st) (hs_sent st')"
proof (cases "json_to_string w (validate_params settings request)")
  case (Inl e)
  then show ?thesis by (simp add: wapc_validate_def same_policy_def)
next
  case (Inr p)
  obtain r s1 st1 where 1: "wapc_call c bk s ''validate'' p st = Ret ((r, s1), st1)" "same_policy s s1"
    "sent_granted (request_granted (ws_eval_ctx s)) (hs_sent st) (hs_sent st1)"
    using wapc_call_returns [of c bk s "''validate''" p st] by auto
  show ?thesis
  proof (cases r)
    case (Inl e)
    obtain a s2 st2 where "wapc_call_failed c bk s1 (request_uid request) e st1 = Ret ((a, s2), st2)"
      "resp_uid a = request_uid request" "patch_wf a" "same_policy s1 s2"
      "sent_granted (request_granted (ws_eval_ctx s1)) (hs_sent st1) (hs_sent st2)"
      using wapc_call_failed_returns [of c bk s1 "request_uid request" e st1] by auto
    with 1 Inl Inr show ?thesis
      by (auto simp: wapc_validate_def same_policy_def intro: sent_granted_trans)
  next
    case (Inr res)
    obtain a where "wapc_answer w (request_uid request) (request_object request) res = Ret a"
      "resp_uid a = request_uid request" "patch_wf a"
      using wapc_answer_returns [of w "request_uid request" "request_object request" res] by auto
    with 1 Inr \<open>json_to_string w _ = _\<close> show ?thesis by (simp add: wapc_validate_def)
  qed
qed

interpretation wapc: policy_runtime "\<lambda>s request. wapc_validate c w bk s settings request"
    "\<lambda>s::('pre, 'h) WapcStack. ws_stack_pre s = pre \<and> ws_eval_ctx s = ctx" hs_sent "request_granted ctx"
  for c w bk settings pre ctx
proof
  fix stack :: "('pre, 'h) WapcStack" and request st
  assume "ws_stack_pre stack = pre \<and> ws_eval_ctx stack = ctx"
  then show "\<exists>r stack' st'. wapc_validate c w bk stack settings request st = Ret ((r, stack'), st') \<and>
      resp_uid r = request_uid request \<and> patch_wf r \<and>
      (ws_stack_pre stack' = pre \<and> ws_eval_ctx stack' = ctx) \<and>
      sent_granted (request_granted ctx) (hs_sent st) (hs_sent st')"
    using wapc_validate_returns [of c w bk stack settings request st] by (auto simp: same_policy_def)
qed

subsection \<open>Properties\<close>

text \<open>C11: a waPC stack answers any sequence of requests, each with the uid of its request and a
  patch type exactly when there is a patch, whatever the module does: broken answers, traps and
  timeouts included. The calls never panic, the module and the context of the stack stay those it
  was built with, and all that is sent to the host is granted by that context.\<close>

theorem wapc_answers_all:
  "\<exists>rs s' st. run_all (\<lambda>s request. wapc_validate c w bk s settings request) s requests host_init =
       Ret ((rs, s'), st) \<and>
     map resp_uid rs = map request_uid requests \<and> list_all patch_wf rs \<and>
     ws_stack_pre s' = ws_stack_pre s \<and> ws_eval_ctx s' = ws_eval_ctx s \<and>
     list_all (request_granted (ws_eval_ctx s)) (hs_sent st)"
  using wapc.run_all_answers [where stack = s and pre = "ws_stack_pre s" and ctx = "ws_eval_ctx s"
      and c = c and w = w and bk = bk and settings = settings and qs = requests and st = host_init]
  by (auto simp: sent_granted_def host_init_def)


text \<open>An engine for closed examples: its hosts count their calls, and the first call times out.\<close>

definition example_backend :: "(unit, unit, nat) wapc_backend" where
  "example_backend = \<lparr>wb_rehydrate = \<lambda>pre d. Inr (), wb_host_new = \<lambda>e. GuestDone (Inr 0),
     wb_call = \<lambda>h op p. GuestDone (Inl \<lparr>le_display = wapc_epoch_interruption_err_msg, le_debug = []\<rparr>, h + 1),
     wb_build_pre = Inr ()\<rparr>"


end
