(* ===== verification/Wasi.thy ===== *)
theory Wasi
  imports RuntimeBase
begin

text \<open>
  \<open>src/runtimes/wasi_cli/\<close>: the stdin pipe, the host function that a WASI module calls with
  pointers into its memory, one run of the program, and the runtime on top. The module is the tree
  \<^theory_text>\<open>wasi_guest\<close>; the engine (linking, instantiation, the start function) is the
  parameter \<^theory_text>\<open>wasi_backend\<close>.
\<close>

subsection \<open>The pipe\<close>

record WasiPipe =
  wp_buffer :: bytes

definition pipe_new :: "bytes \<Rightarrow> WasiPipe" where
  "pipe_new data = \<lparr>wp_buffer = data\<rparr>"

definition pipe_read :: "nat \<Rightarrow> WasiPipe \<Rightarrow> bytes \<times> WasiPipe" where
  "pipe_read n p =
     (let amt = min n (length (wp_buffer p))
      in (take amt (wp_buffer p), p\<lparr>wp_buffer := drop amt (wp_buffer p)\<rparr>))"

definition pipe_write :: "bytes \<Rightarrow> WasiPipe \<Rightarrow> nat \<times> WasiPipe" where
  "pipe_write buf p = (length buf, p\<lparr>wp_buffer := wp_buffer p @ buf\<rparr>)"

definition pipe_seek :: "string + u64" where
  "pipe_seek = Inl ''can not seek in a pipe''"

datatype pipe_op = PipeRead nat | PipeWrite bytes

fun written :: "pipe_op list \<Rightarrow> bytes" where
  "written [] = []"
| "written (PipeWrite b # ops) = b @ written ops"
| "written (PipeRead n # ops) = written ops"

text \<open>The bytes read by a sequence of operations, and the pipe after it.\<close>

fun pipe_run ::
  "(nat \<Rightarrow> 'p \<Rightarrow> bytes \<times> 'p) \<Rightarrow> (bytes \<Rightarrow> 'p \<Rightarrow> nat \<times> 'p) \<Rightarrow> pipe_op list \<Rightarrow> 'p \<Rightarrow> bytes \<times> 'p" where
  "pipe_run rd wr [] p = ([], p)"
| "pipe_run rd wr (PipeRead n # ops) p =
     (let (b, p') = rd n p; (bs, p'') = pipe_run rd wr ops p' in (b @ bs, p''))"
| "pipe_run rd wr (PipeWrite b # ops) p = pipe_run rd wr ops (snd (wr b p))"

locale byte_fifo =
  fixes fresh :: "bytes \<Rightarrow> 'p"
    and rd :: "nat \<Rightarrow> 'p \<Rightarrow> bytes \<times> 'p"
    and wr :: "bytes \<Rightarrow> 'p \<Rightarrow> nat \<times> 'p"
    and content :: "'p \<Rightarrow> bytes"
  assumes content_fresh: "content (fresh b) = b"
    and rd_content: "fst (rd n p) @ content (snd (rd n p)) = content p"
    and rd_length: "length (fst (rd n p)) = min n (length (content p))"
    and wr_content: "content (snd (wr b p)) = content p @ b"
begin

lemma run_content:
  "fst (pipe_run rd wr ops p) @ content (snd (pipe_run rd wr ops p)) = content p @ written ops"
proof (induction ops arbitrary: p)
  case Nil
  then show ?case by simp
next
  case (Cons op ops)
  show ?case
  proof (cases op)
    case (PipeRead n)
    have "fst (pipe_run rd wr ops (snd (rd n p))) @ content (snd (pipe_run rd wr ops (snd (rd n p))))
        = content (snd (rd n p)) @ written ops"
      by (rule Cons.IH)
    then show ?thesis
      using PipeRead rd_content [of n p] by (simp add: split_beta Let_def)
  next
    case (PipeWrite b)
    then show ?thesis using Cons.IH [of "snd (wr b p)"] by (simp add: wr_content)
  qed
qed

lemma fresh_run:
  "fst (pipe_run rd wr ops (fresh b)) @ content (snd (pipe_run rd wr ops (fresh b))) = b @ written ops"
  by (simp add: run_content content_fresh)

end

interpretation stdin_pipe: byte_fifo pipe_new pipe_read pipe_write wp_buffer
  by unfold_locales (simp_all add: pipe_new_def pipe_read_def pipe_write_def Let_def)

subsection \<open>Errors\<close>

datatype WasiRuntimeError =
    WasiEvaluation string string
  | WasmHostFuncDefinitionError string string
  | WasmMissingStartFn lib_error
  | PipeConversion string string
  | WasmLinkerError lib_error
  | WasmInstantiate lib_error
  | WasiMemExport
  | WasiMemExportCannotConvert
  | WasiCtxBuilderError lib_error
  | WasiMemOpToUtF8 "nat \<times> nat option"
  | WasiCannotWriteStdin
  | WasiWriteAccessStdin

fun display_wasi_error :: "WasiRuntimeError \<Rightarrow> string" where
  "display_wasi_error (WasiEvaluation stderr e) = stderr"
| "display_wasi_error (WasmHostFuncDefinitionError name e) =
     ''cannot define host function '' @ squote @ name @ squote @ '': '' @ e"
| "display_wasi_error (WasmMissingStartFn e) =
     ''cannot find `_start` function inside of module: '' @ le_display e"
| "display_wasi_error (PipeConversion name e) = name @ '' pipe conversion error: '' @ e"
| "display_wasi_error (WasmLinkerError e) = ''cannot instantiate module: '' @ le_display e"
| "display_wasi_error (WasmInstantiate e) = ''cannot add to linker: '' @ le_display e"
| "display_wasi_error WasiMemExport = ''cannot find '' @ squote @ ''mem'' @ squote @ '' export''"
| "display_wasi_error WasiMemExportCannotConvert =
     squote @ ''mem'' @ squote @ '' export cannot be converted into a Memory instance''"
| "display_wasi_error (WasiCtxBuilderError e) = ''cannot build WasiCtxBuilder: '' @ le_display e"
| "display_wasi_error (WasiMemOpToUtF8 e) = ''host_call: cannot convert bd to UTF8: '' @ display_utf8_error e"
| "display_wasi_error WasiCannotWriteStdin = ''host_call: cannot write to STDIN''"
| "display_wasi_error WasiWriteAccessStdin = ''host_call: cannot get write access to STDIN''"

subsection \<open>The host function\<close>

text \<open>The export \<open>memory\<close> of the calling module at the time of the call.\<close>

datatype wasi_memory = NoMemoryExport | NotAMemory | Memory bytes

text \<open>An \<open>i32\<close> as \<open>usize\<close>: sign-extended, so a negative pointer is a huge index.\<close>

definition usize_of :: "i32 \<Rightarrow> nat" where
  "usize_of x = unat (scast x :: u64)"

definition get_vec_from_memory :: "bytes \<Rightarrow> i32 \<Rightarrow> i32 \<Rightarrow> bytes exec" where
  "get_vec_from_memory data ptr len =
     (let start = usize_of ptr; stop = usize_of (ptr + len) in
      if start \<le> stop \<and> stop \<le> length data then Ret (take (stop - start) (drop start data))
      else Panic ''range out of bounds of slice'')"

definition get_str_from_memory :: "bytes \<Rightarrow> i32 \<Rightarrow> i32 \<Rightarrow> (WasiRuntimeError + string) exec" where
  "get_str_from_memory data ptr len =
     bind_exec (get_vec_from_memory data ptr len) (\<lambda>v. Ret (map_err WasiMemOpToUtF8 (from_utf8 v)))"

record host_call_args =
  hc_bd :: "i32 \<times> i32"
  hc_ns :: "i32 \<times> i32"
  hc_op :: "i32 \<times> i32"
  hc_payload :: "i32 \<times> i32"

definition host_call ::
  "codec \<Rightarrow> EvaluationContext \<Rightarrow> wasi_memory \<Rightarrow> host_call_args \<Rightarrow> WasiPipe \<Rightarrow> host_state
   \<Rightarrow> (WasiRuntimeError + (i32 \<times> WasiPipe \<times> host_state)) exec" where
  "host_call c eval_ctx memory_export args stdin st =
     (case memory_export of
        NoMemoryExport \<Rightarrow> Ret (Inl WasiMemExport)
      | NotAMemory \<Rightarrow> Ret (Inl WasiMemExportCannotConvert)
      | Memory data \<Rightarrow>
          bind_exec (get_vec_from_memory data (fst (hc_payload args)) (snd (hc_payload args))) (\<lambda>vec.
          try_exec (get_str_from_memory data (fst (hc_bd args)) (snd (hc_bd args))) (\<lambda>bd.
          try_exec (get_str_from_memory data (fst (hc_ns args)) (snd (hc_ns args))) (\<lambda>ns.
          try_exec (get_str_from_memory data (fst (hc_op args)) (snd (hc_op args))) (\<lambda>op.
          bind_exec (host_callback c eval_ctx bd ns op vec st) (\<lambda>(response, st').
            let func_return_value = (case response of Inl _ \<Rightarrow> 1 | Inr _ \<Rightarrow> 0);
                response_msg = (case response of Inr r \<Rightarrow> r | Inl e \<Rightarrow> e)
            in Ret (Inr (func_return_value, snd (pipe_write response_msg stdin), st'))))))))"

subsection \<open>One run of the program\<close>

text \<open>
  What a program can do: read its stdin, write to stdout or stderr, call the host, and end by
  returning from \<open>_start\<close>, by \<open>proc_exit\<close> or by a trap (the deadline is one).
\<close>

datatype wasi_guest =
    WasiReturn
  | WasiExit i32
  | WasiTrap string
  | WasiRead nat "bytes \<Rightarrow> wasi_guest"
  | WasiWrite bool bytes wasi_guest
  | WasiHostCall wasi_memory host_call_args "i32 \<Rightarrow> wasi_guest"

record wasi_store =
  wst_stdin :: WasiPipe
  wst_stdout :: bytes
  wst_stderr :: bytes
  wst_host :: host_state

datatype evaluation_error = I32Exit i32 | OtherError string

primrec call_start ::
  "codec \<Rightarrow> EvaluationContext \<Rightarrow> wasi_guest \<Rightarrow> wasi_store \<Rightarrow> ((evaluation_error + unit) \<times> wasi_store) exec" where
  "call_start c ctx WasiReturn s = Ret (Inr (), s)"
| "call_start c ctx (WasiExit code) s = Ret (Inl (I32Exit code), s)"
| "call_start c ctx (WasiTrap e) s = Ret (Inl (OtherError e), s)"
| "call_start c ctx (WasiRead n k) s =
     (let (b, p) = pipe_read n (wst_stdin s) in call_start c ctx (k b) (s\<lparr>wst_stdin := p\<rparr>))"
| "call_start c ctx (WasiWrite is_stderr b k) s =
     call_start c ctx k (if is_stderr then s\<lparr>wst_stderr := wst_stderr s @ b\<rparr>
                         else s\<lparr>wst_stdout := wst_stdout s @ b\<rparr>)"
| "call_start c ctx (WasiHostCall mem args k) s =
     bind_exec (host_call c ctx mem args (wst_stdin s) (wst_host s)) (\<lambda>r.
       case r of
         Inl e \<Rightarrow> Ret (Inl (OtherError (display_wasi_error e)), s)
       | Inr (v, p, st') \<Rightarrow> call_start c ctx (k v) (s\<lparr>wst_stdin := p, wst_host := st'\<rparr>))"

record 'pre wasi_backend =
  wa_add_to_linker :: "lib_error + unit"
  wa_func_wrap :: "string \<Rightarrow> string \<Rightarrow> lib_error + unit"
  wa_instantiate_pre :: "lib_error + 'pre"
  wa_check_args :: "string list \<Rightarrow> lib_error + unit"
  wa_instantiate :: "'pre \<Rightarrow> lib_error + unit"
  wa_start :: "'pre \<Rightarrow> u64 option \<Rightarrow> string list \<Rightarrow> lib_error + wasi_guest"

definition add_host_call_to_linker :: "'pre wasi_backend \<Rightarrow> WasiRuntimeError + unit" where
  "add_host_call_to_linker bk =
     bind_result (map_err (\<lambda>e. WasmHostFuncDefinitionError ''host.call'' (le_display e))
       (wa_func_wrap bk ''host'' ''call'')) (\<lambda>_.
     map_err (\<lambda>e. WasmHostFuncDefinitionError ''kubewarden:javy/host:call'' (le_display e))
       (wa_func_wrap bk ''kubewarden:javy/host'' ''call''))"

definition wasi_stack_pre_new :: "'pre wasi_backend \<Rightarrow> WasiRuntimeError + 'pre" where
  "wasi_stack_pre_new bk =
     bind_result (map_err WasmLinkerError (wa_add_to_linker bk)) (\<lambda>_.
     bind_result (add_host_call_to_linker bk) (\<lambda>_.
     map_err WasmInstantiate (wa_instantiate_pre bk)))"

record 'pre WasiStack =
  wk_stack_pre :: 'pre
  wk_eval_ctx :: EvaluationContext

record RunResult =
  rr_stdout :: string
  rr_stderr :: string

definition wasi_stack_new_from_pre :: "'pre \<Rightarrow> EvaluationContext \<Rightarrow> 'pre WasiStack" where
  "wasi_stack_new_from_pre stack_pre eval_ctx = \<lparr>wk_stack_pre = stack_pre, wk_eval_ctx = eval_ctx\<rparr>"

text \<open>The store is dropped before the pipes are read, so nothing else refers to them.\<close>

definition pipe_to_string :: "string \<Rightarrow> bytes \<Rightarrow> WasiRuntimeError + string" where
  "pipe_to_string name buf =
     map_err (\<lambda>e. PipeConversion name (''Cannot convert buffer to UTF8 string: '' @ display_utf8_error e))
       (from_utf8 buf)"

definition exit_success :: i32 where
  "exit_success = 0"

definition run_result ::
  "evaluation_error + unit \<Rightarrow> bytes \<Rightarrow> bytes \<Rightarrow> WasiRuntimeError + RunResult" where
  "run_result evaluation_result stdout stderr =
     bind_result (pipe_to_string ''stderr'' stderr) (\<lambda>stderr_raw.
     let stderr = trim stderr_raw;
         success = bind_result (pipe_to_string ''stdout'' stdout)
           (\<lambda>stdout. Inr \<lparr>rr_stdout = stdout, rr_stderr = stderr\<rparr>)
     in case evaluation_result of
          Inl (I32Exit code) \<Rightarrow>
            if code = exit_success then success else Inl (WasiEvaluation stderr ''exit'')
        | Inl (OtherError e) \<Rightarrow> Inl (WasiEvaluation stderr e)
        | Inr _ \<Rightarrow> success)"

definition wasi_run ::
  "codec \<Rightarrow> 'pre wasi_backend \<Rightarrow> 'pre WasiStack \<Rightarrow> bytes \<Rightarrow> string list \<Rightarrow> host_state
   \<Rightarrow> ((WasiRuntimeError + RunResult) \<times> host_state) exec" where
  "wasi_run c bk self input args st =
     (case bind_result (map_err WasiCtxBuilderError (wa_check_args bk args)) (\<lambda>_.
           bind_result (map_err WasmInstantiate (wa_instantiate bk (wk_stack_pre self))) (\<lambda>_.
           map_err WasmMissingStartFn
             (wa_start bk (wk_stack_pre self) (ctx_epoch_deadline (wk_eval_ctx self)) args))) of
        Inl e \<Rightarrow> Ret (Inl e, st)
      | Inr start_fn \<Rightarrow>
          bind_exec (call_start c (wk_eval_ctx self) start_fn
            \<lparr>wst_stdin = pipe_new input, wst_stdout = [], wst_stderr = [], wst_host = st\<rparr>)
            (\<lambda>(evaluation_result, store).
              Ret (run_result evaluation_result (wst_stdout store) (wst_stderr store), wst_host store)))"

subsection \<open>The runtime\<close>

definition wasi_response ::
  "'op wire \<Rightarrow> ValidateRequest \<Rightarrow> WasiRuntimeError + RunResult \<Rightarrow> AdmissionResponse exec" where
  "wasi_response w request result =
     (let uid = request_uid request in
      case result of
        Inl e \<Rightarrow> Ret (reject uid (display_wasi_error e) 500)
      | Inr run \<Rightarrow>
          (case de_response w (rr_stdout run) of
             Inl e \<Rightarrow> Ret (reject_internal_server_error uid
               (''Cannot deserialize policy validation response: '' @ le_display e))
           | Inr pvr \<Rightarrow>
               bind_exec (response_of_answer w uid (request_object request) pvr) (\<lambda>r.
                 case r of
                   Inr response \<Rightarrow> Ret response
                 | Inl e \<Rightarrow> Ret (reject_internal_server_error uid
                     (''Cannot convert policy validation response: '' @ display_response_error e)))))"

definition wasi_validate ::
  "codec \<Rightarrow> 'op wire \<Rightarrow> 'pre wasi_backend \<Rightarrow> 'pre WasiStack \<Rightarrow> PolicySettings \<Rightarrow> ValidateRequest \<Rightarrow> host_state
   \<Rightarrow> (AdmissionResponse \<times> host_state) exec" where
  "wasi_validate c w bk self settings request st =
     (case json_to_string w (validate_params settings request) of
        Inl e \<Rightarrow> Ret (reject_internal_server_error (request_uid request) (le_display e), st)
      | Inr input \<Rightarrow>
          bind_exec (wasi_run c bk self input [''policy.wasm'', ''validate''] st) (\<lambda>(result, st').
            bind_exec (wasi_response w request result) (\<lambda>response. Ret (response, st'))))"

definition wasi_validate_settings ::
  "codec \<Rightarrow> 'op wire \<Rightarrow> 'pre wasi_backend \<Rightarrow> 'pre WasiStack \<Rightarrow> string \<Rightarrow> host_state
   \<Rightarrow> (SettingsValidationResponse \<times> host_state) exec" where
  "wasi_validate_settings c w bk self settings st =
     bind_exec (wasi_run c bk self settings [''policy.wasm'', ''validate-settings''] st) (\<lambda>(result, st').
       Ret ((case result of
           Inr run \<Rightarrow>
             (case de_settings_response w (rr_stdout run) of
                Inr vr \<Rightarrow> vr
              | Inl e \<Rightarrow> \<lparr>svr_valid = False,
                  svr_message = Some (''Cannot deserialize settings validation response: '' @ le_display e)\<rparr>)
         | Inl e \<Rightarrow> \<lparr>svr_valid = False, svr_message = Some (display_wasi_error e)\<rparr>), st'))"

subsection \<open>Programs that pass valid pointers\<close>

definition in_bounds :: "bytes \<Rightarrow> i32 \<times> i32 \<Rightarrow> bool" where
  "in_bounds data p \<longleftrightarrow>
     usize_of (fst p) \<le> usize_of (fst p + snd p) \<and> usize_of (fst p + snd p) \<le> length data"

definition call_in_bounds :: "wasi_memory \<Rightarrow> host_call_args \<Rightarrow> bool" where
  "call_in_bounds mem args =
     (case mem of
        Memory data \<Rightarrow> in_bounds data (hc_payload args) \<and> in_bounds data (hc_bd args) \<and>
          in_bounds data (hc_ns args) \<and> in_bounds data (hc_op args)
      | _ \<Rightarrow> True)"

primrec guest_in_bounds :: "wasi_guest \<Rightarrow> bool" where
  "guest_in_bounds WasiReturn = True"
| "guest_in_bounds (WasiExit code) = True"
| "guest_in_bounds (WasiTrap e) = True"
| "guest_in_bounds (WasiRead n k) = (\<forall>b. guest_in_bounds (k b))"
| "guest_in_bounds (WasiWrite is_stderr b k) = guest_in_bounds k"
| "guest_in_bounds (WasiHostCall mem args k) = (call_in_bounds mem args \<and> (\<forall>v. guest_in_bounds (k v)))"

definition program_in_bounds :: "'pre wasi_backend \<Rightarrow> 'pre WasiStack \<Rightarrow> bool" where
  "program_in_bounds bk s \<longleftrightarrow>
     (\<forall>args g. wa_start bk (wk_stack_pre s) (ctx_epoch_deadline (wk_eval_ctx s)) args = Inr g \<longrightarrow> guest_in_bounds g)"

lemma get_vec_in_bounds:
  "in_bounds data p \<Longrightarrow> \<exists>v. get_vec_from_memory data (fst p) (snd p) = Ret v"
  by (simp add: in_bounds_def get_vec_from_memory_def Let_def)

lemma get_str_in_bounds:
  "in_bounds data p \<Longrightarrow> \<exists>r. get_str_from_memory data (fst p) (snd p) = Ret r"
  using get_vec_in_bounds [of data p] by (auto simp: get_str_from_memory_def)

lemma host_call_returns:
  assumes "call_in_bounds mem args"
  shows "\<exists>r. host_call c ctx mem args p st = Ret r \<and>
    (\<forall>v p' st'. r = Inr (v, p', st') \<longrightarrow> sent_granted (request_granted ctx) (hs_sent st) (hs_sent st'))"
proof (cases mem)
  case (Memory data)
  then have bounds: "in_bounds data (hc_payload args)" "in_bounds data (hc_bd args)"
    "in_bounds data (hc_ns args)" "in_bounds data (hc_op args)"
    using assms by (simp_all add: call_in_bounds_def)
  obtain v where v: "get_vec_from_memory data (fst (hc_payload args)) (snd (hc_payload args)) = Ret v"
    using get_vec_in_bounds [OF bounds(1)] by blast
  obtain bd where bd: "get_str_from_memory data (fst (hc_bd args)) (snd (hc_bd args)) = Ret bd"
    using get_str_in_bounds [OF bounds(2)] by blast
  obtain ns where ns: "get_str_from_memory data (fst (hc_ns args)) (snd (hc_ns args)) = Ret ns"
    using get_str_in_bounds [OF bounds(3)] by blast
  obtain op where op: "get_str_from_memory data (fst (hc_op args)) (snd (hc_op args)) = Ret op"
    using get_str_in_bounds [OF bounds(4)] by blast
  show ?thesis
  proof (cases "(\<exists>e. bd = Inl e) \<or> (\<exists>e. ns = Inl e) \<or> (\<exists>e. op = Inl e)")
    case True
    then show ?thesis by (cases bd; cases ns; cases op) (auto simp: host_call_def Memory v bd ns op)
  next
    case False
    then obtain b n o' where ok: "bd = Inr b" "ns = Inr n" "op = Inr o'"
      by (cases bd; cases ns; cases op) auto
    obtain r st' where "host_callback c ctx b n o' v st = Ret (r, st')" "sends_granted ctx st (r, st')"
      using host_callback_granted by blast
    then show ?thesis
      by (auto simp: host_call_def Memory v bd ns op ok Let_def sends_granted_def sent_granted_def)
  qed
qed (simp_all add: host_call_def)

lemma call_start_returns:
  "guest_in_bounds g \<Longrightarrow> \<exists>r s'. call_start c ctx g s = Ret (r, s') \<and>
     sent_granted (request_granted ctx) (hs_sent (wst_host s)) (hs_sent (wst_host s'))"
proof (induction g arbitrary: s)
  case (WasiRead n k)
  have "\<exists>r s'. call_start c ctx (k b) (s\<lparr>wst_stdin := p\<rparr>) = Ret (r, s') \<and>
      sent_granted (request_granted ctx) (hs_sent (wst_host s)) (hs_sent (wst_host s'))" for b p
    using WasiRead.IH [of "k b" "s\<lparr>wst_stdin := p\<rparr>"] WasiRead.prems by simp
  then show ?case by (simp add: split_beta)
next
  case (WasiWrite is_stderr b g)
  then show ?case
    using WasiWrite.IH [of "s\<lparr>wst_stderr := wst_stderr s @ b\<rparr>"]
      WasiWrite.IH [of "s\<lparr>wst_stdout := wst_stdout s @ b\<rparr>"] by simp
next
  case (WasiHostCall mem args k)
  then obtain r where r: "host_call c ctx mem args (wst_stdin s) (wst_host s) = Ret r"
    "\<forall>v p' st'. r = Inr (v, p', st') \<longrightarrow>
       sent_granted (request_granted ctx) (hs_sent (wst_host s)) (hs_sent st')"
    using host_call_returns [of mem args c ctx "wst_stdin s" "wst_host s"] by auto
  show ?case
  proof (cases r)
    case (Inl e)
    with r show ?thesis by simp
  next
    case (Inr t)
    obtain v p st' where t: "t = (v, p, st')" by (cases t) auto
    obtain r2 s2 where "call_start c ctx (k v) (s\<lparr>wst_stdin := p, wst_host := st'\<rparr>) = Ret (r2, s2)"
      "sent_granted (request_granted ctx) (hs_sent st') (hs_sent (wst_host s2))"
      using WasiHostCall.IH [of "k v" "s\<lparr>wst_stdin := p, wst_host := st'\<rparr>"] WasiHostCall.prems by auto
    with r Inr t show ?thesis by (auto intro: sent_granted_trans)
  qed
qed simp_all

lemma wasi_run_returns:
  assumes "program_in_bounds bk s"
  shows "\<exists>r st'. wasi_run c bk s input args st = Ret (r, st') \<and>
    sent_granted (request_granted (wk_eval_ctx s)) (hs_sent st) (hs_sent st')"
proof (cases "bind_result (map_err WasiCtxBuilderError (wa_check_args bk args)) (\<lambda>_.
           bind_result (map_err WasmInstantiate (wa_instantiate bk (wk_stack_pre s))) (\<lambda>_.
           map_err WasmMissingStartFn
             (wa_start bk (wk_stack_pre s) (ctx_epoch_deadline (wk_eval_ctx s)) args)))")
  case (Inr g)
  then have "guest_in_bounds g" using assms by (auto simp: program_in_bounds_def)
  from call_start_returns [OF this, of c "wk_eval_ctx s"
      "\<lparr>wst_stdin = pipe_new input, wst_stdout = [], wst_stderr = [], wst_host = st\<rparr>"]
  obtain r s' where "call_start c (wk_eval_ctx s) g
      \<lparr>wst_stdin = pipe_new input, wst_stdout = [], wst_stderr = [], wst_host = st\<rparr> = Ret (r, s')"
    "sent_granted (request_granted (wk_eval_ctx s)) (hs_sent st) (hs_sent (wst_host s'))"
    by auto
  with Inr show ?thesis by (simp add: wasi_run_def)
qed (simp add: wasi_run_def)

lemma wasi_response_returns:
  "\<exists>r. wasi_response w request result = Ret r \<and> resp_uid r = request_uid request \<and> patch_wf r"
proof (cases result)
  case (Inr run)
  show ?thesis
  proof (cases "de_response w (rr_stdout run)")
    case (Inr v)
    show ?thesis
      by (rule response_of_answer_ok [of w "request_uid request" "request_object request" v])
        (use \<open>result = Inr run\<close> Inr in \<open>auto simp: wasi_response_def\<close>)
  qed (simp add: wasi_response_def Inr)
qed (simp add: wasi_response_def)

lemma wasi_validate_returns:
  assumes "program_in_bounds bk s"
  shows "\<exists>r st'. wasi_validate c w bk s settings request st = Ret (r, st') \<and>
    resp_uid r = request_uid request \<and> patch_wf r \<and>
    sent_granted (request_granted (wk_eval_ctx s)) (hs_sent st) (hs_sent st')"
proof (cases "json_to_string w (validate_params settings request)")
  case (Inr input)
  obtain r st' where 1: "wasi_run c bk s input [''policy.wasm'', ''validate''] st = Ret (r, st')"
    "sent_granted (request_granted (wk_eval_ctx s)) (hs_sent st) (hs_sent st')"
    using wasi_run_returns [OF assms, of c input "[''policy.wasm'', ''validate'']" st] by auto
  obtain a where "wasi_response w request r = Ret a" "resp_uid a = request_uid request" "patch_wf a"
    using wasi_response_returns [of w request r] by auto
  with 1 Inr show ?thesis by (simp add: wasi_validate_def)
qed (simp add: wasi_validate_def)

definition wasi_step ::
  "codec \<Rightarrow> 'op wire \<Rightarrow> 'pre wasi_backend \<Rightarrow> PolicySettings \<Rightarrow> 'pre WasiStack \<Rightarrow> ValidateRequest \<Rightarrow> host_state
   \<Rightarrow> ((AdmissionResponse \<times> 'pre WasiStack) \<times> host_state) exec" where
  "wasi_step c w bk settings s request st =
     bind_exec (wasi_validate c w bk s settings request st) (\<lambda>(r, st'). Ret ((r, s), st'))"

interpretation wasi: policy_runtime "wasi_step c w bk settings"
    "\<lambda>s::'pre WasiStack. program_in_bounds bk s \<and> s = s0" hs_sent "request_granted (wk_eval_ctx s0)"
  for c w bk settings s0
proof
  fix stack :: "'pre WasiStack" and request st
  assume "program_in_bounds bk stack \<and> stack = s0"
  then show "\<exists>r stack' st'. wasi_step c w bk settings stack request st = Ret ((r, stack'), st') \<and>
      resp_uid r = request_uid request \<and> patch_wf r \<and> (program_in_bounds bk stack' \<and> stack' = s0) \<and>
      sent_granted (request_granted (wk_eval_ctx s0)) (hs_sent st) (hs_sent st')"
    using wasi_validate_returns [of bk stack c w settings request st] by (auto simp: wasi_step_def)
qed

subsection \<open>Properties\<close>

text \<open>C12: a WASI policy whose host calls pass ranges inside its memory answers any sequence of
  requests, each with the uid of its request, without panic, and all it sends to the host is
  granted; its stack never changes.\<close>

theorem wasi_answers_all:
  assumes "program_in_bounds bk s"
  shows "\<exists>rs st. run_all (wasi_step c w bk settings) s requests host_init = Ret ((rs, s), st) \<and>
    map resp_uid rs = map request_uid requests \<and> list_all patch_wf rs \<and>
    list_all (request_granted (wk_eval_ctx s)) (hs_sent st)"
proof -
  have "program_in_bounds bk s \<and> s = s" using assms by simp
  from wasi.run_all_answers [OF this, of c w settings requests host_init]
  show ?thesis by (auto simp: sent_granted_def host_init_def)
qed

text \<open>A program that lists the namespaces and then exits with success.\<close>

definition example_program :: "unit wasi_backend" where
  "example_program = \<lparr>wa_add_to_linker = Inr (), wa_func_wrap = \<lambda>m f. Inr (),
     wa_instantiate_pre = Inr (), wa_check_args = \<lambda>args. Inr (), wa_instantiate = \<lambda>p. Inr (),
     wa_start = \<lambda>p d args. Inr (WasiHostCall (Memory ''kubernetes.namespaces'')
       \<lparr>hc_bd = (0, 10), hc_ns = (11, 10), hc_op = (0, 0), hc_payload = (0, 0)\<rparr> (\<lambda>v. WasiExit 0))\<rparr>"

lemma example_program_in_bounds:
  "program_in_bounds example_program \<lparr>wk_stack_pre = (), wk_eval_ctx = deny_all_context\<rparr>"
  by (simp add: program_in_bounds_def example_program_def call_in_bounds_def in_bounds_def usize_of_def)

theorem wasi_answers_all_witness:
  "\<exists>rs st. run_all (wasi_step example_codec example_wire example_program [])
      \<lparr>wk_stack_pre = (), wk_eval_ctx = deny_all_context\<rparr> [Raw Null] host_init
      = Ret ((rs, \<lparr>wk_stack_pre = (), wk_eval_ctx = deny_all_context\<rparr>), st) \<and> map resp_uid rs = [[]]"
  using wasi_answers_all [OF example_program_in_bounds, of example_codec example_wire "[]" "[Raw Null]"]
  by auto

text \<open>A range outside the memory of the module is not an error of the call: the slice panics and
  takes the evaluation down, also for a length that makes the sum of pointer and length negative.\<close>

theorem host_call_out_of_range_panics:
  assumes "\<not> in_bounds data (hc_payload args)"
  shows "\<not> no_panic (call_start c ctx (WasiHostCall (Memory data) args k) s)"
  using assms by (auto simp: host_call_def in_bounds_def get_vec_from_memory_def Let_def)

theorem host_call_out_of_range_panics_witness:
  "\<not> no_panic (call_start example_codec deny_all_context
     (WasiHostCall (Memory ''x'') \<lparr>hc_bd = (0, 0), hc_ns = (0, 0), hc_op = (0, 0), hc_payload = (-1, 1)\<rparr>
       (\<lambda>v. WasiReturn))
     \<lparr>wst_stdin = pipe_new [], wst_stdout = [], wst_stderr = [], wst_host = host_init\<rparr>)"
  by (rule host_call_out_of_range_panics) (simp add: in_bounds_def usize_of_def unat_gt_0)

text \<open>The stdin of a WASI program is first in, first out: the bytes it has read so far, followed
  by those still in the pipe, are the validation input followed by the answers of its host calls in
  the order of the calls, however reads and answers interleave.\<close>

theorem stdin_first_in_first_out:
  "let (got, p) = pipe_run pipe_read pipe_write ops (pipe_new input)
   in got @ wp_buffer p = input @ written ops"
  using stdin_pipe.fresh_run [of ops input] by (simp add: split_beta Let_def)

end
