(* ===== verification/ContextAware.thy ===== *)
theory ContextAware
  imports EvalContext
begin

text \<open>
  \<open>src/runtimes/rego/context_aware.rs\<close> and \<open>errors.rs\<close>: how the Rego runtime asks the asynchronous
  side for the Kubernetes resources a policy may see. The requests go through the same callback
  channel as those of the waPC guests; they are made by the host itself, one after the other.
\<close>

text \<open>A Kubernetes object: the parts of the metadata the code reads, and its whole JSON.\<close>

record DynamicObject =
  do_name :: "string option"
  do_namespace :: "string option"
  do_json :: json

datatype RegoRuntimeError =
    CallbackChannelNotSet
  | CallbackConvertList lib_error
  | CallbackConvertBool lib_error
  | CallbackSend string
  | CallbackResponse string
  | CallbackRequestError lib_error
  | CallbackGetPluralName lib_error
  | GatekeeperInventoryMissingName
  | GatekeeperInventoryMissingNamespace
  | GatekeeperInventorySerializationError lib_error
  | OpaInventoryMissingName
  | OpaInventoryMissingNamespace
  | OpaInventoryAddNamespacedRes
  | OpaInventoryAddClusterwideRes
  | OpaInventoryMissingPluralName string
  | InvalidResponse
  | RegoInvalidResponseWithError lib_error
  | EvaluatorError string
  | RegoEngineBuilder string

fun display_rego_error :: "RegoRuntimeError \<Rightarrow> string" where
  "display_rego_error CallbackChannelNotSet =
     ''cannot build Rego context aware data: callback channel is not set''"
| "display_rego_error (CallbackConvertList e) =
     ''cannot convert callback response into a list of kubernetes objects: '' @ le_display e"
| "display_rego_error (CallbackConvertBool e) =
     ''cannot convert callback response into a boolean: '' @ le_display e"
| "display_rego_error (CallbackSend s) = ''error sending request over callback channel: '' @ s"
| "display_rego_error (CallbackResponse s) = ''error obtaining response from callback channel: '' @ s"
| "display_rego_error (CallbackRequestError e) =
     ''cannot perform a request via callback channel: '' @ le_display e"
| "display_rego_error (CallbackGetPluralName e) =
     ''get plural name failure, cannot convert callback response: '' @ le_display e"
| "display_rego_error GatekeeperInventoryMissingName = ''DynamicObject does not have a name''"
| "display_rego_error GatekeeperInventoryMissingNamespace = ''DynamicObject does not have a namespace''"
| "display_rego_error (GatekeeperInventorySerializationError e) =
     ''cannot convert Gatekeeper inventory to JSON: '' @ le_display e"
| "display_rego_error OpaInventoryMissingName = ''DynamicObject does not have a name''"
| "display_rego_error OpaInventoryMissingNamespace = ''DynamicObject does not have a namespace''"
| "display_rego_error OpaInventoryAddNamespacedRes =
     ''trying to add a namespaced resource to a list of clusterwide resources''"
| "display_rego_error OpaInventoryAddClusterwideRes =
     ''trying to add a clusterwide resource to a list of namespaced resources''"
| "display_rego_error (OpaInventoryMissingPluralName s) = ''cannot find plural name for resource '' @ s"
| "display_rego_error InvalidResponse = ''invalid response from policy''"
| "display_rego_error (RegoInvalidResponseWithError e) = ''invalid response from policy: '' @ le_display e"
| "display_rego_error (EvaluatorError s) = ''cannot allocate Rego evaluator: '' @ s"
| "display_rego_error (RegoEngineBuilder s) = ''cannot build Rego engine: '' @ s"

text \<open>The deserializers the module uses, and the serializer of the cached inventory.\<close>

record rego_codec =
  rc_list :: "bytes \<Rightarrow> lib_error + DynamicObject list"
  rc_bool :: "bytes \<Rightarrow> lib_error + bool"
  rc_string :: "bytes \<Rightarrow> lib_error + string"
  rc_to_vec :: "json \<Rightarrow> lib_error + bytes"

type_synonym 'a rego_io = "(host_state, RegoRuntimeError, 'a) result_st"

subsection \<open>Requests\<close>

definition make_request_via_callback_channel :: "peer \<Rightarrow> CallbackRequestType \<Rightarrow> bytes rego_io" where
  "make_request_via_callback_channel callback_channel request_type st =
     (case callback_channel (hs_sent st) request_type of
        SendError e \<Rightarrow> (Inl (CallbackSend (le_display e)), st)
      | Answer msg \<Rightarrow> (map_err CallbackRequestError msg, st\<lparr>hs_sent := hs_sent st @ [request_type]\<rparr>)
      | Dropped \<Rightarrow> (Inl (CallbackResponse ''channel closed''), st\<lparr>hs_sent := hs_sent st @ [request_type]\<rparr>))"

definition get_all_resources_by_type ::
  "rego_codec \<Rightarrow> peer \<Rightarrow> ContextAwareResource \<Rightarrow> DynamicObject list rego_io" where
  "get_all_resources_by_type rc callback_channel resource_type =
     bind_st (make_request_via_callback_channel callback_channel
       (KubernetesListResourceAll (car_api_version resource_type) (car_kind resource_type) None None))
       (\<lambda>payload. lift_st (map_err CallbackConvertList (rc_list rc payload)))"

definition get_allowed_resources ::
  "rego_codec \<Rightarrow> peer \<Rightarrow> ContextAwareResource btset
   \<Rightarrow> (ContextAwareResource, DynamicObject list) btmap rego_io" where
  "get_allowed_resources rc callback_channel allowed_resources =
     fold_st (\<lambda>kube_resources resource.
       bind_st (get_all_resources_by_type rc callback_channel resource)
         (\<lambda>resource_list. lift_st (Inr (bt_insert resource resource_list kube_resources))))
     [] allowed_resources"

definition has_resource_changed_since ::
  "rego_codec \<Rightarrow> peer \<Rightarrow> ContextAwareResource \<Rightarrow> instant \<Rightarrow> bool rego_io" where
  "has_resource_changed_since rc callback_channel resource_type since =
     bind_st (make_request_via_callback_channel callback_channel
       (HasKubernetesListResourceAllResultChangedSinceInstant (car_api_version resource_type)
         (car_kind resource_type) None None since))
       (\<lambda>payload. lift_st (map_err CallbackConvertBool (rc_bool rc payload)))"

fun have_allowed_resources_changed_since_instant ::
  "rego_codec \<Rightarrow> peer \<Rightarrow> ContextAwareResource btset \<Rightarrow> instant \<Rightarrow> bool rego_io" where
  "have_allowed_resources_changed_since_instant rc callback_channel [] since = lift_st (Inr False)"
| "have_allowed_resources_changed_since_instant rc callback_channel (resource # resources) since =
     bind_st (has_resource_changed_since rc callback_channel resource since)
       (\<lambda>changed. if changed then lift_st (Inr True)
         else have_allowed_resources_changed_since_instant rc callback_channel resources since)"

definition get_plural_names ::
  "rego_codec \<Rightarrow> peer \<Rightarrow> ContextAwareResource btset \<Rightarrow> (ContextAwareResource, string) btmap rego_io" where
  "get_plural_names rc callback_channel allowed_resources =
     fold_st (\<lambda>plural_names_by_resource resource.
       bind_st (make_request_via_callback_channel callback_channel
         (KubernetesGetResourcePluralName (car_api_version resource) (car_kind resource)))
         (\<lambda>payload. bind_st (lift_st (map_err CallbackGetPluralName (rc_string rc payload)))
           (\<lambda>plural_name. lift_st (Inr (bt_insert resource plural_name plural_names_by_resource)))))
     [] allowed_resources"

subsection \<open>What is asked\<close>

text \<open>The host asks only about the resources on the list, and never with selectors.\<close>

fun context_request :: "ContextAwareResource set \<Rightarrow> CallbackRequestType \<Rightarrow> bool" where
  "context_request allowed (KubernetesListResourceAll a k None None) = (ContextAwareResource a k \<in> allowed)"
| "context_request allowed (HasKubernetesListResourceAllResultChangedSinceInstant a k None None _) =
     (ContextAwareResource a k \<in> allowed)"
| "context_request allowed (KubernetesGetResourcePluralName a k) = (ContextAwareResource a k \<in> allowed)"
| "context_request allowed _ = False"

definition asks :: "(CallbackRequestType \<Rightarrow> bool) \<Rightarrow> 'a rego_io \<Rightarrow> bool" where
  "asks P m \<longleftrightarrow> (\<forall>st. \<exists>qs. hs_sent (snd (m st)) = hs_sent st @ qs \<and> list_all P qs)"

lemma asks_lift [simp, intro]: "asks P (lift_st r)"
  by (simp add: asks_def)

lemma asks_request: "P q \<Longrightarrow> asks P (make_request_via_callback_channel chan q)"
  by (simp add: asks_def make_request_via_callback_channel_def split: reply.split)

lemma asks_bind:
  assumes "asks P m" and "\<And>a. asks P (f a)"
  shows "asks P (bind_st m f)"
  unfolding asks_def
proof
  fix st
  obtain r st1 where m: "m st = (r, st1)" by (cases "m st") auto
  then obtain qs where qs: "hs_sent st1 = hs_sent st @ qs" "list_all P qs"
    using assms(1) unfolding asks_def by (metis snd_conv)
  show "\<exists>qs. hs_sent (snd (bind_st m f st)) = hs_sent st @ qs \<and> list_all P qs"
  proof (cases r)
    case (Inl e)
    with m qs show ?thesis by (simp add: bind_st_def)
  next
    case (Inr a)
    obtain qs2 where "hs_sent (snd (f a st1)) = hs_sent st1 @ qs2" "list_all P qs2"
      using assms(2) unfolding asks_def by metis
    with m qs Inr show ?thesis by (intro exI [of _ "qs @ qs2"]) (simp add: bind_st_def)
  qed
qed

lemma asks_fold:
  assumes "\<And>s x. x \<in> set xs \<Longrightarrow> asks P (f s x)"
  shows "asks P (fold_st f s xs)"
  using assms
proof (induction xs arbitrary: s)
  case Nil
  then show ?case by (simp add: asks_def)
next
  case (Cons x xs)
  have "asks P (bind_st (f s x) (\<lambda>s'. fold_st f s' xs))"
    by (rule asks_bind) (use Cons in auto)
  then show ?case by (simp add: asks_def)
qed

lemma get_allowed_resources_asks:
  "asks (context_request (set rs)) (get_allowed_resources rc chan rs)"
  unfolding get_allowed_resources_def get_all_resources_by_type_def
  by (intro asks_fold asks_bind asks_lift asks_request) simp

lemma get_plural_names_asks: "asks (context_request (set rs)) (get_plural_names rc chan rs)"
  unfolding get_plural_names_def
  by (intro asks_fold asks_bind asks_lift asks_request) simp

lemma have_changed_asks:
  "set rs \<subseteq> A \<Longrightarrow> asks (context_request A) (have_allowed_resources_changed_since_instant rc chan rs t)"
proof (induction rs)
  case (Cons r rs)
  then show ?case
    by (auto simp: has_resource_changed_since_def intro!: asks_bind asks_request)
qed simp

subsection \<open>What is returned\<close>

lemma fold_st_insert_keys:
  assumes "\<And>m x st v st'. f m x st = (Inr v, st') \<Longrightarrow> \<exists>y. v = bt_insert x y m"
    and "fold_st f m xs st = (Inr m', st')"
  shows "bt_get m' k \<noteq> None \<longleftrightarrow> k \<in> set xs \<or> bt_get m k \<noteq> None"
  using assms(2)
proof (induction xs arbitrary: m st)
  case Nil
  then show ?case by simp
next
  case (Cons x xs)
  then obtain m1 st1 where 1: "f m x st = (Inr m1, st1)" "fold_st f m1 xs st1 = (Inr m', st')"
    by (auto simp: bind_st_Inr_iff)
  obtain y where "m1 = bt_insert x y m" using assms(1) [OF 1(1)] by blast
  then show ?case using Cons.IH [OF 1(2)] by (auto simp: bt_get_insert)
qed

lemma fold_st_insert_sorted:
  assumes "\<And>m x st v st'. f m x st = (Inr v, st') \<Longrightarrow> \<exists>y. v = bt_insert x y m"
    and "fold_st f m xs st = (Inr m', st')" and "bt_sorted m"
  shows "bt_sorted m'"
  using assms(2,3)
proof (induction xs arbitrary: m st)
  case (Cons x xs)
  then obtain m1 st1 where 1: "f m x st = (Inr m1, st1)" "fold_st f m1 xs st1 = (Inr m', st')"
    by (auto simp: bind_st_Inr_iff)
  obtain y where "m1 = bt_insert x y m" using assms(1) [OF 1(1)] by blast
  then show ?case using Cons.IH [OF 1(2)] Cons.prems(2) by auto
qed simp

text \<open>Every allowed resource, and no other, is a key of what the queries return.\<close>

lemma get_allowed_resources_keys:
  assumes "get_allowed_resources rc chan rs st = (Inr m, st')"
  shows "bt_sorted m" "bt_get m r \<noteq> None \<longleftrightarrow> r \<in> set rs"
proof -
  let ?f = "\<lambda>kube_resources resource.
       bind_st (get_all_resources_by_type rc chan resource)
         (\<lambda>resource_list. lift_st (Inr (bt_insert resource resource_list kube_resources)))"
  have step: "\<And>m x st v st'. ?f m x st = (Inr v, st') \<Longrightarrow> \<exists>y. v = bt_insert x y m"
    by (auto simp: bind_st_Inr_iff)
  have run: "fold_st ?f [] rs st = (Inr m, st')"
    using assms by (simp add: get_allowed_resources_def)
  show "bt_sorted m" by (rule fold_st_insert_sorted [OF step run]) simp_all
  show "bt_get m r \<noteq> None \<longleftrightarrow> r \<in> set rs"
    using fold_st_insert_keys [OF step run, where k = r] by (simp add: bt_get_def [of "[]"])
qed

lemma get_plural_names_keys:
  assumes "get_plural_names rc chan rs st = (Inr m, st')"
  shows "bt_get m r \<noteq> None \<longleftrightarrow> r \<in> set rs"
proof -
  let ?f = "\<lambda>plural_names_by_resource resource.
       bind_st (make_request_via_callback_channel chan
         (KubernetesGetResourcePluralName (car_api_version resource) (car_kind resource)))
         (\<lambda>payload. bind_st (lift_st (map_err CallbackGetPluralName (rc_string rc payload)))
           (\<lambda>plural_name. lift_st (Inr (bt_insert resource plural_name plural_names_by_resource))))"
  have step: "\<And>m x st v st'. ?f m x st = (Inr v, st') \<Longrightarrow> \<exists>y. v = bt_insert x y m"
    by (auto simp: bind_st_Inr_iff)
  have run: "fold_st ?f [] rs st = (Inr m, st')"
    using assms by (simp add: get_plural_names_def)
  show ?thesis
    using fold_st_insert_keys [OF step run, where k = r] by (simp add: bt_get_def [of "[]"])
qed

end
