(* ===== verification/Inventory.thy ===== *)
theory Inventory
  imports ContextAware
begin

text \<open>
  \<open>src/runtimes/rego/gatekeeper_inventory.rs\<close> and \<open>opa_inventory.rs\<close>: the Kubernetes objects in the
  layout Gatekeeper and OPA policies expect. Both are nested maps filled object by object; the
  locale \<^theory_text>\<open>inventory\<close> is what a policy relies on: an object is found under its path, and the
  last of several objects with the same path wins.
\<close>

locale inventory =
  fixes empty :: 'iv
    and register :: "'iv \<Rightarrow> 'r \<Rightarrow> DynamicObject \<Rightarrow> 'e + 'iv"
    and lookup :: "'iv \<Rightarrow> 'path \<Rightarrow> DynamicObject option"
    and path :: "'r \<Rightarrow> DynamicObject \<Rightarrow> 'path option"
  assumes lookup_empty: "lookup empty p = None"
    and register_path: "register iv r obj = Inr iv' \<Longrightarrow> path r obj \<noteq> None"
    and lookup_register: "register iv r obj = Inr iv' \<Longrightarrow>
      lookup iv' p = (if path r obj = Some p then Some obj else lookup iv p)"
begin

definition fill :: "'iv \<Rightarrow> ('r \<times> DynamicObject) list \<Rightarrow> 'e + 'iv" where
  "fill = try_fold (\<lambda>iv (r, obj). register iv r obj)"

lemma fill_lookup:
  "fill iv xs = Inr iv' \<Longrightarrow>
   lookup iv' p = (case find (\<lambda>(r, obj). path r obj = Some p) (rev xs) of
     Some (r, obj) \<Rightarrow> Some obj | None \<Rightarrow> lookup iv p)"
proof (induction xs arbitrary: iv' rule: rev_induct)
  case Nil
  then show ?case by (simp add: fill_def)
next
  case (snoc x xs)
  obtain r obj where x: "x = (r, obj)" by (cases x) auto
  from snoc.prems obtain i where i: "fill iv xs = Inr i" "register i r obj = Inr iv'"
    by (auto simp: fill_def try_fold_append x)
  show ?case
    using snoc.IH [OF i(1)] lookup_register [OF i(2), of p] by (simp add: x)
qed

lemma fill_paths: "fill iv xs = Inr iv' \<Longrightarrow> (r, obj) \<in> set xs \<Longrightarrow> path r obj \<noteq> None"
proof (induction xs arbitrary: iv)
  case (Cons x xs)
  then show ?case by (auto simp: fill_def dest: register_path)
qed simp

lemma fill_found:
  assumes "fill empty xs = Inr iv" and "(r, obj) \<in> set xs"
  obtains p r' obj' where "path r obj = Some p" "lookup iv p = Some obj'" "(r', obj') \<in> set xs"
    "path r' obj' = Some p"
proof -
  obtain p where p: "path r obj = Some p" using fill_paths [OF assms] by auto
  obtain x where x: "find (\<lambda>(r, obj). path r obj = Some p) (rev xs) = Some x"
    using assms(2) p by (cases "find (\<lambda>(r, obj). path r obj = Some p) (rev xs)") (auto simp: find_None_iff)
  then have "x \<in> set xs" "case x of (r, obj) \<Rightarrow> path r obj = Some p"
    using find_SomeD [OF x] by auto
  with x p fill_lookup [OF assms(1), of p] that show ?thesis by (cases x) auto
qed

lemma fill_only:
  "fill empty xs = Inr iv \<Longrightarrow> lookup iv p = Some obj \<Longrightarrow> \<exists>r. (r, obj) \<in> set xs \<and> path r obj = Some p"
proof -
  assume 1: "fill empty xs = Inr iv" and 2: "lookup iv p = Some obj"
  show ?thesis
  proof (cases "find (\<lambda>(r, obj). path r obj = Some p) (rev xs)")
    case None
    with fill_lookup [OF 1, of p] 2 show ?thesis by (simp add: lookup_empty)
  next
    case (Some x)
    then have "x \<in> set xs" "case x of (r, obj) \<Rightarrow> path r obj = Some p"
      using find_SomeD [OF Some] by auto
    with fill_lookup [OF 1, of p] 2 Some show ?thesis by (cases x) auto
  qed
qed

end

text \<open>The pairs of resource and object of a query result, in the order the code visits them.\<close>

definition visits :: "('r \<times> 'o list) list \<Rightarrow> ('r \<times> 'o) list" where
  "visits m = concat (map (\<lambda>(r, objs). map (\<lambda>obj. (r, obj)) objs) m)"

lemma visits_Cons: "visits ((r, objs) # m) = map (\<lambda>obj. (r, obj)) objs @ visits m"
  by (simp add: visits_def)

lemma set_visits: "(r, obj) \<in> set (visits m) \<longleftrightarrow> (\<exists>objs. (r, objs) \<in> set m \<and> obj \<in> set objs)"
  by (auto simp: visits_def)

lemma try_fold_map: "try_fold f s (map g xs) = try_fold (\<lambda>s x. f s (g x)) s xs"
proof (induction xs arbitrary: s)
  case (Cons x xs)
  then show ?case by (cases "f s (g x)") simp_all
qed simp

subsection \<open>Gatekeeper\<close>

type_synonym ResourcesByName = "(string, DynamicObject) btmap"
type_synonym ResourcesByKind = "(string, ResourcesByName) btmap"
type_synonym ResourcesByGroupVersion = "(string, ResourcesByKind) btmap"
type_synonym GkResourcesByNamespace = "(string, ResourcesByGroupVersion) btmap"

record GatekeeperInventory =
  gk_cluster_resources :: ResourcesByGroupVersion
  gk_namespaced_resources :: GkResourcesByNamespace

text \<open>\<open>entry(k).or_default()\<close> followed by an update of the entry.\<close>

definition entry_or_default ::
  "('k::linorder, 'v) btmap \<Rightarrow> 'k \<Rightarrow> 'v \<Rightarrow> ('v \<Rightarrow> 'e + 'v) \<Rightarrow> 'e + ('k, 'v) btmap" where
  "entry_or_default m k d f = bind_result (f (unwrap_or d (bt_get m k))) (\<lambda>v. Inr (bt_insert k v m))"

definition gk_by_name_register ::
  "ResourcesByName \<Rightarrow> DynamicObject \<Rightarrow> RegoRuntimeError + ResourcesByName" where
  "gk_by_name_register self obj =
     bind_result (ok_or GatekeeperInventoryMissingName (do_name obj)) (\<lambda>name. Inr (bt_insert name obj self))"

definition gk_by_kind_register ::
  "ResourcesByKind \<Rightarrow> DynamicObject \<Rightarrow> ContextAwareResource \<Rightarrow> RegoRuntimeError + ResourcesByKind" where
  "gk_by_kind_register self obj resource =
     entry_or_default self (car_kind resource) [] (\<lambda>m. gk_by_name_register m obj)"

definition gk_by_group_version_register ::
  "ResourcesByGroupVersion \<Rightarrow> DynamicObject \<Rightarrow> ContextAwareResource
   \<Rightarrow> RegoRuntimeError + ResourcesByGroupVersion" where
  "gk_by_group_version_register self obj resource =
     entry_or_default self (car_api_version resource) [] (\<lambda>m. gk_by_kind_register m obj resource)"

definition gk_by_namespace_register ::
  "GkResourcesByNamespace \<Rightarrow> DynamicObject \<Rightarrow> ContextAwareResource
   \<Rightarrow> RegoRuntimeError + GkResourcesByNamespace" where
  "gk_by_namespace_register self obj resource =
     bind_result (ok_or GatekeeperInventoryMissingNamespace (do_namespace obj)) (\<lambda>namespace.
       entry_or_default self namespace [] (\<lambda>m. gk_by_group_version_register m obj resource))"

definition gk_default :: GatekeeperInventory where
  "gk_default = \<lparr>gk_cluster_resources = [], gk_namespaced_resources = []\<rparr>"

definition gk_register ::
  "GatekeeperInventory \<Rightarrow> ContextAwareResource \<Rightarrow> DynamicObject \<Rightarrow> RegoRuntimeError + GatekeeperInventory" where
  "gk_register self resource obj =
     (case do_namespace obj of
        Some _ \<Rightarrow> bind_result (gk_by_namespace_register (gk_namespaced_resources self) obj resource)
          (\<lambda>m. Inr (self\<lparr>gk_namespaced_resources := m\<rparr>))
      | None \<Rightarrow> bind_result (gk_by_group_version_register (gk_cluster_resources self) obj resource)
          (\<lambda>m. Inr (self\<lparr>gk_cluster_resources := m\<rparr>)))"

definition gk_new ::
  "(ContextAwareResource, DynamicObject list) btmap \<Rightarrow> RegoRuntimeError + GatekeeperInventory" where
  "gk_new kube_resources =
     try_fold (\<lambda>inventory (resource, resources_list).
       try_fold (\<lambda>inventory obj. gk_register inventory resource obj) inventory resources_list)
     gk_default kube_resources"

text \<open>Where a policy looks an object up: namespace if any, group version, kind, name.\<close>

definition gk_path ::
  "ContextAwareResource \<Rightarrow> DynamicObject \<Rightarrow> (string option \<times> string \<times> string \<times> string) option" where
  "gk_path r obj = map_option (\<lambda>name. (do_namespace obj, car_api_version r, car_kind r, name)) (do_name obj)"

definition gv_lookup :: "ResourcesByGroupVersion \<Rightarrow> string \<times> string \<times> string \<Rightarrow> DynamicObject option" where
  "gv_lookup m p = (case p of (gv, kind, name) \<Rightarrow>
     Option.bind (bt_get m gv) (\<lambda>k. Option.bind (bt_get k kind) (\<lambda>n. bt_get n name)))"

definition gk_lookup ::
  "GatekeeperInventory \<Rightarrow> string option \<times> string \<times> string \<times> string \<Rightarrow> DynamicObject option" where
  "gk_lookup iv p =
     (case p of
        (None, q) \<Rightarrow> gv_lookup (gk_cluster_resources iv) q
      | (Some ns, q) \<Rightarrow> Option.bind (bt_get (gk_namespaced_resources iv) ns) (\<lambda>m. gv_lookup m q))"

lemma entry_or_default_Inr:
  "entry_or_default m k d f = Inr m' \<longleftrightarrow> (\<exists>v. f (unwrap_or d (bt_get m k)) = Inr v \<and> m' = bt_insert k v m)"
  by (auto simp: entry_or_default_def)

lemma gv_lookup_Nil: "gv_lookup [] p = None"
  by (simp add: gv_lookup_def split: prod.splits)

lemma gv_lookup_register:
  assumes "gk_by_group_version_register m obj r = Inr m'"
  shows "gv_lookup m' (gv, kind, name) =
    (if do_name obj = Some name \<and> gv = car_api_version r \<and> kind = car_kind r then Some obj
     else gv_lookup m (gv, kind, name))"
proof -
  obtain n where n: "do_name obj = Some n"
    and m': "m' = bt_insert (car_api_version r)
      (bt_insert (car_kind r)
        (bt_insert n obj (unwrap_or [] (bt_get (unwrap_or [] (bt_get m (car_api_version r))) (car_kind r))))
        (unwrap_or [] (bt_get m (car_api_version r)))) m"
    using assms by (auto simp: gk_by_group_version_register_def gk_by_kind_register_def
        gk_by_name_register_def entry_or_default_Inr)
  show ?thesis
    by (cases "bt_get m (car_api_version r)";
        cases "bt_get (unwrap_or [] (bt_get m (car_api_version r))) (car_kind r)")
      (auto simp: gv_lookup_def m' n bt_get_insert)
qed

lemma gv_register_named: "gk_by_group_version_register m obj r = Inr m' \<Longrightarrow> do_name obj \<noteq> None"
  by (auto simp: gk_by_group_version_register_def gk_by_kind_register_def gk_by_name_register_def
      entry_or_default_Inr)

lemma gk_register_named: "gk_register iv r obj = Inr iv' \<Longrightarrow> do_name obj \<noteq> None"
  by (auto simp: gk_register_def gk_by_namespace_register_def entry_or_default_Inr
      dest: gv_register_named split: option.splits)

lemma gk_lookup_register:
  assumes "gk_register iv r obj = Inr iv'"
  shows "gk_lookup iv' p = (if gk_path r obj = Some p then Some obj else gk_lookup iv p)"
proof -
  obtain ns gv kind name where p: "p = (ns, gv, kind, name)" by (cases p) auto
  show ?thesis
  proof (cases "do_namespace obj")
    case None
    then obtain m where m: "gk_by_group_version_register (gk_cluster_resources iv) obj r = Inr m"
      and iv': "iv' = iv\<lparr>gk_cluster_resources := m\<rparr>"
      using assms by (auto simp: gk_register_def)
    show ?thesis
      using gv_lookup_register [OF m, of gv kind name]
      by (cases ns) (auto simp: p iv' gk_lookup_def gk_path_def None)
  next
    case (Some n)
    then obtain m where
      m: "gk_by_group_version_register (unwrap_or [] (bt_get (gk_namespaced_resources iv) n)) obj r = Inr m"
      and iv': "iv' = iv\<lparr>gk_namespaced_resources := bt_insert n m (gk_namespaced_resources iv)\<rparr>"
      using assms by (auto simp: gk_register_def gk_by_namespace_register_def entry_or_default_Inr)
    show ?thesis
      using gv_lookup_register [OF m, of gv kind name]
      by (cases ns; cases "bt_get (gk_namespaced_resources iv) n")
        (auto simp: p iv' gk_lookup_def gk_path_def Some bt_get_insert gv_lookup_Nil)
  qed
qed

interpretation gk: inventory gk_default gk_register gk_lookup gk_path
proof
  show "gk_lookup gk_default p = None" for p
    by (simp add: gk_lookup_def gk_default_def gv_lookup_Nil split: prod.splits option.splits)
  show "gk_path r obj \<noteq> None" if "gk_register iv r obj = Inr iv'" for iv r obj iv'
    using gk_register_named [OF that] by (simp add: gk_path_def)
  show "gk_lookup iv' p = (if gk_path r obj = Some p then Some obj else gk_lookup iv p)"
    if "gk_register iv r obj = Inr iv'" for iv r obj iv' p
    by (rule gk_lookup_register [OF that])
qed

lemma gk_new_fill: "gk_new m = gk.fill gk_default (visits m)"
proof -
  have "try_fold (\<lambda>inventory (resource, resources_list).
       try_fold (\<lambda>inventory obj. gk_register inventory resource obj) inventory resources_list) iv m
    = gk.fill iv (visits m)" for iv
  proof (induction m arbitrary: iv)
    case Nil
    then show ?case by (simp add: visits_def gk.fill_def)
  next
    case (Cons x m)
    obtain r objs where x: "x = (r, objs)" by (cases x) auto
    show ?case
      by (cases "try_fold (\<lambda>inventory obj. gk_register inventory r obj) iv objs")
        (simp_all add: x visits_Cons gk.fill_def try_fold_append try_fold_map Cons.IH [unfolded gk.fill_def])
  qed
  then show ?thesis by (simp add: gk_new_def)
qed

lemma gk_register_ok: "do_name obj \<noteq> None \<Longrightarrow> \<exists>iv'. gk_register iv r obj = Inr iv'"
  by (auto simp: gk_register_def gk_by_namespace_register_def gk_by_group_version_register_def
      gk_by_kind_register_def gk_by_name_register_def entry_or_default_def split: option.splits)

lemma gk_fill_ok: "list_all (\<lambda>(r, obj). do_name obj \<noteq> None) xs \<Longrightarrow> \<exists>iv'. gk.fill iv xs = Inr iv'"
proof (induction xs arbitrary: iv)
  case (Cons x xs)
  obtain r obj where x: "x = (r, obj)" by (cases x) auto
  obtain i where "gk_register iv r obj = Inr i" using gk_register_ok [of obj iv r] Cons.prems x by auto
  with Cons x show ?case by (simp add: gk.fill_def)
qed (simp add: gk.fill_def)

lemma gk_new_ok_iff: "is_ok (gk_new m) \<longleftrightarrow> list_all (\<lambda>(r, obj). do_name obj \<noteq> None) (visits m)"
proof
  assume "is_ok (gk_new m)"
  then obtain iv where "gk.fill gk_default (visits m) = Inr iv"
    by (auto simp: is_ok_iff gk_new_fill)
  then show "list_all (\<lambda>(r, obj). do_name obj \<noteq> None) (visits m)"
    by (auto simp: list_all_iff gk_path_def dest: gk.fill_paths)
next
  assume "list_all (\<lambda>(r, obj). do_name obj \<noteq> None) (visits m)"
  from gk_fill_ok [OF this] show "is_ok (gk_new m)" by (auto simp: is_ok_iff gk_new_fill)
qed

subsection \<open>OPA\<close>

type_synonym OpaResourcesByNamespace = "(string, ResourcesByName) btmap"

datatype ResourcesByScope = Cluster ResourcesByName | Namespace OpaResourcesByNamespace

type_synonym ResourcesByPluralName = "(string, ResourcesByScope) btmap"

definition opa_by_name_register ::
  "ResourcesByName \<Rightarrow> DynamicObject \<Rightarrow> RegoRuntimeError + ResourcesByName" where
  "opa_by_name_register self obj =
     bind_result (ok_or OpaInventoryMissingName (do_name obj)) (\<lambda>name. Inr (bt_insert name obj self))"

definition opa_by_namespace_register ::
  "OpaResourcesByNamespace \<Rightarrow> DynamicObject \<Rightarrow> RegoRuntimeError + OpaResourcesByNamespace" where
  "opa_by_namespace_register self obj =
     bind_result (ok_or OpaInventoryMissingNamespace (do_namespace obj)) (\<lambda>namespace.
       entry_or_default self namespace [] (\<lambda>m. opa_by_name_register m obj))"

fun opa_by_scope_register ::
  "ResourcesByScope \<Rightarrow> DynamicObject \<Rightarrow> RegoRuntimeError + ResourcesByScope" where
  "opa_by_scope_register (Cluster cluster_resources) obj =
     bind_result (opa_by_name_register cluster_resources obj) (\<lambda>m. Inr (Cluster m))"
| "opa_by_scope_register (Namespace namespace_resources) obj =
     bind_result (opa_by_namespace_register namespace_resources obj) (\<lambda>m. Inr (Namespace m))"

definition opa_by_plural_name_register ::
  "ResourcesByPluralName \<Rightarrow> DynamicObject \<Rightarrow> string \<Rightarrow> RegoRuntimeError + ResourcesByPluralName" where
  "opa_by_plural_name_register self obj plural_name =
     (let obj_namespaced = do_namespace obj \<noteq> None in
      case bt_get self plural_name of
        Some resources_by_scope \<Rightarrow>
          bind_result
            (case resources_by_scope of
               Cluster _ \<Rightarrow> if obj_namespaced then Inl OpaInventoryAddNamespacedRes else Inr ()
             | Namespace _ \<Rightarrow> if \<not> obj_namespaced then Inl OpaInventoryAddClusterwideRes else Inr ())
            (\<lambda>_. bind_result (opa_by_scope_register resources_by_scope obj)
              (\<lambda>s. Inr (bt_insert plural_name s self)))
      | None \<Rightarrow>
          bind_result (opa_by_scope_register (if obj_namespaced then Namespace [] else Cluster []) obj)
            (\<lambda>s. Inr (bt_insert plural_name s self)))"

definition opa_register ::
  "ResourcesByPluralName \<Rightarrow> string \<Rightarrow> DynamicObject \<Rightarrow> RegoRuntimeError + ResourcesByPluralName" where
  "opa_register self plural_name obj = opa_by_plural_name_register self obj plural_name"

definition debug_car :: "ContextAwareResource \<Rightarrow> string" where
  "debug_car r = debug_resource r"

definition opa_new ::
  "(ContextAwareResource, DynamicObject list) btmap \<Rightarrow> (ContextAwareResource, string) btmap
   \<Rightarrow> RegoRuntimeError + ResourcesByPluralName" where
  "opa_new kube_resources plural_names =
     try_fold (\<lambda>inventory (resource, resources_list).
       bind_result (ok_or (OpaInventoryMissingPluralName (debug_resource resource))
         (bt_get plural_names resource)) (\<lambda>plural_name.
       try_fold (\<lambda>inventory obj. opa_register inventory plural_name obj) inventory resources_list))
     [] kube_resources"

text \<open>Where a policy looks an object up: plural name, namespace if any, name.\<close>

definition opa_path :: "string \<Rightarrow> DynamicObject \<Rightarrow> (string \<times> string option \<times> string) option" where
  "opa_path plural obj = map_option (\<lambda>name. (plural, do_namespace obj, name)) (do_name obj)"

fun scope_lookup :: "ResourcesByScope \<Rightarrow> string option \<Rightarrow> string \<Rightarrow> DynamicObject option" where
  "scope_lookup (Cluster m) None name = bt_get m name"
| "scope_lookup (Namespace m) (Some ns) name = Option.bind (bt_get m ns) (\<lambda>n. bt_get n name)"
| "scope_lookup _ _ _ = None"

definition opa_lookup ::
  "ResourcesByPluralName \<Rightarrow> string \<times> string option \<times> string \<Rightarrow> DynamicObject option" where
  "opa_lookup m p = (case p of (plural, ns, name) \<Rightarrow>
     Option.bind (bt_get m plural) (\<lambda>s. scope_lookup s ns name))"

definition scope_of :: "DynamicObject \<Rightarrow> ResourcesByScope" where
  "scope_of obj = (if do_namespace obj = None then Cluster [] else Namespace [])"

fun same_scope :: "ResourcesByScope \<Rightarrow> DynamicObject \<Rightarrow> bool" where
  "same_scope (Cluster _) obj \<longleftrightarrow> do_namespace obj = None"
| "same_scope (Namespace _) obj \<longleftrightarrow> do_namespace obj \<noteq> None"

lemma opa_register_Inr:
  "opa_register m plural obj = Inr m' \<longleftrightarrow>
     (\<exists>s s'. (bt_get m plural = Some s \<and> same_scope s obj \<or> bt_get m plural = None \<and> s = scope_of obj) \<and>
        opa_by_scope_register s obj = Inr s' \<and> m' = bt_insert plural s' m)"
proof (cases "bt_get m plural")
  case None
  then show ?thesis by (auto simp: opa_register_def opa_by_plural_name_register_def Let_def scope_of_def)
next
  case (Some s)
  then show ?thesis
    by (cases s) (auto simp: opa_register_def opa_by_plural_name_register_def Let_def)
qed

lemma scope_register_Inr:
  assumes "opa_by_scope_register s obj = Inr s'"
  shows "do_name obj \<noteq> None"
    "same_scope s obj \<Longrightarrow> scope_lookup s' ns name =
      (if ns = do_namespace obj \<and> do_name obj = Some name then Some obj else scope_lookup s ns name)"
    "same_scope s obj \<Longrightarrow> same_scope s' = same_scope s"
proof -
  show "do_name obj \<noteq> None"
    using assms by (cases s) (auto simp: opa_by_name_register_def opa_by_namespace_register_def
        entry_or_default_Inr)
  show "same_scope s' = same_scope s" if "same_scope s obj"
    using assms that by (cases s) (auto simp: fun_eq_iff)
  show "scope_lookup s' ns name =
      (if ns = do_namespace obj \<and> do_name obj = Some name then Some obj else scope_lookup s ns name)"
    if sc: "same_scope s obj"
  proof (cases s)
    case (Cluster m)
    then show ?thesis
      using assms sc by (cases ns) (auto simp: opa_by_name_register_def bt_get_insert)
  next
    case (Namespace m)
    then obtain n where n: "do_namespace obj = Some n" using sc by auto
    show ?thesis
      using assms Namespace n
      by (cases ns; cases "bt_get m n")
        (auto simp: opa_by_namespace_register_def opa_by_name_register_def entry_or_default_Inr bt_get_insert)
  qed
qed

lemma same_scope_scope_of [simp]: "same_scope (scope_of obj) obj"
  by (simp add: scope_of_def)

lemma scope_lookup_scope_of [simp]: "scope_lookup (scope_of obj) ns name = None"
  by (cases ns) (simp_all add: scope_of_def)

lemma opa_lookup_register:
  assumes "opa_register m plural obj = Inr m'"
  shows "opa_lookup m' p = (if opa_path plural obj = Some p then Some obj else opa_lookup m p)"
proof -
  obtain pl ns name where p: "p = (pl, ns, name)" by (cases p) auto
  obtain s s' where s: "bt_get m plural = Some s \<and> same_scope s obj \<or> bt_get m plural = None \<and> s = scope_of obj"
    and s': "opa_by_scope_register s obj = Inr s'" and m': "m' = bt_insert plural s' m"
    using assms unfolding opa_register_Inr by blast
  have "same_scope s obj" using s by auto
  note * = scope_register_Inr(2) [OF s' this, of ns name]
  show ?thesis
    using s * by (auto simp: p m' opa_lookup_def opa_path_def bt_get_insert)
qed

interpretation opa: inventory "[]" opa_register opa_lookup opa_path
proof
  show "opa_lookup [] p = None" for p
    by (simp add: opa_lookup_def split: prod.splits)
  show "opa_path plural obj \<noteq> None" if "opa_register m plural obj = Inr m'" for m plural obj m'
    using that scope_register_Inr(1) by (auto simp: opa_register_Inr opa_path_def)
  show "opa_lookup m' p = (if opa_path plural obj = Some p then Some obj else opa_lookup m p)"
    if "opa_register m plural obj = Inr m'" for m plural obj m' p
    by (rule opa_lookup_register [OF that])
qed

text \<open>The objects with their plural names, when every resource has one.\<close>

definition plural_visits ::
  "(ContextAwareResource, DynamicObject list) btmap \<Rightarrow> (ContextAwareResource, string) btmap
   \<Rightarrow> (string \<times> DynamicObject) list" where
  "plural_visits m plural = visits (map (\<lambda>(r, objs). (unwrap_or [] (bt_get plural r), objs)) m)"

lemma opa_new_fill:
  assumes "opa_new m plural = Inr iv"
  shows "opa.fill [] (plural_visits m plural) = Inr iv" "\<forall>(r, objs) \<in> set m. bt_get plural r \<noteq> None"
proof -
  let ?f = "\<lambda>inventory (resource, resources_list).
       bind_result (ok_or (OpaInventoryMissingPluralName (debug_resource resource))
         (bt_get plural resource)) (\<lambda>plural_name.
       try_fold (\<lambda>inventory obj. opa_register inventory plural_name obj) inventory resources_list)"
  have "try_fold ?f i m = Inr iv \<Longrightarrow>
      opa.fill i (plural_visits m plural) = Inr iv \<and> (\<forall>(r, objs) \<in> set m. bt_get plural r \<noteq> None)" for i
  proof (induction m arbitrary: i)
    case Nil
    then show ?case by (simp add: plural_visits_def visits_def opa.fill_def)
  next
    case (Cons x m)
    obtain r objs where x: "x = (r, objs)" by (cases x) auto
    obtain pl j where pl: "bt_get plural r = Some pl"
      and j: "try_fold (\<lambda>inventory obj. opa_register inventory pl obj) i objs = Inr j"
      and rest: "try_fold ?f j m = Inr iv"
      using Cons.prems x by auto
    show ?case
      using Cons.IH [OF rest] j pl
      by (simp add: x plural_visits_def visits_Cons opa.fill_def try_fold_append try_fold_map)
  qed
  then show "opa.fill [] (plural_visits m plural) = Inr iv" "\<forall>(r, objs) \<in> set m. bt_get plural r \<noteq> None"
    using assms unfolding opa_new_def by blast+
qed

lemma opa_lookup_scope:
  assumes "opa_lookup m (plural, ns, n) = Some a" "opa_lookup m (plural, ns', n') = Some b"
  shows "ns = None \<longleftrightarrow> ns' = None"
proof -
  obtain s where "bt_get m plural = Some s" "scope_lookup s ns n = Some a" "scope_lookup s ns' n' = Some b"
    using assms by (auto simp: opa_lookup_def bind_eq_Some_conv)
  then show ?thesis by (cases s; cases ns; cases ns') auto
qed

lemma opa_fill_scopes:
  assumes "opa.fill [] xs = Inr iv" "(plural, a) \<in> set xs" "(plural, b) \<in> set xs"
  shows "do_namespace a = None \<longleftrightarrow> do_namespace b = None"
proof -
  obtain p a' pl where p: "opa_path plural a = Some p" "opa_lookup iv p = Some a'"
    by (rule opa.fill_found [OF assms(1,2)]) auto
  obtain q b' where q: "opa_path plural b = Some q" "opa_lookup iv q = Some b'"
    by (rule opa.fill_found [OF assms(1,3)]) auto
  from p q opa_lookup_scope [of iv plural "do_namespace a" _ a' "do_namespace b" _ b']
  show ?thesis by (auto simp: opa_path_def)
qed

subsection \<open>JSON form\<close>

definition by_name_json :: "ResourcesByName \<Rightarrow> json" where
  "by_name_json m = Object (map (\<lambda>(k, v). (k, do_json v)) m)"

definition by_kind_json :: "ResourcesByKind \<Rightarrow> json" where
  "by_kind_json m = Object (map (\<lambda>(k, v). (k, by_name_json v)) m)"

definition by_group_version_json :: "ResourcesByGroupVersion \<Rightarrow> json" where
  "by_group_version_json m = Object (map (\<lambda>(k, v). (k, by_kind_json v)) m)"

definition gk_by_namespace_json :: "GkResourcesByNamespace \<Rightarrow> json" where
  "gk_by_namespace_json m = Object (map (\<lambda>(k, v). (k, by_group_version_json v)) m)"

definition gk_to_json :: "GatekeeperInventory \<Rightarrow> json" where
  "gk_to_json iv = json_obj
     [(''cluster'', by_group_version_json (gk_cluster_resources iv)),
      (''namespace'', gk_by_namespace_json (gk_namespaced_resources iv))]"

definition opa_by_namespace_json :: "OpaResourcesByNamespace \<Rightarrow> json" where
  "opa_by_namespace_json m = Object (map (\<lambda>(k, v). (k, by_name_json v)) m)"

fun by_scope_json :: "ResourcesByScope \<Rightarrow> json" where
  "by_scope_json (Cluster m) = by_name_json m"
| "by_scope_json (Namespace m) = opa_by_namespace_json m"

definition opa_to_json :: "ResourcesByPluralName \<Rightarrow> json" where
  "opa_to_json m = Object (map (\<lambda>(k, v). (k, by_scope_json v)) m)"

lemma bt_get_map: "bt_get (map (\<lambda>(k, v). (k, f v)) m) k = map_option f (bt_get m k)"
  by (simp add: bt_get_def map_of_map)

lemma get_key_map: "get_key (Object (map (\<lambda>(k, v). (k, f v)) m)) k = map_option f (bt_get m k)"
  by (simp add: bt_get_map)

text \<open>Looking a path up in the JSON document finds what the inventory holds under it.\<close>

definition json_path :: "json \<Rightarrow> string list \<Rightarrow> json option" where
  "json_path j ks = fold (\<lambda>k j. Option.bind j (\<lambda>j. get_key j k)) ks (Some j)"

lemma opa_json_path:
  "opa_lookup m (plural, Some ns, name) = Some obj \<Longrightarrow> json_path (opa_to_json m) [plural, ns, name] = Some (do_json obj)"
  "opa_lookup m (plural, None, name) = Some obj \<Longrightarrow> json_path (opa_to_json m) [plural, name] = Some (do_json obj)"
  by (auto simp: opa_lookup_def json_path_def opa_to_json_def opa_by_namespace_json_def by_name_json_def
      bt_get_map bind_eq_Some_conv elim!: scope_lookup.elims dest!: sym [of "Some obj"])

lemma gk_json_path:
  "gk_lookup iv (Some ns, gv, kind, name) = Some obj \<Longrightarrow>
     json_path (gk_to_json iv) [''namespace'', ns, gv, kind, name] = Some (do_json obj)"
  "gk_lookup iv (None, gv, kind, name) = Some obj \<Longrightarrow>
     json_path (gk_to_json iv) [''cluster'', gv, kind, name] = Some (do_json obj)"
  by (auto simp: gk_lookup_def gv_lookup_def json_path_def gk_to_json_def get_key_json_obj_distinct
      gk_by_namespace_json_def by_group_version_json_def by_kind_json_def by_name_json_def
      bt_get_map bind_eq_Some_conv)

subsection \<open>Properties\<close>

lemma try_fold_Inl: "try_fold f s xs = Inl e \<Longrightarrow> \<exists>s x. x \<in> set xs \<and> f s x = Inl e"
proof (induction xs arbitrary: s)
  case (Cons x xs)
  then consider "f s x = Inl e" | s' where "try_fold f s' xs = Inl e"
    by (auto simp: bind_result_Inl_iff)
  then show ?case using Cons.IH by cases force+
qed simp

lemma gk_register_error: "gk_register iv r obj = Inl e \<Longrightarrow> e = GatekeeperInventoryMissingName"
  by (auto simp: gk_register_def gk_by_namespace_register_def gk_by_group_version_register_def
      gk_by_kind_register_def gk_by_name_register_def entry_or_default_def bind_result_Inl_iff
      ok_or_def split: option.splits)

text \<open>C18: building the Gatekeeper inventory succeeds exactly when every object has a name, and the
  only other outcome is the error about the missing name. In the inventory, an object is found
  under its namespace (or the cluster), group version, kind and name, the last visited object wins,
  and nothing else is found.\<close>

theorem gatekeeper_inventory_spec:
  "case gk_new m of
     Inl e \<Rightarrow> e = GatekeeperInventoryMissingName \<and> \<not> list_all (\<lambda>(r, obj). do_name obj \<noteq> None) (visits m)
   | Inr iv \<Rightarrow> list_all (\<lambda>(r, obj). do_name obj \<noteq> None) (visits m) \<and>
       gk_lookup iv p = map_option snd (find (\<lambda>(r, obj). gk_path r obj = Some p) (rev (visits m)))"
proof (cases "gk_new m")
  case (Inl e)
  then have "gk.fill gk_default (visits m) = Inl e" by (simp add: gk_new_fill)
  then have "e = GatekeeperInventoryMissingName"
    by (auto simp: gk.fill_def dest!: try_fold_Inl intro: gk_register_error)
  with Inl gk_new_ok_iff [of m] show ?thesis by simp
next
  case (Inr iv)
  then have "gk.fill gk_default (visits m) = Inr iv" by (simp add: gk_new_fill)
  from gk.fill_lookup [OF this, of p] Inr gk_new_ok_iff [of m] show ?thesis
    by (auto simp: gk.lookup_empty split: option.splits)
qed

text \<open>An OPA inventory that is built holds every object under the plural name of its resource,
  its namespace if it has one, and its name, the last visited object winning; every resource has a
  plural name, and the objects under one plural name are all namespaced or all cluster-wide.\<close>

theorem opa_inventory_spec:
  assumes "opa_new m plural = Inr iv"
  shows "opa_lookup iv p =
      map_option snd (find (\<lambda>(pl, obj). opa_path pl obj = Some p) (rev (plural_visits m plural))) \<and>
    (\<forall>(r, objs) \<in> set m. bt_get plural r \<noteq> None) \<and>
    (\<forall>(pl, a) \<in> set (plural_visits m plural). \<forall>(pl', b) \<in> set (plural_visits m plural).
       pl = pl' \<longrightarrow> (do_namespace a = None \<longleftrightarrow> do_namespace b = None))"
proof (intro conjI)
  note fill = opa_new_fill [OF assms]
  show "opa_lookup iv p =
      map_option snd (find (\<lambda>(pl, obj). opa_path pl obj = Some p) (rev (plural_visits m plural)))"
    using opa.fill_lookup [OF fill(1), of p] by (auto simp: opa.lookup_empty split: option.splits)
  show "\<forall>(r, objs) \<in> set m. bt_get plural r \<noteq> None" by (rule fill(2))
  show "\<forall>(pl, a) \<in> set (plural_visits m plural). \<forall>(pl', b) \<in> set (plural_visits m plural).
       pl = pl' \<longrightarrow> (do_namespace a = None \<longleftrightarrow> do_namespace b = None)"
    by (clarify, rule opa_fill_scopes [OF fill(1)])
qed

definition example_namespace :: DynamicObject where
  "example_namespace = \<lparr>do_name = Some ''default'', do_namespace = None, do_json = Null\<rparr>"

theorem opa_inventory_spec_witness:
  "\<exists>iv. opa_new [(ContextAwareResource ''v1'' ''Namespace'', [example_namespace])]
       [(ContextAwareResource ''v1'' ''Namespace'', ''namespaces'')] = Inr iv \<and>
     opa_lookup iv (''namespaces'', None, ''default'') = Some example_namespace"
proof -
  let ?m = "[(ContextAwareResource ''v1'' ''Namespace'', [example_namespace])]"
  let ?p = "[(ContextAwareResource ''v1'' ''Namespace'', ''namespaces'')]"
  let ?iv = "[(''namespaces'', Cluster [(''default'', example_namespace)])]"
  have new: "opa_new ?m ?p = Inr ?iv"
    by (simp add: opa_new_def opa_register_def opa_by_plural_name_register_def opa_by_name_register_def
        example_namespace_def)
  have "opa_lookup ?iv (''namespaces'', None, ''default'') = Some example_namespace"
    using opa_inventory_spec [OF new, of "(''namespaces'', None, ''default'')"]
    by (simp add: plural_visits_def visits_def opa_path_def example_namespace_def)
  with new show ?thesis by blast
qed

text \<open>The document a Gatekeeper policy sees has every object of the inventory under the members
  the documentation names: \<open>cluster\<close>, group version, kind and name, or \<open>namespace\<close>, the
  namespace, group version, kind and name; the OPA document under plural name, namespace and name.\<close>

theorem inventory_documents:
  "(case gk_lookup iv (ns, gv, kind, name) of None \<Rightarrow> True | Some obj \<Rightarrow>
      json_path (gk_to_json iv)
        ((case ns of None \<Rightarrow> [''cluster''] | Some n \<Rightarrow> [''namespace'', n]) @ [gv, kind, name])
      = Some (do_json obj)) \<and>
   (case opa_lookup m (plural, ns, name) of None \<Rightarrow> True | Some obj \<Rightarrow>
      json_path (opa_to_json m) (plural # (case ns of None \<Rightarrow> [] | Some n \<Rightarrow> [n]) @ [name])
      = Some (do_json obj))"
  using gk_json_path opa_json_path by (cases ns) (auto split: option.splits)

end
