(* ===== verification/InventoryCache.thy ===== *)
theory InventoryCache
  imports Inventory
begin

text \<open>
  \<open>src/runtimes/rego/gatekeeper_inventory_cache.rs\<close>: the global cache of serialized Gatekeeper
  inventories, keyed by the set of resources. The cache is an association list with distinct keys
  (a \<open>HashMap\<close>); \<open>now\<close> is the clock reading taken before the resources are queried.
\<close>

record CachedInventory =
  ci_data :: bytes
  ci_cache_time :: instant

type_synonym inventory_cache = "(ContextAwareResource btset \<times> CachedInventory) list"

definition gatekeeper_input_json :: "GatekeeperInventory \<Rightarrow> json" where
  "gatekeeper_input_json iv = json_obj [(''inventory'', gk_to_json iv)]"

text \<open>What a fresh computation of the inventory gives, without the cache.\<close>

definition compute_inventory ::
  "rego_codec \<Rightarrow> peer \<Rightarrow> ContextAwareResource btset \<Rightarrow> bytes rego_io" where
  "compute_inventory rc chan resources =
     bind_st (get_allowed_resources rc chan resources) (\<lambda>cluster_resources.
     bind_st (lift_st (gk_new cluster_resources)) (\<lambda>iv.
     lift_st (map_err GatekeeperInventorySerializationError (rc_to_vec rc (gatekeeper_input_json iv)))))"

definition create_and_register_inventory ::
  "rego_codec \<Rightarrow> peer \<Rightarrow> ContextAwareResource btset \<Rightarrow> instant \<Rightarrow> inventory_cache
   \<Rightarrow> host_state \<Rightarrow> ((RegoRuntimeError + CachedInventory) \<times> inventory_cache) \<times> host_state" where
  "create_and_register_inventory rc chan resources now cache st =
     (case compute_inventory rc chan resources st of
        (Inl e, st') \<Rightarrow> ((Inl e, cache), st')
      | (Inr data, st') \<Rightarrow>
          (let cached_inventory = \<lparr>ci_data = data, ci_cache_time = now\<rparr>
           in ((Inr cached_inventory, hm_insert resources cached_inventory cache), st')))"

definition get_inventory ::
  "rego_codec \<Rightarrow> peer \<Rightarrow> ContextAwareResource btset \<Rightarrow> instant \<Rightarrow> inventory_cache
   \<Rightarrow> host_state \<Rightarrow> ((RegoRuntimeError + bytes) \<times> inventory_cache) \<times> host_state" where
  "get_inventory rc chan resources now cache st =
     (let result =
        (case hm_get cache resources of
           None \<Rightarrow> create_and_register_inventory rc chan resources now cache st
         | Some cached_inventory \<Rightarrow>
             (case have_allowed_resources_changed_since_instant rc chan resources
                     (ci_cache_time cached_inventory) st of
                (Inl e, st') \<Rightarrow> ((Inl e, cache), st')
              | (Inr changed, st') \<Rightarrow>
                  if changed then create_and_register_inventory rc chan resources now cache st'
                  else ((Inr cached_inventory, cache), st')))
      in case result of ((r, cache'), st') \<Rightarrow> ((bind_result r (\<lambda>i. Inr (ci_data i)), cache'), st'))"

lemma create_inventory_cases:
  obtains (err) e st' where "compute_inventory rc chan rs st = (Inl e, st')"
    "create_and_register_inventory rc chan rs now cache st = ((Inl e, cache), st')"
  | (ok) data st' where "compute_inventory rc chan rs st = (Inr data, st')"
    "create_and_register_inventory rc chan rs now cache st =
      ((Inr \<lparr>ci_data = data, ci_cache_time = now\<rparr>,
        hm_insert rs \<lparr>ci_data = data, ci_cache_time = now\<rparr> cache), st')"
  by (cases "compute_inventory rc chan rs st"; cases "fst (compute_inventory rc chan rs st)")
    (auto simp: create_and_register_inventory_def Let_def)

lemma compute_inventory_asks: "asks (context_request (set rs)) (compute_inventory rc chan rs)"
  unfolding compute_inventory_def
  by (intro asks_bind asks_lift get_allowed_resources_asks)

lemma create_inventory_sends:
  "\<exists>qs. hs_sent (snd (create_and_register_inventory rc chan rs now cache st)) = hs_sent st @ qs \<and>
     list_all (context_request (set rs)) qs"
proof -
  have "snd (create_and_register_inventory rc chan rs now cache st) = snd (compute_inventory rc chan rs st)"
    by (cases rule: create_inventory_cases [of rc chan rs st now cache]) simp_all
  then show ?thesis using compute_inventory_asks [of rs rc chan] by (simp add: asks_def)
qed

lemma get_inventory_sends:
  "\<exists>qs. hs_sent (snd (get_inventory rc chan rs now cache st)) = hs_sent st @ qs \<and>
     list_all (context_request (set rs)) qs"
proof (cases "hm_get cache rs")
  case None
  then show ?thesis
    using create_inventory_sends [of rc chan rs now cache st]
    by (simp add: get_inventory_def Let_def split_beta)
next
  case (Some c)
  obtain r st1 where 1: "have_allowed_resources_changed_since_instant rc chan rs (ci_cache_time c) st = (r, st1)"
    by (cases "have_allowed_resources_changed_since_instant rc chan rs (ci_cache_time c) st") auto
  have "asks (context_request (set rs))
      (have_allowed_resources_changed_since_instant rc chan rs (ci_cache_time c))"
    by (rule have_changed_asks) simp
  with 1 obtain qs where qs: "hs_sent st1 = hs_sent st @ qs" "list_all (context_request (set rs)) qs"
    unfolding asks_def by (metis snd_conv)
  obtain qs2 where qs2: "hs_sent (snd (create_and_register_inventory rc chan rs now cache st1)) = hs_sent st1 @ qs2"
    "list_all (context_request (set rs)) qs2"
    using create_inventory_sends by blast
  show ?thesis
  proof (cases "\<exists>changed. r = Inr changed \<and> changed")
    case True
    then have "r = Inr True" by auto
    with Some 1 qs qs2 show ?thesis
      by (intro exI [of _ "qs @ qs2"]) (simp add: get_inventory_def Let_def split_beta)
  next
    case False
    with Some 1 qs show ?thesis
      by (intro exI [of _ qs]) (auto simp: get_inventory_def Let_def split: sum.splits)
  qed
qed

text \<open>
  Every cached inventory was computed, at its cache time or later, from answers of the channel: the
  invariant of the cache.
\<close>

definition computed_by :: "rego_codec \<Rightarrow> peer \<Rightarrow> ContextAwareResource btset \<Rightarrow> bytes \<Rightarrow> bool" where
  "computed_by rc chan rs data \<longleftrightarrow> (\<exists>st st'. compute_inventory rc chan rs st = (Inr data, st'))"

definition cache_ok :: "rego_codec \<Rightarrow> peer \<Rightarrow> inventory_cache \<Rightarrow> bool" where
  "cache_ok rc chan cache \<longleftrightarrow> hm_wf cache \<and>
     (\<forall>rs c. hm_get cache rs = Some c \<longrightarrow> computed_by rc chan rs (ci_data c))"

lemma create_inventory_ok:
  assumes "cache_ok rc chan cache"
    and "create_and_register_inventory rc chan rs now cache st = ((r, cache'), st')"
  shows "cache_ok rc chan cache'" "r = Inr c \<Longrightarrow> computed_by rc chan rs (ci_data c)"
proof -
  have "cache_ok rc chan cache' \<and> (\<forall>c. r = Inr c \<longrightarrow> computed_by rc chan rs (ci_data c))"
  proof (cases rule: create_inventory_cases [of rc chan rs st now cache])
    case (err e st'')
    with assms show ?thesis by auto
  next
    case (ok data st'')
    then have "computed_by rc chan rs data" by (auto simp: computed_by_def)
    with assms ok show ?thesis by (auto simp: cache_ok_def hm_wf_insert hm_get_insert split: if_splits)
  qed
  then show "cache_ok rc chan cache'" "r = Inr c \<Longrightarrow> computed_by rc chan rs (ci_data c)" by simp_all
qed

lemma get_inventory_result:
  assumes "get_inventory rc chan rs now cache st = ((r, cache'), st')"
  shows "\<exists>r0. r = bind_result r0 (\<lambda>i. Inr (ci_data i)) \<and>
    ((\<exists>s1 s2. create_and_register_inventory rc chan rs now cache s1 = ((r0, cache'), s2)) \<or>
      cache' = cache \<and> (case r0 of Inl e \<Rightarrow> True | Inr c \<Rightarrow> hm_get cache rs = Some c))"
proof (cases "hm_get cache rs")
  case None
  then show ?thesis
    using assms by (auto simp: get_inventory_def Let_def split: prod.splits)
next
  case (Some c)
  obtain h st1 where h: "have_allowed_resources_changed_since_instant rc chan rs (ci_cache_time c) st = (h, st1)"
    by (cases "have_allowed_resources_changed_since_instant rc chan rs (ci_cache_time c) st") auto
  consider e where "h = Inl e" | "h = Inr True" | "h = Inr False"
    by (cases h) auto
  then show ?thesis
  proof cases
    case 1
    then show ?thesis
      using assms Some h by (intro exI [of _ "Inl e"]) (auto simp: get_inventory_def Let_def)
  next
    case 2
    then show ?thesis
      using assms Some h by (auto simp: get_inventory_def Let_def split: prod.splits)
  next
    case 3
    then show ?thesis
      using assms Some h by (intro exI [of _ "Inr c"]) (auto simp: get_inventory_def Let_def)
  qed
qed

subsection \<open>Properties\<close>

text \<open>The Gatekeeper inventory a policy gets is up to date and its own. With nothing cached, or
  when a change is reported, it is the one computed from the present answers and it is stored under
  the set of resources with the time taken before the queries; when no change is reported it is the
  cached one and the cache stays as it is; entries of other sets are never touched, and errors
  change nothing.\<close>

theorem gatekeeper_cache_spec:
  "get_inventory rc chan rs now cache st =
     (case hm_get cache rs of
        None \<Rightarrow>
          (case compute_inventory rc chan rs st of
             (Inl e, st') \<Rightarrow> ((Inl e, cache), st')
           | (Inr data, st') \<Rightarrow> ((Inr data, hm_insert rs \<lparr>ci_data = data, ci_cache_time = now\<rparr> cache), st'))
      | Some c \<Rightarrow>
          (case have_allowed_resources_changed_since_instant rc chan rs (ci_cache_time c) st of
             (Inl e, st') \<Rightarrow> ((Inl e, cache), st')
           | (Inr False, st') \<Rightarrow> ((Inr (ci_data c), cache), st')
           | (Inr True, st') \<Rightarrow>
               (case compute_inventory rc chan rs st' of
                  (Inl e, st'') \<Rightarrow> ((Inl e, cache), st'')
                | (Inr data, st'') \<Rightarrow>
                    ((Inr data, hm_insert rs \<lparr>ci_data = data, ci_cache_time = now\<rparr> cache), st''))))"
  by (auto simp: get_inventory_def create_and_register_inventory_def Let_def
      split: option.splits prod.splits sum.splits bool.splits)

text \<open>Every inventory handed out was computed from the channel for exactly the resources asked
  for, the cache keeps this of its entries, and the requests sent concern these resources only.\<close>

theorem gatekeeper_cache_invariant:
  assumes "cache_ok rc chan cache"
    and "get_inventory rc chan rs now cache st = ((r, cache'), st')"
  shows "cache_ok rc chan cache' \<and> (case r of Inl e \<Rightarrow> True | Inr data \<Rightarrow> computed_by rc chan rs data) \<and>
    (\<exists>qs. hs_sent st' = hs_sent st @ qs \<and> list_all (context_request (set rs)) qs)"
proof -
  have sends: "\<exists>qs. hs_sent st' = hs_sent st @ qs \<and> list_all (context_request (set rs)) qs"
    using get_inventory_sends [of rc chan rs now cache st] assms(2) by simp
  obtain r0 where r: "r = bind_result r0 (\<lambda>i. Inr (ci_data i))"
    and r0: "(\<exists>s1 s2. create_and_register_inventory rc chan rs now cache s1 = ((r0, cache'), s2)) \<or>
      cache' = cache \<and> (case r0 of Inl e \<Rightarrow> True | Inr c \<Rightarrow> hm_get cache rs = Some c)"
    using get_inventory_result [OF assms(2)] by blast
  have "cache_ok rc chan cache' \<and> (case r0 of Inl e \<Rightarrow> True | Inr c \<Rightarrow> computed_by rc chan rs (ci_data c))"
    using r0
  proof
    assume "\<exists>s1 s2. create_and_register_inventory rc chan rs now cache s1 = ((r0, cache'), s2)"
    then show ?thesis using create_inventory_ok [OF assms(1)] by (auto split: sum.splits)
  next
    assume "cache' = cache \<and> (case r0 of Inl e \<Rightarrow> True | Inr c \<Rightarrow> hm_get cache rs = Some c)"
    then show ?thesis using assms(1) by (auto simp: cache_ok_def split: sum.splits)
  qed
  then show ?thesis using sends r by (cases r0) simp_all
qed

definition example_rego_codec :: rego_codec where
  "example_rego_codec = \<lparr>rc_list = \<lambda>b. Inr [], rc_bool = \<lambda>b. Inr True, rc_string = \<lambda>b. Inr b,
     rc_to_vec = \<lambda>j. Inr ''doc''\<rparr>"

theorem gatekeeper_cache_invariant_witness:
  "\<exists>cache. cache_ok example_rego_codec (\<lambda>sent q. Answer (Inr ''[]'')) cache \<and>
     get_inventory example_rego_codec (\<lambda>sent q. Answer (Inr ''[]'')) [ContextAwareResource ''v1'' ''Pod''] 5 [] host_init
       = ((Inr ''doc'', cache), host_init\<lparr>hs_sent := [KubernetesListResourceAll ''v1'' ''Pod'' None None]\<rparr>)"
proof -
  let ?rs = "[ContextAwareResource ''v1'' ''Pod'']"
  have empty: "cache_ok example_rego_codec (\<lambda>sent q. Answer (Inr ''[]'')) []"
    by (simp add: cache_ok_def hm_wf_def hm_get_def)
  have run: "get_inventory example_rego_codec (\<lambda>sent q. Answer (Inr ''[]'')) ?rs 5 [] host_init
      = ((Inr ''doc'', [(?rs, \<lparr>ci_data = ''doc'', ci_cache_time = 5\<rparr>)]),
         host_init\<lparr>hs_sent := [KubernetesListResourceAll ''v1'' ''Pod'' None None]\<rparr>)"
    by (simp add: get_inventory_def hm_get_def create_and_register_inventory_def compute_inventory_def
        get_allowed_resources_def get_all_resources_by_type_def bind_st_def
        make_request_via_callback_channel_def host_init_def example_rego_codec_def gk_new_def Let_def)
  from gatekeeper_cache_invariant [OF empty run] run show ?thesis by blast
qed

end
