(* ===== verification/Interleaving.thy ===== *)
theory Interleaving
  imports Prelude
begin

text \<open>
  Tasks that share state, as the tasks of the asynchronous runtime do: a task runs undisturbed
  from one await point to the next (an \<^emph>\<open>action\<close>), and between two actions the other tasks and the
  background may do anything they can. The locale \<open>shared_tasks\<close> is the contract that makes the
  invariant of the shared state and the claims about each task hold under every interleaving;
  \<open>bounded_tasks\<close> adds a bound on the number of actions a task needs.
\<close>

datatype actor = Task nat | Spawn | Background

text \<open>A trace says who acted when; its times do not decrease.\<close>

inductive interleaved ::
  "(nat \<Rightarrow> 'j \<Rightarrow> 's \<Rightarrow> ('j \<times> 's) option) \<Rightarrow> (nat \<Rightarrow> 's \<Rightarrow> 's \<Rightarrow> bool) \<Rightarrow> ('j \<Rightarrow> bool) \<Rightarrow> 's
   \<Rightarrow> (nat \<times> actor) list \<Rightarrow> 's \<Rightarrow> 'j list \<Rightarrow> bool"
  for act env fresh_task s0 where
  start: "interleaved act env fresh_task s0 [] s0 []"
| spawn: "interleaved act env fresh_task s0 tr s js \<Longrightarrow> \<forall>(t, a) \<in> set tr. t \<le> now \<Longrightarrow> fresh_task j \<Longrightarrow>
    interleaved act env fresh_task s0 (tr @ [(now, Spawn)]) s (js @ [j])"
| task: "interleaved act env fresh_task s0 tr s js \<Longrightarrow> \<forall>(t, a) \<in> set tr. t \<le> now \<Longrightarrow> i < length js \<Longrightarrow>
    act now (js ! i) s = Some (j, s') \<Longrightarrow>
    interleaved act env fresh_task s0 (tr @ [(now, Task i)]) s' (js[i := j])"
| background: "interleaved act env fresh_task s0 tr s js \<Longrightarrow> \<forall>(t, a) \<in> set tr. t \<le> now \<Longrightarrow>
    env now s s' \<Longrightarrow> interleaved act env fresh_task s0 (tr @ [(now, Background)]) s' js"

definition actions_of :: "nat \<Rightarrow> (nat \<times> actor) list \<Rightarrow> nat" where
  "actions_of i tr = length (filter (\<lambda>(t, a). a = Task i) tr)"

lemma actions_of_simps [simp]:
  "actions_of i [] = 0"
  "actions_of i (tr @ [(now, a)]) = actions_of i tr + (if a = Task i then 1 else 0)"
  by (simp_all add: actions_of_def)

lemma interleaved_trace_sorted:
  "interleaved act env fresh_task s0 tr s js \<Longrightarrow> sorted (map fst tr)"
  by (induction rule: interleaved.induct) (auto simp: sorted_append)

lemma no_actions_before_spawn:
  "interleaved act env fresh_task s0 tr s js \<Longrightarrow> length js \<le> i \<Longrightarrow> actions_of i tr = 0"
  by (induction rule: interleaved.induct) auto

text \<open>
  What another task may have done between two actions is \<^theory_text>\<open>rely\<close>; \<^theory_text>\<open>safe\<close> is a claim about a task that
  such changes do not break and that its own actions keep.
\<close>

locale shared_tasks =
  fixes act :: "nat \<Rightarrow> 'j \<Rightarrow> 's \<Rightarrow> ('j \<times> 's) option"
    and env :: "nat \<Rightarrow> 's \<Rightarrow> 's \<Rightarrow> bool"
    and fresh_task :: "'j \<Rightarrow> bool"
    and invar :: "'s \<Rightarrow> bool"
    and rely :: "'s \<Rightarrow> 's \<Rightarrow> bool"
    and safe :: "'j \<Rightarrow> 's \<Rightarrow> bool"
  assumes act_invar: "invar s \<Longrightarrow> safe j s \<Longrightarrow> act now j s = Some (j', s') \<Longrightarrow> invar s'"
    and act_rely: "invar s \<Longrightarrow> safe j s \<Longrightarrow> act now j s = Some (j', s') \<Longrightarrow> rely s s'"
    and act_safe: "invar s \<Longrightarrow> safe j s \<Longrightarrow> act now j s = Some (j', s') \<Longrightarrow> safe j' s'"
    and env_invar: "invar s \<Longrightarrow> env now s s' \<Longrightarrow> invar s'"
    and env_rely: "invar s \<Longrightarrow> env now s s' \<Longrightarrow> rely s s'"
    and safe_stable: "safe j s \<Longrightarrow> rely s s' \<Longrightarrow> safe j s'"
    and fresh_safe: "fresh_task j \<Longrightarrow> safe j s"
begin

lemma interleaved_safe:
  assumes "interleaved act env fresh_task s0 tr s js" "invar s0"
  shows "invar s \<and> (\<forall>j \<in> set js. safe j s)"
  using assms
proof (induction rule: interleaved.induct)
  case (task tr s js now i j s')
  then have s: "invar s" "\<forall>j \<in> set js. safe j s" and i: "safe (js ! i) s" by simp_all
  note act = s(1) i task.hyps(4)
  have "safe j' s'" if "j' \<in> set js" for j'
    using s(2) that safe_stable [OF _ act_rely [OF act]] by blast
  then show ?case
    using act_invar [OF act] act_safe [OF act] by (auto dest: set_update_subset_insert [THEN subsetD])
next
  case (background tr s js now s')
  then show ?case using env_invar env_rely safe_stable by blast
qed (auto simp: fresh_safe)

end

locale bounded_tasks = shared_tasks +
  fixes within :: "nat \<Rightarrow> 'j \<Rightarrow> bool" and finished :: "'j \<Rightarrow> bool" and bound :: nat
  assumes act_within: "within n j \<Longrightarrow> act now j s = Some (j', s') \<Longrightarrow> 0 < n \<and> within (n - 1) j'"
    and act_None: "act now j s = None \<longleftrightarrow> finished j"
    and fresh_within: "fresh_task j \<Longrightarrow> within bound j"
begin

lemma interleaved_within:
  assumes "interleaved act env fresh_task s0 tr s js" "i < length js"
  shows "actions_of i tr \<le> bound \<and> within (bound - actions_of i tr) (js ! i)"
  using assms
proof (induction rule: interleaved.induct)
  case (spawn tr s js now j)
  show ?case
  proof (cases "i < length js")
    case True
    then show ?thesis using spawn by (simp add: nth_append)
  next
    case False
    then have "i = length js" using spawn.prems by simp
    then show ?thesis
      using no_actions_before_spawn [OF spawn.hyps(1), of i] fresh_within [OF spawn.hyps(3)] by simp
  qed
next
  case (task tr s js now k j s')
  show ?case
  proof (cases "i = k")
    case True
    have "actions_of i tr \<le> bound \<and> within (bound - actions_of i tr) (js ! i)"
      using task.IH task.prems by simp
    then show ?thesis using act_within [of _ "js ! i" now s j s'] task True
      by (fastforce simp: diff_diff_left)
  next
    case False
    then show ?thesis using task by simp
  qed
qed simp_all

text \<open>A task that used up its actions has finished, and one that has not can act whatever the state.\<close>

lemma interleaved_finishes:
  assumes run: "interleaved act env fresh_task s0 tr s js" and i: "i < length js"
  shows "actions_of i tr \<le> bound"
    and "actions_of i tr = bound \<Longrightarrow> finished (js ! i)"
    and "\<not> finished (js ! i) \<Longrightarrow> \<exists>r. act now (js ! i) s' = Some r"
proof -
  note w = interleaved_within [OF run i]
  show "actions_of i tr \<le> bound" using w by simp
  show "finished (js ! i)" if "actions_of i tr = bound"
  proof (rule ccontr)
    assume "\<not> finished (js ! i)"
    then obtain j' s' where "act now (js ! i) s = Some (j', s')"
      using act_None by (metis not_Some_eq prod.exhaust)
    then show False using w that act_within [of 0 "js ! i"] by auto
  qed
  show "\<exists>r. act now (js ! i) s' = Some r" if "\<not> finished (js ! i)"
    using that act_None by (metis not_Some_eq)
qed

end

subsection \<open>Runs by evaluation\<close>

text \<open>The tasks that are given act at the times that are given.\<close>

fun run_tasks ::
  "(nat \<Rightarrow> 'j \<Rightarrow> 's \<Rightarrow> ('j \<times> 's) option) \<Rightarrow> (nat \<times> nat) list \<Rightarrow> 's \<times> 'j list \<Rightarrow> ('s \<times> 'j list) option" where
  "run_tasks act [] (s, js) = Some (s, js)"
| "run_tasks act ((now, i) # is) (s, js) =
     (if i < length js
      then case act now (js ! i) s of
        None \<Rightarrow> None
      | Some (j, s') \<Rightarrow> run_tasks act is (s', js[i := j])
      else None)"

lemma run_tasks_interleaved:
  assumes "interleaved act env fresh_task s0 tr s js" "sorted (map fst tr @ map fst is)"
    and "run_tasks act is (s, js) = Some (s', js')"
  shows "interleaved act env fresh_task s0 (tr @ map (\<lambda>(t, i). (t, Task i)) is) s' js'"
  using assms
proof (induction act "is" "(s, js)" arbitrary: tr s js rule: run_tasks.induct)
  case (2 act now i "is" s js)
  obtain j s1 where i: "i < length js" and act: "act now (js ! i) s = Some (j, s1)"
    and rest: "run_tasks act is (s1, js[i := j]) = Some (s', js')"
    using "2.prems"(3) by (auto split: if_splits option.splits)
  have "\<forall>(t, a) \<in> set tr. t \<le> now" using "2.prems"(2) by (auto simp: sorted_append)
  from "2.hyps" [OF i act refl interleaved.task [OF "2.prems"(1) this i act] _ rest] "2.prems"(2)
  show ?case by simp
qed simp

lemma spawn_all:
  assumes "\<forall>j \<in> set js. fresh_task j"
  shows "interleaved act env fresh_task s0 (replicate (length js) (now, Spawn)) s0 js"
  using assms
proof (induction js rule: rev_induct)
  case (snoc j js)
  then have "interleaved act env fresh_task s0 (replicate (length js) (now, Spawn)) s0 js" by simp
  from interleaved.spawn [OF this, of now j] snoc.prems show ?case
    by (auto simp: replicate_append_same simp flip: replicate_Suc)
qed (simp add: interleaved.start)

end
