(* ===== verification/InventoryTasks.thy ===== *)
theory InventoryTasks
  imports InventoryCache Interleaving
begin

text \<open>
  The global inventory cache of \<open>src/runtimes/rego/gatekeeper_inventory_cache.rs\<close> under concurrent
  evaluations. Policies are evaluated on threads of their own and share the cache, whose lock is
  held for one lookup or one insertion. A call of \<open>get_inventory\<close> is a state machine over these
  actions; the answers of the channel depend on the time. It is the second instance of the locale
  \<open>shared_tasks\<close>. \<open>InventoryCache\<close> has the call in one step.
\<close>

subsection \<open>Calls as state machines\<close>

text \<open>
  Look the resources up, ask whether they changed, read the clock, query and serialize, register.
\<close>

datatype inventory_phase =
    LookUp
  | CheckChanged CachedInventory
  | ReadClock
  | Compute instant
  | Register CachedInventory
  | Returned "RegoRuntimeError + bytes"

record inventory_call =
  ic_resources :: "ContextAwareResource btset"
  ic_start :: instant
  ic_host :: host_state
  ic_phase :: inventory_phase

text \<open>The shared state is the cache and the time of the last action; time does not run backwards.\<close>

record shared_inventories =
  si_cache :: inventory_cache
  si_clock :: instant

definition shared_inventories_new :: shared_inventories where
  "shared_inventories_new = \<lparr>si_cache = [], si_clock = 0\<rparr>"

fun inventory_phase_action ::
  "rego_codec \<Rightarrow> (instant \<Rightarrow> peer) \<Rightarrow> instant \<Rightarrow> inventory_phase \<Rightarrow> inventory_call \<Rightarrow> inventory_cache
   \<Rightarrow> (inventory_call \<times> inventory_cache) option" where
  "inventory_phase_action rc chan now LookUp call cache =
     Some (call\<lparr>ic_start := now, ic_phase := (case hm_get cache (ic_resources call) of
        None \<Rightarrow> ReadClock | Some cached_inventory \<Rightarrow> CheckChanged cached_inventory)\<rparr>, cache)"
| "inventory_phase_action rc chan now (CheckChanged c) call cache =
     (case have_allowed_resources_changed_since_instant rc (chan now) (ic_resources call) (ci_cache_time c)
         (ic_host call) of (r, st) \<Rightarrow>
       Some (call\<lparr>ic_host := st, ic_phase := (case r of
          Inl e \<Rightarrow> Returned (Inl e)
        | Inr changed \<Rightarrow> if changed then ReadClock else Returned (Inr (ci_data c)))\<rparr>, cache))"
| "inventory_phase_action rc chan now ReadClock call cache = Some (call\<lparr>ic_phase := Compute now\<rparr>, cache)"
| "inventory_phase_action rc chan now (Compute t) call cache =
     (case compute_inventory rc (chan now) (ic_resources call) (ic_host call) of (r, st) \<Rightarrow>
       Some (call\<lparr>ic_host := st, ic_phase := (case r of
          Inl e \<Rightarrow> Returned (Inl e)
        | Inr data \<Rightarrow> Register \<lparr>ci_data = data, ci_cache_time = t\<rparr>)\<rparr>, cache))"
| "inventory_phase_action rc chan now (Register c) call cache =
     Some (call\<lparr>ic_phase := Returned (Inr (ci_data c))\<rparr>, hm_insert (ic_resources call) c cache)"
| "inventory_phase_action rc chan now (Returned r) call cache = None"

definition inventory_action ::
  "rego_codec \<Rightarrow> (instant \<Rightarrow> peer) \<Rightarrow> instant \<Rightarrow> inventory_call \<Rightarrow> shared_inventories
   \<Rightarrow> (inventory_call \<times> shared_inventories) option" where
  "inventory_action rc chan now call s =
     (if now < si_clock s then None
      else map_option (\<lambda>(call', cache). (call', \<lparr>si_cache = cache, si_clock = now\<rparr>))
        (inventory_phase_action rc chan now (ic_phase call) call (si_cache s)))"

definition new_call :: "inventory_call \<Rightarrow> bool" where
  "new_call call \<longleftrightarrow> ic_phase call = LookUp"

abbreviation inventory_calls ::
  "rego_codec \<Rightarrow> (instant \<Rightarrow> peer) \<Rightarrow> (instant \<times> actor) list \<Rightarrow> shared_inventories \<Rightarrow> inventory_call list \<Rightarrow> bool" where
  "inventory_calls rc chan \<equiv>
     interleaved (inventory_action rc chan) (\<lambda>now s s'. False) new_call shared_inventories_new"

text \<open>A call that is not interrupted is \<open>get_inventory\<close>.\<close>

lemma undisturbed_inventory_call:
  assumes "ic_phase call = LookUp" "si_clock s \<le> now" "i < length js" "js ! i = call"
    and "get_inventory rc (chan now) (ic_resources call) now (si_cache s) (ic_host call) = ((r, cache'), st')"
  shows "\<exists>n \<le> 5. run_tasks (inventory_action rc chan) (replicate n (now, i)) (s, js) =
    Some (\<lparr>si_cache = cache', si_clock = now\<rparr>,
      js[i := call\<lparr>ic_start := now, ic_host := st', ic_phase := Returned r\<rparr>])"
proof -
  let ?rs = "ic_resources call" and ?st = "ic_host call"
  note run = assms(5) [unfolded gatekeeper_cache_spec]
  note simps = inventory_action_def assms(1,3,4) leD [OF assms(2)] eval_nat_numeral
  have compute: "\<exists>n \<le> 3. run_tasks (inventory_action rc chan) (replicate n (now, i))
      (\<lparr>si_cache = si_cache s, si_clock = now\<rparr>, js[i := call\<lparr>ic_start := now, ic_host := st, ic_phase := ReadClock\<rparr>]) =
    Some (\<lparr>si_cache = cache', si_clock = now\<rparr>,
      js[i := call\<lparr>ic_start := now, ic_host := st', ic_phase := Returned r\<rparr>])"
    if "(case compute_inventory rc (chan now) ?rs st of
        (Inl e, st') \<Rightarrow> ((Inl e, si_cache s), st')
      | (Inr data, st') \<Rightarrow> ((Inr data, hm_insert ?rs \<lparr>ci_data = data, ci_cache_time = now\<rparr> (si_cache s)), st')) =
      ((r, cache'), st')" for st
  proof (cases "compute_inventory rc (chan now) ?rs st")
    case (Pair q st2)
    then show ?thesis using that
      by (cases q) (auto simp: simps intro: exI [of _ 2] exI [of _ 3])
  qed
  show ?thesis
  proof (cases "hm_get (si_cache s) ?rs")
    case None
    from compute [of ?st] None run obtain n where "n \<le> 3" and
      "run_tasks (inventory_action rc chan) (replicate n (now, i))
        (\<lparr>si_cache = si_cache s, si_clock = now\<rparr>, js[i := call\<lparr>ic_start := now, ic_host := ?st, ic_phase := ReadClock\<rparr>]) =
      Some (\<lparr>si_cache = cache', si_clock = now\<rparr>,
        js[i := call\<lparr>ic_start := now, ic_host := st', ic_phase := Returned r\<rparr>])"
      by (auto split: option.splits)
    then show ?thesis using None by (intro exI [of _ "Suc n"]) (simp add: simps)
  next
    case (Some c)
    obtain q st1 where check: "have_allowed_resources_changed_since_instant rc (chan now) ?rs (ci_cache_time c) ?st = (q, st1)"
      by (cases "have_allowed_resources_changed_since_instant rc (chan now) ?rs (ci_cache_time c) ?st")
    show ?thesis
    proof (cases "q = Inr True")
      case True
      from compute [of st1] Some check True run obtain n where "n \<le> 3" and
        "run_tasks (inventory_action rc chan) (replicate n (now, i))
          (\<lparr>si_cache = si_cache s, si_clock = now\<rparr>, js[i := call\<lparr>ic_start := now, ic_host := st1, ic_phase := ReadClock\<rparr>]) =
        Some (\<lparr>si_cache = cache', si_clock = now\<rparr>,
          js[i := call\<lparr>ic_start := now, ic_host := st', ic_phase := Returned r\<rparr>])"
        by auto
      then show ?thesis using Some check True by (intro exI [of _ "Suc (Suc n)"]) (simp add: simps)
    next
      case False
      then show ?thesis using Some check run
        by (intro exI [of _ 2]) (auto simp: simps split: sum.splits bool.splits)
    qed
  qed
qed

subsection \<open>What the calls return under every interleaving\<close>

definition computed_at ::
  "rego_codec \<Rightarrow> (instant \<Rightarrow> peer) \<Rightarrow> ContextAwareResource btset \<Rightarrow> instant \<Rightarrow> bytes \<Rightarrow> bool" where
  "computed_at rc chan rs t data \<longleftrightarrow> (\<exists>st st'. compute_inventory rc (chan t) rs st = (Inr data, st'))"

definition unchanged_at ::
  "rego_codec \<Rightarrow> (instant \<Rightarrow> peer) \<Rightarrow> ContextAwareResource btset \<Rightarrow> instant \<Rightarrow> instant \<Rightarrow> bool" where
  "unchanged_at rc chan rs t since \<longleftrightarrow>
     (\<exists>st st'. have_allowed_resources_changed_since_instant rc (chan t) rs since st = (Inr False, st'))"

text \<open>An entry was computed after its cache time; \<^theory_text>\<open>up_to_date\<close> is the promise to a call begun at \<open>start\<close>.\<close>

definition entry_ok ::
  "rego_codec \<Rightarrow> (instant \<Rightarrow> peer) \<Rightarrow> ContextAwareResource btset \<Rightarrow> instant \<Rightarrow> CachedInventory \<Rightarrow> bool" where
  "entry_ok rc chan rs clock c \<longleftrightarrow>
     (\<exists>t. ci_cache_time c \<le> t \<and> t \<le> clock \<and> computed_at rc chan rs t (ci_data c))"

definition up_to_date ::
  "rego_codec \<Rightarrow> (instant \<Rightarrow> peer) \<Rightarrow> ContextAwareResource btset \<Rightarrow> instant \<Rightarrow> bytes \<Rightarrow> bool" where
  "up_to_date rc chan rs start data \<longleftrightarrow> (\<exists>t0 t. t0 \<le> t \<and> computed_at rc chan rs t data \<and>
     (start \<le> t0 \<or> (\<exists>t'. start \<le> t' \<and> unchanged_at rc chan rs t' t0)))"

definition inventories_ok :: "rego_codec \<Rightarrow> (instant \<Rightarrow> peer) \<Rightarrow> shared_inventories \<Rightarrow> bool" where
  "inventories_ok rc chan s \<longleftrightarrow>
     (\<forall>rs c. hm_get (si_cache s) rs = Some c \<longrightarrow> entry_ok rc chan rs (si_clock s) c)"

fun phase_safe ::
  "rego_codec \<Rightarrow> (instant \<Rightarrow> peer) \<Rightarrow> ContextAwareResource btset \<Rightarrow> instant \<Rightarrow> instant \<Rightarrow> inventory_phase \<Rightarrow> bool" where
  "phase_safe rc chan rs start clock LookUp = True"
| "phase_safe rc chan rs start clock (CheckChanged c) = (start \<le> clock \<and> entry_ok rc chan rs clock c)"
| "phase_safe rc chan rs start clock ReadClock = (start \<le> clock)"
| "phase_safe rc chan rs start clock (Compute t) = (start \<le> t \<and> t \<le> clock)"
| "phase_safe rc chan rs start clock (Register c) =
     (start \<le> ci_cache_time c \<and> entry_ok rc chan rs clock c)"
| "phase_safe rc chan rs start clock (Returned r) =
     (case r of Inl e \<Rightarrow> True | Inr data \<Rightarrow> up_to_date rc chan rs start data)"

definition call_safe :: "rego_codec \<Rightarrow> (instant \<Rightarrow> peer) \<Rightarrow> inventory_call \<Rightarrow> shared_inventories \<Rightarrow> bool" where
  "call_safe rc chan call s =
     phase_safe rc chan (ic_resources call) (ic_start call) (si_clock s) (ic_phase call)"

definition clock_grows :: "shared_inventories \<Rightarrow> shared_inventories \<Rightarrow> bool" where
  "clock_grows s s' \<longleftrightarrow> si_clock s \<le> si_clock s'"

lemma entry_ok_later: "entry_ok rc chan rs t c \<Longrightarrow> t \<le> t' \<Longrightarrow> entry_ok rc chan rs t' c"
  unfolding entry_ok_def by (meson order_trans)

lemma entry_ok_up_to_date:
  assumes "entry_ok rc chan rs clock c"
    and "start \<le> ci_cache_time c \<or> (\<exists>t'. start \<le> t' \<and> unchanged_at rc chan rs t' (ci_cache_time c))"
  shows "up_to_date rc chan rs start (ci_data c)"
  using assms unfolding entry_ok_def up_to_date_def by blast

lemma phase_safe_later:
  "phase_safe rc chan rs start clock p \<Longrightarrow> clock \<le> clock' \<Longrightarrow> phase_safe rc chan rs start clock' p"
  by (cases p) (auto intro: entry_ok_later)

lemma inventory_action_safe:
  assumes ok: "inventories_ok rc chan s" and safe: "call_safe rc chan call s"
    and act: "inventory_action rc chan now call s = Some (call', s')"
  shows "inventories_ok rc chan s' \<and> clock_grows s s' \<and> call_safe rc chan call' s'"
proof -
  have now: "si_clock s \<le> now" and clock: "si_clock s' = now"
    and step: "inventory_phase_action rc chan now (ic_phase call) call (si_cache s) = Some (call', si_cache s')"
    using act by (auto simp: inventory_action_def split: if_splits)
  have kept: "inventories_ok rc chan s'" if "si_cache s' = si_cache s"
    using ok that now clock by (auto simp: inventories_ok_def intro: entry_ok_later)
  note simps = call_safe_def clock_grows_def now clock
  show ?thesis
  proof (cases "ic_phase call")
    case LookUp
    then show ?thesis
      using step kept ok now clock
      by (auto simp: simps inventories_ok_def split: option.splits intro: entry_ok_later)
  next
    case (CheckChanged c)
    have current: "up_to_date rc chan (ic_resources call) (ic_start call) (ci_data c)"
      if "have_allowed_resources_changed_since_instant rc (chan now) (ic_resources call) (ci_cache_time c)
        (ic_host call) = (Inr False, st)" for st
      using safe CheckChanged that now
      by (intro entry_ok_up_to_date [where clock = "si_clock s"])
        (auto simp: call_safe_def unchanged_at_def intro: order_trans)
    show ?thesis
      using CheckChanged step kept current safe now
      by (auto simp: simps intro: order_trans [OF _ now] split: prod.splits sum.splits bool.splits)
  next
    case ReadClock
    then show ?thesis using step kept safe now by (auto simp: simps intro: order_trans [OF _ now])
  next
    case (Compute t)
    have "entry_ok rc chan (ic_resources call) now \<lparr>ci_data = data, ci_cache_time = t\<rparr>"
      if "compute_inventory rc (chan now) (ic_resources call) (ic_host call) = (Inr data, st)" for data st
    proof -
      have "computed_at rc chan (ic_resources call) now data" using that unfolding computed_at_def by blast
      moreover have "t \<le> now" using safe Compute now by (simp add: call_safe_def)
      ultimately show ?thesis unfolding entry_ok_def by auto
    qed
    then show ?thesis
      using Compute step kept safe by (auto simp: simps split: prod.splits sum.splits)
  next
    case (Register c)
    then have "entry_ok rc chan (ic_resources call) now c"
      using safe now by (auto simp: call_safe_def intro: entry_ok_later)
    moreover have cache': "si_cache s' = hm_insert (ic_resources call) c (si_cache s)"
      using step Register by auto
    ultimately have "inventories_ok rc chan s'"
      using ok now
      by (auto simp: inventories_ok_def cache' clock hm_get_insert intro: entry_ok_later split: if_splits)
    moreover have "up_to_date rc chan (ic_resources call) (ic_start call) (ci_data c)"
      using safe Register by (auto simp: call_safe_def intro: entry_ok_up_to_date)
    ultimately show ?thesis using Register step by (auto simp: simps)
  next
    case (Returned r)
    then show ?thesis using step by simp
  qed
qed

interpretation inventories: shared_tasks "inventory_action rc chan" "\<lambda>now s s'. False" new_call
  "inventories_ok rc chan" clock_grows "call_safe rc chan" for rc chan
proof unfold_locales
  fix s s' call call' now
  show "inventories_ok rc chan s'" "clock_grows s s'" "call_safe rc chan call' s'"
    if "inventories_ok rc chan s" "call_safe rc chan call s" "inventory_action rc chan now call s = Some (call', s')"
    using inventory_action_safe [OF that] by simp_all
  show "call_safe rc chan call s'" if "call_safe rc chan call s" "clock_grows s s'"
    using that by (auto simp: call_safe_def clock_grows_def intro: phase_safe_later)
  show "call_safe rc chan call s" if "new_call call"
    using that by (simp add: call_safe_def new_call_def)
qed simp_all

text \<open>C19: the inventories handed out by concurrent evaluations are computed for exactly the resources
  of the call and are up to date. What a call returns was computed no earlier than some time \<open>t0\<close>, and
  either \<open>t0\<close> is after the call began or the channel reported, during the call, no change since \<open>t0\<close>;
  every entry of the cache was computed after its cache time. No interleaving of the lookups, the
  queries and the insertions of other calls changes this.\<close>

theorem gatekeeper_cache_concurrent:
  assumes "inventory_calls rc chan tr s js"
  shows "list_all (\<lambda>call. case ic_phase call of
       Returned (Inr data) \<Rightarrow> up_to_date rc chan (ic_resources call) (ic_start call) data | _ \<Rightarrow> True) js \<and>
    inventories_ok rc chan s"
proof -
  have "inventories_ok rc chan shared_inventories_new"
    by (simp add: inventories_ok_def shared_inventories_new_def hm_get_def)
  from inventories.interleaved_safe [OF assms this] show ?thesis
    by (auto simp: list_all_iff call_safe_def split: inventory_phase.splits sum.splits)
qed

text \<open>A single call on an empty cache, made at the time 5.\<close>

definition example_call :: inventory_call where
  "example_call = \<lparr>ic_resources = [ContextAwareResource ''v1'' ''Pod''], ic_start = 0, ic_host = host_init,
     ic_phase = LookUp\<rparr>"

theorem gatekeeper_cache_concurrent_witness:
  "up_to_date example_rego_codec (\<lambda>t sent q. Answer (Inr ''[]'')) [ContextAwareResource ''v1'' ''Pod''] 5 ''doc''"
proof -
  let ?chan = "\<lambda>t sent q. Answer (Inr ''[]'')" and ?rs = "[ContextAwareResource ''v1'' ''Pod'']"
  have run: "get_inventory example_rego_codec (?chan 5) ?rs 5 [] host_init
      = ((Inr ''doc'', [(?rs, \<lparr>ci_data = ''doc'', ci_cache_time = 5\<rparr>)]),
         host_init\<lparr>hs_sent := [KubernetesListResourceAll ''v1'' ''Pod'' None None]\<rparr>)"
    by (simp add: get_inventory_def hm_get_def create_and_register_inventory_def compute_inventory_def
        get_allowed_resources_def get_all_resources_by_type_def bind_st_def
        make_request_via_callback_channel_def host_init_def example_rego_codec_def gk_new_def Let_def)
  obtain n js where
    played: "run_tasks (inventory_action example_rego_codec ?chan) (replicate n (5, 0))
      (shared_inventories_new, [example_call]) =
      Some (\<lparr>si_cache = [(?rs, \<lparr>ci_data = ''doc'', ci_cache_time = 5\<rparr>)], si_clock = 5\<rparr>, js)"
    and js: "js = [example_call\<lparr>ic_start := 5, ic_host := host_init\<lparr>hs_sent := [KubernetesListResourceAll ''v1'' ''Pod'' None None]\<rparr>,
      ic_phase := Returned (Inr ''doc'')\<rparr>]"
    using undisturbed_inventory_call [where s = shared_inventories_new and js = "[example_call]" and i = 0
        and now = 5 and call = example_call and chan = ?chan and rc = example_rego_codec] run
    by (auto simp: example_call_def shared_inventories_new_def)
  have "interleaved (inventory_action example_rego_codec ?chan) (\<lambda>now s s'. False) new_call
      shared_inventories_new [(0, Spawn)] shared_inventories_new [example_call]"
    using spawn_all [where js = "[example_call]" and now = 0 and fresh_task = new_call]
    by (simp add: new_call_def example_call_def)
  from run_tasks_interleaved [OF this _ played]
  have "inventory_calls example_rego_codec ?chan ([(0, Spawn)] @ map (\<lambda>(t, i). (t, Task i)) (replicate n (5, 0)))
      \<lparr>si_cache = [(?rs, \<lparr>ci_data = ''doc'', ci_cache_time = 5\<rparr>)], si_clock = 5\<rparr> js"
    by (simp add: sorted_replicate)
  from gatekeeper_cache_concurrent [OF this] show ?thesis by (simp add: js example_call_def)
qed

end
