(* ===== verification/Builtins.thy ===== *)
theory Builtins
  imports EvalContext
begin

text \<open>
  \<open>crates/burrego/src/builtins/\<close> and \<open>errors.rs\<close>: the Rego builtins the host implements, with their
  argument checks, and the table that names them. YAML, URL, regular expression, template,
  semantic version, calendar and base64 libraries are the parameter \<^theory_text>\<open>builtin_env\<close>; what the code
  computes itself (hexadecimal, glob quoting, template splitting, the printf command line) is
  written out. A builtin may panic, so its result is an \<^theory_text>\<open>exec\<close>.
\<close>

datatype BurregoError =
    MissingRegoBuiltins string
  | WasmEngineError string
  | RegoWasmError string
  | JSONError string lib_error
  | EvaluatorBuilderError string
  | BuiltinError string string
  | BuiltinNotImplementedError string
  | ExecutionDeadlineExceeded

fun display_burrego_error :: "BurregoError \<Rightarrow> string" where
  "display_burrego_error (MissingRegoBuiltins s) = ''Missing Rego builtins: '' @ s"
| "display_burrego_error (WasmEngineError s) = ''wasm engine error: '' @ s"
| "display_burrego_error (RegoWasmError s) = ''Rego wasm error: '' @ s"
| "display_burrego_error (JSONError msg source) = msg @ '': '' @ le_display source"
| "display_burrego_error (EvaluatorBuilderError s) = ''Evaluator builder error: '' @ s"
| "display_burrego_error (BuiltinError name message) =
     ''Builtin error ['' @ debug_str name @ '']: '' @ debug_str message"
| "display_burrego_error (BuiltinNotImplementedError s) = ''Builtin not implemented: '' @ s"
| "display_burrego_error ExecutionDeadlineExceeded = ''guest code interrupted, execution deadline exceeded''"

datatype gt_value =
    GtString string | GtNumber i64 | GtBool bool | GtArray "gt_value list"
  | GtMap "(string \<times> gt_value) list" | GtNil

record ('re, 'patch, 'ver) builtin_env =
  be_base64url :: "string \<Rightarrow> string"
  be_set_query :: "string \<Rightarrow> string option"
  be_query_pairs :: "string option \<Rightarrow> (string \<times> string) list"
  be_parse_json :: "string \<Rightarrow> lib_error + json"
  be_json_to_string :: "json \<Rightarrow> lib_error + string"
  be_to_yaml :: "json \<Rightarrow> lib_error + string"
  be_from_yaml :: "string \<Rightarrow> lib_error + json"
  be_parse_patch :: "string \<Rightarrow> lib_error + 'patch"
  be_apply_patch :: "'patch \<Rightarrow> json \<Rightarrow> lib_error + json"
  be_regex :: "string \<Rightarrow> lib_error + 're"
  be_regex_escape :: "string \<Rightarrow> string"
  be_is_match :: "'re \<Rightarrow> string \<Rightarrow> bool"
  be_split :: "'re \<Rightarrow> string \<Rightarrow> string list"
  be_find_iter :: "'re \<Rightarrow> string \<Rightarrow> string list"
  be_version :: "string \<Rightarrow> lib_error + 'ver"
  be_version_cmp :: "'ver \<Rightarrow> 'ver \<Rightarrow> int"
  be_now_ns :: "i64 option"
  be_parse_rfc3339 :: "string \<Rightarrow> lib_error + i64 option"
  be_timezone :: "string \<Rightarrow> lib_error + string"
  be_civil :: "string \<Rightarrow> i64 \<Rightarrow> (int \<times> int \<times> int) option"
  be_template :: "string \<Rightarrow> gt_value list \<Rightarrow> lib_error + string"
  be_debug_values :: "gt_value list \<Rightarrow> string"

type_synonym builtin = "json list \<Rightarrow> (BurregoError + json) exec"

subsection \<open>Arguments and results\<close>

definition json_int :: "int \<Rightarrow> json" where
  "json_int n = (if n < 0 then Number (NegInt (word_of_int n)) else Number (PosInt (word_of_int n)))"

definition json_i64 :: "i64 \<Rightarrow> json" where
  "json_i64 n = json_int (sint n)"

definition berr :: "string \<Rightarrow> string \<Rightarrow> (BurregoError + 'a) exec" where
  "berr name message = Ret (Inl (BuiltinError name message))"

definition with_str ::
  "string \<Rightarrow> string \<Rightarrow> json \<Rightarrow> (string \<Rightarrow> (BurregoError + 'a) exec) \<Rightarrow> (BurregoError + 'a) exec" where
  "with_str name message arg f = (case as_str arg of None \<Rightarrow> berr name message | Some s \<Rightarrow> f s)"

definition ok_json :: "json \<Rightarrow> (BurregoError + json) exec" where
  "ok_json j = Ret (Inr j)"

definition or_error ::
  "string \<Rightarrow> (lib_error \<Rightarrow> string) \<Rightarrow> lib_error + 'a \<Rightarrow> ('a \<Rightarrow> (BurregoError + 'b) exec) \<Rightarrow> (BurregoError + 'b) exec" where
  "or_error name message r f = (case r of Inl e \<Rightarrow> berr name (message e) | Inr a \<Rightarrow> f a)"

subsection \<open>debugging, glob\<close>

definition builtin_trace :: builtin where
  "builtin_trace args =
     (if length args \<noteq> 1 then berr ''trace'' ''Wrong number of arguments''
      else with_str ''trace'' ''1st parameter is not a string'' (args ! 0) (\<lambda>message. ok_json Null))"

definition glob_meta :: "char \<Rightarrow> bool" where
  "glob_meta c \<longleftrightarrow> c \<in> {CHR ''*'', CHR ''?'', bs, CHR ''['', CHR '']'', CHR ''{'', CHR ''}''}"

definition glob_escape :: "string \<Rightarrow> string" where
  "glob_escape s = concat (map (\<lambda>c. if glob_meta c then [bs, c] else [c]) s)"

definition glob_quote_meta :: builtin where
  "glob_quote_meta args =
     (if length args \<noteq> 1 then berr ''glob.quote_meta'' ''wrong number of arguments''
      else with_str ''glob.quote_meta'' ''1st parameter is not a string'' (args ! 0)
        (\<lambda>input. ok_json (String (glob_escape input))))"

subsection \<open>encoding\<close>

definition base64url_encode_no_pad :: "('re, 'patch, 'ver) builtin_env \<Rightarrow> builtin" where
  "base64url_encode_no_pad env args =
     (if length args \<noteq> 1 then berr ''base64url.encode_no_pad'' ''wrong number of arguments''
      else with_str ''base64url.encode_no_pad'' ''1st parameter is not a string'' (args ! 0)
        (\<lambda>input. ok_json (String (be_base64url env input))))"

definition urlquery_encode :: "('re, 'patch, 'ver) builtin_env \<Rightarrow> builtin" where
  "urlquery_encode env args =
     (if length args \<noteq> 1 then berr ''urlquery.encode'' ''wrong number of arguments''
      else with_str ''urlquery.encode'' ''1st parameter is not a string'' (args ! 0) (\<lambda>input.
        case be_set_query env (''input='' @ input) of
          None \<Rightarrow> berr ''urlquery.encode'' ''internal error 2''
        | Some res \<Rightarrow>
            if prefix ''input='' res then ok_json (String (drop (length ''input='') res))
            else berr ''urlquery.encode'' ''internal error 3''))"

definition urlquery_decode :: "('re, 'patch, 'ver) builtin_env \<Rightarrow> builtin" where
  "urlquery_decode env args =
     (if length args \<noteq> 1 then berr ''urlquery.decode'' ''wrong number of arguments''
      else with_str ''urlquery.decode'' ''1st parameter is not a string'' (args ! 0) (\<lambda>input.
        case be_query_pairs env (be_set_query env (''input='' @ input)) of
          [(_, value)] \<Rightarrow> ok_json (String value)
        | _ \<Rightarrow> berr ''urlquery.decode'' ''internal error 2''))"

definition query_of ::
  "(string \<times> json) list \<Rightarrow> BurregoError + string list" where
  "query_of obj = try_map (\<lambda>(key, value).
     case as_str value of
       None \<Rightarrow> Inl (BuiltinError ''urlquery.encode_object''
         (''the value of key '' @ key @ '' is not a string''))
     | Some v \<Rightarrow> Inr (key @ ''='' @ v)) obj"

definition urlquery_encode_object :: "('re, 'patch, 'ver) builtin_env \<Rightarrow> builtin" where
  "urlquery_encode_object env args =
     (if length args \<noteq> 1 then berr ''urlquery.encode_object'' ''wrong number of arguments''
      else (case as_object (args ! 0) of
        None \<Rightarrow> berr ''urlquery.encode_object'' ''1st parameter is not an object''
      | Some obj \<Rightarrow>
          try_exec (Ret (query_of obj)) (\<lambda>queries.
            case be_set_query env (join_with ''&'' queries) of
              None \<Rightarrow> berr ''urlquery.encode_object'' ''internal error 2''
            | Some res \<Rightarrow> ok_json (String res))))"

definition urlquery_decode_object :: "('re, 'patch, 'ver) builtin_env \<Rightarrow> builtin" where
  "urlquery_decode_object env args =
     (if length args \<noteq> 1 then berr ''urlquery.decode_object'' ''wrong number of arguments''
      else with_str ''urlquery.decode'' ''1st parameter is not a string'' (args ! 0) (\<lambda>input.
        ok_json (json_obj (map (\<lambda>(k, v). (k, String v)) (be_query_pairs env (be_set_query env input))))))"

definition json_is_valid :: "('re, 'patch, 'ver) builtin_env \<Rightarrow> builtin" where
  "json_is_valid env args =
     (if length args \<noteq> 1 then berr ''json.is_valid'' ''wrong number of arguments''
      else with_str ''json.is_valid'' ''1st parameter is not a string'' (args ! 0)
        (\<lambda>input. ok_json (Bool (is_ok (be_parse_json env input)))))"

definition yaml_marshal :: "('re, 'patch, 'ver) builtin_env \<Rightarrow> builtin" where
  "yaml_marshal env args =
     (if length args \<noteq> 1 then berr ''yaml.marshal'' ''wrong number of arguments''
      else or_error ''yaml.marshal'' (\<lambda>e. ''marshal error - '' @ le_debug e) (be_to_yaml env (args ! 0))
        (\<lambda>res. ok_json (String res)))"

definition yaml_unmarshal :: "('re, 'patch, 'ver) builtin_env \<Rightarrow> builtin" where
  "yaml_unmarshal env args =
     (if length args \<noteq> 1 then berr ''yaml.unmarshal'' ''wrong number of arguments''
      else with_str ''yaml.unmarshal'' ''1st parameter is not a string'' (args ! 0) (\<lambda>input.
        or_error ''yaml.unmarshal'' (\<lambda>e. ''cannot convert input object to json - '' @ le_debug e)
          (be_from_yaml env input) ok_json))"

definition yaml_is_valid :: "('re, 'patch, 'ver) builtin_env \<Rightarrow> builtin" where
  "yaml_is_valid env args =
     (if length args \<noteq> 1 then berr ''yaml.is_valid'' ''wrong number of arguments''
      else with_str ''yaml.is_valid'' ''parameter is not a string'' (args ! 0)
        (\<lambda>input. ok_json (Bool (is_ok (be_from_yaml env input)))))"

text \<open>\<open>{v:x?}\<close> of a byte: lower-case hexadecimal without leading zero.\<close>

definition byte_hex :: "char \<Rightarrow> string" where
  "byte_hex c =
     (let n = (of_char c :: nat) in if n < 16 then [hex_digit n] else [hex_digit (n div 16), hex_digit (n mod 16)])"

definition hex_encode_str :: "string \<Rightarrow> string" where
  "hex_encode_str s = join_with [] (map byte_hex s)"

definition hex_encode :: builtin where
  "hex_encode args =
     (if length args \<noteq> 1 then berr ''hex.encode'' ''wrong number of arguments''
      else with_str ''hex.encode'' ''1st parameter is not a string'' (args ! 0)
        (\<lambda>input. ok_json (String (hex_encode_str input))))"

definition digit_value :: "char \<Rightarrow> nat option" where
  "digit_value c =
     (let n = (of_char c :: nat) in
      if 48 \<le> n \<and> n \<le> 57 then Some (n - 48)
      else if 97 \<le> n \<and> n \<le> 102 then Some (n - 87)
      else if 65 \<le> n \<and> n \<le> 70 then Some (n - 55) else None)"

text \<open>\<open>u8::from_str_radix(_, 16)\<close> of two bytes: two digits, or a plus sign and one digit.\<close>

definition u8_from_hex :: "char \<Rightarrow> char \<Rightarrow> string + char" where
  "u8_from_hex a b =
     (case (digit_value a, digit_value b) of
        (Some x, Some y) \<Rightarrow> Inr (char_of (16 * x + y))
      | (None, Some y) \<Rightarrow> if a = CHR ''+'' then Inr (char_of y) else Inl ''ParseIntError { kind: InvalidDigit }''
      | _ \<Rightarrow> Inl ''ParseIntError { kind: InvalidDigit }'')"

text \<open>\<open>&input[i..i + 2]\<close> must end inside the string, on character boundaries.\<close>

definition char_boundary :: "string \<Rightarrow> nat \<Rightarrow> bool" where
  "char_boundary s i \<longleftrightarrow> i = length s \<or> i < length s \<and> \<not> is_cont (s ! i)"

definition hex_piece :: "string \<Rightarrow> nat \<Rightarrow> (string + char) exec" where
  "hex_piece input i =
     (if i + 2 \<le> length input \<and> char_boundary input i \<and> char_boundary input (i + 2)
      then Ret (u8_from_hex (input ! i) (input ! (i + 1)))
      else Panic ''byte index out of range of string'')"

definition hex_decode_bytes :: "string \<Rightarrow> (string + bytes) exec" where
  "hex_decode_bytes input = try_exec_map (hex_piece input) (map (\<lambda>k. 2 * k) [0..<(length input + 1) div 2])"

definition debug_utf8_error :: "nat \<times> nat option \<Rightarrow> string" where
  "debug_utf8_error e = ''Utf8Error { valid_up_to: '' @ nat_digits (fst e) @
     '', error_len: '' @ debug_opt nat_digits (snd e) @ '' }''"

definition debug_from_utf8_error :: "bytes \<Rightarrow> nat \<times> nat option \<Rightarrow> string" where
  "debug_from_utf8_error b e = ''FromUtf8Error { bytes: '' @ debug_list (\<lambda>c. nat_digits (of_char c)) b @
     '', error: '' @ debug_utf8_error e @ '' }''"

definition hex_decode :: builtin where
  "hex_decode args =
     (if length args \<noteq> 1 then berr ''hex.decode'' ''wrong number of arguments''
      else with_str ''hex.decode'' ''1st parameter is not a string'' (args ! 0) (\<lambda>input.
        bind_exec (hex_decode_bytes input) (\<lambda>value.
          case value of
            Inl e \<Rightarrow> berr ''hex.decode'' (''cannot parse input - '' @ e)
          | Inr value \<Rightarrow>
              (case from_utf8 value of
                 Inl e \<Rightarrow> berr ''hex.decode'' (''cannot parse string - '' @ debug_from_utf8_error value e)
               | Inr s \<Rightarrow> ok_json (String s)))))"

subsection \<open>json.patch\<close>

definition json_patch :: "('re, 'patch, 'ver) builtin_env \<Rightarrow> builtin" where
  "json_patch env args =
     (if length args \<noteq> 2 then berr ''json.patch'' ''wrong number of arguments''
      else if as_object (args ! 0) = None then berr ''json.patch'' ''1st parameter is not an object''
      else if as_array (args ! 1) = None then berr ''json.patch'' ''2nd parameter is not an array''
      else
        or_error ''json.patch'' (\<lambda>e. ''cannot convert 2nd parameter to string'')
          (be_json_to_string env (args ! 1)) (\<lambda>patches_str.
            case be_parse_patch env patches_str of
              Inl e \<Rightarrow> Panic (''called Result::unwrap() on an Err value: '' @ le_debug e)
            | Inr patches \<Rightarrow>
                or_error ''json.patch'' (\<lambda>e. ''cannot apply patch: '' @ le_debug e)
                  (be_apply_patch env patches (args ! 0)) ok_json))"

subsection \<open>regex\<close>

definition bad_pattern :: "string \<Rightarrow> lib_error \<Rightarrow> string" where
  "bad_pattern pattern_str e = ''cannot build regex from the given pattern string '' @ squote @
     pattern_str @ squote @ '': '' @ le_debug e"

definition regex_split :: "('re, 'patch, 'ver) builtin_env \<Rightarrow> builtin" where
  "regex_split env args =
     (if length args \<noteq> 2 then berr ''regex.split'' ''Wrong number of arguments given''
      else with_str ''regex.split'' ''1st parameter is not a string'' (args ! 0) (\<lambda>pattern_str.
           with_str ''regex.split'' ''2nd parameter is not a string'' (args ! 1) (\<lambda>string_str.
           or_error ''regex.split'' (bad_pattern pattern_str) (be_regex env pattern_str)
             (\<lambda>re. ok_json (String (concat (be_split env re string_str)))))))"

record template_expression =
  ex_is_regexp :: bool
  ex_expression :: string

record template_scan =
  ts_expressions :: "template_expression list"
  ts_current :: template_expression
  ts_open :: int

definition ts_init :: template_scan where
  "ts_init = \<lparr>ts_expressions = [], ts_current = \<lparr>ex_is_regexp = False, ex_expression = []\<rparr>, ts_open = 0\<rparr>"

definition ts_flush :: "template_scan \<Rightarrow> template_expression list" where
  "ts_flush st = (if ex_expression (ts_current st) \<noteq> [] then ts_expressions st @ [ts_current st]
                  else ts_expressions st)"

definition ts_step :: "char \<Rightarrow> char \<Rightarrow> template_scan \<Rightarrow> char \<Rightarrow> template_scan" where
  "ts_step delimiter_start delimiter_end st c =
     (if c = delimiter_start then
        (let st1 = st\<lparr>ts_open := ts_open st + 1\<rparr> in
         if ts_open st1 = 1 then st1\<lparr>ts_expressions := ts_flush st1,
           ts_current := \<lparr>ex_is_regexp = True, ex_expression = []\<rparr>\<rparr> else st1)
      else if c = delimiter_end then
        (let st1 = st\<lparr>ts_open := ts_open st - 1\<rparr> in
         if ts_open st1 = 0 then st1\<lparr>ts_expressions := ts_flush st1,
           ts_current := \<lparr>ex_is_regexp = False, ex_expression = []\<rparr>\<rparr> else st1)
      else st\<lparr>ts_current := (ts_current st)\<lparr>ex_expression := ex_expression (ts_current st) @ [c]\<rparr>\<rparr>)"

definition template_expressions :: "string \<Rightarrow> char \<Rightarrow> char \<Rightarrow> template_expression list" where
  "template_expressions template delimiter_start delimiter_end =
     ts_flush (foldl (ts_step delimiter_start delimiter_end) ts_init template)"

definition display_expression :: "('re, 'patch, 'ver) builtin_env \<Rightarrow> template_expression \<Rightarrow> string" where
  "display_expression env e =
     (if ex_is_regexp e then ex_expression e else be_regex_escape env (ex_expression e))"

definition regexp_from_template ::
  "('re, 'patch, 'ver) builtin_env \<Rightarrow> string \<Rightarrow> char \<Rightarrow> char \<Rightarrow> (BurregoError + 're) exec" where
  "regexp_from_template env template delimiter_start delimiter_end =
     or_error ''regex'' (\<lambda>e. ''tried to initialize an invalid regular expression: '' @ le_debug e)
       (be_regex env (concat (map (display_expression env)
         (template_expressions template delimiter_start delimiter_end))))
       (\<lambda>re. Ret (Inr re))"

definition regex_template_match :: "('re, 'patch, 'ver) builtin_env \<Rightarrow> builtin" where
  "regex_template_match env args =
     (if length args \<noteq> 4 then berr ''regex.template_match'' ''Wrong number of arguments given''
      else with_str ''regex.template_match'' ''1st parameter is not a string'' (args ! 0) (\<lambda>pattern_str.
           with_str ''regex.template_match'' ''2nd parameter is not a string'' (args ! 1) (\<lambda>string_str.
           with_str ''regex.template_match'' ''3rd parameter is not a string'' (args ! 2) (\<lambda>start.
           if length start \<noteq> 1
           then berr ''regex.template_match'' ''3rd parameter has to be exactly one character long''
           else with_str ''regex.template_match'' ''4th parameter is not a string'' (args ! 3) (\<lambda>stop.
             if length stop \<noteq> 1
             then berr ''regex.template_match'' ''4th parameter has to be exactly one character long''
             else try_exec (regexp_from_template env pattern_str (hd start) (hd stop))
                    (\<lambda>re. ok_json (Bool (be_is_match env re string_str))))))))"

definition regex_find_n :: "('re, 'patch, 'ver) builtin_env \<Rightarrow> builtin" where
  "regex_find_n env args =
     (if length args \<noteq> 3 then berr ''regex.find_n'' ''Wrong number of arguments given to ''
      else with_str ''regex.find_n'' ''1st parameter is not a string'' (args ! 0) (\<lambda>pattern_str.
           with_str ''regex.find_n'' ''2nd parameter is not a string'' (args ! 1) (\<lambda>string_str.
           case as_i64 (args ! 2) of
             None \<Rightarrow> berr ''regex.find_n'' ''3rd parameter is not a number''
           | Some take_number \<Rightarrow>
               or_error ''regex.find_n'' (bad_pattern pattern_str) (be_regex env pattern_str) (\<lambda>re.
                 let take_n = (if take_number \<noteq> -1 then unat take_number
                               else length (be_find_iter env re string_str))
                 in ok_json (Array (map String (take take_n (be_find_iter env re string_str))))))))"

subsection \<open>semver\<close>

definition semver_is_valid :: "('re, 'patch, 'ver) builtin_env \<Rightarrow> builtin" where
  "semver_is_valid env args =
     (if length args \<noteq> 1 then berr ''semver.is_valid'' ''wrong number of arguments''
      else with_str ''semver.is_valid'' ''1st parameter is not a string'' (args ! 0)
        (\<lambda>input. ok_json (Bool (is_ok (be_version env input)))))"

definition semver_compare :: "('re, 'patch, 'ver) builtin_env \<Rightarrow> builtin" where
  "semver_compare env args =
     (if length args \<noteq> 2 then berr ''semver.compare'' ''wrong number of arguments''
      else with_str ''semver.compare'' ''1st parameter is not a string'' (args ! 0) (\<lambda>a.
           with_str ''semver.compare'' ''2nd parameter is not a string'' (args ! 1) (\<lambda>b.
           or_error ''semver.compare'' (\<lambda>e. ''first argument is not a valid semantic version: '' @ le_debug e)
             (be_version env a) (\<lambda>version_a.
           or_error ''semver.compare'' (\<lambda>e. ''second argument is not a valid semantic version: '' @ le_debug e)
             (be_version env b) (\<lambda>version_b.
           let order = be_version_cmp env version_a version_b in
           ok_json (json_int (if order < 0 then -1 else if order = 0 then 0 else 1)))))))"

subsection \<open>strings\<close>

text \<open>Conversion of an argument for the template engine; a number that is no \<open>i64\<close> panics.\<close>

fun gt_from :: "json \<Rightarrow> gt_value exec"
  and gt_list :: "json list \<Rightarrow> gt_value list exec"
  and gt_fields :: "(string \<times> json) list \<Rightarrow> (string \<times> gt_value) list exec" where
  "gt_from (String s) = Ret (GtString s)"
| "gt_from (Number n) =
     (case as_i64 (Number n) of None \<Rightarrow> Panic ''called Option::unwrap() on a None value''
      | Some i \<Rightarrow> Ret (GtNumber i))"
| "gt_from (Bool b) = Ret (GtBool b)"
| "gt_from (Array arr) = bind_exec (gt_list arr) (\<lambda>res. Ret (GtArray res))"
| "gt_from (Object obj) = bind_exec (gt_fields obj) (\<lambda>res. Ret (GtMap res))"
| "gt_from Null = Ret GtNil"
| "gt_list [] = Ret []"
| "gt_list (j # js) = bind_exec (gt_from j) (\<lambda>v. bind_exec (gt_list js) (\<lambda>vs. Ret (v # vs)))"
| "gt_fields [] = Ret []"
| "gt_fields ((k, j) # js) = bind_exec (gt_from j) (\<lambda>v. bind_exec (gt_fields js) (\<lambda>vs. Ret ((k, v) # vs)))"

definition sprintf_template :: "string \<Rightarrow> nat \<Rightarrow> string" where
  "sprintf_template fmt_str n =
     ''{{ printf '' @ [dquote] @ fmt_str @ [dquote] @ '' '' @
     join_with '' '' (map (\<lambda>i. ''(index . '' @ nat_digits i @ '')'') [0..<n]) @ ''}}''"

definition builtin_sprintf :: "('re, 'patch, 'ver) builtin_env \<Rightarrow> builtin" where
  "builtin_sprintf env args =
     (if length args \<noteq> 2 then berr ''sprintf'' ''Wrong number of arguments given''
      else with_str ''sprintf'' ''1st parameter is not a string'' (args ! 0) (\<lambda>fmt_str.
           case as_array (args ! 1) of
             None \<Rightarrow> berr ''sprintf'' ''2nd parameter is not an array''
           | Some items \<Rightarrow>
               bind_exec (gt_list items) (\<lambda>fmt_args.
                 let template_str = sprintf_template fmt_str (length fmt_args) in
                 or_error ''sprintf''
                   (\<lambda>e. ''Cannot render go template '' @ squote @ template_str @ squote @ '' with args '' @
                      be_debug_values env fmt_args @ '': '' @ le_debug e)
                   (be_template env template_str fmt_args) (\<lambda>res. ok_json (String res)))))"

subsection \<open>time\<close>

definition time_now_ns :: "('re, 'patch, 'ver) builtin_env \<Rightarrow> builtin" where
  "time_now_ns env args =
     (if args \<noteq> [] then berr ''time.now_ns'' ''wrong number of arguments given''
      else ok_json (case be_now_ns env of None \<Rightarrow> Null | Some n \<Rightarrow> json_i64 n))"

definition time_parse_rfc3339_ns :: "('re, 'patch, 'ver) builtin_env \<Rightarrow> builtin" where
  "time_parse_rfc3339_ns env args =
     (if length args \<noteq> 1 then berr ''time.parse_rfc3339_ns'' ''wrong number of arguments given''
      else with_str ''time.parse_rfc3339_ns'' ''1st parameter is not a string'' (args ! 0) (\<lambda>value.
        or_error ''time.parse_rfc3339_ns'' (\<lambda>e. '': cannot convert '' @ value @ '': '' @ le_debug e)
          (be_parse_rfc3339 env value)
          (\<lambda>n. ok_json (case n of None \<Rightarrow> Null | Some n \<Rightarrow> json_i64 n))))"

definition civil_date :: "('re, 'patch, 'ver) builtin_env \<Rightarrow> string \<Rightarrow> i64 \<Rightarrow> (BurregoError + json) exec" where
  "civil_date env timezone nanoseconds =
     (case be_civil env timezone nanoseconds of
        None \<Rightarrow> berr ''time.date'' ''overflow when building date''
      | Some (y, m, d) \<Rightarrow> ok_json (Array [json_int y, json_int m, json_int d]))"

definition time_date :: "('re, 'patch, 'ver) builtin_env \<Rightarrow> builtin" where
  "time_date env args =
     (if length args \<noteq> 1 then berr ''time.date'' ''wrong number of arguments given''
      else
        (case args ! 0 of
           Number val \<Rightarrow>
             (case as_i64 (Number val) of
                None \<Rightarrow> berr ''time.date'' ''1st parameter is not a number''
              | Some nanoseconds \<Rightarrow> civil_date env ''UTC'' nanoseconds)
         | Array val \<Rightarrow>
             if length val \<noteq> 2 then berr ''time.date'' ''wrong number of items inside of input array''
             else (case as_i64 (val ! 0) of
                 None \<Rightarrow> berr ''time.date'' ''1st array item is not a number''
               | Some nanoseconds \<Rightarrow>
                   with_str ''time.date'' ''2nd array item is not a string'' (val ! 1) (\<lambda>tz_name.
                     if tz_name = ''Local'' then civil_date env ''Local'' nanoseconds
                     else or_error ''time.date''
                       (\<lambda>e. ''cannot handle given timezone '' @ tz_name @ '': '' @ le_debug e)
                       (be_timezone env tz_name) (\<lambda>tz. civil_date env tz nanoseconds)))
         | _ \<Rightarrow> berr ''time.date'' ''the 1st parameter is neither a number nor an array''))"

subsection \<open>The table\<close>

definition get_builtins :: "('re, 'patch, 'ver) builtin_env \<Rightarrow> (string \<times> builtin) list" where
  "get_builtins env =
     [(''trace'', builtin_trace),
      (''base64url.encode_no_pad'', base64url_encode_no_pad env),
      (''urlquery.encode'', urlquery_encode env),
      (''urlquery.decode'', urlquery_decode env),
      (''urlquery.encode_object'', urlquery_encode_object env),
      (''urlquery.decode_object'', urlquery_decode_object env),
      (''json.is_valid'', json_is_valid env),
      (''yaml.marshal'', yaml_marshal env),
      (''yaml.unmarshal'', yaml_unmarshal env),
      (''yaml.is_valid'', yaml_is_valid env),
      (''hex.encode'', hex_encode),
      (''hex.decode'', hex_decode),
      (''glob.quote_meta'', glob_quote_meta),
      (''json.patch'', json_patch env),
      (''regex.split'', regex_split env),
      (''regex.template_match'', regex_template_match env),
      (''regex.find_n'', regex_find_n env),
      (''semver.is_valid'', semver_is_valid env),
      (''semver.compare'', semver_compare env),
      (''sprintf'', builtin_sprintf env),
      (''time.now_ns'', time_now_ns env),
      (''parse_rfc3339_ns'', time_parse_rfc3339_ns env),
      (''date'', time_date env)]"

definition builtins_invoke :: "('re, 'patch, 'ver) builtin_env \<Rightarrow> string \<Rightarrow> builtin" where
  "builtins_invoke env builtin_name args =
     (case map_of (get_builtins env) builtin_name of
        None \<Rightarrow> Ret (Inl (BuiltinNotImplementedError builtin_name))
      | Some builtin_fn \<Rightarrow> builtin_fn args)"

subsection \<open>Hexadecimal\<close>

lemma join_with_Nil: "join_with [] ss = concat ss"
  by (induction "[]::string" ss rule: join_with.induct) simp_all

lemma digit_value_hex_digit: "n < 16 \<Longrightarrow> digit_value (hex_digit n) = Some n"
  by (auto simp: digit_value_def of_char_hex_digit Let_def)

lemma hex_digit_boundary: "n < 16 \<Longrightarrow> \<not> is_cont (hex_digit n)"
  by (auto simp: is_cont_def of_char_hex_digit)

lemma of_char_less: "(of_char c :: nat) < 256"
  by (metis mod_less_divisor of_char_mod_256 zero_less_numeral)

lemma byte_hex_decodes:
  "(of_char c :: nat) div 16 < 16"
  "u8_from_hex (hex_digit (of_char c div 16)) (hex_digit (of_char c mod 16)) = Inr c"
proof -
  show lt: "(of_char c :: nat) div 16 < 16"
    using of_char_less [of c] by (simp add: less_mult_imp_div_less)
  have "(16::nat) * (of_char c div 16) + of_char c mod 16 = of_char c" by simp
  then have "char_of ((16::nat) * (of_char c div 16) + of_char c mod 16) = c" by simp
  then show "u8_from_hex (hex_digit (of_char c div 16)) (hex_digit (of_char c mod 16)) = Inr c"
    by (simp add: u8_from_hex_def digit_value_hex_digit lt)
qed

lemma hex_piece_Suc: "hex_piece (a # b # t) (2 * Suc k) = hex_piece t (2 * k)"
  by (auto simp: hex_piece_def char_boundary_def)

lemma hex_decode_pair:
  assumes "\<not> is_cont a" and "t = [] \<or> \<not> is_cont (hd t)"
  shows "hex_decode_bytes (a # b # t) =
    try_exec (Ret (u8_from_hex a b)) (\<lambda>c. try_exec (hex_decode_bytes t) (\<lambda>cs. Ret (Inr (c # cs))))"
proof -
  have first: "hex_piece (a # b # t) 0 = Ret (u8_from_hex a b)"
    using assms by (cases t) (auto simp: hex_piece_def char_boundary_def)
  have shift: "try_exec_map (hex_piece (a # b # t)) (map (\<lambda>k. 2 * k) (map Suc ks)) =
      try_exec_map (hex_piece t) (map (\<lambda>k. 2 * k) ks)" for ks
    by (induction ks) (simp_all add: hex_piece_Suc [simplified])
  have "[0..<(length (a # b # t) + 1) div 2] = 0 # map Suc [0..<(length t + 1) div 2]"
    by (simp add: upt_conv_Cons map_Suc_upt del: upt_Suc)
  then show ?thesis
    unfolding hex_decode_bytes_def by (simp only: list.map try_exec_map.simps first shift mult_0_right)
qed

lemma hex_encode_head:
  "concat (map byte_hex s) = [] \<or> \<not> is_cont (hd (concat (map byte_hex s)))"
proof (cases s)
  case (Cons c cs)
  then show ?thesis
    using byte_hex_decodes(1) [of c] by (auto simp: byte_hex_def Let_def hex_digit_boundary)
qed simp

lemma hex_decode_encode:
  "list_all (\<lambda>c. 16 \<le> (of_char c :: nat)) s \<Longrightarrow> hex_decode_bytes (concat (map byte_hex s)) = Ret (Inr s)"
proof (induction s)
  case Nil
  then show ?case by (simp add: hex_decode_bytes_def)
next
  case (Cons c cs)
  let ?n = "of_char c :: nat"
  have hex: "byte_hex c = [hex_digit (?n div 16), hex_digit (?n mod 16)]"
    using Cons.prems by (simp add: byte_hex_def Let_def)
  have "hex_decode_bytes (hex_digit (?n div 16) # hex_digit (?n mod 16) # concat (map byte_hex cs)) =
      try_exec (Ret (u8_from_hex (hex_digit (?n div 16)) (hex_digit (?n mod 16))))
        (\<lambda>c. try_exec (hex_decode_bytes (concat (map byte_hex cs))) (\<lambda>cs. Ret (Inr (c # cs))))"
    by (rule hex_decode_pair) (use hex_encode_head byte_hex_decodes(1) [of c] hex_digit_boundary in auto)
  then show ?case
    using Cons hex byte_hex_decodes(2) [of c] by simp
qed

lemma try_exec_map_length: "try_exec_map f xs = Ret (Inr ys) \<Longrightarrow> length ys = length xs"
  by (induction xs arbitrary: ys) auto

lemma try_exec_map_all: "try_exec_map f xs = Ret (Inr ys) \<Longrightarrow> x \<in> set xs \<Longrightarrow> \<exists>y. f x = Ret (Inr y)"
  by (induction xs arbitrary: ys) auto

lemma hex_decode_even:
  assumes "hex_decode_bytes t = Ret (Inr ys)"
  shows "length t = 2 * length ys"
proof -
  have len: "length ys = (length t + 1) div 2"
    using try_exec_map_length [OF assms [unfolded hex_decode_bytes_def]] by simp
  have "even (length t)"
  proof (rule ccontr)
    assume odd: "odd (length t)"
    then have last: "2 * ((length t - 1) div 2) = length t - 1" "(length t - 1) div 2 < (length t + 1) div 2"
      by (auto elim!: oddE)
    then have "length t - 1 \<in> set (map (\<lambda>k. 2 * k) [0..<(length t + 1) div 2])"
      by (metis atLeastLessThan_iff imageI list.set_map set_upt zero_le)
    then obtain c where "hex_piece t (length t - 1) = Ret (Inr c)"
      using try_exec_map_all [OF assms [unfolded hex_decode_bytes_def]] by blast
    then show False using odd by (auto simp: hex_piece_def split: if_splits)
  qed
  with len show ?thesis by (auto elim!: evenE)
qed

lemma hex_encode_length:
  "length (concat (map byte_hex s)) \<le> 2 * length s"
  "length (concat (map byte_hex s)) = 2 * length s \<longleftrightarrow> list_all (\<lambda>c. 16 \<le> (of_char c :: nat)) s"
proof -
  have len: "length (byte_hex c) = (if 16 \<le> (of_char c :: nat) then 2 else 1)" for c
    by (simp add: byte_hex_def Let_def)
  show 1: "length (concat (map byte_hex s)) \<le> 2 * length s" for s
    by (induction s) (simp_all add: len)
  show "length (concat (map byte_hex s)) = 2 * length s \<longleftrightarrow> list_all (\<lambda>c. 16 \<le> (of_char c :: nat)) s"
  proof (induction s)
    case (Cons c cs)
    then show ?case using 1 [of cs] by (auto simp: len)
  qed simp
qed

subsection \<open>Properties\<close>

text \<open>Decoding what hex.encode produced gives the string back exactly when the string has no byte
  below 16; such a byte is written with one digit, and then the decoder fails, panics or returns
  another string.\<close>

theorem hex_roundtrip:
  assumes "from_utf8 s = Inr s"
  shows "hex_decode [String (hex_encode_str s)] = ok_json (String s) \<longleftrightarrow>
    list_all (\<lambda>c. 16 \<le> (of_char c :: nat)) s"
proof
  assume "list_all (\<lambda>c. 16 \<le> (of_char c :: nat)) s"
  then show "hex_decode [String (hex_encode_str s)] = ok_json (String s)"
    using assms by (simp add: hex_decode_def with_str_def hex_encode_str_def join_with_Nil hex_decode_encode)
next
  assume "hex_decode [String (hex_encode_str s)] = ok_json (String s)"
  then have "hex_decode_bytes (concat (map byte_hex s)) = Ret (Inr s)"
    by (auto simp: hex_decode_def with_str_def hex_encode_str_def join_with_Nil ok_json_def berr_def
        bind_exec_def split: exec.splits sum.splits dest: from_utf8_id)
  from hex_decode_even [OF this] show "list_all (\<lambda>c. 16 \<le> (of_char c :: nat)) s"
    by (simp add: hex_encode_length)
qed

theorem hex_roundtrip_witness:
  "hex_decode [String (hex_encode_str ''hello'')] = ok_json (String ''hello'') \<and>
   hex_decode [String (hex_encode_str [CHR 0x0A])] \<noteq> ok_json (String [CHR 0x0A])"
  using hex_roundtrip [of "''hello''"] hex_roundtrip [of "[CHR 0x0A]"] by (simp add: from_utf8_ascii)

text \<open>The builtins that take the evaluation down: an odd number of digits, an array that is no patch,
  a number that is no \<open>i64\<close>.\<close>

lemma hex_decode_odd_panics:
  assumes "odd (length t)" and "hex_decode_bytes t = Ret r"
  shows "\<exists>e. r = Inl e"
  using assms hex_decode_even [of t] by (cases r) fastforce+

lemma hex_decode_abc: "\<not> no_panic (hex_decode [String ''abc''])"
proof -
  have "hex_decode_bytes [CHR ''c''] = Panic ''byte index out of range of string''"
    by (simp add: hex_decode_bytes_def hex_piece_def)
  moreover have "\<not> is_cont (CHR ''a'')" "\<not> is_cont (CHR ''c'')" "u8_from_hex (CHR ''a'') (CHR ''b'') = Inr (char_of (171::nat))"
    by (simp_all add: is_cont_def u8_from_hex_def digit_value_def Let_def)
  ultimately have "hex_decode_bytes ''abc'' = Panic ''byte index out of range of string''"
    by (simp add: hex_decode_pair)
  then show ?thesis by (simp add: hex_decode_def with_str_def)
qed

lemma json_patch_panics:
  "be_json_to_string env (Array []) = Inr s \<Longrightarrow> be_parse_patch env s = Inl e \<Longrightarrow>
     \<not> no_panic (json_patch env [Object [], Array []])"
  by (simp add: json_patch_def or_error_def)

lemma sprintf_float_panics: "\<not> no_panic (builtin_sprintf env [String s, Array [Number (Float f)]])"
  by (simp add: builtin_sprintf_def with_str_def)

text \<open>The delimiters inside an outer pair are dropped from the expression.\<close>

lemma template_nested_delimiters:
  "template_expressions ''a<b<c>d>'' (CHR ''<'') (CHR ''>'') =
     [\<lparr>ex_is_regexp = False, ex_expression = ''a''\<rparr>, \<lparr>ex_is_regexp = True, ex_expression = ''bcd''\<rparr>]"
  by (simp add: template_expressions_def ts_step_def ts_flush_def ts_init_def Let_def)

lemma regex_split_joins:
  "be_regex env p = Inr re \<Longrightarrow>
   regex_split env [String p, String s] = ok_json (String (concat (be_split env re s)))"
  by (simp add: regex_split_def with_str_def or_error_def)

lemma time_builtin_names:
  "map_of (get_builtins env) ''time.parse_rfc3339_ns'' = None"
  "map_of (get_builtins env) ''time.date'' = None"
  by (simp_all add: get_builtins_def)

subsection \<open>Builtins that cannot panic\<close>

lemma no_panic_basic [simp]: "no_panic (berr name e)" "no_panic (ok_json j)"
  by (simp_all add: berr_def ok_json_def)

lemma no_panic_with_str [intro]: "(\<And>s. no_panic (f s)) \<Longrightarrow> no_panic (with_str name e arg f)"
  by (simp add: with_str_def split: option.split)

lemma no_panic_or_error [intro]: "(\<And>a. no_panic (f a)) \<Longrightarrow> no_panic (or_error name e r f)"
  by (simp add: or_error_def split: sum.split)

lemma no_panic_try [intro]: "no_panic m \<Longrightarrow> (\<And>a. no_panic (f a)) \<Longrightarrow> no_panic (try_exec m f)"
  by (auto simp: try_exec_def split: exec.split sum.split)

lemma no_panic_civil [simp]: "no_panic (civil_date env tz n)"
  by (simp add: civil_date_def split: option.split)

lemma no_panic_template [simp]: "no_panic (regexp_from_template env t a b)"
  unfolding regexp_from_template_def by (rule no_panic_or_error) simp

lemmas no_panic_rules = no_panic_with_str no_panic_or_error no_panic_try

lemma no_panic_text_builtins:
  "no_panic (builtin_trace args)" "no_panic (glob_quote_meta args)" "no_panic (base64url_encode_no_pad env args)"
  "no_panic (urlquery_encode env args)" "no_panic (urlquery_decode env args)"
  "no_panic (urlquery_encode_object env args)" "no_panic (urlquery_decode_object env args)"
  "no_panic (json_is_valid env args)" "no_panic (yaml_marshal env args)" "no_panic (yaml_unmarshal env args)"
  "no_panic (yaml_is_valid env args)" "no_panic (hex_encode args)"
  by (auto simp: builtin_trace_def glob_quote_meta_def base64url_encode_no_pad_def urlquery_encode_def
      urlquery_decode_def urlquery_encode_object_def urlquery_decode_object_def json_is_valid_def yaml_marshal_def
      yaml_unmarshal_def yaml_is_valid_def hex_encode_def
      intro!: no_panic_rules split: option.split list.split prod.split)

lemma no_panic_other_builtins:
  "no_panic (regex_split env args)" "no_panic (regex_template_match env args)" "no_panic (regex_find_n env args)"
  "no_panic (semver_is_valid env args)" "no_panic (semver_compare env args)" "no_panic (time_now_ns env args)"
  "no_panic (time_parse_rfc3339_ns env args)" "no_panic (time_date env args)"
  by (auto simp: regex_split_def regex_template_match_def regex_find_n_def semver_is_valid_def semver_compare_def
      time_now_ns_def time_parse_rfc3339_ns_def time_date_def Let_def
      intro!: no_panic_rules split: option.split json.split)

definition panicking_builtins :: "string list" where
  "panicking_builtins = [''hex.decode'', ''json.patch'', ''sprintf'']"

lemma builtins_invoke_total:
  "name \<notin> set panicking_builtins \<Longrightarrow> no_panic (builtins_invoke env name args)"
  by (auto simp: builtins_invoke_def get_builtins_def panicking_builtins_def no_panic_text_builtins
      no_panic_other_builtins)


end
