(* ===== verification/Burrego.thy ===== *)
theory Burrego
  imports Builtins BTreeMap
begin

text \<open>
  \<open>crates/burrego/src/stack_helper.rs\<close>, \<open>policy.rs\<close> and \<open>opa_host_functions.rs\<close>: the exchange of data
  with a Rego module through its linear memory, the OPA policy on top of it, and the host functions
  the module imports. The module is the parameter \<^theory_text>\<open>opa_env\<close>: calls of its exported functions
  on the guest state, its memory, and the evaluation, a tree in which it calls back the host.
  Everything that unwraps a number taken from the guest can panic.
\<close>

datatype call_error = TrapInterrupt string | OtherTrap string

fun call_error_debug :: "call_error \<Rightarrow> string" where
  "call_error_debug (TrapInterrupt s) = s"
| "call_error_debug (OtherTrap s) = s"

text \<open>One evaluation as the module runs it: builtins, messages, and the end with the final state.\<close>

datatype 's opa_eval =
    EvalDone "call_error + i32" 's
  | EvalBuiltin i32 "i32 list" 's "i32 \<Rightarrow> 's \<Rightarrow> 's opa_eval"
  | EvalAbort i32 's "'s \<Rightarrow> 's opa_eval"
  | EvalPrintln i32 's "'s \<Rightarrow> 's opa_eval"

record ('s, 're, 'patch, 'ver) opa_env =
  oe_has_func :: "string \<Rightarrow> lib_error + unit"
  oe_call :: "string \<Rightarrow> i32 list \<Rightarrow> 's \<Rightarrow> (call_error + i32) \<times> 's"
  oe_eval :: "i32 \<Rightarrow> 's \<Rightarrow> 's opa_eval"
  oe_memory :: "'s \<Rightarrow> bytes"
  oe_set_memory :: "bytes \<Rightarrow> 's \<Rightarrow> 's"
  oe_memory_export :: "BurregoError + unit"
  oe_set_deadline :: "u64 \<Rightarrow> 's \<Rightarrow> 's"
  oe_create_memory :: "lib_error + unit"
  oe_define_memory :: "lib_error + unit"
  oe_func_wrap :: "string \<Rightarrow> lib_error + unit"
  oe_instantiate :: "u64 option \<Rightarrow> lib_error + 's"
  oe_global_i32 :: "string \<Rightarrow> i32 option"
  oe_parse :: "bytes \<Rightarrow> lib_error + json"
  oe_to_vec :: "json \<Rightarrow> lib_error + bytes"
  oe_trap_text :: "BurregoError \<Rightarrow> string"
  oe_builtins :: "('re, 'patch, 'ver) builtin_env"

text \<open>The store: the guest and the messages given to the abort (true) and println callbacks.\<close>

record 's opa_store =
  os_guest :: 's
  os_messages :: "(bool \<times> string) list"

type_synonym ('s, 'a) opa = "'s opa_store \<Rightarrow> ((BurregoError + 'a) \<times> 's opa_store) exec"

definition bind_opa :: "('s, 'a) opa \<Rightarrow> ('a \<Rightarrow> ('s, 'b) opa) \<Rightarrow> ('s, 'b) opa" where
  "bind_opa m f st = bind_exec (m st) (\<lambda>(r, st'). case r of Inl e \<Rightarrow> Ret (Inl e, st') | Inr a \<Rightarrow> f a st')"

definition ret_opa :: "BurregoError + 'a \<Rightarrow> ('s, 'a) opa" where
  "ret_opa r st = Ret (r, st)"

definition guest_call ::
  "('s, 're, 'patch, 'ver) opa_env \<Rightarrow> string \<Rightarrow> i32 list \<Rightarrow> (call_error \<Rightarrow> BurregoError) \<Rightarrow> ('s, i32) opa" where
  "guest_call m f args err st =
     (case oe_call m f args (os_guest st) of (r, g) \<Rightarrow> Ret (map_err err r, st\<lparr>os_guest := g\<rparr>))"

subsection \<open>StackHelper\<close>

definition memory_access_error :: string where
  "memory_access_error = ''MemoryAccessError { _private: () }''"

definition max_i32 :: nat where
  "max_i32 = 2147483647"

text \<open>The reading loop, at an index with the memory from there on; the next index must be an \<open>i32\<close>.\<close>

fun read_loop :: "nat \<Rightarrow> bytes \<Rightarrow> (BurregoError + bytes) exec" where
  "read_loop i [] = Ret (Inl (WasmEngineError (''cannot read from memory: '' @ memory_access_error)))"
| "read_loop i (c # cs) =
     (if c = CHR 0x00 then Ret (Inr [])
      else if i = max_i32 then Panic ''attempt to add with overflow''
      else try_exec (read_loop (Suc i) cs) (\<lambda>data. Ret (Inr (c # data))))"

definition read_string :: "bytes \<Rightarrow> i32 \<Rightarrow> (BurregoError + bytes) exec" where
  "read_string memory addr =
     (if sint addr < 0 then Panic ''called Result::unwrap() on an Err value''
      else read_loop (unat addr) (drop (unat addr) memory))"

definition pull_json :: "('s, 're, 'patch, 'ver) opa_env \<Rightarrow> i32 \<Rightarrow> ('s, json) opa" where
  "pull_json m addr =
     bind_opa (guest_call m ''opa_json_dump'' [addr]
       (\<lambda>e. WasmEngineError (''cannot invoke opa_json_dump function: '' @ call_error_debug e))) (\<lambda>raw_addr st.
     bind_exec (read_string (oe_memory m (os_guest st)) raw_addr) (\<lambda>r.
       ret_opa (bind_result r (\<lambda>data.
         map_err (JSONError ''cannot convert data read from memory into utf8 String'') (oe_parse m data))) st))"

definition memory_write ::
  "('s, 're, 'patch, 'ver) opa_env \<Rightarrow> i32 \<Rightarrow> bytes \<Rightarrow> ('s, unit) opa" where
  "memory_write m addr data st =
     (if sint addr < 0 then Panic ''called Result::unwrap() on an Err value''
      else
        (let mem = oe_memory m (os_guest st); a = unat addr in
         if a + length data \<le> length mem
         then Ret (Inr (), st\<lparr>os_guest :=
           oe_set_memory m (take a mem @ data @ drop (a + length data) mem) (os_guest st)\<rparr>)
         else Ret (Inl (WasmEngineError (''push_json: cannot write to memory: '' @ memory_access_error)), st)))"

definition push_json_raw :: "('s, 're, 'patch, 'ver) opa_env \<Rightarrow> bytes \<Rightarrow> ('s, i32) opa" where
  "push_json_raw m data =
     (if length data > max_i32
      then ret_opa (Inl (RegoWasmError ''push_json: cannot convert size to json''))
      else
        (let data_size = (word_of_nat (length data) :: i32) in
         bind_opa (guest_call m ''opa_malloc'' [data_size]
           (\<lambda>e. WasmEngineError (''push_json: cannot invoke opa_malloc function: '' @ call_error_debug e)))
           (\<lambda>raw_addr.
         bind_opa (memory_write m raw_addr data) (\<lambda>_.
         bind_opa (guest_call m ''opa_json_parse'' [raw_addr, data_size]
           (\<lambda>e. RegoWasmError (''Cannot get memory address: '' @ call_error_debug e))) (\<lambda>addr.
         ret_opa (if addr = 0 then Inl (RegoWasmError ''Failed to load json in memory'') else Inr addr))))))"

definition push_json :: "('s, 're, 'patch, 'ver) opa_env \<Rightarrow> json \<Rightarrow> ('s, i32) opa" where
  "push_json m value =
     bind_opa (ret_opa (map_err (JSONError ''push_json'') (oe_to_vec m value))) (push_json_raw m)"

text \<open>The identifiers of the builtins a module declares; the numbers are truncated to 32 bits.\<close>

fun builtin_ids :: "(string \<times> json) list \<Rightarrow> (i32 \<times> string) list exec" where
  "builtin_ids [] = Ret []"
| "builtin_ids ((k, v) # rest) =
     (case as_i64 v of
        None \<Rightarrow> Panic ''called Option::unwrap() on a None value''
      | Some n \<Rightarrow> bind_exec (builtin_ids rest) (\<lambda>xs. Ret ((ucast n, k) # xs)))"

definition need_func ::
  "('s, 're, 'patch, 'ver) opa_env \<Rightarrow> string \<Rightarrow> string \<Rightarrow> BurregoError + unit" where
  "need_func m f msg =
     map_err (\<lambda>e. RegoWasmError (msg @ '' '' @ f @ '' function: '' @ le_debug e)) (oe_has_func m f)"

definition stack_helper_new ::
  "('s, 're, 'patch, 'ver) opa_env \<Rightarrow> ('s, (i32 \<times> string) list) opa" where
  "stack_helper_new m =
     bind_opa (ret_opa (bind_result (need_func m ''opa_json_dump'' ''cannot access'') (\<lambda>_.
       bind_result (need_func m ''opa_malloc'' ''Cannot access'') (\<lambda>_.
       bind_result (need_func m ''opa_json_parse'' ''Cannot access'') (\<lambda>_.
       need_func m ''builtins'' ''cannot access''))))) (\<lambda>_.
     bind_opa (guest_call m ''builtins'' []
       (\<lambda>e. WasmEngineError (''cannot invoke builtins function: '' @ call_error_debug e))) (\<lambda>addr.
     bind_opa (pull_json m addr) (\<lambda>j.
       case as_object j of
         None \<Rightarrow> ret_opa (Inl (RegoWasmError ''OPA builtins didn't return a dictionary''))
       | Some obj \<Rightarrow> (\<lambda>st. bind_exec (builtin_ids obj) (\<lambda>xs.
           Ret (Inr (fold (\<lambda>(n, name) t. hm_insert n name t) xs []), st))))))"

subsection \<open>Policy\<close>

record Policy =
  po_data_addr :: i32
  po_base_heap_ptr :: i32
  po_data_heap_ptr :: i32

definition map_call_error :: "string \<Rightarrow> call_error \<Rightarrow> BurregoError" where
  "map_call_error msg e =
     (case e of TrapInterrupt _ \<Rightarrow> ExecutionDeadlineExceeded
      | OtherTrap d \<Rightarrow> WasmEngineError (msg @ '': '' @ d))"

definition opa_call ::
  "('s, 're, 'patch, 'ver) opa_env \<Rightarrow> string \<Rightarrow> i32 list \<Rightarrow> ('s, i32) opa" where
  "opa_call m f args = guest_call m f args (map_call_error (''error invoking '' @ f @ '' function''))"

definition policy_functions :: "string list" where
  "policy_functions =
     [''builtins'', ''entrypoints'', ''opa_heap_ptr_get'', ''opa_heap_ptr_set'', ''opa_eval_ctx_new'',
      ''opa_eval_ctx_set_input'', ''opa_eval_ctx_set_data'', ''opa_eval_ctx_set_entrypoint'',
      ''opa_eval_ctx_get_result'', ''opa_json_dump'', ''opa_malloc'', ''opa_json_parse'', ''eval'']"

definition policy_new :: "('s, 're, 'patch, 'ver) opa_env \<Rightarrow> ('s, Policy) opa" where
  "policy_new m =
     bind_opa (ret_opa (bind_result (try_map (\<lambda>f. need_func m f ''cannot get'') policy_functions)
       (\<lambda>_. Inr ()))) (\<lambda>_.
     bind_opa (push_json m (json_obj [])) (\<lambda>data_addr.
     bind_opa (opa_call m ''opa_heap_ptr_get'' []) (\<lambda>base_heap_ptr.
     ret_opa (Inr \<lparr>po_data_addr = data_addr, po_base_heap_ptr = base_heap_ptr,
       po_data_heap_ptr = base_heap_ptr\<rparr>))))"

definition policy_builtins :: "('s, 're, 'patch, 'ver) opa_env \<Rightarrow> ('s, (string \<times> i32) list) opa" where
  "policy_builtins m =
     bind_opa (opa_call m ''builtins'' []) (\<lambda>addr.
     bind_opa (pull_json m addr) (\<lambda>j.
       case as_object j of
         None \<Rightarrow> ret_opa (Inl (RegoWasmError ''OPA builtins didn't return a dictionary''))
       | Some obj \<Rightarrow> (\<lambda>st. bind_exec (builtin_ids obj) (\<lambda>xs.
           Ret (Inr (fold (\<lambda>(n, name) t. hm_insert name n t) xs []), st)))))"

fun entrypoint_ids :: "(string \<times> json) list \<Rightarrow> (string \<times> i32) list exec" where
  "entrypoint_ids [] = Ret []"
| "entrypoint_ids ((k, v) # rest) =
     (case as_i64 v of
        None \<Rightarrow> Panic ''called Option::unwrap() on a None value''
      | Some n \<Rightarrow>
          if sint n < -2147483648 \<or> 2147483647 < sint n
          then Panic ''called Result::unwrap() on an Err value''
          else bind_exec (entrypoint_ids rest) (\<lambda>xs. Ret ((k, ucast n) # xs)))"

definition policy_entrypoints :: "('s, 're, 'patch, 'ver) opa_env \<Rightarrow> ('s, (string \<times> i32) list) opa" where
  "policy_entrypoints m =
     bind_opa (opa_call m ''entrypoints'' []) (\<lambda>addr.
     bind_opa (pull_json m addr) (\<lambda>j.
       case as_object j of
         None \<Rightarrow> ret_opa (Inl (RegoWasmError ''OPA entrypoints didn't return a dictionary''))
       | Some obj \<Rightarrow> (\<lambda>st. bind_exec (entrypoint_ids obj) (\<lambda>xs.
           Ret (Inr (fold (\<lambda>(name, n) t. hm_insert name n t) xs []), st)))))"

text \<open>\<open>set_data\<close> updates the policy as it goes, so it returns the policy also when it fails.\<close>

definition policy_set_data ::
  "('s, 're, 'patch, 'ver) opa_env \<Rightarrow> Policy \<Rightarrow> bytes \<Rightarrow> 's opa_store
   \<Rightarrow> (((BurregoError + unit) \<times> Policy) \<times> 's opa_store) exec" where
  "policy_set_data m self data st =
     bind_exec (opa_call m ''opa_heap_ptr_set'' [po_base_heap_ptr self] st) (\<lambda>(r0, st0).
     case r0 of Inl e \<Rightarrow> Ret ((Inl e, self), st0) | Inr _ \<Rightarrow>
     bind_exec (push_json_raw m data st0) (\<lambda>(r1, st1).
     case r1 of Inl e \<Rightarrow> Ret ((Inl e, self), st1) | Inr data_addr \<Rightarrow>
     let self1 = self\<lparr>po_data_addr := data_addr\<rparr> in
     bind_exec (opa_call m ''opa_heap_ptr_get'' [] st1) (\<lambda>(r2, st2).
     case r2 of Inl e \<Rightarrow> Ret ((Inl e, self1), st2) | Inr data_heap_ptr \<Rightarrow>
     Ret ((Inr (), self1\<lparr>po_data_heap_ptr := data_heap_ptr\<rparr>), st2))))"

subsection \<open>Host functions\<close>

definition find_builtin ::
  "(i32 \<times> string) list \<Rightarrow> string \<Rightarrow> i32 \<Rightarrow> BurregoError + string" where
  "find_builtin helper label builtin_id =
     ok_or (BuiltinNotImplementedError (label @ '': cannot find builtin '' @ int_str (sint builtin_id)))
       (hm_get helper builtin_id)"

text \<open>The labels of the five functions in their error texts, as they are spelled.\<close>

definition builtin_label :: "nat \<Rightarrow> string" where
  "builtin_label n = (if n = 1 then ''opa_bunltin1'' else ''opa_builtin'' @ nat_digits n)"

fun pull_args :: "('s, 're, 'patch, 'ver) opa_env \<Rightarrow> i32 list \<Rightarrow> ('s, json list) opa" where
  "pull_args m [] = ret_opa (Inr [])"
| "pull_args m (p # ps) = bind_opa (pull_json m p) (\<lambda>j. bind_opa (pull_args m ps) (\<lambda>js. ret_opa (Inr (j # js))))"

definition opa_builtin ::
  "('s, 're, 'patch, 'ver) opa_env \<Rightarrow> (i32 \<times> string) list option \<Rightarrow> i32 \<Rightarrow> i32 list \<Rightarrow> ('s, i32) opa" where
  "opa_builtin m data builtin_id ps =
     (case data of
        None \<Rightarrow> (\<lambda>st. Panic ''called Option::unwrap() on a None value'')
      | Some helper \<Rightarrow>
          bind_opa (ret_opa (find_builtin helper (builtin_label (length ps)) builtin_id)) (\<lambda>builtin_name.
          bind_opa (ret_opa (oe_memory_export m)) (\<lambda>_.
          bind_opa (pull_args m ps) (\<lambda>args.
          bind_opa (\<lambda>st. bind_exec (builtins_invoke (oe_builtins m) builtin_name args) (\<lambda>r. Ret (r, st)))
            (push_json m)))))"

text \<open>The five functions as they are registered, one for each number of arguments.\<close>

definition invoke_opa :: "('s, 're, 'patch, 'ver) opa_env \<Rightarrow> string \<Rightarrow> json list \<Rightarrow> ('s, json) opa" where
  "invoke_opa m builtin_name args st =
     bind_exec (builtins_invoke (oe_builtins m) builtin_name args) (\<lambda>r. Ret (r, st))"

definition opa_builtin0 ::
  "('s, 're, 'patch, 'ver) opa_env \<Rightarrow> (i32 \<times> string) list option \<Rightarrow> i32 \<Rightarrow> i32 \<Rightarrow> ('s, i32) opa" where
  "opa_builtin0 m data builtin_id ctx =
     (case data of
        None \<Rightarrow> (\<lambda>st. Panic ''called Option::unwrap() on a None value'')
      | Some helper \<Rightarrow>
          bind_opa (ret_opa (find_builtin helper ''opa_builtin0'' builtin_id)) (\<lambda>builtin_name.
          bind_opa (ret_opa (oe_memory_export m)) (\<lambda>_.
          bind_opa (invoke_opa m builtin_name []) (push_json m))))"

definition opa_builtin1 ::
  "('s, 're, 'patch, 'ver) opa_env \<Rightarrow> (i32 \<times> string) list option \<Rightarrow> i32 \<Rightarrow> i32 \<Rightarrow> i32 \<Rightarrow> ('s, i32) opa" where
  "opa_builtin1 m data builtin_id ctx p1 =
     (case data of
        None \<Rightarrow> (\<lambda>st. Panic ''called Option::unwrap() on a None value'')
      | Some helper \<Rightarrow>
          bind_opa (ret_opa (find_builtin helper ''opa_bunltin1'' builtin_id)) (\<lambda>builtin_name.
          bind_opa (ret_opa (oe_memory_export m)) (\<lambda>_.
          bind_opa (pull_json m p1) (\<lambda>j1.
          bind_opa (invoke_opa m builtin_name [j1]) (push_json m)))))"

definition opa_builtin2 ::
  "('s, 're, 'patch, 'ver) opa_env \<Rightarrow> (i32 \<times> string) list option \<Rightarrow> i32 \<Rightarrow> i32 \<Rightarrow> i32 \<Rightarrow> i32 \<Rightarrow> ('s, i32) opa" where
  "opa_builtin2 m data builtin_id ctx p1 p2 =
     (case data of
        None \<Rightarrow> (\<lambda>st. Panic ''called Option::unwrap() on a None value'')
      | Some helper \<Rightarrow>
          bind_opa (ret_opa (find_builtin helper ''opa_builtin2'' builtin_id)) (\<lambda>builtin_name.
          bind_opa (ret_opa (oe_memory_export m)) (\<lambda>_.
          bind_opa (pull_json m p1) (\<lambda>j1.
          bind_opa (pull_json m p2) (\<lambda>j2.
          bind_opa (invoke_opa m builtin_name [j1, j2]) (push_json m))))))"

definition opa_builtin3 ::
  "('s, 're, 'patch, 'ver) opa_env \<Rightarrow> (i32 \<times> string) list option \<Rightarrow> i32 \<Rightarrow> i32 \<Rightarrow> i32 \<Rightarrow> i32 \<Rightarrow> i32 \<Rightarrow> ('s, i32) opa" where
  "opa_builtin3 m data builtin_id ctx p1 p2 p3 =
     (case data of
        None \<Rightarrow> (\<lambda>st. Panic ''called Option::unwrap() on a None value'')
      | Some helper \<Rightarrow>
          bind_opa (ret_opa (find_builtin helper ''opa_builtin3'' builtin_id)) (\<lambda>builtin_name.
          bind_opa (ret_opa (oe_memory_export m)) (\<lambda>_.
          bind_opa (pull_json m p1) (\<lambda>j1.
          bind_opa (pull_json m p2) (\<lambda>j2.
          bind_opa (pull_json m p3) (\<lambda>j3.
          bind_opa (invoke_opa m builtin_name [j1, j2, j3]) (push_json m)))))))"

definition opa_builtin4 ::
  "('s, 're, 'patch, 'ver) opa_env \<Rightarrow> (i32 \<times> string) list option \<Rightarrow> i32 \<Rightarrow> i32 \<Rightarrow> i32 \<Rightarrow> i32 \<Rightarrow> i32 \<Rightarrow> i32 \<Rightarrow> ('s, i32) opa" where
  "opa_builtin4 m data builtin_id ctx p1 p2 p3 p4 =
     (case data of
        None \<Rightarrow> (\<lambda>st. Panic ''called Option::unwrap() on a None value'')
      | Some helper \<Rightarrow>
          bind_opa (ret_opa (find_builtin helper ''opa_builtin4'' builtin_id)) (\<lambda>builtin_name.
          bind_opa (ret_opa (oe_memory_export m)) (\<lambda>_.
          bind_opa (pull_json m p1) (\<lambda>j1.
          bind_opa (pull_json m p2) (\<lambda>j2.
          bind_opa (pull_json m p3) (\<lambda>j3.
          bind_opa (pull_json m p4) (\<lambda>j4.
          bind_opa (invoke_opa m builtin_name [j1, j2, j3, j4]) (push_json m))))))))"

definition opa_message ::
  "('s, 're, 'patch, 'ver) opa_env \<Rightarrow> (i32 \<times> string) list option \<Rightarrow> bool \<Rightarrow> string \<Rightarrow> i32 \<Rightarrow> ('s, unit) opa" where
  "opa_message m data is_abort label addr =
     (case data of
        None \<Rightarrow> (\<lambda>st. Panic ''called Option::unwrap() on a None value'')
      | Some helper \<Rightarrow>
          bind_opa (ret_opa (oe_memory_export m)) (\<lambda>_ st.
          bind_exec (read_string (oe_memory m (os_guest st)) addr) (\<lambda>r.
            let msg = (case r of
                Inl e \<Rightarrow> ''cannot decode '' @ label @ '' message: '' @ oe_trap_text m e
              | Inr raw \<Rightarrow>
                  (case from_utf8 raw of
                     Inr s \<Rightarrow> s
                   | Inl e \<Rightarrow> ''cannot decode '' @ label @
                       '' message: didn't read a valid string from memory - '' @ debug_from_utf8_error raw e))
            in Ret (Inr (), st\<lparr>os_messages := os_messages st @ [(is_abort, msg)]\<rparr>))))"

text \<open>The evaluation with the host functions; an error of one of them traps the guest.\<close>

primrec run_eval ::
  "('s, 're, 'patch, 'ver) opa_env \<Rightarrow> (i32 \<times> string) list option \<Rightarrow> 's opa_eval \<Rightarrow> (bool \<times> string) list
   \<Rightarrow> ((call_error + i32) \<times> 's opa_store) exec" where
  "run_eval m h (EvalDone r g) msgs = Ret (r, \<lparr>os_guest = g, os_messages = msgs\<rparr>)"
| "run_eval m h (EvalBuiltin builtin_id ps g k) msgs =
     bind_exec (opa_builtin m h builtin_id ps \<lparr>os_guest = g, os_messages = msgs\<rparr>) (\<lambda>(r, st).
       case r of
         Inl e \<Rightarrow> Ret (Inl (OtherTrap (oe_trap_text m e)), st)
       | Inr addr \<Rightarrow> run_eval m h (k addr (os_guest st)) (os_messages st))"
| "run_eval m h (EvalAbort addr g k) msgs =
     bind_exec (opa_message m h True ''opa_abort'' addr \<lparr>os_guest = g, os_messages = msgs\<rparr>) (\<lambda>(r, st).
       case r of
         Inl e \<Rightarrow> Ret (Inl (OtherTrap (oe_trap_text m e)), st)
       | Inr _ \<Rightarrow> run_eval m h (k (os_guest st)) (os_messages st))"
| "run_eval m h (EvalPrintln addr g k) msgs =
     bind_exec (opa_message m h False ''opa_println'' addr \<lparr>os_guest = g, os_messages = msgs\<rparr>) (\<lambda>(r, st).
       case r of
         Inl e \<Rightarrow> Ret (Inl (OtherTrap (oe_trap_text m e)), st)
       | Inr _ \<Rightarrow> run_eval m h (k (os_guest st)) (os_messages st))"

definition eval_call ::
  "('s, 're, 'patch, 'ver) opa_env \<Rightarrow> (i32 \<times> string) list option \<Rightarrow> i32 \<Rightarrow> ('s, i32) opa" where
  "eval_call m h ctx_addr st =
     bind_exec (run_eval m h (oe_eval m ctx_addr (os_guest st)) (os_messages st)) (\<lambda>(r, st').
       Ret (map_err (map_call_error ''error invoking opa_eval function'') r, st'))"

definition policy_evaluate ::
  "('s, 're, 'patch, 'ver) opa_env \<Rightarrow> (i32 \<times> string) list option \<Rightarrow> Policy \<Rightarrow> i32 \<Rightarrow> json \<Rightarrow> ('s, json) opa" where
  "policy_evaluate m h self entrypoint_id input =
     bind_opa (opa_call m ''opa_heap_ptr_set'' [po_data_heap_ptr self]) (\<lambda>_.
     bind_opa (push_json m input) (\<lambda>input_addr.
     bind_opa (opa_call m ''opa_eval_ctx_new'' []) (\<lambda>ctx_addr.
     bind_opa (opa_call m ''opa_eval_ctx_set_input'' [ctx_addr, input_addr]) (\<lambda>_.
     bind_opa (opa_call m ''opa_eval_ctx_set_data'' [ctx_addr, po_data_addr self]) (\<lambda>_.
     bind_opa (opa_call m ''opa_eval_ctx_set_entrypoint'' [ctx_addr, entrypoint_id]) (\<lambda>_.
     bind_opa (eval_call m h ctx_addr) (\<lambda>_.
     bind_opa (opa_call m ''opa_eval_ctx_get_result'' [ctx_addr]) (\<lambda>res_addr.
     pull_json m res_addr))))))))"

subsection \<open>Lemmas\<close>

lemma bind_opa_eqs [exec_simps]:
  "m st = Panic p \<Longrightarrow> bind_opa m f st = Panic p"
  "m st = Ret (Inl e, st') \<Longrightarrow> bind_opa m f st = Ret (Inl e, st')"
  "m st = Ret (Inr a, st') \<Longrightarrow> bind_opa m f st = f a st'"
  by (simp_all add: bind_opa_def)

text \<open>They are the function of \<^theory_text>\<open>opa_builtin\<close> at lists of up to four arguments.\<close>

lemma bind_opa_assoc: "bind_opa (bind_opa m f) g = bind_opa m (\<lambda>a. bind_opa (f a) g)"
  by (rule ext) (auto simp: bind_opa_def bind_exec_def split: exec.splits prod.splits sum.splits)

lemma builtin_labels:
  "builtin_label 0 = ''opa_builtin0''" "builtin_label (Suc 0) = ''opa_bunltin1''"
  "builtin_label (Suc (Suc 0)) = ''opa_builtin2''" "builtin_label (Suc (Suc (Suc 0))) = ''opa_builtin3''"
  "builtin_label (Suc (Suc (Suc (Suc 0)))) = ''opa_builtin4''"
  by code_simp+

lemma bind_opa_ret: "bind_opa (ret_opa (Inr a)) f = f a"
  by (rule ext) (simp add: bind_opa_def ret_opa_def)

lemma opa_builtin_functions:
  "opa_builtin0 m data builtin_id ctx = opa_builtin m data builtin_id []"
  "opa_builtin1 m data builtin_id ctx p1 = opa_builtin m data builtin_id [p1]"
  "opa_builtin2 m data builtin_id ctx p1 p2 = opa_builtin m data builtin_id [p1, p2]"
  "opa_builtin3 m data builtin_id ctx p1 p2 p3 = opa_builtin m data builtin_id [p1, p2, p3]"
  "opa_builtin4 m data builtin_id ctx p1 p2 p3 p4 = opa_builtin m data builtin_id [p1, p2, p3, p4]"
  by (simp_all add: opa_builtin_def opa_builtin0_def opa_builtin1_def opa_builtin2_def opa_builtin3_def
      opa_builtin4_def invoke_opa_def [abs_def] builtin_labels bind_opa_assoc bind_opa_ret
      split: option.split)

lemma ret_opa_bind [simp]:
  "bind_opa (ret_opa (Inl e)) f = ret_opa (Inl e)" "bind_opa (ret_opa (Inr a)) f = f a"
  by (simp_all add: bind_opa_def ret_opa_def fun_eq_iff)

text \<open>A string written with its terminator is read back, and what follows it does not matter.\<close>

lemma read_loop_string:
  "CHR 0x00 \<notin> set s \<Longrightarrow> i + length s \<le> max_i32 \<Longrightarrow> read_loop i (s @ CHR 0x00 # rest) = Ret (Inr s)"
proof (induction s arbitrary: i)
  case (Cons c s)
  then have "i \<noteq> max_i32" "c \<noteq> CHR 0x00" by auto
  then show ?case using Cons.IH [of "Suc i"] Cons.prems by simp
qed simp

lemma read_loop_Inr:
  "read_loop i mem = Ret (Inr s) \<Longrightarrow> \<exists>rest. mem = s @ CHR 0x00 # rest \<and> CHR 0x00 \<notin> set s"
proof (induction i mem arbitrary: s rule: read_loop.induct)
  case (2 i c cs)
  then show ?case by (cases "c = CHR 0x00") (auto split: if_splits)
qed simp

lemma read_loop_no_panic:
  "i + length mem \<le> max_i32 \<Longrightarrow> no_panic (read_loop i mem)"
proof (induction i mem rule: read_loop.induct)
  case (2 i c cs)
  show ?case
  proof (cases "c = CHR 0x00 \<or> cs = []")
    case True
    with 2 show ?thesis
      by (auto simp: try_exec_def)
  next
    case False
    with 2 have "i \<noteq> max_i32" "no_panic (read_loop (Suc i) cs)" by auto
    with False show ?thesis
      by (cases "read_loop (Suc i) cs") (auto simp: try_exec_def split: sum.splits)
  qed
qed simp

lemma read_loop_takeWhile:
  "i + length mem \<le> max_i32 \<Longrightarrow> read_loop i mem =
     (if CHR 0x00 \<in> set mem then Ret (Inr (takeWhile (\<lambda>c. c \<noteq> CHR 0x00) mem))
      else Ret (Inl (WasmEngineError (''cannot read from memory: '' @ memory_access_error))))"
proof (induction i mem rule: read_loop.induct)
  case (2 i c cs)
  then have "i \<noteq> max_i32" by auto
  with 2 show ?case by simp
qed simp

lemma read_string_eq:
  assumes "0 \<le> sint addr" and "length memory \<le> max_i32"
  shows "read_string memory addr =
    (let from = drop (unat addr) memory in
     if CHR 0x00 \<in> set from then Ret (Inr (takeWhile (\<lambda>c. c \<noteq> CHR 0x00) from))
     else Ret (Inl (WasmEngineError (''cannot read from memory: '' @ memory_access_error))))"
proof (cases "unat addr < length memory")
  case True
  then have "unat addr + length (drop (unat addr) memory) \<le> max_i32" using assms(2) by simp
  from read_loop_takeWhile [OF this] assms(1) show ?thesis by (simp add: read_string_def Let_def)
next
  case False
  then show ?thesis using assms(1) by (simp add: read_string_def Let_def)
qed

text \<open>C28: with a memory that 31 bits can address, reading a string from a non-negative address never
  panics: it returns the bytes up to the first NUL byte at or after the address, and an error
  exactly when the memory holds none.\<close>

theorem read_string_spec:
  assumes "0 \<le> sint addr" and "length memory \<le> max_i32"
  shows "read_string memory addr =
    (let from = drop (unat addr) memory in
     if CHR 0x00 \<in> set from then Ret (Inr (takeWhile (\<lambda>c. c \<noteq> CHR 0x00) from))
     else Ret (Inl (WasmEngineError (''cannot read from memory: '' @ memory_access_error))))"
  using assms by (rule read_string_eq)

theorem read_string_spec_witness:
  "read_string (''{}'' @ [CHR 0x00] @ ''abc'') 1 = Ret (Inr ''}'') \<and>
   read_string ''abc'' 7 = Ret (Inl (WasmEngineError (''cannot read from memory: '' @ memory_access_error)))"
  using read_string_spec [of 1 "''{}'' @ [CHR 0x00] @ ''abc''"] read_string_spec [of 7 "''abc''"]
  by (simp add: max_i32_def Let_def)

subsection \<open>Errors of the exchange\<close>

text \<open>What moves JSON through the memory never reports the deadline, whatever error the guest gives.\<close>

lemma guest_call_error: "guest_call m f args err st = Ret (Inl e, st') \<Longrightarrow> \<exists>x. e = err x"
  by (auto simp: guest_call_def map_err_def split: prod.splits sum.splits)

lemma bind_opa_Inl:
  "bind_opa m f st = Ret (Inl e, st') \<Longrightarrow>
     m st = Ret (Inl e, st') \<or> (\<exists>a st1. m st = Ret (Inr a, st1) \<and> f a st1 = Ret (Inl e, st'))"
  by (auto simp: bind_opa_def bind_exec_def split: exec.splits sum.splits)

lemma bind_opa_Inr:
  "bind_opa m f st = Ret (Inr b, st') \<longleftrightarrow> (\<exists>a st1. m st = Ret (Inr a, st1) \<and> f a st1 = Ret (Inr b, st'))"
  by (auto simp: bind_opa_def bind_exec_def split: exec.splits sum.splits)

definition never_deadline :: "('s, 'a) opa \<Rightarrow> bool" where
  "never_deadline m \<longleftrightarrow> (\<forall>st st'. m st \<noteq> Ret (Inl ExecutionDeadlineExceeded, st'))"

lemma never_deadline_bind [intro]:
  "never_deadline m \<Longrightarrow> (\<And>a. never_deadline (f a)) \<Longrightarrow> never_deadline (bind_opa m f)"
  using bind_opa_Inl unfolding never_deadline_def by fast

lemma never_deadline_call [intro]:
  "(\<And>x. err x \<noteq> ExecutionDeadlineExceeded) \<Longrightarrow> never_deadline (guest_call m f args err)"
  unfolding never_deadline_def using guest_call_error by metis

lemma never_deadline_ret [simp]:
  "never_deadline (ret_opa r) \<longleftrightarrow> r \<noteq> Inl ExecutionDeadlineExceeded"
  by (simp add: never_deadline_def ret_opa_def)

lemma never_deadline_write [intro]: "never_deadline (memory_write m addr data)"
  by (simp add: never_deadline_def memory_write_def Let_def)

lemma read_loop_error: "read_loop i mem = Ret (Inl e) \<Longrightarrow> \<exists>s. e = WasmEngineError s"
  by (induction i mem rule: read_loop.induct) (auto simp: try_exec_def split: if_splits exec.splits sum.splits)

lemmas never_deadline_intros = never_deadline_bind never_deadline_call never_deadline_write

lemma push_json_raw_never_deadline: "never_deadline (push_json_raw m data)"
  by (auto simp: push_json_raw_def Let_def intro!: never_deadline_intros)

lemma push_json_never_deadline: "never_deadline (push_json m value)"
  by (cases "oe_to_vec m value")
    (auto simp: push_json_def intro!: never_deadline_intros push_json_raw_never_deadline)

lemma pull_json_never_deadline: "never_deadline (pull_json m addr)"
proof -
  have "never_deadline (\<lambda>st. bind_exec (read_string (oe_memory m (os_guest st)) raw) (\<lambda>r.
       ret_opa (bind_result r (\<lambda>data.
         map_err (JSONError ''cannot convert data read from memory into utf8 String'') (oe_parse m data))) st))" for raw
    using read_loop_error
    by (auto simp: never_deadline_def ret_opa_def bind_result_def map_err_def read_string_def
        bind_exec_def split: exec.splits sum.splits if_splits)
  then show ?thesis unfolding pull_json_def by (auto intro!: never_deadline_intros)
qed

text \<open>A direct call reports it.\<close>

lemma opa_call_deadline:
  "oe_call m f args (os_guest st) = (Inl (TrapInterrupt s), g) \<Longrightarrow>
     opa_call m f args st = Ret (Inl ExecutionDeadlineExceeded, st\<lparr>os_guest := g\<rparr>)"
  by (simp add: opa_call_def guest_call_def map_call_error_def)

subsection \<open>Values through the memory\<close>

lemma memory_write_ok:
  assumes "0 \<le> sint addr" and "unat addr + length data \<le> length (oe_memory m (os_guest st))"
    and mem: "\<And>b g. length b = length (oe_memory m g) \<Longrightarrow> oe_memory m (oe_set_memory m b g) = b"
  shows "\<exists>g. memory_write m addr data st = Ret (Inr (), st\<lparr>os_guest := g\<rparr>) \<and>
    take (length data) (drop (unat addr) (oe_memory m g)) = data \<and>
    take (unat addr) (oe_memory m g) = take (unat addr) (oe_memory m (os_guest st)) \<and>
    drop (unat addr + length data) (oe_memory m g) = drop (unat addr + length data) (oe_memory m (os_guest st))"
  using assms by (auto simp: memory_write_def Let_def)

text \<open>C27: with a module that keeps the ABI of OPA (the memory holds what was written; malloc returns
  room for the text; the value parsed from a text is dumped as a NUL-terminated text of the same
  value), a JSON value pushed into the module is pulled back from the returned address.\<close>

theorem push_pull_roundtrip:
  assumes data: "oe_to_vec m value = Inr data" "length data \<le> max_i32"
    and malloc: "oe_call m ''opa_malloc'' [word_of_nat (length data)] (os_guest st) = (Inr a, g1)"
    and room: "0 \<le> sint a" "unat a + length data \<le> length (oe_memory m g1)"
    and mem: "\<And>b g. length b = length (oe_memory m g) \<Longrightarrow> oe_memory m (oe_set_memory m b g) = b"
    and abi: "\<And>g. take (length data) (drop (unat a) (oe_memory m g)) = data \<Longrightarrow>
      \<exists>v g2 r g3 dumped rest. oe_call m ''opa_json_parse'' [a, word_of_nat (length data)] g = (Inr v, g2) \<and> v \<noteq> 0 \<and>
        oe_call m ''opa_json_dump'' [v] g2 = (Inr r, g3) \<and> 0 \<le> sint r \<and> length (oe_memory m g3) \<le> max_i32 \<and>
        drop (unat r) (oe_memory m g3) = dumped @ CHR 0x00 # rest \<and> CHR 0x00 \<notin> set dumped \<and>
        oe_parse m dumped = Inr value"
  shows "\<exists>v st1 st2. push_json m value st = Ret (Inr v, st1) \<and> pull_json m v st1 = Ret (Inr value, st2)"
proof -
  obtain g where w: "memory_write m a data (st\<lparr>os_guest := g1\<rparr>) = Ret (Inr (), st\<lparr>os_guest := g\<rparr>)"
    and "take (length data) (drop (unat a) (oe_memory m g)) = data"
    using memory_write_ok [of a data m "st\<lparr>os_guest := g1\<rparr>"] room mem by auto
  from abi [OF this(2)] obtain v g2 r g3 dumped rest
    where v: "oe_call m ''opa_json_parse'' [a, word_of_nat (length data)] g = (Inr v, g2)" "v \<noteq> 0"
      and r: "oe_call m ''opa_json_dump'' [v] g2 = (Inr r, g3)" "0 \<le> sint r"
      and len: "length (oe_memory m g3) \<le> max_i32"
      and dumped: "drop (unat r) (oe_memory m g3) = dumped @ CHR 0x00 # rest" "CHR 0x00 \<notin> set dumped"
        "oe_parse m dumped = Inr value" by blast
  have "takeWhile (\<lambda>c. c \<noteq> CHR 0x00) (dumped @ CHR 0x00 # rest) = dumped"
    using dumped(2) by (subst takeWhile_append2) auto
  then have "read_string (oe_memory m g3) r = Ret (Inr dumped)"
    using read_string_eq [OF r(2) len] dumped(1) by (simp add: Let_def)
  then have "pull_json m v (st\<lparr>os_guest := g2\<rparr>) = Ret (Inr value, st\<lparr>os_guest := g3\<rparr>)"
    using r(1) dumped(3) by (simp add: pull_json_def bind_opa_def guest_call_def ret_opa_def)
  moreover have "push_json m value st = Ret (Inr v, st\<lparr>os_guest := g2\<rparr>)"
    using data malloc w v by (simp add: push_json_def push_json_raw_def Let_def bind_opa_def guest_call_def ret_opa_def)
  ultimately show ?thesis by blast
qed

subsection \<open>A small module\<close>

text \<open>
  A module for closed examples: its state is its memory, an address stands for a document. It
  declares no builtin and the entrypoint \<open>policy/main\<close>, and every evaluation gives \<open>result\<close>.
\<close>

definition example_lib_error :: lib_error where
  "example_lib_error = \<lparr>le_display = ''bad'', le_debug = ''bad''\<rparr>"

definition example_builtin_env :: "(unit, unit, unit) builtin_env" where
  "example_builtin_env = \<lparr>be_base64url = \<lambda>s. s, be_set_query = Some, be_query_pairs = \<lambda>q. [],
     be_parse_json = \<lambda>s. Inl example_lib_error, be_json_to_string = \<lambda>j. Inr ''{}'',
     be_to_yaml = \<lambda>j. Inr [], be_from_yaml = \<lambda>s. Inl example_lib_error,
     be_parse_patch = \<lambda>s. Inl example_lib_error, be_apply_patch = \<lambda>p j. Inr j,
     be_regex = \<lambda>s. Inr (), be_regex_escape = \<lambda>s. s, be_is_match = \<lambda>r s. True, be_split = \<lambda>r s. [s],
     be_find_iter = \<lambda>r s. [], be_version = \<lambda>s. Inr (), be_version_cmp = \<lambda>a b. 0, be_now_ns = Some 0,
     be_parse_rfc3339 = \<lambda>s. Inr (Some 0), be_timezone = \<lambda>s. Inr s, be_civil = \<lambda>z n. Some (1970, 1, 1),
     be_template = \<lambda>s vs. Inr s, be_debug_values = \<lambda>vs. []\<rparr>"

definition example_call :: "string \<Rightarrow> i32 list \<Rightarrow> bytes \<Rightarrow> (call_error + i32) \<times> bytes" where
  "example_call f args g =
     (if f = ''builtins'' then (Inr 1, g)
      else if f = ''entrypoints'' then (Inr 2, g)
      else if f = ''opa_eval_ctx_get_result'' then (Inr 3, g)
      else if f = ''opa_malloc'' then (Inr 0, replicate (unat (hd args)) CHR 0x00)
      else if f = ''opa_json_parse'' then (Inr 5, take (unat (args ! 1)) g)
      else if f = ''opa_json_dump'' then
        (Inr 0, (if hd args = 1 then ''b'' else if hd args = 2 then ''e'' else if hd args = 3 then ''r'' else g)
           @ [CHR 0x00])
      else (Inr 0, g))"

definition example_module ::
  "json \<Rightarrow> (bytes \<Rightarrow> bytes opa_eval) \<Rightarrow> (bytes, unit, unit, unit) opa_env" where
  "example_module result run = \<lparr>oe_has_func = \<lambda>f. Inr (), oe_call = example_call,
     oe_eval = \<lambda>ctx g. run g, oe_memory = \<lambda>g. take max_i32 g, oe_set_memory = \<lambda>b g. b, oe_memory_export = Inr (),
     oe_set_deadline = \<lambda>d g. g, oe_create_memory = Inr (), oe_define_memory = Inr (),
     oe_func_wrap = \<lambda>f. Inr (), oe_instantiate = \<lambda>d. Inr [], oe_global_i32 = \<lambda>s. Some 1,
     oe_parse = \<lambda>b. if b = ''b'' then Inr (Object [])
       else if b = ''e'' then Inr (Object [(''policy/main'', Number (PosInt 0))])
       else if b = ''r'' then Inr result
       else if b = ''j'' then Inr (Bool True) else Inl example_lib_error,
     oe_to_vec = \<lambda>j. Inr ''j'', oe_trap_text = display_burrego_error, oe_builtins = example_builtin_env\<rparr>"

theorem push_pull_roundtrip_witness:
  "\<exists>v st1 st2. push_json (example_module Null (EvalDone (Inr 0))) (Bool True) \<lparr>os_guest = [], os_messages = []\<rparr> = Ret (Inr v, st1) \<and>
     pull_json (example_module Null (EvalDone (Inr 0))) v st1 = Ret (Inr (Bool True), st2)"
proof (rule push_pull_roundtrip [where data = "''j''" and a = 0 and ?g1.0 = "[CHR 0x00]"])
  fix g assume "take (length ''j'') (drop (unat (0::i32)) (oe_memory (example_module Null (EvalDone (Inr 0))) g)) = ''j''"
  then have g: "take (Suc 0) g = ''j''" by (simp add: example_module_def max_i32_def)
  show "\<exists>v g2 r g3 dumped rest. oe_call (example_module Null (EvalDone (Inr 0))) ''opa_json_parse'' [0, word_of_nat (length ''j'')] g = (Inr v, g2) \<and>
        v \<noteq> 0 \<and> oe_call (example_module Null (EvalDone (Inr 0))) ''opa_json_dump'' [v] g2 = (Inr r, g3) \<and> 0 \<le> sint r \<and>
        length (oe_memory (example_module Null (EvalDone (Inr 0))) g3) \<le> max_i32 \<and>
        drop (unat r) (oe_memory (example_module Null (EvalDone (Inr 0))) g3) = dumped @ CHR 0x00 # rest \<and>
        CHR 0x00 \<notin> set dumped \<and> oe_parse (example_module Null (EvalDone (Inr 0))) dumped = Inr (Bool True)"
    by (rule exI [of _ 5], rule exI [of _ "''j''"], rule exI [of _ 0], rule exI [of _ "''j'' @ [CHR 0x00]"],
        rule exI [of _ "''j''"], rule exI [of _ "[]"])
      (simp add: example_module_def example_call_def g max_i32_def)
qed (simp_all add: example_module_def example_call_def max_i32_def)

end
