(* ===== verification/BurregoEvaluator.thy ===== *)
theory BurregoEvaluator
  imports Burrego
begin

text \<open>
  \<open>crates/burrego/src/evaluator.rs\<close> and \<open>evaluator_builder.rs\<close>: the evaluator of a Rego module. It
  owns the store, the policy and the identifiers read from the module, can be set up again from the
  module, and is built by a builder that checks its fields. The order of the texts made from hash
  maps is the order of the lists that stand for them.
\<close>

record 's EvaluatorStack =
  es_store :: "'s opa_store"
  es_helper :: "(i32 \<times> string) list"
  es_policy :: Policy

record 's Evaluator =
  ev_store :: "'s opa_store"
  ev_helper :: "(i32 \<times> string) list"
  ev_policy :: Policy
  ev_epoch_deadline :: "u64 option"
  ev_entrypoints :: "(string \<times> i32) list"
  ev_used_builtins :: "string list"

definition linker_functions :: "(string \<times> string) list" where
  "linker_functions =
     [(''opa_abort'', ''opa_abort''), (''opa_println'', ''opa_println''),
      (''opa_builtin0'', ''opa_builtin0''), (''opa_builtin1'', ''opa_bunltin1''),
      (''opa_builtin2'', ''opa_builtin2''), (''opa_builtin3'', ''opa_builtin3''),
      (''opa_builtin4'', ''opa_builtin4'')]"

definition add_to_linker :: "('s, 're, 'patch, 'ver) opa_env \<Rightarrow> BurregoError + unit" where
  "add_to_linker m =
     bind_result (try_map (\<lambda>(func, name). map_err (\<lambda>e. BuiltinError name (le_display e)) (oe_func_wrap m func))
       linker_functions) (\<lambda>_. Inr ())"

definition set_deadline :: "('s, 're, 'patch, 'ver) opa_env \<Rightarrow> u64 option \<Rightarrow> 's opa_store \<Rightarrow> 's opa_store" where
  "set_deadline m epoch_deadline st =
     (case epoch_deadline of
        Some deadline \<Rightarrow> st\<lparr>os_guest := oe_set_deadline m deadline (os_guest st)\<rparr>
      | None \<Rightarrow> st)"

text \<open>The messages are those the host has received so far; the new store starts from them.\<close>

definition evaluator_setup ::
  "('s, 're, 'patch, 'ver) opa_env \<Rightarrow> u64 option \<Rightarrow> (bool \<times> string) list \<Rightarrow> (BurregoError + 's EvaluatorStack) exec" where
  "evaluator_setup m epoch_deadline msgs =
     try_exec (Ret (
       bind_result (map_err (\<lambda>e. WasmEngineError (''cannot create memory: '' @ le_display e)) (oe_create_memory m)) (\<lambda>_.
       bind_result (map_err (\<lambda>e. WasmEngineError (''linker cannot define memory: '' @ le_display e)) (oe_define_memory m)) (\<lambda>_.
       bind_result (add_to_linker m) (\<lambda>_.
       map_err (\<lambda>e. WasmEngineError (''linker cannot create instance: '' @ le_display e))
         (oe_instantiate m epoch_deadline)))))) (\<lambda>guest.
     bind_exec (bind_opa (stack_helper_new m) (\<lambda>helper.
         bind_opa (policy_new m) (\<lambda>policy. ret_opa (Inr (helper, policy))))
       \<lparr>os_guest = guest, os_messages = msgs\<rparr>) (\<lambda>(r, st).
     Ret (bind_result r (\<lambda>(helper, policy).
       Inr \<lparr>es_store = st, es_helper = helper, es_policy = policy\<rparr>))))"

definition implemented_builtins :: "('s, 're, 'patch, 'ver) opa_env \<Rightarrow> string list" where
  "implemented_builtins m = map fst (get_builtins (oe_builtins m))"

definition not_implemented_builtins :: "('s, 're, 'patch, 'ver) opa_env \<Rightarrow> 's Evaluator \<Rightarrow> string list" where
  "not_implemented_builtins m self =
     filter (\<lambda>b. b \<notin> set (implemented_builtins m)) (ev_used_builtins self)"

definition from_engine_and_module ::
  "('s, 're, 'patch, 'ver) opa_env \<Rightarrow> u64 option \<Rightarrow> (bool \<times> string) list \<Rightarrow> (BurregoError + 's Evaluator) exec" where
  "from_engine_and_module m epoch_deadline msgs =
     try_exec (evaluator_setup m epoch_deadline msgs) (\<lambda>stack.
     bind_exec (policy_builtins m (set_deadline m epoch_deadline (es_store stack))) (\<lambda>(r1, st1).
     try_exec (Ret r1) (\<lambda>builtins.
     bind_exec (policy_entrypoints m (set_deadline m epoch_deadline st1)) (\<lambda>(r2, st2).
     try_exec (Ret r2) (\<lambda>entrypoints.
     let evaluator = \<lparr>ev_store = st2, ev_helper = es_helper stack, ev_policy = es_policy stack,
           ev_epoch_deadline = epoch_deadline, ev_entrypoints = entrypoints,
           ev_used_builtins = map fst builtins\<rparr>;
         missing = not_implemented_builtins m evaluator
     in Ret (if missing \<noteq> [] then Inl (MissingRegoBuiltins (join_with '', '' missing))
             else Inr evaluator))))))"

definition evaluator_reset ::
  "('s, 're, 'patch, 'ver) opa_env \<Rightarrow> 's Evaluator \<Rightarrow> ((BurregoError + unit) \<times> 's Evaluator) exec" where
  "evaluator_reset m self =
     bind_exec (evaluator_setup m (ev_epoch_deadline self) (os_messages (ev_store self))) (\<lambda>r.
       Ret (case r of
          Inl e \<Rightarrow> (Inl e, self)
        | Inr stack \<Rightarrow> (Inr (), self\<lparr>ev_store := es_store stack, ev_helper := es_helper stack,
            ev_policy := es_policy stack\<rparr>)))"

definition opa_abi_version :: "('s, 're, 'patch, 'ver) opa_env \<Rightarrow> BurregoError + i32 \<times> i32" where
  "opa_abi_version m =
     bind_result (ok_or (RegoWasmError ''Cannot find OPA Wasm ABI major version'')
       (oe_global_i32 m ''opa_wasm_abi_version'')) (\<lambda>major.
     bind_result (ok_or (RegoWasmError ''Cannot find OPA Wasm ABI minor version'')
       (oe_global_i32 m ''opa_wasm_abi_minor_version'')) (\<lambda>minor.
     Inr (major, minor)))"

definition debug_entrypoints :: "(string \<times> i32) list \<Rightarrow> string" where
  "debug_entrypoints es =
     ''{'' @ join_with '', '' (map (\<lambda>(k, v). debug_str k @ '': '' @ int_str (sint v)) es) @ ''}''"

definition entrypoint_id :: "'s Evaluator \<Rightarrow> string \<Rightarrow> BurregoError + i32" where
  "entrypoint_id self entrypoint =
     ok_or (RegoWasmError (''Cannot find the specified entrypoint '' @ entrypoint @ '' inside of '' @
         debug_entrypoints (ev_entrypoints self)))
       (map_option snd (find (\<lambda>(k, v). k = entrypoint) (ev_entrypoints self)))"

definition has_entrypoint :: "'s Evaluator \<Rightarrow> i32 \<Rightarrow> bool" where
  "has_entrypoint self entrypoint = list_ex (\<lambda>(k, v). v = entrypoint) (ev_entrypoints self)"

definition evaluator_evaluate ::
  "('s, 're, 'patch, 'ver) opa_env \<Rightarrow> 's Evaluator \<Rightarrow> i32 \<Rightarrow> json \<Rightarrow> bytes
   \<Rightarrow> ((BurregoError + json) \<times> 's Evaluator) exec" where
  "evaluator_evaluate m self entrypoint input data =
     (let st = set_deadline m (ev_epoch_deadline self) (ev_store self) in
      if \<not> has_entrypoint self entrypoint
      then Ret (Inl (RegoWasmError (''Cannot find the specified entrypoint '' @ int_str (sint entrypoint) @
             '' inside of '' @ debug_entrypoints (ev_entrypoints self))), self\<lparr>ev_store := st\<rparr>)
      else
        bind_exec (policy_set_data m (ev_policy self) data st) (\<lambda>((r1, policy), st1).
        case r1 of
          Inl e \<Rightarrow> Ret (Inl e, self\<lparr>ev_store := st1, ev_policy := policy\<rparr>)
        | Inr _ \<Rightarrow>
            bind_exec (policy_evaluate m (Some (ev_helper self)) policy entrypoint input st1) (\<lambda>(r2, st2).
            Ret (r2, self\<lparr>ev_store := st2, ev_policy := policy\<rparr>))))"

subsection \<open>The builder\<close>

text \<open>The module is already compiled or is read from the path; both give the same parameter here.\<close>

record EvaluatorBuilder =
  eb_policy_path :: "string option"
  eb_module :: bool
  eb_engine :: bool
  eb_epoch_deadline :: "u64 option"
  eb_host_callbacks :: bool

definition builder_default :: EvaluatorBuilder where
  "builder_default = \<lparr>eb_policy_path = None, eb_module = False, eb_engine = False,
     eb_epoch_deadline = None, eb_host_callbacks = False\<rparr>"

definition with_policy_path :: "EvaluatorBuilder \<Rightarrow> string \<Rightarrow> EvaluatorBuilder" where
  "with_policy_path self path = self\<lparr>eb_policy_path := Some path\<rparr>"

definition with_module :: "EvaluatorBuilder \<Rightarrow> EvaluatorBuilder" where
  "with_module self = self\<lparr>eb_module := True\<rparr>"

definition with_engine :: "EvaluatorBuilder \<Rightarrow> EvaluatorBuilder" where
  "with_engine self = self\<lparr>eb_engine := True\<rparr>"

definition with_epoch_interruptions :: "EvaluatorBuilder \<Rightarrow> u64 \<Rightarrow> EvaluatorBuilder" where
  "with_epoch_interruptions self deadline = self\<lparr>eb_epoch_deadline := Some deadline\<rparr>"

definition with_host_callbacks :: "EvaluatorBuilder \<Rightarrow> EvaluatorBuilder" where
  "with_host_callbacks self = self\<lparr>eb_host_callbacks := True\<rparr>"

definition builder_validate :: "EvaluatorBuilder \<Rightarrow> BurregoError + unit" where
  "builder_validate self =
     (if eb_policy_path self \<noteq> None \<and> eb_module self
      then Inl (EvaluatorBuilderError ''policy_path and module cannot be set at the same time'')
      else if eb_policy_path self = None \<and> \<not> eb_module self
      then Inl (EvaluatorBuilderError ''Either policy_path or module must be set'')
      else if \<not> eb_host_callbacks self
      then Inl (EvaluatorBuilderError ''host_callbacks must be set'')
      else Inr ())"

text \<open>
  \<open>engine_new\<close> creates a wasmtime engine with or without epoch interruption, \<open>module_from_file\<close>
  compiles a file; \<open>m\<close> is the instance of the resulting module.
\<close>

definition builder_build ::
  "(bool \<Rightarrow> lib_error + unit) \<Rightarrow> (string \<Rightarrow> lib_error + unit) \<Rightarrow> ('s, 're, 'patch, 'ver) opa_env
   \<Rightarrow> EvaluatorBuilder \<Rightarrow> (BurregoError + 's Evaluator) exec" where
  "builder_build engine_new module_from_file m self =
     try_exec (Ret (bind_result (builder_validate self) (\<lambda>_.
       bind_result (if eb_engine self then Inr ()
         else map_err (\<lambda>e. WasmEngineError (''cannot create wasmtime Engine: '' @ le_debug e))
           (engine_new (eb_epoch_deadline self \<noteq> None))) (\<lambda>_.
       if eb_module self then Inr ()
       else map_err (\<lambda>e. WasmEngineError (''cannot create wasmtime Module: '' @ le_debug e))
         (module_from_file (unwrap_or [] (eb_policy_path self))))))) (\<lambda>_.
     from_engine_and_module m (eb_epoch_deadline self) [])"

subsection \<open>Lemmas\<close>

lemma try_exec_OkE:
  assumes "try_exec m f = Ret (Inr b)"
  obtains a where "m = Ret (Inr a)" "f a = Ret (Inr b)"
  using assms by auto

lemma set_deadline_messages [simp]: "os_messages (set_deadline m d st) = os_messages st"
  by (simp add: set_deadline_def split: option.splits)

lemma from_module_ok:
  assumes "from_engine_and_module m d msgs = Ret (Inr ev)"
  shows "ev_epoch_deadline ev = d" "set (ev_used_builtins ev) \<subseteq> set (implemented_builtins m)"
    "hm_wf (ev_entrypoints ev)"
proof -
  have fold_wf: "hm_wf (fold (\<lambda>(name, n) t. hm_insert name n t) xs [])" for xs :: "(string \<times> i32) list"
    by (rule hm.fold_insert_invar) (simp add: hm_wf_def)
  have wf: "policy_entrypoints m s = Ret (Inr es, s') \<Longrightarrow> hm_wf es" for s es s'
    by (auto simp: policy_entrypoints_def bind_opa_Inr ret_opa_def fold_wf split: option.splits)
  from assms show "ev_epoch_deadline ev = d" "set (ev_used_builtins ev) \<subseteq> set (implemented_builtins m)"
    "hm_wf (ev_entrypoints ev)"
    by (auto simp: from_engine_and_module_def Let_def not_implemented_builtins_def filter_empty_conv
        split: if_splits dest: wf)
qed

lemma evaluator_reset_fields:
  assumes "evaluator_reset m ev = Ret (r, ev')"
  shows "ev_epoch_deadline ev' = ev_epoch_deadline ev" "ev_used_builtins ev' = ev_used_builtins ev"
    "ev_entrypoints ev' = ev_entrypoints ev" "r = Inl e \<Longrightarrow> ev' = ev"
proof -
  obtain s where s: "evaluator_setup m (ev_epoch_deadline ev) (os_messages (ev_store ev)) = Ret s"
    using assms by (auto simp: evaluator_reset_def)
  with assms show "ev_epoch_deadline ev' = ev_epoch_deadline ev" "ev_used_builtins ev' = ev_used_builtins ev"
    "ev_entrypoints ev' = ev_entrypoints ev" "r = Inl e \<Longrightarrow> ev' = ev"
    by (cases s; auto simp: evaluator_reset_def)+
qed

lemma policy_set_data_base:
  "policy_set_data m p data st = Ret ((r, p'), st') \<Longrightarrow> po_base_heap_ptr p' = po_base_heap_ptr p"
  by (auto simp: policy_set_data_def Let_def bind_exec_def simp del: bind_exec_Ret_iff
      split: exec.split_asm prod.split_asm sum.split_asm)

lemma evaluator_evaluate_fields:
  assumes "evaluator_evaluate m ev ep input data = Ret (r, ev')"
  shows "ev_epoch_deadline ev' = ev_epoch_deadline ev" "ev_used_builtins ev' = ev_used_builtins ev"
    "ev_entrypoints ev' = ev_entrypoints ev" "ev_helper ev' = ev_helper ev"
    "po_base_heap_ptr (ev_policy ev') = po_base_heap_ptr (ev_policy ev)"
  using assms by (auto simp: evaluator_evaluate_def Let_def bind_exec_def simp del: bind_exec_Ret_iff
      split: if_split_asm exec.split_asm prod.split_asm sum.split_asm dest: policy_set_data_base)

lemma entrypoint_id_Inr: "entrypoint_id ev name = Inr i \<longleftrightarrow> hm_get (ev_entrypoints ev) name = Some i"
proof -
  have "map_option snd (find (\<lambda>(k, v). k = name) es) = map_of es name" for es :: "(string \<times> i32) list"
    by (induction es) auto
  then show ?thesis by (simp add: entrypoint_id_def hm_get_def)
qed

lemma has_entrypoint_iff: "has_entrypoint ev i \<longleftrightarrow> i \<in> snd ` set (ev_entrypoints ev)"
  by (force simp: has_entrypoint_def list_ex_iff image_iff)

subsection \<open>The life of an evaluator\<close>

inductive evaluator_reachable ::
  "('s, 're, 'patch, 'ver) opa_env \<Rightarrow> u64 option \<Rightarrow> 's Evaluator \<Rightarrow> bool" for m d where
  built: "builder_build engine_new from_file m b = Ret (Inr ev) \<Longrightarrow> eb_epoch_deadline b = d
    \<Longrightarrow> evaluator_reachable m d ev"
| evaluated: "evaluator_reachable m d ev \<Longrightarrow> evaluator_evaluate m ev ep input data = Ret (r, ev')
    \<Longrightarrow> evaluator_reachable m d ev'"
| reset: "evaluator_reachable m d ev \<Longrightarrow> evaluator_reset m ev = Ret (r, ev') \<Longrightarrow> evaluator_reachable m d ev'"

lemma evaluator_reachable_fields:
  assumes "evaluator_reachable m d ev"
  shows "ev_epoch_deadline ev = d \<and> set (ev_used_builtins ev) \<subseteq> set (implemented_builtins m) \<and>
    hm_wf (ev_entrypoints ev)"
  using assms
proof induction
  case (built engine_new from_file b ev)
  then have "from_engine_and_module m d [] = Ret (Inr ev)"
    by (auto simp: builder_build_def)
  from from_module_ok [OF this] show ?case by simp
next
  case (evaluated ev ep input data r ev')
  then show ?case using evaluator_evaluate_fields [OF evaluated(2)] by simp
next
  case (reset ev r ev')
  then show ?case using evaluator_reset_fields [OF reset(2)] by simp
qed

text \<open>C23: an evaluator that came out of the builder, after any evaluations and resets, whether they
  failed or not, keeps the deadline it was built with and uses implemented builtins only, and each of
  its entrypoint names has one identifier, one that an evaluation accepts.\<close>

theorem evaluator_invariant:
  assumes "evaluator_reachable m d ev"
  shows "ev_epoch_deadline ev = d \<and> not_implemented_builtins m ev = [] \<and>
    (entrypoint_id ev name = Inr i \<longleftrightarrow> (name, i) \<in> set (ev_entrypoints ev)) \<and>
    (entrypoint_id ev name = Inr i \<longrightarrow> has_entrypoint ev i)"
proof -
  from evaluator_reachable_fields [OF assms]
  have "entrypoint_id ev name = Inr i \<longleftrightarrow> (name, i) \<in> set (ev_entrypoints ev)"
    by (simp add: entrypoint_id_Inr hm_get_def hm_wf_def)
  moreover have "(name, i) \<in> set (ev_entrypoints ev) \<Longrightarrow> has_entrypoint ev i"
    by (force simp: has_entrypoint_iff)
  ultimately show ?thesis using evaluator_reachable_fields [OF assms]
    by (auto simp: not_implemented_builtins_def filter_empty_conv)
qed

text \<open>An evaluation with an identifier that is no entrypoint of the module does not run the
  module: it fails, and all that changes is the deadline of the store.\<close>

lemma unknown_entrypoint_untouched:
  assumes "i \<notin> snd ` set (ev_entrypoints ev)"
  shows "\<exists>e. evaluator_evaluate m ev i input data =
    Ret (Inl (RegoWasmError e), ev\<lparr>ev_store := set_deadline m (ev_epoch_deadline ev) (ev_store ev)\<rparr>)"
  using assms by (simp add: evaluator_evaluate_def has_entrypoint_iff Let_def)

subsection \<open>A small evaluator\<close>

text \<open>What the builder makes of the small module, and the values the module goes through.\<close>

definition example_builder :: EvaluatorBuilder where
  "example_builder = with_host_callbacks (with_module (with_engine builder_default))"

definition example_evaluator :: "bytes Evaluator" where
  "example_evaluator = \<lparr>ev_store = \<lparr>os_guest = ''e'' @ [CHR 0x00], os_messages = []\<rparr>, ev_helper = [],
     ev_policy = \<lparr>po_data_addr = 5, po_base_heap_ptr = 0, po_data_heap_ptr = 0\<rparr>,
     ev_epoch_deadline = None, ev_entrypoints = [(''policy/main'', 0)], ev_used_builtins = []\<rparr>"

lemma example_builder_validate: "builder_validate example_builder = Inr ()"
  by (simp add: builder_validate_def example_builder_def with_host_callbacks_def with_module_def
      with_engine_def builder_default_def)

lemma example_read:
  "read_string [CHR ''b'', CHR 0x00] 0 = Ret (Inr ''b'')" "read_string [CHR ''e'', CHR 0x00] 0 = Ret (Inr ''e'')"
  "read_string [CHR ''r'', CHR 0x00] 0 = Ret (Inr ''r'')"
  by (simp_all add: read_string_def max_i32_def)

lemma example_module_sel [simp]:
  "oe_has_func (example_module j k) f = Inr ()" "oe_call (example_module j k) = example_call"
  "oe_eval (example_module j k) a g = k g" "oe_memory (example_module j k) g = take max_i32 g"
  "oe_set_memory (example_module j k) b g = b" "oe_memory_export (example_module j k) = Inr ()"
  "oe_set_deadline (example_module j k) d g = g" "oe_create_memory (example_module j k) = Inr ()"
  "oe_define_memory (example_module j k) = Inr ()" "oe_func_wrap (example_module j k) f = Inr ()"
  "oe_instantiate (example_module j k) t = Inr []" "oe_to_vec (example_module j k) v = Inr ''j''"
  "oe_parse (example_module j k) ''b'' = Inr (Object [])"
  "oe_parse (example_module j k) ''e'' = Inr (Object [(''policy/main'', Number (PosInt 0))])"
  "oe_parse (example_module j k) ''r'' = Inr j"
  by (simp_all add: example_module_def)

lemmas example_run = bind_opa_def ret_opa_def guest_call_def opa_call_def example_call_def Let_def
  and example_data = pull_json_def example_read push_json_def push_json_raw_def memory_write_def max_i32_def

lemma example_policy_new:
  "policy_new (example_module result run) st = Ret (Inr \<lparr>po_data_addr = 5, po_base_heap_ptr = 0,
     po_data_heap_ptr = 0\<rparr>, st\<lparr>os_guest := ''j''\<rparr>)"
proof -
  have "try_map (\<lambda>f. need_func (example_module result run) f ''cannot get'') policy_functions =
      Inr (map (\<lambda>f. ()) policy_functions)"
    by (rule try_map_Inr) (simp add: need_func_def)
  moreover have "push_json (example_module result run) (json_obj []) st = Ret (Inr 5, st\<lparr>os_guest := ''j''\<rparr>)"
    by (simp add: example_run example_data)
  ultimately show ?thesis
    by (simp add: policy_new_def example_run)
qed

lemma example_stack_helper:
  "stack_helper_new (example_module result run) st = Ret (Inr [], st\<lparr>os_guest := ''b'' @ [CHR 0x00]\<rparr>)"
  by (simp add: stack_helper_new_def need_func_def example_run example_data)

lemma example_setup:
  "evaluator_setup (example_module result run) d msgs = Ret (Inr \<lparr>es_store = \<lparr>os_guest = ''j'', os_messages = msgs\<rparr>,
     es_helper = [], es_policy = \<lparr>po_data_addr = 5, po_base_heap_ptr = 0, po_data_heap_ptr = 0\<rparr>\<rparr>)"
  by (simp add: evaluator_setup_def add_to_linker_def linker_functions_def bind_opa_def ret_opa_def
      example_stack_helper example_policy_new)

lemma example_built:
  "from_engine_and_module (example_module result run) None msgs =
     Ret (Inr (example_evaluator\<lparr>ev_store := \<lparr>os_guest = ''e'' @ [CHR 0x00], os_messages = msgs\<rparr>\<rparr>))"
  by (simp add: from_engine_and_module_def example_setup set_deadline_def policy_builtins_def
      policy_entrypoints_def example_run example_data not_implemented_builtins_def example_evaluator_def)

lemma example_evaluator_built:
  "builder_build (\<lambda>i. Inr ()) (\<lambda>p. Inr ()) (example_module result run) example_builder = Ret (Inr example_evaluator)"
proof -
  have "eb_engine example_builder" "eb_module example_builder" "eb_epoch_deadline example_builder = None"
    by (simp_all add: example_builder_def with_host_callbacks_def with_module_def with_engine_def builder_default_def)
  then show ?thesis
    by (simp add: builder_build_def example_builder_validate example_built) (simp add: example_evaluator_def)
qed

lemma unat_size: "n \<le> max_i32 \<Longrightarrow> unat (word_of_nat n :: i32) = n"
  by (simp add: max_i32_def unat_of_nat take_bit_nat_eq_self)

lemma example_evaluate:
  assumes "length data \<le> max_i32"
  shows "evaluator_evaluate (example_module result (EvalDone (Inr 0))) example_evaluator 0 input data =
     Ret (Inr result, example_evaluator\<lparr>ev_store := \<lparr>os_guest = ''r'' @ [CHR 0x00], os_messages = []\<rparr>\<rparr>)"
  using assms unat_size [OF assms]
  by (simp add: evaluator_evaluate_def policy_set_data_def policy_evaluate_def eval_call_def has_entrypoint_def
      set_deadline_def example_run example_data example_evaluator_def)

theorem evaluator_invariant_witness:
  "not_implemented_builtins (example_module Null (EvalDone (Inr 0))) example_evaluator = [] \<and>
   has_entrypoint example_evaluator 0"
proof -
  have r: "evaluator_reachable (example_module Null (EvalDone (Inr 0))) None example_evaluator"
    by (rule evaluator_reachable.built [OF example_evaluator_built])
      (simp add: example_builder_def with_host_callbacks_def with_module_def with_engine_def builder_default_def)
  from evaluator_invariant [OF r, of "''policy/main''" 0] show ?thesis
    by (simp add: example_evaluator_def entrypoint_id_def)
qed

end
