(* ===== verification/BurregoSafety.thy ===== *)
theory BurregoSafety
  imports BurregoEvaluator
begin

text \<open>
  When an evaluation cannot take the host down: what a module must keep to (its memory fits 31 bits,
  the addresses it hands out are not negative) and which builtins it may declare. Code of the host
  that runs the module then returns a result or an error, never a panic.
\<close>

definition total_opa :: "('s, 'a) opa \<Rightarrow> bool" where
  "total_opa m \<longleftrightarrow> (\<forall>st. no_panic (m st))"

definition memory_safe :: "('s, 're, 'patch, 'ver) opa_env \<Rightarrow> bool" where
  "memory_safe m \<longleftrightarrow>
     (\<forall>f args g r g'. f \<in> {''opa_malloc'', ''opa_json_dump''} \<longrightarrow> oe_call m f args g = (Inr r, g') \<longrightarrow> 0 \<le> sint r) \<and>
     (\<forall>g. length (oe_memory m g) \<le> max_i32)"

primrec eval_safe :: "'s opa_eval \<Rightarrow> bool" where
  "eval_safe (EvalDone r g) = True"
| "eval_safe (EvalBuiltin b ps g k) = (\<forall>addr g. eval_safe (k addr g))"
| "eval_safe (EvalAbort addr g k) = (0 \<le> sint addr \<and> (\<forall>g. eval_safe (k g)))"
| "eval_safe (EvalPrintln addr g k) = (0 \<le> sint addr \<and> (\<forall>g. eval_safe (k g)))"

definition module_safe :: "('s, 're, 'patch, 'ver) opa_env \<Rightarrow> bool" where
  "module_safe m \<longleftrightarrow> memory_safe m \<and> (\<forall>ctx g. eval_safe (oe_eval m ctx g))"

definition helper_safe :: "(i32 \<times> string) list \<Rightarrow> bool" where
  "helper_safe h \<longleftrightarrow> (\<forall>name \<in> snd ` set h. name \<notin> set panicking_builtins)"

lemma total_ret [simp]: "total_opa (ret_opa r)"
  by (simp add: total_opa_def ret_opa_def)

lemma no_panic_bind:
  "no_panic m \<Longrightarrow> (\<And>a. m = Ret a \<Longrightarrow> no_panic (f a)) \<Longrightarrow> no_panic (bind_exec m f)"
  by (cases m) simp_all

lemma total_bind: "total_opa m \<Longrightarrow> (\<And>a. total_opa (f a)) \<Longrightarrow> total_opa (bind_opa m f)"
  by (auto simp: total_opa_def bind_opa_def intro!: no_panic_bind split: sum.split)

lemma total_call [simp]: "total_opa (guest_call m f args err)"
  by (simp add: total_opa_def guest_call_def split: prod.split)

lemma total_opa_call [simp]: "total_opa (opa_call m f args)"
  by (simp add: opa_call_def)

lemma guest_call_Inr:
  "guest_call m f args err st = Ret (Inr r, st') \<Longrightarrow> \<exists>g. oe_call m f args (os_guest st) = (Inr r, g) \<and> st' = st\<lparr>os_guest := g\<rparr>"
  by (auto simp: guest_call_def split: prod.splits)

lemma memory_safe_addr:
  "memory_safe m \<Longrightarrow> guest_call m f args err st = Ret (Inr r, st') \<Longrightarrow> f \<in> {''opa_malloc'', ''opa_json_dump''} \<Longrightarrow> 0 \<le> sint r"
  unfolding memory_safe_def using guest_call_Inr by metis

lemma read_string_total: "memory_safe m \<Longrightarrow> 0 \<le> sint addr \<Longrightarrow> no_panic (read_string (oe_memory m g) addr)"
  by (simp add: memory_safe_def read_string_eq Let_def)

lemma total_bind_state:
  "total_opa m \<Longrightarrow> (\<And>a st st'. m st = Ret (Inr a, st') \<Longrightarrow> no_panic (f a st')) \<Longrightarrow> total_opa (bind_opa m f)"
  by (auto simp: total_opa_def bind_opa_def intro!: no_panic_bind split: sum.split)

lemma pull_json_total: "memory_safe m \<Longrightarrow> total_opa (pull_json m addr)"
  unfolding pull_json_def
  by (rule total_bind_state)
    (auto simp: ret_opa_def intro!: no_panic_bind read_string_total dest: memory_safe_addr)

lemma memory_write_total: "0 \<le> sint addr \<Longrightarrow> no_panic (memory_write m addr data st)"
  by (simp add: memory_write_def Let_def)

lemma push_json_raw_total: "memory_safe m \<Longrightarrow> total_opa (push_json_raw m data)"
proof (cases "length data > max_i32")
  case False
  assume "memory_safe m"
  have rest: "total_opa (bind_opa (guest_call m ''opa_json_parse'' [raw, n] err) (\<lambda>addr.
      ret_opa (if addr = 0 then Inl e else Inr addr)))" for raw n err e
    by (intro total_bind) simp_all
  have "no_panic (bind_opa (memory_write m raw data) (\<lambda>_. bind_opa (guest_call m ''opa_json_parse'' [raw, n] err)
      (\<lambda>addr. ret_opa (if addr = 0 then Inl e else Inr addr))) st)" if "0 \<le> sint raw" for raw n err e st
    using memory_write_total [OF that] rest unfolding bind_opa_def [of "memory_write m raw data"]
    by (auto simp: total_opa_def intro!: no_panic_bind split: sum.split)
  with False \<open>memory_safe m\<close> show ?thesis
    unfolding push_json_raw_def Let_def
    by (auto intro!: total_bind_state dest: memory_safe_addr)
qed (simp add: push_json_raw_def)

lemma push_json_total: "memory_safe m \<Longrightarrow> total_opa (push_json m value)"
  unfolding push_json_def by (intro total_bind push_json_raw_total) simp_all

lemma pull_args_total: "memory_safe m \<Longrightarrow> total_opa (pull_args m ps)"
  by (induction ps) (auto intro!: total_bind pull_json_total)

lemma opa_builtin_total:
  assumes "memory_safe m" "helper_safe h"
  shows "total_opa (opa_builtin m (Some h) b ps)"
proof -
  have inv: "total_opa (\<lambda>st. bind_exec (builtins_invoke (oe_builtins m) name args) (\<lambda>r. Ret (r, st)))"
    if "name \<notin> set panicking_builtins" for name args
    using builtins_invoke_total [OF that] by (auto simp: total_opa_def intro!: no_panic_bind)
  show ?thesis
  proof (cases "find_builtin h (builtin_label (length ps)) b")
    case (Inr name)
    then have "name \<notin> set panicking_builtins"
      using assms(2) by (force simp: find_builtin_def helper_safe_def hm_get_def dest: map_of_SomeD)
    with Inr assms(1) show ?thesis
      by (auto simp: opa_builtin_def intro!: total_bind pull_args_total push_json_total inv)
  qed (simp add: opa_builtin_def)
qed

lemma opa_message_total:
  "memory_safe m \<Longrightarrow> 0 \<le> sint addr \<Longrightarrow> total_opa (opa_message m (Some h) a label addr)"
  by (auto simp: opa_message_def Let_def intro!: total_bind_state no_panic_bind read_string_total)

lemma run_eval_total:
  "memory_safe m \<Longrightarrow> helper_safe h \<Longrightarrow> eval_safe t \<Longrightarrow> no_panic (run_eval m (Some h) t msgs)"
proof (induction t arbitrary: msgs)
  case (EvalBuiltin b ps g k)
  have "no_panic (run_eval m (Some h) (k addr g') msgs')" for addr g' msgs'
    using EvalBuiltin by (intro EvalBuiltin.IH [of "k addr"]) auto
  with EvalBuiltin.prems show ?case
    using opa_builtin_total [of m h b ps]
    by (auto simp: total_opa_def intro!: no_panic_bind split: sum.split)
next
  case (EvalAbort addr g k)
  then show ?case
    using opa_message_total [of m addr h True "''opa_abort''"]
    by (auto simp: total_opa_def intro!: no_panic_bind split: sum.split)
next
  case (EvalPrintln addr g k)
  then show ?case
    using opa_message_total [of m addr h False "''opa_println''"]
    by (auto simp: total_opa_def intro!: no_panic_bind split: sum.split)
qed simp

lemma policy_evaluate_total:
  assumes "module_safe m" "helper_safe h"
  shows "total_opa (policy_evaluate m (Some h) p ep input)"
proof -
  have "total_opa (eval_call m (Some h) ctx)" for ctx
    using assms by (auto simp: total_opa_def eval_call_def module_safe_def intro!: no_panic_bind run_eval_total)
  with assms show ?thesis
    unfolding policy_evaluate_def module_safe_def
    by (intro total_bind push_json_total pull_json_total) simp_all
qed

lemma policy_set_data_total: "module_safe m \<Longrightarrow> no_panic (policy_set_data m p data st)"
  using push_json_raw_total [of m data] total_opa_call [of m]
  by (auto simp: policy_set_data_def total_opa_def module_safe_def Let_def intro!: no_panic_bind split: sum.split)

lemma evaluator_evaluate_total:
  assumes "module_safe m" "helper_safe (ev_helper ev)"
  shows "no_panic (evaluator_evaluate m ev ep input data)"
  using policy_set_data_total [OF assms(1)] policy_evaluate_total [OF assms]
  by (auto simp: evaluator_evaluate_def Let_def total_opa_def intro!: no_panic_bind split: sum.split)

text \<open>C10: an evaluation returns a result or an error, it never panics, when the module keeps its
  addresses non-negative and its memory in 31 bits and declares none of the three builtins that can
  panic.\<close>

theorem evaluate_no_panic:
  assumes "module_safe m" and "\<forall>(n, name) \<in> set (ev_helper ev). name \<notin> {''hex.decode'', ''json.patch'', ''sprintf''}"
  shows "\<exists>r ev'. evaluator_evaluate m ev ep input data = Ret (r, ev')"
proof -
  have "helper_safe (ev_helper ev)" using assms(2) by (auto simp: helper_safe_def panicking_builtins_def)
  from evaluator_evaluate_total [OF assms(1) this, of ep input data] show ?thesis
    by (cases "evaluator_evaluate m ev ep input data") (auto simp: no_panic_def)
qed


subsection \<open>A safe module\<close>

lemma example_module_safe:
  assumes "\<forall>g. eval_safe (run g)"
  shows "module_safe (example_module result run)"
proof -
  have "0 \<le> sint r" if "example_call f args g = (Inr r, g')" for f args g r g'
    using that by (auto simp: example_call_def split: if_splits)
  with assms show ?thesis
    unfolding module_safe_def memory_safe_def by (simp only: example_module_sel) auto
qed

theorem evaluate_no_panic_witness:
  "\<exists>r ev'. evaluator_evaluate (example_module Null (EvalDone (Inr 0))) example_evaluator 0 Null ''{}'' = Ret (r, ev')"
  by (rule evaluate_no_panic [OF example_module_safe]) (simp_all add: example_evaluator_def)


subsection \<open>Setting up again\<close>

text \<open>A module that is safe from every fresh start: it declares no builtin that can panic.\<close>

definition setup_safe :: "('s, 're, 'patch, 'ver) opa_env \<Rightarrow> bool" where
  "setup_safe m \<longleftrightarrow> (\<forall>d msgs. case evaluator_setup m d msgs of
     Panic _ \<Rightarrow> False | Ret (Inl _) \<Rightarrow> True | Ret (Inr stack) \<Rightarrow> helper_safe (es_helper stack))"

lemma evaluator_reset_safe:
  assumes "setup_safe m" "helper_safe (ev_helper ev)"
  shows "\<exists>r ev'. evaluator_reset m ev = Ret (r, ev') \<and> helper_safe (ev_helper ev')"
proof -
  have "case evaluator_setup m (ev_epoch_deadline ev) (os_messages (ev_store ev)) of
      Panic _ \<Rightarrow> False | Ret (Inl _) \<Rightarrow> True | Ret (Inr stack) \<Rightarrow> helper_safe (es_helper stack)"
    using assms(1) by (simp add: setup_safe_def)
  with assms(2) show ?thesis
    by (auto simp: evaluator_reset_def split: exec.splits sum.splits)
qed

lemma example_setup_safe: "setup_safe (example_module result run)"
  by (simp add: setup_safe_def example_setup helper_safe_def)

subsection \<open>Where a reported deadline comes from\<close>

definition deadline_implies :: "bool \<Rightarrow> ('s, 'a) opa \<Rightarrow> bool" where
  "deadline_implies P m \<longleftrightarrow> (\<forall>st st'. m st = Ret (Inl ExecutionDeadlineExceeded, st') \<longrightarrow> P)"

lemma deadline_implies_bind:
  "deadline_implies P m \<Longrightarrow> (\<And>a. deadline_implies P (f a)) \<Longrightarrow> deadline_implies P (bind_opa m f)"
  using bind_opa_Inl unfolding deadline_implies_def by fast

lemma never_deadline_implies: "never_deadline m \<Longrightarrow> deadline_implies P m"
  by (simp add: never_deadline_def deadline_implies_def)

text \<open>The functions of the module that are called directly; the others serve the exchange of data.\<close>

definition call_interrupted :: "('s, 're, 'patch, 'ver) opa_env \<Rightarrow> bool" where
  "call_interrupted m \<longleftrightarrow> (\<exists>f args g s g'. f \<notin> {''opa_malloc'', ''opa_json_parse'', ''opa_json_dump''} \<and>
     oe_call m f args g = (Inl (TrapInterrupt s), g'))"

definition eval_interrupted :: "('s, 're, 'patch, 'ver) opa_env \<Rightarrow> (i32 \<times> string) list \<Rightarrow> bool" where
  "eval_interrupted m h \<longleftrightarrow>
     (\<exists>ctx g msgs s st. run_eval m (Some h) (oe_eval m ctx g) msgs = Ret (Inl (TrapInterrupt s), st))"

lemma map_call_error_deadline: "map_call_error msg e = ExecutionDeadlineExceeded \<Longrightarrow> \<exists>s. e = TrapInterrupt s"
  by (cases e) (simp_all add: map_call_error_def)

lemma opa_call_deadline_implies:
  assumes "f \<notin> {''opa_malloc'', ''opa_json_parse'', ''opa_json_dump''}"
  shows "deadline_implies (call_interrupted m \<or> Q) (opa_call m f args)"
  unfolding deadline_implies_def
proof (intro allI impI)
  fix st st'
  assume "opa_call m f args st = Ret (Inl ExecutionDeadlineExceeded, st')"
  then obtain e g where c: "oe_call m f args (os_guest st) = (Inl e, g)"
    and "map_call_error (''error invoking '' @ f @ '' function'') e = ExecutionDeadlineExceeded"
    by (auto simp: opa_call_def guest_call_def map_err_def split: prod.splits sum.splits)
  with map_call_error_deadline assms show "call_interrupted m \<or> Q" unfolding call_interrupted_def by metis
qed

lemma eval_call_deadline_implies: "deadline_implies (Q \<or> eval_interrupted m h) (eval_call m (Some h) ctx)"
  unfolding deadline_implies_def
proof (intro allI impI)
  fix st st'
  assume "eval_call m (Some h) ctx st = Ret (Inl ExecutionDeadlineExceeded, st')"
  then obtain e st1 where c: "run_eval m (Some h) (oe_eval m ctx (os_guest st)) (os_messages st) = Ret (Inl e, st1)"
    and "map_call_error ''error invoking opa_eval function'' e = ExecutionDeadlineExceeded"
    by (auto simp: eval_call_def map_err_def bind_exec_def split: exec.split_asm sum.split_asm prod.split_asm
        simp del: bind_exec_Ret_iff)
  with map_call_error_deadline show "Q \<or> eval_interrupted m h" unfolding eval_interrupted_def by metis
qed

lemma policy_evaluate_deadline:
  "deadline_implies (call_interrupted m \<or> eval_interrupted m h) (policy_evaluate m (Some h) p ep input)"
  unfolding policy_evaluate_def
  by (intro deadline_implies_bind opa_call_deadline_implies eval_call_deadline_implies
      never_deadline_implies [OF push_json_never_deadline] never_deadline_implies [OF pull_json_never_deadline])
    simp_all

lemma policy_set_data_deadline:
  assumes "policy_set_data m p data st = Ret ((Inl ExecutionDeadlineExceeded, p'), st')"
  shows "call_interrupted m"
proof -
  have call: "call_interrupted m" if "opa_call m f args s = Ret (Inl ExecutionDeadlineExceeded, s')"
    "f \<notin> {''opa_malloc'', ''opa_json_parse'', ''opa_json_dump''}" for f args s s'
    using opa_call_deadline_implies [OF that(2), of m False args] that(1) by (auto simp: deadline_implies_def)
  show ?thesis
    using assms push_json_raw_never_deadline [of m data] call [of "''opa_heap_ptr_set''"] call [of "''opa_heap_ptr_get''"]
    by (auto simp: policy_set_data_def Let_def bind_exec_def never_deadline_def simp del: bind_exec_Ret_iff
        split: exec.split_asm prod.split_asm sum.split_asm)
qed

text \<open>An evaluation reports that the deadline passed only when the module was interrupted in a
  function the evaluator calls directly or in the evaluation itself: an interrupt while data is
  loaded into the module or read back is reported as another error.\<close>

theorem deadline_from_calls:
  assumes "evaluator_evaluate m ev ep input data = Ret (Inl ExecutionDeadlineExceeded, ev')"
  shows "call_interrupted m \<or> eval_interrupted m (ev_helper ev)"
proof -
  have eval: "policy_evaluate m (Some (ev_helper ev)) p ep input st = Ret (Inl ExecutionDeadlineExceeded, st') \<Longrightarrow>
      call_interrupted m \<or> eval_interrupted m (ev_helper ev)" for p st st'
    using policy_evaluate_deadline [of m "ev_helper ev" p ep input] unfolding deadline_implies_def by blast
  show ?thesis
    using assms
    by (auto simp: evaluator_evaluate_def Let_def bind_exec_def simp del: bind_exec_Ret_iff
        split: if_split_asm exec.split_asm prod.split_asm sum.split_asm dest: eval policy_set_data_deadline)
qed

text \<open>A module whose evaluation never ends: the engine interrupts it.\<close>

definition endless :: "bytes \<Rightarrow> bytes opa_eval" where
  "endless g = EvalDone (Inl (TrapInterrupt ''interrupt'')) g"

lemma example_endless:
  assumes "length data \<le> max_i32"
  shows "evaluator_evaluate (example_module result endless) example_evaluator 0 input data =
     Ret (Inl ExecutionDeadlineExceeded, example_evaluator\<lparr>ev_store := \<lparr>os_guest = ''j'', os_messages = []\<rparr>\<rparr>)"
  using assms unat_size [OF assms]
  by (simp add: evaluator_evaluate_def policy_set_data_def policy_evaluate_def eval_call_def has_entrypoint_def
      set_deadline_def example_run example_data example_evaluator_def endless_def map_call_error_def)

theorem deadline_from_calls_witness:
  "call_interrupted (example_module Null endless) \<or> eval_interrupted (example_module Null endless) []"
  using deadline_from_calls [OF example_endless [of "''{}''"]] by (simp add: example_evaluator_def max_i32_def)

end
