(* ===== verification/RegoRuntime.thy ===== *)
theory RegoRuntime
  imports BurregoSafety InventoryCache RuntimeBase
begin

text \<open>
  \<open>src/runtimes/rego/runtime.rs\<close>, \<open>stack.rs\<close> and \<open>stack_pre.rs\<close>: the runtime of Open Policy Agent
  and Gatekeeper policies. The module behind the evaluator is the parameter of
  \<^theory_text>\<open>evaluator_evaluate\<close>; the engine of a stack is compiled into it.
\<close>

datatype KubernetesContext =
    EmptyContext
  | OpaContext ResourcesByPluralName
  | GatekeeperContext bytes

record RegoStackPre =
  rp_entrypoint_id :: i32
  rp_policy_execution_mode :: RegoPolicyExecutionMode

record 's RegoStack =
  rs_evaluator :: "'s Evaluator"
  rs_entrypoint_id :: i32
  rs_policy_execution_mode :: RegoPolicyExecutionMode

definition rego_stack_pre_new :: "i32 \<Rightarrow> RegoPolicyExecutionMode \<Rightarrow> RegoStackPre" where
  "rego_stack_pre_new entrypoint policy_execution_mode =
     \<lparr>rp_entrypoint_id = entrypoint, rp_policy_execution_mode = policy_execution_mode\<rparr>"

definition rego_rehydrate ::
  "('s, 're, 'patch, 'ver) opa_env \<Rightarrow> u64 option \<Rightarrow> (RegoRuntimeError + 's Evaluator) exec" where
  "rego_rehydrate m epoch_deadline =
     (let builder = with_host_callbacks (with_module (with_engine builder_default));
          builder = (case epoch_deadline of Some deadline \<Rightarrow> with_epoch_interruptions builder deadline
            | None \<Rightarrow> builder)
      in bind_exec (builder_build (\<lambda>i. Inr ()) (\<lambda>p. Inr ()) m builder) (\<lambda>r.
           Ret (map_err (\<lambda>e. RegoEngineBuilder (display_burrego_error e)) r)))"

definition rego_stack_new_from_pre ::
  "('s, 're, 'patch, 'ver) opa_env \<Rightarrow> RegoStackPre \<Rightarrow> EvaluationContext
   \<Rightarrow> (RegoRuntimeError + 's RegoStack) exec" where
  "rego_stack_new_from_pre m stack_pre eval_ctx =
     bind_exec (rego_rehydrate m (ctx_epoch_deadline eval_ctx)) (\<lambda>r.
       Ret (bind_result (map_err (\<lambda>e. EvaluatorError (display_rego_error e)) r) (\<lambda>evaluator.
         Inr \<lparr>rs_evaluator = evaluator, rs_entrypoint_id = rp_entrypoint_id stack_pre,
           rs_policy_execution_mode = rp_policy_execution_mode stack_pre\<rparr>)))"

text \<open>The global inventory cache is part of the state; \<open>now\<close> is the clock reading the cache takes.\<close>

definition build_kubernetes_context ::
  "rego_codec \<Rightarrow> RegoPolicyExecutionMode \<Rightarrow> peer option \<Rightarrow> ContextAwareResource btset \<Rightarrow> instant \<Rightarrow> inventory_cache
   \<Rightarrow> host_state \<Rightarrow> ((RegoRuntimeError + KubernetesContext) \<times> inventory_cache) \<times> host_state" where
  "build_kubernetes_context rc mode callback_channel allow_list now cache st =
     (if allow_list = [] then ((Inr EmptyContext, cache), st)
      else
        (case callback_channel of
           None \<Rightarrow> ((Inl CallbackChannelNotSet, cache), st)
         | Some chan \<Rightarrow>
             (case mode of
                RegoOpa \<Rightarrow>
                  (case bind_st (get_allowed_resources rc chan allow_list) (\<lambda>cluster_resources.
                     bind_st (get_plural_names rc chan allow_list) (\<lambda>plural_names_by_resource.
                     lift_st (opa_new cluster_resources plural_names_by_resource))) st of
                     (r, st') \<Rightarrow> ((bind_result r (\<lambda>iv. Inr (OpaContext iv)), cache), st'))
              | RegoGatekeeper \<Rightarrow>
                  (case get_inventory rc chan allow_list now cache st of
                     ((r, cache'), st') \<Rightarrow>
                       ((bind_result r (\<lambda>cached. Inr (GatekeeperContext cached)), cache'), st')))))"

subsection \<open>Evaluation\<close>

text \<open>The document the OPA policy sees as its data.\<close>

definition opa_data :: "PolicySettings \<Rightarrow> KubernetesContext \<Rightarrow> json" where
  "opa_data settings ctx_data =
     (case ctx_data of
        OpaContext ctx \<Rightarrow> Object (bt_insert ''kubernetes'' (opa_to_json ctx) settings)
      | _ \<Rightarrow> Object settings)"

definition evaluate_opa ::
  "('s, 're, 'patch, 'ver) opa_env \<Rightarrow> 's RegoStack \<Rightarrow> PolicySettings \<Rightarrow> ValidateRequest \<Rightarrow> KubernetesContext
   \<Rightarrow> ((BurregoError + json) \<times> 's Evaluator) exec" where
  "evaluate_opa m self settings request ctx_data =
     (let input = json_obj [(''request'', request_to_json request)]
      in case map_err (JSONError ''cannot convert OPA data to JSON'') (oe_to_vec m (opa_data settings ctx_data)) of
           Inl e \<Rightarrow> Ret (Inl e, rs_evaluator self)
         | Inr data_raw \<Rightarrow> evaluator_evaluate m (rs_evaluator self) (rs_entrypoint_id self) input data_raw)"

definition evaluate_gatekeeper ::
  "('s, 're, 'patch, 'ver) opa_env \<Rightarrow> 's RegoStack \<Rightarrow> PolicySettings \<Rightarrow> AdmissionRequest \<Rightarrow> KubernetesContext
   \<Rightarrow> ((BurregoError + json) \<times> 's Evaluator) exec" where
  "evaluate_gatekeeper m self settings request ctx_data =
     (let input = json_obj [(''parameters'', Object settings), (''review'', admission_request_to_json request)]
      in case ctx_data of
           GatekeeperContext ctx \<Rightarrow> evaluator_evaluate m (rs_evaluator self) (rs_entrypoint_id self) input ctx
         | EmptyContext \<Rightarrow> evaluator_evaluate m (rs_evaluator self) (rs_entrypoint_id self) input ''{}''
         | OpaContext _ \<Rightarrow> Panic ''internal error: entered unreachable code'')"

subsection \<open>The verdict\<close>

text \<open>
  The derived deserializers of \<open>Violation\<close> and \<open>Violations\<close>: an object, of which other members are
  ignored, or an array with exactly the fields; \<^theory_text>\<open>None\<close> is a failure, whose text is not used.
\<close>

fun violation_msg :: "json option \<Rightarrow> string option option" where
  "violation_msg None = Some None"
| "violation_msg (Some Null) = Some None"
| "violation_msg (Some (String s)) = Some (Some s)"
| "violation_msg (Some _) = None"

fun violation_from_json :: "json \<Rightarrow> string option option" where
  "violation_from_json (Object m) = violation_msg (bt_get m ''msg'')"
| "violation_from_json (Array [j]) = violation_msg (Some j)"
| "violation_from_json _ = None"

fun violation_list :: "json list \<Rightarrow> string option list option" where
  "violation_list [] = Some []"
| "violation_list (j # js) = Option.bind (violation_from_json j) (\<lambda>v.
     Option.bind (violation_list js) (\<lambda>vs. Some (v # vs)))"

fun violations_from_json :: "json \<Rightarrow> string option list option" where
  "violations_from_json (Object m) =
     Option.bind (bt_get m ''result'') (\<lambda>j. Option.bind (as_array j) violation_list)"
| "violations_from_json (Array [j]) = Option.bind (as_array j) violation_list"
| "violations_from_json _ = None"

definition gatekeeper_violations :: "json \<Rightarrow> string option list" where
  "gatekeeper_violations evaluation_result =
     unwrap_or [] (Option.bind (get_index evaluation_result 0) violations_from_json)"

definition gatekeeper_response :: "string \<Rightarrow> json \<Rightarrow> AdmissionResponse" where
  "gatekeeper_response uid evaluation_result =
     (let violations = gatekeeper_violations evaluation_result in
      if violations = [] then default_response\<lparr>resp_uid := uid, resp_allowed := True\<rparr>
      else default_response\<lparr>resp_uid := uid, resp_allowed := False,
        resp_status := Some (default_status\<lparr>st_message :=
          Some (join_with '', '' (List.map_filter (\<lambda>v. v) violations))\<rparr>)\<rparr>)"

definition opa_response :: "'op wire \<Rightarrow> string \<Rightarrow> json \<Rightarrow> AdmissionResponse" where
  "opa_response w uid evaluation_result =
     (case Option.bind (Option.bind (get_index evaluation_result 0) (\<lambda>r. get_key r ''result''))
         (\<lambda>r. get_key r ''response'') of
        Some result \<Rightarrow>
          (case de_admission_response w result of
             Inr response \<Rightarrow> response\<lparr>resp_uid := uid\<rparr>
           | Inl err \<Rightarrow> reject_internal_server_error uid (le_display err))
      | None \<Rightarrow> reject_internal_server_error uid ''cannot interpret OPA policy result'')"

definition rego_evaluation_failed ::
  "('s, 're, 'patch, 'ver) opa_env \<Rightarrow> 's RegoStack \<Rightarrow> string \<Rightarrow> BurregoError \<Rightarrow> (AdmissionResponse \<times> 's RegoStack) exec" where
  "rego_evaluation_failed m self uid err =
     bind_exec (if err = ExecutionDeadlineExceeded
         then bind_exec (evaluator_reset m (rs_evaluator self)) (\<lambda>(reset_result, evaluator).
                Ret (self\<lparr>rs_evaluator := evaluator\<rparr>))
         else Ret self) (\<lambda>self'.
       Ret (reject_internal_server_error uid (display_burrego_error err), self'))"

definition rego_validate ::
  "('s, 're, 'patch, 'ver) opa_env \<Rightarrow> 'op wire \<Rightarrow> 's RegoStack \<Rightarrow> PolicySettings \<Rightarrow> ValidateRequest
   \<Rightarrow> KubernetesContext \<Rightarrow> (AdmissionResponse \<times> 's RegoStack) exec" where
  "rego_validate m w self settings request ctx_data =
     (let uid = request_uid request;
          finish = (\<lambda>to_response (burrego_evaluation, evaluator).
            case burrego_evaluation of
              Inr evaluation_result \<Rightarrow> Ret (to_response evaluation_result, self\<lparr>rs_evaluator := evaluator\<rparr>)
            | Inl err \<Rightarrow> rego_evaluation_failed m (self\<lparr>rs_evaluator := evaluator\<rparr>) uid err)
      in case rs_policy_execution_mode self of
           RegoOpa \<Rightarrow> bind_exec (evaluate_opa m self settings request ctx_data) (finish (opa_response w uid))
         | RegoGatekeeper \<Rightarrow>
             (case request of
                AdmissionReq adm_req \<Rightarrow>
                  bind_exec (evaluate_gatekeeper m self settings adm_req ctx_data) (finish (gatekeeper_response uid))
              | Raw _ \<Rightarrow> Ret (reject_internal_server_error uid
                  ''Gatekeeper does not support raw validation requests'', self)))"

definition rego_validate_settings :: "string \<Rightarrow> SettingsValidationResponse" where
  "rego_validate_settings settings = \<lparr>svr_valid = True, svr_message = None\<rparr>"

subsection \<open>Lemmas\<close>

lemma violation_list_iff:
  "violation_list js = Some vs \<longleftrightarrow> list_all2 (\<lambda>j v. violation_from_json j = Some v) js vs"
  by (induction js arbitrary: vs) (auto simp: bind_eq_Some_conv list_all2_Cons1)

lemma violation_list_None: "violation_list js = None \<longleftrightarrow> (\<exists>j \<in> set js. violation_from_json j = None)"
  by (induction js) (auto simp: bind_eq_None_conv)

lemma violation_list_length: "violation_list js = Some vs \<Longrightarrow> length vs = length js"
  by (auto simp: violation_list_iff dest: list_all2_lengthD)

lemma gatekeeper_violations_nonempty:
  "gatekeeper_violations (Array (Object m # rest)) \<noteq> [] \<longleftrightarrow>
     (\<exists>js. bt_get m ''result'' = Some (Array js) \<and> js \<noteq> [] \<and> (\<forall>j \<in> set js. violation_from_json j \<noteq> None))"
proof (cases "bt_get m ''result''")
  case (Some j)
  show ?thesis
  proof (cases "as_array j")
    case None
    with Some show ?thesis by (cases j) (auto simp: gatekeeper_violations_def)
  next
    case (Some js)
    then have j: "j = Array js" by (cases j) auto
    show ?thesis
    proof (cases "violation_list js")
      case None
      with violation_list_None [of js] have "\<exists>j \<in> set js. violation_from_json j = None" by simp
      with None \<open>bt_get m ''result'' = Some j\<close> j show ?thesis
        by (auto simp: gatekeeper_violations_def)
    next
      case (Some vs)
      with violation_list_length [OF this] violation_list_None [of js] \<open>bt_get m ''result'' = Some j\<close> j
      show ?thesis by (auto simp: gatekeeper_violations_def)
    qed
  qed
qed (simp add: gatekeeper_violations_def)

lemma gatekeeper_response_simps [simp]:
  "resp_uid (gatekeeper_response uid j) = uid" "patch_wf (gatekeeper_response uid j)"
  "resp_allowed (gatekeeper_response uid j) \<longleftrightarrow> gatekeeper_violations j = []"
  by (simp_all add: gatekeeper_response_def patch_wf_def default_response_def Let_def)

lemma opa_response_uid [simp]: "resp_uid (opa_response w uid j) = uid"
  by (simp add: opa_response_def split: option.split sum.split)

lemma opa_response_wf:
  "(\<And>j r. de_admission_response w j = Inr r \<Longrightarrow> patch_wf r) \<Longrightarrow> patch_wf (opa_response w uid j)"
  by (auto simp: opa_response_def patch_wf_def [of "_\<lparr>resp_uid := _\<rparr>"] split: option.split sum.split)
    (auto simp: patch_wf_def)

subsection \<open>The runtime returns\<close>

definition rego_invar :: "('s, 're, 'patch, 'ver) opa_env \<Rightarrow> 'op wire \<Rightarrow> 's RegoStack \<Rightarrow> bool" where
  "rego_invar m w self \<longleftrightarrow> module_safe m \<and> setup_safe m \<and> helper_safe (ev_helper (rs_evaluator self)) \<and>
     (\<forall>j r. de_admission_response w j = Inr r \<longrightarrow> patch_wf r)"

text \<open>What the context must be for a mode: the Gatekeeper runtime has no case for an OPA inventory.\<close>

fun context_for :: "RegoPolicyExecutionMode \<Rightarrow> KubernetesContext \<Rightarrow> bool" where
  "context_for RegoGatekeeper (OpaContext _) = False"
| "context_for RegoOpa (GatekeeperContext _) = False"
| "context_for _ _ = True"

definition rego_answered ::
  "('s, 're, 'patch, 'ver) opa_env \<Rightarrow> 'op wire \<Rightarrow> RegoPolicyExecutionMode \<Rightarrow> string
   \<Rightarrow> (AdmissionResponse \<times> 's RegoStack) exec \<Rightarrow> bool" where
  "rego_answered m w mode uid res \<longleftrightarrow> (\<exists>r s'. res = Ret (r, s') \<and> resp_uid r = uid \<and> patch_wf r \<and>
     rego_invar m w s' \<and> rs_policy_execution_mode s' = mode)"

lemma rego_failed_answered:
  assumes "rego_invar m w s"
  shows "rego_answered m w (rs_policy_execution_mode s) uid (rego_evaluation_failed m s uid e)"
  using assms evaluator_reset_safe [of m "rs_evaluator s"]
  by (auto simp: rego_answered_def rego_evaluation_failed_def rego_invar_def)

lemma rego_finish_answered:
  assumes "rego_invar m w s" and run: "eval = evaluator_evaluate m (rs_evaluator s) ep input data \<or>
      eval = Ret (Inl e0, rs_evaluator s)"
    and "\<And>j. resp_uid (f j) = uid" "\<And>j. patch_wf (f j)"
  shows "rego_answered m w (rs_policy_execution_mode s) uid
    (bind_exec eval (\<lambda>(r, ev). case r of Inr res \<Rightarrow> Ret (f res, s\<lparr>rs_evaluator := ev\<rparr>)
       | Inl err \<Rightarrow> rego_evaluation_failed m (s\<lparr>rs_evaluator := ev\<rparr>) uid err))"
proof -
  obtain r ev where ev: "eval = Ret (r, ev)" "helper_safe (ev_helper ev)"
  proof (cases "eval = Ret (Inl e0, rs_evaluator s)")
    case True
    with assms(1) that show ?thesis by (simp add: rego_invar_def)
  next
    case False
    with run have e: "eval = evaluator_evaluate m (rs_evaluator s) ep input data" by simp
    with assms(1) have "no_panic eval" by (simp add: rego_invar_def evaluator_evaluate_total)
    then obtain r ev where ev: "eval = Ret (r, ev)" by (cases eval) auto
    with e have "ev_helper ev = ev_helper (rs_evaluator s)"
      by (intro evaluator_evaluate_fields(4) [of m _ ep input data r]) simp
    with assms(1) have "helper_safe (ev_helper ev)" by (simp add: rego_invar_def)
    with ev show ?thesis by (rule that)
  qed
  then have inv: "rego_invar m w (s\<lparr>rs_evaluator := ev\<rparr>)" using assms(1) by (simp add: rego_invar_def)
  show ?thesis
  proof (cases r)
    case (Inl err)
    with ev rego_failed_answered [OF inv, of uid err] show ?thesis by simp
  next
    case (Inr res)
    with ev inv assms(3,4) show ?thesis by (auto simp: rego_answered_def)
  qed
qed

lemma rego_validate_answered:
  assumes "rego_invar m w s" and "context_for (rs_policy_execution_mode s) ctx"
  shows "rego_answered m w (rs_policy_execution_mode s) (request_uid request) (rego_validate m w s settings request ctx)"
proof (cases "rs_policy_execution_mode s")
  case RegoOpa
  have wf: "patch_wf (opa_response w (request_uid request) j)" for j
    using assms(1) by (intro opa_response_wf) (auto simp: rego_invar_def)
  obtain input d e where "evaluate_opa m s settings request ctx =
      evaluator_evaluate m (rs_evaluator s) (rs_entrypoint_id s) input d \<or>
      evaluate_opa m s settings request ctx = Ret (Inl e, rs_evaluator s)"
    by (cases "map_err (JSONError ''cannot convert OPA data to JSON'') (oe_to_vec m (opa_data settings ctx))")
      (auto simp: evaluate_opa_def Let_def)
  from rego_finish_answered [OF assms(1) this opa_response_uid wf] RegoOpa
  show ?thesis by (simp add: rego_validate_def Let_def)
next
  case RegoGatekeeper
  show ?thesis
  proof (cases request)
    case (Raw j)
    with RegoGatekeeper assms(1) show ?thesis by (simp add: rego_validate_def Let_def rego_answered_def)
  next
    case (AdmissionReq adm)
    obtain input d where "evaluate_gatekeeper m s settings adm ctx =
        evaluator_evaluate m (rs_evaluator s) (rs_entrypoint_id s) input d"
      using assms(2) RegoGatekeeper by (cases ctx) (auto simp: evaluate_gatekeeper_def Let_def)
    then have "evaluate_gatekeeper m s settings adm ctx =
        evaluator_evaluate m (rs_evaluator s) (rs_entrypoint_id s) input d \<or>
        evaluate_gatekeeper m s settings adm ctx = Ret (Inl ExecutionDeadlineExceeded, rs_evaluator s)" by simp
    from rego_finish_answered [OF assms(1) this gatekeeper_response_simps(1,2)] RegoGatekeeper AdmissionReq
    show ?thesis by (simp add: rego_validate_def Let_def)
  qed
qed

subsection \<open>The Kubernetes context\<close>

lemma asks_pair: "asks P m \<Longrightarrow> m st = (r, st') \<Longrightarrow> sent_granted P (hs_sent st) (hs_sent st')"
  unfolding asks_def sent_granted_def by (metis snd_conv)

lemma opa_context_asks:
  "asks (context_request (set rs)) (bind_st (get_allowed_resources rc chan rs) (\<lambda>cluster.
     bind_st (get_plural_names rc chan rs) (\<lambda>plural. lift_st (opa_new cluster plural))))"
  by (intro asks_bind asks_lift get_allowed_resources_asks get_plural_names_asks)

lemma build_context_result:
  assumes "build_kubernetes_context rc mode chan rs now cache st = ((r, cache'), st')"
  shows "sent_granted (context_request (set rs)) (hs_sent st) (hs_sent st')"
    "r = Inr ctx \<Longrightarrow> context_for mode ctx"
    "r = Inr ctx \<Longrightarrow> ctx = EmptyContext \<longleftrightarrow> rs = []"
    "mode = RegoOpa \<Longrightarrow> cache' = cache"
proof -
  have "sent_granted (context_request (set rs)) (hs_sent st) (hs_sent st') \<and>
    (\<forall>ctx. r = Inr ctx \<longrightarrow> context_for mode ctx \<and> (ctx = EmptyContext \<longleftrightarrow> rs = [])) \<and> (mode = RegoOpa \<longrightarrow> cache' = cache)"
  proof (cases "rs = [] \<or> chan = None")
    case True
    with assms show ?thesis by (cases mode) (auto simp: build_kubernetes_context_def split: if_splits)
  next
    case False
    then obtain c where c: "chan = Some c" "rs \<noteq> []" by auto
    show ?thesis
    proof (cases mode)
      case RegoOpa
      with assms c asks_pair [OF opa_context_asks [of rs rc c]] show ?thesis
        by (auto simp: build_kubernetes_context_def split: prod.splits)
    next
      case RegoGatekeeper
      with assms c get_inventory_sends [of rc c rs now cache st] show ?thesis
        by (auto simp: build_kubernetes_context_def sent_granted_def split: prod.splits)
    qed
  qed
  then show "sent_granted (context_request (set rs)) (hs_sent st) (hs_sent st')"
    "r = Inr ctx \<Longrightarrow> context_for mode ctx" "r = Inr ctx \<Longrightarrow> ctx = EmptyContext \<longleftrightarrow> rs = []"
    "mode = RegoOpa \<Longrightarrow> cache' = cache" by blast+
qed

subsection \<open>Properties\<close>

text \<open>C5: a Gatekeeper policy rejects exactly when the first item of its result is an object whose
  \<open>result\<close> is a non-empty list of well-formed violations, with their messages joined; when one
  violation of the list is malformed the whole list is dropped and the request is allowed.\<close>

theorem gatekeeper_verdict:
  assumes "rs_policy_execution_mode s = RegoGatekeeper"
    and "evaluate_gatekeeper m s settings r ctx = Ret (Inr (Array (Object obj # rest)), ev)"
  shows "\<exists>resp. rego_validate m w s settings (AdmissionReq r) ctx = Ret (resp, s\<lparr>rs_evaluator := ev\<rparr>) \<and>
    resp_uid resp = req_uid r \<and>
    (\<not> resp_allowed resp \<longleftrightarrow> (\<exists>js. bt_get obj ''result'' = Some (Array js) \<and> js \<noteq> [] \<and>
       (\<forall>j \<in> set js. violation_from_json j \<noteq> None))) \<and>
    (\<forall>js vs. bt_get obj ''result'' = Some (Array js) \<and> js \<noteq> [] \<and> map violation_from_json js = map Some vs \<longrightarrow>
       Option.bind (resp_status resp) st_message = Some (join_with '', '' (List.map_filter (\<lambda>v. v) vs)))"
proof -
  let ?j = "Array (Object obj # rest)"
  have "gatekeeper_violations ?j = vs" if "bt_get obj ''result'' = Some (Array js)" "map violation_from_json js = map Some vs" for js vs
  proof -
    have "list_all2 (\<lambda>j v. violation_from_json j = Some v) js vs"
      using that(2) by (metis (mono_tags, lifting) list_all2_conv_all_nth length_map nth_map)
    with that(1) show ?thesis by (simp add: gatekeeper_violations_def flip: violation_list_iff)
  qed
  then have "Option.bind (resp_status (gatekeeper_response (req_uid r) ?j)) st_message =
      Some (join_with '', '' (List.map_filter (\<lambda>v. v) vs))"
    if "bt_get obj ''result'' = Some (Array js)" "js \<noteq> []" "map violation_from_json js = map Some vs" for js vs
    using that by (auto simp: gatekeeper_response_def Let_def)
  with assms gatekeeper_violations_nonempty [of obj rest] show ?thesis
    by (auto simp: rego_validate_def Let_def)
qed

text \<open>The evaluation of a request in either mode.\<close>

definition rego_evaluation ::
  "('s, 're, 'patch, 'ver) opa_env \<Rightarrow> 's RegoStack \<Rightarrow> PolicySettings \<Rightarrow> AdmissionRequest \<Rightarrow> KubernetesContext
   \<Rightarrow> ((BurregoError + json) \<times> 's Evaluator) exec" where
  "rego_evaluation m s settings r ctx =
     (case rs_policy_execution_mode s of
        RegoOpa \<Rightarrow> evaluate_opa m s settings (AdmissionReq r) ctx
      | RegoGatekeeper \<Rightarrow> evaluate_gatekeeper m s settings r ctx)"


text \<open>Whatever the settings say, an OPA policy finds the Kubernetes inventory of the host under
  the key \<open>kubernetes\<close> of its data and the other settings under their own keys.\<close>

lemma opa_data_spec:
  "get_key (opa_data settings (OpaContext iv)) k =
     (if k = ''kubernetes'' then Some (opa_to_json iv) else bt_get settings k)"
  by (simp add: opa_data_def bt_get_insert)

subsection \<open>Closed examples\<close>

definition example_admission_request :: AdmissionRequest where
  "example_admission_request = \<lparr>req_uid = ''u1'',
     req_kind = \<lparr>gvk_group = [], gvk_version = ''v1'', gvk_kind = ''Pod''\<rparr>,
     req_resource = \<lparr>gvr_group = [], gvr_version = ''v1'', gvr_resource = ''pods''\<rparr>,
     req_sub_resource = None, req_request_kind = None, req_request_resource = None,
     req_request_sub_resource = None, req_name = None, req_namespace = None, req_operation = ''CREATE'',
     req_user_info = Null, req_object = None, req_old_object = None, req_dry_run = None, req_options = None\<rparr>"

definition example_rego_stack :: "RegoPolicyExecutionMode \<Rightarrow> bytes RegoStack" where
  "example_rego_stack mode = \<lparr>rs_evaluator = example_evaluator, rs_entrypoint_id = 0,
     rs_policy_execution_mode = mode\<rparr>"

text \<open>One violation, with a message that is a number.\<close>

definition malformed_result :: json where
  "malformed_result = Array [Object [(''result'', Array [Object [(''msg'', Number (PosInt 1))]])]]"

theorem gatekeeper_verdict_witness:
  "\<exists>resp s'. rego_validate (example_module malformed_result (EvalDone (Inr 0))) example_wire
      (example_rego_stack RegoGatekeeper) [] (AdmissionReq example_admission_request) EmptyContext = Ret (resp, s') \<and>
    resp_allowed resp"
proof -
  let ?m = "example_module malformed_result (EvalDone (Inr 0))"
  have e: "evaluate_gatekeeper ?m (example_rego_stack RegoGatekeeper) [] example_admission_request EmptyContext =
      Ret (Inr (Array (Object [(''result'', Array [Object [(''msg'', Number (PosInt 1))]])] # [])),
        example_evaluator\<lparr>ev_store := \<lparr>os_guest = ''r'' @ [CHR 0x00], os_messages = []\<rparr>\<rparr>)"
    by (simp add: evaluate_gatekeeper_def example_rego_stack_def example_evaluate max_i32_def malformed_result_def Let_def)
  from gatekeeper_verdict [OF _ e, of example_wire] show ?thesis
    by (force simp: example_rego_stack_def)
qed


end
