(* ===== verification/PolicyEvaluator.thy ===== *)
theory PolicyEvaluator
  imports Wapc Wasi RegoRuntime
begin

text \<open>
  \<open>src/policy_evaluator/\<close> and \<open>src/runtimes.rs\<close>: the evaluator of one policy over the three
  runtimes, its precompiled form and its builder. What differs between policies outside the source
  (the engines, the module, the codecs) is the record \<^theory_text>\<open>platform\<close>.
\<close>

record ('op, 'wpre, 'engine, 'h, 's, 're, 'patch, 'ver, 'cpre) platform =
  pf_codec :: codec
  pf_wire :: "'op wire"
  pf_wapc :: "('wpre, 'engine, 'h) wapc_backend"
  pf_wasi :: "'cpre wasi_backend"
  pf_opa :: "('s, 're, 'patch, 'ver) opa_env"
  pf_rego :: rego_codec
  pf_clock :: "host_state \<Rightarrow> instant"
  pf_to_version :: "bytes \<Rightarrow> string + ProtocolVersion"

datatype ('wpre, 'cpre) StackPre = PreWapc 'wpre | PreWasi 'cpre | PreRego RegoStackPre

datatype ('wpre, 'h, 's, 'cpre) Runtime =
    RuntimeWapc "('wpre, 'h) WapcStack"
  | RuntimeRego "'s RegoStack"
  | RuntimeCli "'cpre WasiStack"

fun display_runtime :: "('wpre, 'h, 's, 'cpre) Runtime \<Rightarrow> string" where
  "display_runtime (RuntimeCli _) = ''wasi''"
| "display_runtime (RuntimeWapc _) = ''wapc''"
| "display_runtime (RuntimeRego stack) =
     (case rs_policy_execution_mode stack of RegoOpa \<Rightarrow> ''OPA'' | RegoGatekeeper \<Rightarrow> ''Gatekeeper'')"

record ('wpre, 'h, 's, 'cpre) PolicyEvaluator =
  pe_runtime :: "('wpre, 'h, 's, 'cpre) Runtime"
  pe_eval_ctx :: EvaluationContext

definition debug_policy_evaluator :: "('wpre, 'h, 's, 'cpre) PolicyEvaluator \<Rightarrow> string" where
  "debug_policy_evaluator self =
     ''PolicyEvaluator { runtime: '' @ debug_str (display_runtime (pe_runtime self)) @ '' }''"

subsection \<open>Errors\<close>

datatype PolicyEvaluatorError = InvalidProtocolVersion | InvokeWapcProtocolVersion WapcRuntimeError

definition display_policy_evaluator_error :: "PolicyEvaluatorError \<Rightarrow> string" where
  "display_policy_evaluator_error e =
     (case e of InvalidProtocolVersion \<Rightarrow> ''protocol_version is only applicable to a Kubewarden policy''
      | InvokeWapcProtocolVersion _ \<Rightarrow> ''protocol_version is only applicable to a Kubewarden policy'')"

datatype PolicyEvaluatorPreError = RehydrateWapc WapcRuntimeError | RehydrateRego RegoRuntimeError

definition display_policy_evaluator_pre_error :: "PolicyEvaluatorPreError \<Rightarrow> string" where
  "display_policy_evaluator_pre_error e =
     (case e of RehydrateWapc w \<Rightarrow> ''unable to rehydrate wapc module: '' @ display_wapc_error w
      | RehydrateRego r \<Rightarrow> ''unable to rehydrate rego module: '' @ display_rego_error r)"

definition quoted :: "string \<Rightarrow> string" where
  "quoted s = squote @ s @ squote"

datatype InvalidUserInputError =
    FileAndContents | FileAndModule | ContentsAndModule | OneOfFileContentsModule | EngineForModule
  | ExecutionModeMissing

fun display_user_input_error :: "InvalidUserInputError \<Rightarrow> string" where
  "display_user_input_error FileAndContents =
     ''cannot specify '' @ quoted ''policy_file'' @ '' and '' @ quoted ''policy_contents'' @ '' at the same time''"
| "display_user_input_error FileAndModule =
     ''cannot specify '' @ quoted ''policy_file'' @ '' and '' @ quoted ''policy_module'' @ '' at the same time''"
| "display_user_input_error ContentsAndModule =
     ''cannot specify '' @ quoted ''policy_contents'' @ '' and '' @ quoted ''policy_module'' @ '' at the same time''"
| "display_user_input_error OneOfFileContentsModule =
     ''must specify one among: `policy_file`, `policy_contents` and `policy_module`''"
| "display_user_input_error EngineForModule =
     ''you must provide the `engine` that was used to instantiate the given `policy_module`''"
| "display_user_input_error ExecutionModeMissing = ''must specify execution mode''"

datatype PolicyEvaluatorBuilderError =
    ConvertPath
  | BuilderInvokeWapcProtocolVersion WapcRuntimeError
  | InvalidUserInput InvalidUserInputError
  | WasmtimeEngineBuild lib_error
  | WasmModuleBuild lib_error
  | NewWapcStackPre WapcRuntimeError
  | NewWasiStackPre WasiRuntimeError
  | NewRegoStackPre string

fun display_policy_builder_error :: "PolicyEvaluatorBuilderError \<Rightarrow> string" where
  "display_policy_builder_error ConvertPath = ''cannot convert given path to String''"
| "display_policy_builder_error (BuilderInvokeWapcProtocolVersion _) =
     ''protocol_version is only applicable to a Kubewarden policy''"
| "display_policy_builder_error (InvalidUserInput e) = display_user_input_error e"
| "display_policy_builder_error (WasmtimeEngineBuild e) = ''error when creating wasmtime engine: '' @ le_display e"
| "display_policy_builder_error (WasmModuleBuild e) = ''error when building wasm module: '' @ le_display e"
| "display_policy_builder_error (NewWapcStackPre e) =
     ''error when building wapc precompiled stack: '' @ display_wapc_error e"
| "display_policy_builder_error (NewWasiStackPre e) =
     ''error when building wasi precompiled stack: '' @ display_wasi_error e"
| "display_policy_builder_error (NewRegoStackPre e) = ''error when building rego precompiled stack''"

subsection \<open>Evaluating a policy\<close>

type_synonym global_state = "host_state \<times> inventory_cache"

text \<open>The runtime calls put back into the evaluator.\<close>

definition with_runtime ::
  "('wpre, 'h, 's, 'cpre) PolicyEvaluator \<Rightarrow> ('stack \<Rightarrow> ('wpre, 'h, 's, 'cpre) Runtime)
   \<Rightarrow> (('r \<times> 'stack) \<times> host_state) exec \<Rightarrow> inventory_cache
   \<Rightarrow> (('r \<times> ('wpre, 'h, 's, 'cpre) PolicyEvaluator) \<times> global_state) exec" where
  "with_runtime self wrap run cache =
     bind_exec run (\<lambda>((r, stack), st). Ret ((r, self\<lparr>pe_runtime := wrap stack\<rparr>), (st, cache)))"

definition policy_evaluator_validate ::
  "('op, 'wpre, 'engine, 'h, 's, 're, 'patch, 'ver, 'cpre) platform \<Rightarrow> PolicySettings
   \<Rightarrow> ('wpre, 'h, 's, 'cpre) PolicyEvaluator \<Rightarrow> ValidateRequest \<Rightarrow> global_state
   \<Rightarrow> ((AdmissionResponse \<times> ('wpre, 'h, 's, 'cpre) PolicyEvaluator) \<times> global_state) exec" where
  "policy_evaluator_validate pf settings self request = (\<lambda>(st, cache).
     case pe_runtime self of
       RuntimeWapc wapc_stack \<Rightarrow>
         with_runtime self RuntimeWapc
           (wapc_validate (pf_codec pf) (pf_wire pf) (pf_wapc pf) wapc_stack settings request st) cache
     | RuntimeRego burrego_evaluator \<Rightarrow>
         (case build_kubernetes_context (pf_rego pf) (rs_policy_execution_mode burrego_evaluator)
             (ctx_callback_channel (pe_eval_ctx self)) (ctx_aware_resources_allow_list (pe_eval_ctx self))
             (pf_clock pf st) cache st of
            ((Inr ctx, cache'), st') \<Rightarrow>
              with_runtime self RuntimeRego
                (bind_exec (rego_validate (pf_opa pf) (pf_wire pf) burrego_evaluator settings request ctx)
                  (\<lambda>a. Ret (a, st'))) cache'
          | ((Inl e, cache'), st') \<Rightarrow>
              Ret ((reject (request_uid request) (display_rego_error e) 500, self), (st', cache')))
     | RuntimeCli cli_stack \<Rightarrow>
         with_runtime self RuntimeCli
           (wasi_step (pf_codec pf) (pf_wire pf) (pf_wasi pf) settings cli_stack request st) cache)"

definition policy_evaluator_validate_settings ::
  "('op, 'wpre, 'engine, 'h, 's, 're, 'patch, 'ver, 'cpre) platform
   \<Rightarrow> ('wpre, 'h, 's, 'cpre) PolicyEvaluator \<Rightarrow> PolicySettings \<Rightarrow> global_state
   \<Rightarrow> ((SettingsValidationResponse \<times> ('wpre, 'h, 's, 'cpre) PolicyEvaluator) \<times> global_state) exec" where
  "policy_evaluator_validate_settings pf self settings = (\<lambda>(st, cache).
     case json_to_string (pf_wire pf) (Object settings) of
       Inl err \<Rightarrow> Ret ((\<lparr>svr_valid = False,
         svr_message = Some (''could not marshal settings: '' @ le_display err)\<rparr>, self), (st, cache))
     | Inr settings_str \<Rightarrow>
         (case pe_runtime self of
            RuntimeWapc wapc_stack \<Rightarrow>
              with_runtime self RuntimeWapc
                (wapc_validate_settings (pf_codec pf) (pf_wire pf) (pf_wapc pf) wapc_stack settings_str st) cache
          | RuntimeRego burrego_evaluator \<Rightarrow>
              Ret ((rego_validate_settings settings_str, self), (st, cache))
          | RuntimeCli cli_stack \<Rightarrow>
              with_runtime self RuntimeCli
                (bind_exec (wasi_validate_settings (pf_codec pf) (pf_wire pf) (pf_wasi pf) cli_stack settings_str st)
                  (\<lambda>(r, st'). Ret ((r, cli_stack), st'))) cache))"

definition policy_evaluator_protocol_version ::
  "('op, 'wpre, 'engine, 'h, 's, 're, 'patch, 'ver, 'cpre) platform
   \<Rightarrow> ('wpre, 'h, 's, 'cpre) PolicyEvaluator \<Rightarrow> global_state
   \<Rightarrow> (((PolicyEvaluatorError + ProtocolVersion) \<times> ('wpre, 'h, 's, 'cpre) PolicyEvaluator) \<times> global_state) exec" where
  "policy_evaluator_protocol_version pf self = (\<lambda>(st, cache).
     case pe_runtime self of
       RuntimeWapc wapc_stack \<Rightarrow>
         with_runtime self RuntimeWapc
           (bind_exec (wapc_protocol_version (pf_to_version pf) (pf_codec pf) (pf_wapc pf) wapc_stack st)
             (\<lambda>((r, stack), st'). Ret ((map_err InvokeWapcProtocolVersion r, stack), st'))) cache
     | _ \<Rightarrow> Ret ((Inl InvalidProtocolVersion, self), (st, cache)))"

subsection \<open>The precompiled policy\<close>

definition policy_rehydrate ::
  "('op, 'wpre, 'engine, 'h, 's, 're, 'patch, 'ver, 'cpre) platform \<Rightarrow> ('wpre, 'cpre) StackPre
   \<Rightarrow> EvaluationContext \<Rightarrow> host_state
   \<Rightarrow> ((PolicyEvaluatorPreError + ('wpre, 'h, 's, 'cpre) PolicyEvaluator) \<times> host_state) exec" where
  "policy_rehydrate pf stack_pre eval_ctx st =
     (case stack_pre of
        PreWapc pre \<Rightarrow>
          bind_exec (wapc_stack_new_from_pre (pf_codec pf) (pf_wapc pf) pre eval_ctx st) (\<lambda>(r, st').
            Ret (bind_result (map_err RehydrateWapc r) (\<lambda>wapc_stack.
              Inr \<lparr>pe_runtime = RuntimeWapc wapc_stack, pe_eval_ctx = eval_ctx\<rparr>), st'))
      | PreWasi pre \<Rightarrow>
          Ret (Inr \<lparr>pe_runtime = RuntimeCli (wasi_stack_new_from_pre pre eval_ctx), pe_eval_ctx = eval_ctx\<rparr>, st)
      | PreRego pre \<Rightarrow>
          bind_exec (rego_stack_new_from_pre (pf_opa pf) pre eval_ctx) (\<lambda>r.
            Ret (bind_result (map_err RehydrateRego r) (\<lambda>rego_stack.
              Inr \<lparr>pe_runtime = RuntimeRego rego_stack, pe_eval_ctx = eval_ctx\<rparr>), st)))"

subsection \<open>The builder\<close>

record EpochDeadlines =
  ed_wapc_init :: u64
  ed_wapc_func :: u64

record 'module PolicyEvaluatorBuilder =
  pb_engine :: bool
  pb_policy_file :: "string option"
  pb_policy_contents :: "bytes option"
  pb_policy_module :: "'module option"
  pb_execution_mode :: "PolicyExecutionMode option"
  pb_wasmtime_cache :: bool
  pb_epoch_deadlines :: "EpochDeadlines option"

text \<open>What the builder uses of wasmtime: the cache, the engine, and the module from a file or from bytes.\<close>

record ('module, 'wpre, 'engine, 'h, 'cpre) wasmtime =
  wt_cache_new :: "lib_error + unit"
  wt_engine_new :: "bool \<Rightarrow> bool \<Rightarrow> lib_error + unit"
  wt_from_file :: "string \<Rightarrow> lib_error + 'module"
  wt_module_new :: "bytes \<Rightarrow> lib_error + 'module"
  wt_wapc :: "'module \<Rightarrow> ('wpre, 'engine, 'h) wapc_backend"
  wt_wasi :: "'module \<Rightarrow> 'cpre wasi_backend"

definition policy_builder_new :: "'module PolicyEvaluatorBuilder" where
  "policy_builder_new = \<lparr>pb_engine = False, pb_policy_file = None, pb_policy_contents = None,
     pb_policy_module = None, pb_execution_mode = None, pb_wasmtime_cache = False, pb_epoch_deadlines = None\<rparr>"

definition policy_builder_engine :: "'module PolicyEvaluatorBuilder \<Rightarrow> 'module PolicyEvaluatorBuilder" where
  "policy_builder_engine self = self\<lparr>pb_engine := True\<rparr>"

text \<open>The path is given as its UTF-8 text, if it has one.\<close>

definition policy_builder_file ::
  "'module PolicyEvaluatorBuilder \<Rightarrow> string option \<Rightarrow> PolicyEvaluatorBuilderError + 'module PolicyEvaluatorBuilder" where
  "policy_builder_file self path =
     bind_result (ok_or ConvertPath path) (\<lambda>filename. Inr (self\<lparr>pb_policy_file := Some filename\<rparr>))"

definition policy_builder_contents ::
  "'module PolicyEvaluatorBuilder \<Rightarrow> bytes \<Rightarrow> 'module PolicyEvaluatorBuilder" where
  "policy_builder_contents self data = self\<lparr>pb_policy_contents := Some data\<rparr>"

definition policy_builder_module ::
  "'module PolicyEvaluatorBuilder \<Rightarrow> 'module \<Rightarrow> 'module PolicyEvaluatorBuilder" where
  "policy_builder_module self m = self\<lparr>pb_policy_module := Some m\<rparr>"

definition policy_builder_execution_mode ::
  "'module PolicyEvaluatorBuilder \<Rightarrow> PolicyExecutionMode \<Rightarrow> 'module PolicyEvaluatorBuilder" where
  "policy_builder_execution_mode self mode = self\<lparr>pb_execution_mode := Some mode\<rparr>"

definition policy_builder_cache :: "'module PolicyEvaluatorBuilder \<Rightarrow> 'module PolicyEvaluatorBuilder" where
  "policy_builder_cache self = self\<lparr>pb_wasmtime_cache := True\<rparr>"

definition policy_builder_epoch ::
  "'module PolicyEvaluatorBuilder \<Rightarrow> u64 \<Rightarrow> u64 \<Rightarrow> 'module PolicyEvaluatorBuilder" where
  "policy_builder_epoch self wapc_init_deadline wapc_func_deadline =
     self\<lparr>pb_epoch_deadlines := Some \<lparr>ed_wapc_init = wapc_init_deadline, ed_wapc_func = wapc_func_deadline\<rparr>\<rparr>"

definition validate_user_input :: "'module PolicyEvaluatorBuilder \<Rightarrow> InvalidUserInputError + unit" where
  "validate_user_input self =
     (if pb_policy_file self \<noteq> None \<and> pb_policy_contents self \<noteq> None then Inl FileAndContents
      else if pb_policy_file self \<noteq> None \<and> pb_policy_module self \<noteq> None then Inl FileAndModule
      else if pb_policy_contents self \<noteq> None \<and> pb_policy_module self \<noteq> None then Inl ContentsAndModule
      else if pb_policy_file self = None \<and> pb_policy_contents self = None \<and> pb_policy_module self = None
        then Inl OneOfFileContentsModule
      else if \<not> pb_engine self \<and> pb_policy_module self \<noteq> None then Inl EngineForModule
      else Inr ())"

definition build_engine ::
  "('module, 'wpre, 'engine, 'h, 'cpre) wasmtime \<Rightarrow> 'module PolicyEvaluatorBuilder
   \<Rightarrow> PolicyEvaluatorBuilderError + unit" where
  "build_engine wt self =
     map_err WasmtimeEngineBuild
       (if pb_engine self then Inr ()
        else bind_result (if pb_wasmtime_cache self then wt_cache_new wt else Inr ()) (\<lambda>_.
          wt_engine_new wt (pb_wasmtime_cache self) (pb_epoch_deadlines self \<noteq> None)))"

definition build_module ::
  "('module, 'wpre, 'engine, 'h, 'cpre) wasmtime \<Rightarrow> 'module PolicyEvaluatorBuilder
   \<Rightarrow> (PolicyEvaluatorBuilderError + 'module) exec" where
  "build_module wt self =
     (case pb_policy_module self of
        Some m \<Rightarrow> Ret (Inr m)
      | None \<Rightarrow>
          (case pb_policy_file self of
             Some file \<Rightarrow> Ret (map_err WasmModuleBuild (wt_from_file wt file))
           | None \<Rightarrow>
               (case pb_policy_contents self of
                  Some contents \<Rightarrow> Ret (map_err WasmModuleBuild (wt_module_new wt contents))
                | None \<Rightarrow> Panic ''called Option::unwrap() on a None value'')))"

definition build_pre ::
  "('module, 'wpre, 'engine, 'h, 'cpre) wasmtime \<Rightarrow> 'module PolicyEvaluatorBuilder
   \<Rightarrow> (PolicyEvaluatorBuilderError + ('wpre, 'cpre) StackPre) exec" where
  "build_pre wt self =
     try_exec (Ret (bind_result (map_err InvalidUserInput (validate_user_input self)) (\<lambda>_. build_engine wt self))) (\<lambda>_.
     try_exec (build_module wt self) (\<lambda>m.
     let execution_mode = unwrap_or default_execution_mode (pb_execution_mode self) in
     Ret (if execution_mode = KubewardenWapc
          then map_err NewWapcStackPre (bind_result (wapc_stack_pre_new (wt_wapc wt m)) (\<lambda>p. Inr (PreWapc p)))
          else if execution_mode = Wasi
          then map_err NewWasiStackPre (bind_result (wasi_stack_pre_new (wt_wasi wt m)) (\<lambda>p. Inr (PreWasi p)))
          else bind_result (map_err NewRegoStackPre (rego_mode_try_from execution_mode))
            (\<lambda>mode. Inr (PreRego (rego_stack_pre_new 0 mode))))))"

subsection \<open>Every request is answered\<close>

definition evaluator_invar ::
  "('op, 'wpre, 'engine, 'h, 's, 're, 'patch, 'ver, 'cpre) platform \<Rightarrow> EvaluationContext
   \<Rightarrow> ('wpre, 'h, 's, 'cpre) PolicyEvaluator \<Rightarrow> bool" where
  "evaluator_invar pf ctx self \<longleftrightarrow> pe_eval_ctx self = ctx \<and>
     (case pe_runtime self of
        RuntimeWapc s \<Rightarrow> ws_eval_ctx s = ctx
      | RuntimeRego s \<Rightarrow> rego_invar (pf_opa pf) (pf_wire pf) s
      | RuntimeCli s \<Rightarrow> program_in_bounds (pf_wasi pf) s \<and> wk_eval_ctx s = ctx)"

text \<open>What may be asked for a policy: the requests of its calls, and those of the inventory.\<close>

definition evaluation_granted :: "EvaluationContext \<Rightarrow> CallbackRequestType \<Rightarrow> bool" where
  "evaluation_granted ctx q \<longleftrightarrow>
     request_granted ctx q \<or> context_request (set (ctx_aware_resources_allow_list ctx)) q"

lemma sent_granted_weaken: "sent_granted P xs ys \<Longrightarrow> (\<And>q. P q \<Longrightarrow> Q q) \<Longrightarrow> sent_granted Q xs ys"
  by (auto simp: sent_granted_def list_all_iff)

lemma rego_evaluator_answers:
  assumes inv: "rego_invar (pf_opa pf) (pf_wire pf) s" and rt: "pe_runtime self = RuntimeRego s"
    and "pe_eval_ctx self = ctx"
  shows "\<exists>r self' st' cache'. policy_evaluator_validate pf settings self request (st, cache) = Ret ((r, self'), (st', cache')) \<and>
    resp_uid r = request_uid request \<and> patch_wf r \<and> evaluator_invar pf ctx self' \<and>
    sent_granted (context_request (set (ctx_aware_resources_allow_list ctx))) (hs_sent st) (hs_sent st')"
proof -
  obtain k cache' st' where k: "build_kubernetes_context (pf_rego pf) (rs_policy_execution_mode s) (ctx_callback_channel ctx)
      (ctx_aware_resources_allow_list ctx) (pf_clock pf st) cache st = ((k, cache'), st')"
    by (metis surj_pair)
  note sent = build_context_result(1) [OF k]
  show ?thesis
  proof (cases k)
    case (Inl e)
    with k rt inv assms(3) sent show ?thesis
      by (auto simp: policy_evaluator_validate_def evaluator_invar_def)
  next
    case (Inr kctx)
    from rego_validate_answered [OF inv build_context_result(2) [OF k Inr], of request settings]
    obtain r s' where "rego_validate (pf_opa pf) (pf_wire pf) s settings request kctx = Ret (r, s')"
      "resp_uid r = request_uid request" "patch_wf r" "rego_invar (pf_opa pf) (pf_wire pf) s'"
      by (auto simp: rego_answered_def)
    with k Inr rt assms(3) sent show ?thesis
      by (auto simp: policy_evaluator_validate_def with_runtime_def evaluator_invar_def)
  qed
qed

lemma evaluator_answers:
  assumes "evaluator_invar pf ctx self"
  shows "\<exists>r self' st'. policy_evaluator_validate pf settings self request st = Ret ((r, self'), st') \<and>
    resp_uid r = request_uid request \<and> patch_wf r \<and> evaluator_invar pf ctx self' \<and>
    sent_granted (evaluation_granted ctx) (hs_sent (fst st)) (hs_sent (fst st'))"
proof -
  obtain h cache where st: "st = (h, cache)" by (cases st) auto
  have weaken: "sent_granted (request_granted ctx) xs ys \<Longrightarrow> sent_granted (evaluation_granted ctx) xs ys"
    "sent_granted (context_request (set (ctx_aware_resources_allow_list ctx))) xs ys \<Longrightarrow> sent_granted (evaluation_granted ctx) xs ys"
    for xs ys by (auto simp: evaluation_granted_def elim: sent_granted_weaken)
  show ?thesis
  proof (cases "pe_runtime self")
    case (RuntimeWapc s)
    then have ctx: "ws_eval_ctx s = ctx" using assms by (simp add: evaluator_invar_def)
    obtain r s' h' where "wapc_validate (pf_codec pf) (pf_wire pf) (pf_wapc pf) s settings request h = Ret ((r, s'), h')"
      "resp_uid r = request_uid request" "patch_wf r" "same_policy s s'"
      "sent_granted (request_granted ctx) (hs_sent h) (hs_sent h')"
      using wapc_validate_returns [of "pf_codec pf" "pf_wire pf" "pf_wapc pf" s settings request h] ctx by auto
    with RuntimeWapc assms weaken ctx show ?thesis
      by (auto simp: st policy_evaluator_validate_def with_runtime_def evaluator_invar_def same_policy_def)
  next
    case (RuntimeRego s)
    with assms rego_evaluator_answers [of pf s self ctx settings request h cache] weaken(2) show ?thesis
      by (force simp: st evaluator_invar_def)
  next
    case (RuntimeCli s)
    then have s: "program_in_bounds (pf_wasi pf) s" "wk_eval_ctx s = ctx" using assms by (simp_all add: evaluator_invar_def)
    obtain r h' where "wasi_validate (pf_codec pf) (pf_wire pf) (pf_wasi pf) s settings request h = Ret (r, h')"
      "resp_uid r = request_uid request" "patch_wf r"
      "sent_granted (request_granted ctx) (hs_sent h) (hs_sent h')"
      using wasi_validate_returns [OF s(1), of "pf_codec pf" "pf_wire pf" settings request h] s(2) by auto
    with RuntimeCli assms weaken show ?thesis
      by (auto simp: st policy_evaluator_validate_def with_runtime_def wasi_step_def evaluator_invar_def)
  qed
qed

interpretation policy: policy_runtime "policy_evaluator_validate pf settings" "evaluator_invar pf ctx"
    "\<lambda>st. hs_sent (fst st)" "evaluation_granted ctx"
  for pf settings ctx
  by unfold_locales (rule evaluator_answers)

text \<open>A precompiled policy whose runtime cannot be taken down by its module.\<close>

fun policy_safe ::
  "('op, 'wpre, 'engine, 'h, 's, 're, 'patch, 'ver, 'cpre) platform \<Rightarrow> EvaluationContext \<Rightarrow> ('wpre, 'cpre) StackPre \<Rightarrow> bool" where
  "policy_safe pf ctx (PreWapc pre) = True"
| "policy_safe pf ctx (PreWasi pre) = program_in_bounds (pf_wasi pf) (wasi_stack_new_from_pre pre ctx)"
| "policy_safe pf ctx (PreRego pre) = (module_safe (pf_opa pf) \<and> setup_safe (pf_opa pf) \<and>
     (\<forall>d. no_panic (from_engine_and_module (pf_opa pf) d [])) \<and>
     (\<forall>j r. de_admission_response (pf_wire pf) j = Inr r \<longrightarrow> patch_wf r))"

lemma from_module_helper:
  assumes "from_engine_and_module m d msgs = Ret (Inr ev)" and "setup_safe m"
  shows "helper_safe (ev_helper ev)"
proof -
  obtain stack where s: "evaluator_setup m d msgs = Ret (Inr stack)" and "ev_helper ev = es_helper stack"
    using assms(1) by (auto simp: from_engine_and_module_def Let_def split: if_splits)
  have "case evaluator_setup m d msgs of
      Panic _ \<Rightarrow> False | Ret (Inl _) \<Rightarrow> True | Ret (Inr stack) \<Rightarrow> helper_safe (es_helper stack)"
    using assms(2) by (simp add: setup_safe_def)
  with s \<open>ev_helper ev = _\<close> show ?thesis by simp
qed

lemma rego_stack_invar:
  assumes "rego_stack_new_from_pre m pre ctx = Ret (Inr s)" "module_safe m" "setup_safe m"
    "\<forall>j r. de_admission_response w j = Inr r \<longrightarrow> patch_wf r"
  shows "rego_invar m w s"
  using assms by (auto simp: rego_stack_new_from_pre_def rego_rehydrate_def builder_build_def rego_invar_def Let_def
      dest!: from_module_helper)

lemma rehydrate_invar:
  assumes "policy_rehydrate pf pre ctx st = Ret (Inr self, st')" "policy_safe pf ctx pre"
  shows "evaluator_invar pf ctx self"
  using assms
  by (cases pre) (auto simp: policy_rehydrate_def evaluator_invar_def wapc_stack_new_from_pre_def
      wasi_stack_new_from_pre_def intro: rego_stack_invar)

text \<open>Making the evaluator returns too, and asks for nothing that is not granted.\<close>

lemma rego_stack_returns:
  assumes "\<forall>d. no_panic (from_engine_and_module m d [])"
  shows "\<exists>r. rego_stack_new_from_pre m pre ctx = Ret r"
proof -
  have "no_panic (rego_rehydrate m d)" for d
    using assms by (auto simp: rego_rehydrate_def builder_build_def Let_def
        intro!: no_panic_bind no_panic_try split: option.split)
  from this [of "ctx_epoch_deadline ctx"] show ?thesis
    by (cases "rego_rehydrate m (ctx_epoch_deadline ctx)") (auto simp: rego_stack_new_from_pre_def)
qed

lemma rehydrate_returns:
  assumes "policy_safe pf ctx pre"
  shows "\<exists>r st'. policy_rehydrate pf pre ctx st = Ret (r, st') \<and>
    sent_granted (evaluation_granted ctx) (hs_sent st) (hs_sent st')"
proof (cases pre)
  case (PreWapc p)
  obtain r st' where "wapc_host_from_pre (pf_codec pf) (pf_wapc pf) p ctx st = Ret (r, st')"
    "sent_granted (request_granted ctx) (hs_sent st) (hs_sent st')"
    using wapc_host_from_pre_returns [of "pf_codec pf" "pf_wapc pf" p ctx st] by auto
  with PreWapc show ?thesis
    by (auto simp: policy_rehydrate_def wapc_stack_new_from_pre_def evaluation_granted_def elim: sent_granted_weaken)
next
  case (PreRego p)
  with assms rego_stack_returns [of "pf_opa pf" p ctx] show ?thesis by (auto simp: policy_rehydrate_def)
qed (simp add: policy_rehydrate_def)

lemma example_build_safe: "no_panic (from_engine_and_module (example_module result run) d msgs)"
  by (cases d) (simp_all add: from_engine_and_module_def example_setup set_deadline_def policy_builtins_def
      policy_entrypoints_def example_run example_data not_implemented_builtins_def)

subsection \<open>Properties\<close>


lemma validate_user_input_iff:
  "validate_user_input b = Inr () \<longleftrightarrow>
     length (filter id [pb_policy_file b \<noteq> None, pb_policy_contents b \<noteq> None, pb_policy_module b \<noteq> None]) = 1 \<and>
     (pb_policy_module b \<noteq> None \<longrightarrow> pb_engine b)"
  by (auto simp: validate_user_input_def)

lemma rego_mode_ok: "mode \<noteq> KubewardenWapc \<Longrightarrow> mode \<noteq> Wasi \<Longrightarrow> \<exists>m. rego_mode_try_from mode = Inr m"
  by (cases mode) simp_all

lemma build_pre_valid: "build_pre wt b = Ret (Inr pre) \<Longrightarrow> validate_user_input b = Inr ()"
  by (cases "validate_user_input b") (auto simp: build_pre_def)

lemma build_pre_mode:
  assumes "build_pre wt b = Ret (Inr pre)"
  shows "case pre of
      PreWapc _ \<Rightarrow> pb_execution_mode b \<in> {None, Some KubewardenWapc}
    | PreWasi _ \<Rightarrow> pb_execution_mode b = Some Wasi
    | PreRego p \<Rightarrow> rp_entrypoint_id p = 0 \<and>
        pb_execution_mode b = Some (case rp_policy_execution_mode p of RegoOpa \<Rightarrow> Opa | RegoGatekeeper \<Rightarrow> OpaGatekeeper)"
  using assms
  by (cases "pb_execution_mode b"; cases "unwrap_or default_execution_mode (pb_execution_mode b)")
    (auto simp: build_pre_def Let_def rego_stack_pre_new_def default_execution_mode_def)

lemma build_module_returns: "validate_user_input b = Inr () \<Longrightarrow> \<exists>r. build_module wt b = Ret r"
  unfolding validate_user_input_iff
  by (cases "pb_policy_module b"; cases "pb_policy_file b"; cases "pb_policy_contents b")
    (auto simp: build_module_def)

lemma build_pre_returns: "\<exists>r. build_pre wt b = Ret r"
proof (cases "validate_user_input b")
  case (Inr u)
  then obtain r where "build_module wt b = Ret r" using build_module_returns [of b wt] by auto
  with Inr show ?thesis
    by (cases r; cases "build_engine wt b") (simp_all add: build_pre_def Let_def)
qed (simp add: build_pre_def)

text \<open>C24: building a policy never panics, with any combination of settings; it succeeds only when
  exactly one source of the module is given, together with its engine when it is a compiled module,
  and the result is for the runtime of the execution mode, waPC when none is given.\<close>

theorem build_pre_spec:
  "\<exists>r. build_pre wt b = Ret r \<and>
     (\<forall>pre. r = Inr pre \<longrightarrow>
        length (filter id [pb_policy_file b \<noteq> None, pb_policy_contents b \<noteq> None, pb_policy_module b \<noteq> None]) = 1 \<and>
        (pb_policy_module b \<noteq> None \<longrightarrow> pb_engine b) \<and>
        (case pre of
           PreWapc _ \<Rightarrow> pb_execution_mode b \<in> {None, Some KubewardenWapc}
         | PreWasi _ \<Rightarrow> pb_execution_mode b = Some Wasi
         | PreRego p \<Rightarrow> rp_entrypoint_id p = 0 \<and>
             pb_execution_mode b = Some (case rp_policy_execution_mode p of RegoOpa \<Rightarrow> Opa | RegoGatekeeper \<Rightarrow> OpaGatekeeper)))"
proof -
  obtain r where r: "build_pre wt b = Ret r" using build_pre_returns by blast
  show ?thesis
    by (rule exI [of _ r])
      (use r build_pre_valid [of wt b] build_pre_mode [of wt b] validate_user_input_iff [of b] in simp)
qed

text \<open>Closed examples: a policy of a small module, in the OPA mode.\<close>

definition example_wasmtime :: "(unit, unit, unit, nat, unit) wasmtime" where
  "example_wasmtime = \<lparr>wt_cache_new = Inr (), wt_engine_new = \<lambda>c e. Inr (), wt_from_file = \<lambda>f. Inr (),
     wt_module_new = \<lambda>b. Inr (), wt_wapc = \<lambda>m. example_backend, wt_wasi = \<lambda>m. example_program\<rparr>"

theorem build_pre_spec_witness:
  "build_pre example_wasmtime (policy_builder_execution_mode (policy_builder_contents policy_builder_new ''wasm'') Opa) =
     Ret (Inr (PreRego \<lparr>rp_entrypoint_id = 0, rp_policy_execution_mode = RegoOpa\<rparr>)) \<and>
   (\<forall>pre. build_pre example_wasmtime (policy_builder_execution_mode policy_builder_new Opa) \<noteq> Ret (Inr pre))"
  using build_pre_spec [of example_wasmtime "policy_builder_execution_mode policy_builder_new Opa"]
  by (auto simp: build_pre_def validate_user_input_def build_engine_def build_module_def
      policy_builder_execution_mode_def policy_builder_contents_def policy_builder_new_def example_wasmtime_def
      rego_stack_pre_new_def)

definition example_platform ::
  "(unit, unit, unit, nat, bytes, unit, unit, unit, unit) platform" where
  "example_platform = \<lparr>pf_codec = example_codec, pf_wire = example_wire, pf_wapc = example_backend,
     pf_wasi = example_program, pf_opa = example_module malformed_result (EvalDone (Inr 0)),
     pf_rego = example_rego_codec, pf_clock = \<lambda>st. 0, pf_to_version = \<lambda>b. Inr V1\<rparr>"

lemma example_rego_rehydrate:
  "policy_rehydrate example_platform (PreRego \<lparr>rp_entrypoint_id = 0, rp_policy_execution_mode = RegoGatekeeper\<rparr>)
     deny_all_context host_init = Ret (Inr \<lparr>pe_runtime = RuntimeRego (example_rego_stack RegoGatekeeper),
       pe_eval_ctx = deny_all_context\<rparr>, host_init)"
proof -
  have b: "builder_build (\<lambda>i. Inr ()) (\<lambda>p. Inr ()) (example_module r k)
      (with_host_callbacks (with_module (with_engine builder_default))) = Ret (Inr example_evaluator)" for r k
    using example_evaluator_built [of r k] by (simp add: example_builder_def)
  show ?thesis
    by (simp add: policy_rehydrate_def rego_stack_new_from_pre_def rego_rehydrate_def example_platform_def
        deny_all_context_def b example_rego_stack_def)
qed

lemma example_policy_safe:
  "policy_safe example_platform deny_all_context
     (PreRego \<lparr>rp_entrypoint_id = 0, rp_policy_execution_mode = RegoGatekeeper\<rparr>)"
  by (simp add: example_platform_def example_module_safe example_setup_safe example_build_safe example_wire_def)


end
