(* ===== verification/GroupEvaluator.thy ===== *)
theory GroupEvaluator
  imports PolicyEvaluator
begin

text \<open>
  \<open>src/policy_group_evaluator.rs\<close> and \<open>src/policy_group_evaluator/\<close>: a group of policies and the
  Boolean expression over their verdicts. The expression is run by the Rhai engine, a library: the
  parameter \<open>engine\<close> gives, for the registered names and the text of the expression, a tree that
  calls the registered functions and ends with a Boolean or an error. Each call makes a fresh
  evaluator of the member and records its verdict.
\<close>

record PolicyGroupMemberSettings =
  gm_settings :: PolicySettings
  gm_allow_list :: "ContextAwareResource btset"
  gm_epoch_deadline :: "u64 option"

record MemberEvaluationResult =
  mr_allowed :: bool
  mr_message :: "string option"

definition member_result_from :: "AdmissionResponse \<Rightarrow> MemberEvaluationResult" where
  "member_result_from response =
     \<lparr>mr_allowed = resp_allowed response, mr_message = Option.bind (resp_status response) st_message\<rparr>"

definition display_member_result :: "MemberEvaluationResult \<Rightarrow> string" where
  "display_member_result self =
     (if mr_allowed self then ''[ALLOWED]'' else ''[DENIED]'') @
     (case mr_message self of Some message \<Rightarrow> '' - '' @ message | None \<Rightarrow> [])"

text \<open>The members as the custom resources of the policy SDK give them; the timeout is an \<open>i32\<close>.\<close>

record PolicyGroupMember =
  pgm_settings :: json
  pgm_context_aware_resources :: "(string \<times> string) list"
  pgm_timeout_eval_seconds :: "i32 option"

definition member_with_context_try_from :: "PolicyGroupMember \<Rightarrow> string + PolicyGroupMemberSettings" where
  "member_with_context_try_from member =
     bind_result (settings_try_from (pgm_settings member)) (\<lambda>settings.
       Inr \<lparr>gm_settings = settings,
         gm_allow_list = bs_from_iter (map car_from (pgm_context_aware_resources member)),
         gm_epoch_deadline = map_option (\<lambda>t. scast t) (pgm_timeout_eval_seconds member)\<rparr>)"

definition member_try_from :: "PolicyGroupMember \<Rightarrow> string + PolicyGroupMemberSettings" where
  "member_try_from member =
     bind_result (settings_try_from (pgm_settings member)) (\<lambda>settings.
       Inr \<lparr>gm_settings = settings, gm_allow_list = [],
         gm_epoch_deadline = map_option (\<lambda>t. scast t) (pgm_timeout_eval_seconds member)\<rparr>)"

datatype GroupEvaluationError =
    EvaluatorPreNotFound string
  | SettingsNotFound string
  | SettingsNotValid string
  | GroupPolicyNotFound string
  | CannotRehydratePolicyGroupMember string PolicyEvaluatorPreError
  | PolicyGroupRuntimeError string

fun display_group_error :: "GroupEvaluationError \<Rightarrow> string" where
  "display_group_error (EvaluatorPreNotFound s) = ''EvaluatorPre not found: '' @ s"
| "display_group_error (SettingsNotFound s) = ''settings not found policy: '' @ s"
| "display_group_error (SettingsNotValid s) = ''settings not valid: '' @ s"
| "display_group_error (GroupPolicyNotFound s) = ''unknown policy: '' @ s"
| "display_group_error (CannotRehydratePolicyGroupMember s e) =
     ''Attempted to rehydrated policy '' @ squote @ s @ squote @ '': '' @ display_policy_evaluator_pre_error e"
| "display_group_error (PolicyGroupRuntimeError e) =
     ''Policy group evaluation error: '' @ squote @ e @ squote"

subsection \<open>The engine\<close>

text \<open>The error of a call is its message and its source; the engine decides what becomes of it.\<close>

type_synonym call_result = "(string \<times> GroupEvaluationError) + bool"

datatype rhai =
    RhaiDone "string + bool"
  | RhaiCall string "call_result \<Rightarrow> rhai"

primrec run_rhai :: "(string \<Rightarrow> 'st \<Rightarrow> (call_result \<times> 'st) exec) \<Rightarrow> rhai \<Rightarrow> 'st \<Rightarrow> ((string + bool) \<times> 'st) exec" where
  "run_rhai f (RhaiDone r) st = Ret (r, st)"
| "run_rhai f (RhaiCall name k) st = bind_exec (f name st) (\<lambda>(r, st'). run_rhai f (k r) st')"

subsection \<open>The group\<close>

record ('pf, 'pre) PolicyGroupEvaluator =
  pg_policy_id :: string
  pg_message :: string
  pg_expression :: string
  pg_members :: "(string \<times> 'pf \<times> 'pre) list"
  pg_members_settings :: "(string \<times> PolicyGroupMemberSettings) list"
  pg_callback_channel :: "peer option"

definition group_new :: "string \<Rightarrow> string \<Rightarrow> string \<Rightarrow> peer option \<Rightarrow> ('pf, 'pre) PolicyGroupEvaluator" where
  "group_new policy message expression callback_channel =
     \<lparr>pg_policy_id = policy, pg_message = message, pg_expression = expression, pg_members = [],
       pg_members_settings = [], pg_callback_channel = callback_channel\<rparr>"

definition add_policy_member ::
  "('pf, 'pre) PolicyGroupEvaluator \<Rightarrow> string \<Rightarrow> 'pf \<times> 'pre \<Rightarrow> PolicyGroupMemberSettings
   \<Rightarrow> ('pf, 'pre) PolicyGroupEvaluator" where
  "add_policy_member self name policy_evaluator_pre settings =
     self\<lparr>pg_members_settings := hm_insert name settings (pg_members_settings self),
       pg_members := hm_insert name policy_evaluator_pre (pg_members self)\<rparr>"

definition debug_group :: "('pf, 'pre) PolicyGroupEvaluator \<Rightarrow> string" where
  "debug_group self =
     ''PolicyGroupEvaluator { id: '' @ [dquote] @ pg_policy_id self @ [dquote] @ '', message: '' @ [dquote] @
     pg_message self @ [dquote] @ '', expression: '' @ [dquote] @ pg_expression self @ [dquote] @
     '', policies: ['' @ join_with '', '' (map (\<lambda>p. debug_str (fst p)) (pg_members self)) @ ''] }''"

definition member_context :: "('pf, 'pre) PolicyGroupEvaluator \<Rightarrow> string \<Rightarrow> PolicyGroupMemberSettings \<Rightarrow> EvaluationContext" where
  "member_context self policy settings =
     \<lparr>ctx_policy_id = policy, ctx_callback_channel = pg_callback_channel self,
       ctx_aware_resources_allow_list = gm_allow_list settings, ctx_epoch_deadline = gm_epoch_deadline settings\<rparr>"

text \<open>The lookup that starts \<open>validate_policy\<close> and \<open>validate_policy_settings\<close>.\<close>

definition find_member ::
  "('pf, 'pre) PolicyGroupEvaluator \<Rightarrow> string
   \<Rightarrow> GroupEvaluationError + ('pf \<times> 'pre) \<times> PolicyGroupMemberSettings" where
  "find_member self policy =
     bind_result (ok_or (EvaluatorPreNotFound policy) (hm_get (pg_members self) policy)) (\<lambda>evaluator_pre.
     bind_result (ok_or (SettingsNotFound policy) (hm_get (pg_members_settings self) policy)) (\<lambda>settings.
     Inr (evaluator_pre, settings)))"

type_synonym ('op, 'wpre, 'engine, 'h, 's, 're, 'patch, 'ver, 'cpre) policy_group =
  "(('op, 'wpre, 'engine, 'h, 's, 're, 'patch, 'ver, 'cpre) platform, ('wpre, 'cpre) StackPre) PolicyGroupEvaluator"

definition validate_policy ::
  "('op, 'wpre, 'engine, 'h, 's, 're, 'patch, 'ver, 'cpre) policy_group \<Rightarrow> string \<Rightarrow> ValidateRequest \<Rightarrow> global_state
   \<Rightarrow> ((GroupEvaluationError + AdmissionResponse) \<times> global_state) exec" where
  "validate_policy self policy req gs =
     (case find_member self policy of
        Inl e \<Rightarrow> Ret (Inl e, gs)
      | Inr ((pf, pre), settings) \<Rightarrow>
          bind_exec (policy_rehydrate pf pre (member_context self policy settings) (fst gs)) (\<lambda>(r, st').
            case r of
              Inl e \<Rightarrow> Ret (Inl (CannotRehydratePolicyGroupMember policy e), (st', snd gs))
            | Inr evaluator \<Rightarrow>
                bind_exec (policy_evaluator_validate pf (gm_settings settings) evaluator req (st', snd gs))
                  (\<lambda>((response, _), gs'). Ret (Inr response, gs'))))"

definition mutation_denied :: MemberEvaluationResult where
  "mutation_denied = \<lparr>mr_allowed = False,
     mr_message = Some ''mutation is not allowed inside of policy group''\<rparr>"

text \<open>The function registered for a member, on the verdicts recorded so far.\<close>

definition member_call ::
  "('op, 'wpre, 'engine, 'h, 's, 're, 'patch, 'ver, 'cpre) policy_group \<Rightarrow> ValidateRequest \<Rightarrow> string
   \<Rightarrow> (string \<times> MemberEvaluationResult) list \<times> global_state
   \<Rightarrow> (call_result \<times> (string \<times> MemberEvaluationResult) list \<times> global_state) exec" where
  "member_call self request name = (\<lambda>(results, gs).
     bind_exec (validate_policy self name request gs) (\<lambda>(r, gs').
       Ret (case r of
          Inl e \<Rightarrow> (Inl (''error invoking '' @ pg_policy_id self @ ''/'' @ name, e), results, gs')
        | Inr response \<Rightarrow>
            if resp_patch response \<noteq> None
            then (Inr False, hm_insert name mutation_denied results, gs')
            else (Inr (resp_allowed response), hm_insert name (member_result_from response) results, gs'))))"

definition status_causes ::
  "string list \<Rightarrow> (string \<times> MemberEvaluationResult) list \<Rightarrow> StatusCause list" where
  "status_causes names results =
     List.map_filter (\<lambda>name. case hm_get results name of
         Some r \<Rightarrow> if mr_allowed r then None
           else Some (default_cause\<lparr>sc_field := Some (''spec.policies.'' @ name), sc_message := mr_message r\<rparr>)
       | None \<Rightarrow> None) names"

definition group_response ::
  "('pf, 'pre) PolicyGroupEvaluator \<Rightarrow> ValidateRequest \<Rightarrow> bool \<Rightarrow> (string \<times> MemberEvaluationResult) list \<Rightarrow> AdmissionResponse" where
  "group_response self request allowed results =
     \<lparr>resp_uid = request_uid request, resp_allowed = allowed, resp_patch_type = None, resp_patch = None,
       resp_status = (if allowed then None else
         Some (default_status\<lparr>st_message := Some (pg_message self), st_code := None,
           st_details := Some (default_details\<lparr>sd_causes :=
             status_causes (map fst (pg_members self)) results\<rparr>)\<rparr>)),
       resp_audit_annotations = None, resp_warnings = None\<rparr>"

definition group_validate ::
  "(string list \<Rightarrow> string \<Rightarrow> rhai) \<Rightarrow> ('op, 'wpre, 'engine, 'h, 's, 're, 'patch, 'ver, 'cpre) policy_group
   \<Rightarrow> ValidateRequest \<Rightarrow> global_state \<Rightarrow> (AdmissionResponse \<times> global_state) exec" where
  "group_validate engine self request gs =
     bind_exec (run_rhai (member_call self request)
         (engine (map fst (pg_members self)) (pg_expression self)) ([], gs)) (\<lambda>(r, results, gs').
       Ret ((case r of
           Inr allowed \<Rightarrow> group_response self request allowed results
         | Inl e \<Rightarrow> reject (request_uid request) (''error evaluating policy group expression: '' @ e) 500), gs'))"

subsection \<open>Settings\<close>

definition validate_policy_settings ::
  "('op, 'wpre, 'engine, 'h, 's, 're, 'patch, 'ver, 'cpre) policy_group \<Rightarrow> string \<Rightarrow> global_state
   \<Rightarrow> ((GroupEvaluationError + unit) \<times> global_state) exec" where
  "validate_policy_settings self policy gs =
     (case find_member self policy of
        Inl e \<Rightarrow> Ret (Inl e, gs)
      | Inr ((pf, pre), settings) \<Rightarrow>
          bind_exec (policy_rehydrate pf pre (member_context self policy settings) (fst gs)) (\<lambda>(r, st').
            case r of
              Inl e \<Rightarrow> Ret (Inl (CannotRehydratePolicyGroupMember policy e), (st', snd gs))
            | Inr evaluator \<Rightarrow>
                bind_exec (policy_evaluator_validate_settings pf evaluator (gm_settings settings) (st', snd gs))
                  (\<lambda>((response, _), gs').
                    Ret (if svr_valid response then Inr ()
                      else Inl (SettingsNotValid (''Policy settings are invalid: '' @
                        unwrap_or ''no message'' (svr_message response))), gs'))))"

fun settings_errors ::
  "('op, 'wpre, 'engine, 'h, 's, 're, 'patch, 'ver, 'cpre) policy_group \<Rightarrow> string list \<Rightarrow> (string \<times> string) list
   \<Rightarrow> global_state \<Rightarrow> ((string \<times> string) list \<times> global_state) exec" where
  "settings_errors self [] errors gs = Ret (errors, gs)"
| "settings_errors self (name # names) errors gs =
     bind_exec (validate_policy_settings self name gs) (\<lambda>(r, gs').
       settings_errors self names
         (case r of Inl e \<Rightarrow> hm_insert (pg_policy_id self @ ''/'' @ name) (display_group_error e) errors
          | Inr _ \<Rightarrow> errors) gs')"

text \<open>While settings are validated every registered function returns true.\<close>

definition say_true :: "string \<Rightarrow> unit \<Rightarrow> (call_result \<times> unit) exec" where
  "say_true name st = Ret (Inr True, st)"

definition group_validate_settings ::
  "(string list \<Rightarrow> string \<Rightarrow> rhai) \<Rightarrow> ('op, 'wpre, 'engine, 'h, 's, 're, 'patch, 'ver, 'cpre) policy_group
   \<Rightarrow> global_state \<Rightarrow> (SettingsValidationResponse \<times> global_state) exec" where
  "group_validate_settings engine self gs =
     bind_exec (settings_errors self (map fst (pg_members self)) [] gs) (\<lambda>(errors, gs').
     bind_exec (run_rhai say_true (engine (map fst (pg_members self)) (pg_expression self)) ())
       (\<lambda>(r, _).
       let policy_validation_errors =
           (case r of Inl e \<Rightarrow> hm_insert (pg_policy_id self) e errors | Inr _ \<Rightarrow> errors)
       in Ret (if policy_validation_errors = [] then \<lparr>svr_valid = True, svr_message = None\<rparr>
           else \<lparr>svr_valid = False, svr_message = Some (join_with '', ''
             (map (\<lambda>(policy, e). policy @ '': '' @ e) policy_validation_errors))\<rparr>, gs')))"

subsection \<open>Every request of a group is answered\<close>

definition member_safe ::
  "('op, 'wpre, 'engine, 'h, 's, 're, 'patch, 'ver, 'cpre) policy_group \<Rightarrow> string \<Rightarrow> bool" where
  "member_safe self name \<longleftrightarrow>
     (case find_member self name of
        Inl _ \<Rightarrow> True
      | Inr ((pf, pre), settings) \<Rightarrow> policy_safe pf (member_context self name settings) pre)"

text \<open>A request is granted to the group when it is granted to one of its members, with the resources
  that this member may see.\<close>

definition group_granted :: "('pf, 'pre) PolicyGroupEvaluator \<Rightarrow> CallbackRequestType \<Rightarrow> bool" where
  "group_granted self q \<longleftrightarrow> (\<exists>name settings. hm_get (pg_members_settings self) name = Some settings \<and>
     evaluation_granted (member_context self name settings) q)"

lemma find_member_settings:
  "find_member self name = Inr (p, settings) \<Longrightarrow> hm_get (pg_members_settings self) name = Some settings"
  by (auto simp: find_member_def)

lemma validate_policy_returns:
  assumes "member_safe self name"
  shows "\<exists>r gs'. validate_policy self name request gs = Ret (r, gs') \<and>
    (\<forall>resp. r = Inr resp \<longrightarrow> resp_uid resp = request_uid request \<and> patch_wf resp) \<and>
    sent_granted (group_granted self) (hs_sent (fst gs)) (hs_sent (fst gs'))"
proof (cases "find_member self name")
  case (Inl e)
  then show ?thesis by (simp add: validate_policy_def)
next
  case (Inr m)
  then obtain pf pre settings where m: "find_member self name = Inr ((pf, pre), settings)" by (cases m) auto
  let ?ctx = "member_context self name settings"
  have safe: "policy_safe pf ?ctx pre" using assms m by (simp add: member_safe_def)
  have granted: "evaluation_granted ?ctx q \<Longrightarrow> group_granted self q" for q
    using find_member_settings [OF m] by (auto simp: group_granted_def)
  obtain r st1 where 1: "policy_rehydrate pf pre ?ctx (fst gs) = Ret (r, st1)"
    "sent_granted (evaluation_granted ?ctx) (hs_sent (fst gs)) (hs_sent st1)"
    using rehydrate_returns [OF safe] by blast
  show ?thesis
  proof (cases r)
    case (Inl e)
    with m 1 sent_granted_weaken [OF 1(2) granted] show ?thesis by (simp add: validate_policy_def)
  next
    case (Inr ev)
    obtain resp ev' gs2 where "policy_evaluator_validate pf (gm_settings settings) ev request (st1, snd gs) = Ret ((resp, ev'), gs2)"
      "resp_uid resp = request_uid request" "patch_wf resp"
      "sent_granted (evaluation_granted ?ctx) (hs_sent st1) (hs_sent (fst gs2))"
      using evaluator_answers [OF rehydrate_invar [OF 1(1) [unfolded Inr] safe], of "gm_settings settings" request "(st1, snd gs)"]
      by auto
    with m 1 Inr show ?thesis
      by (auto simp: validate_policy_def intro: sent_granted_weaken [OF _ granted] sent_granted_trans)
  qed
qed

lemma member_call_returns:
  assumes "member_safe self name"
  shows "\<exists>r results' gs'. member_call self request name (results, gs) = Ret (r, results', gs') \<and>
    sent_granted (group_granted self) (hs_sent (fst gs)) (hs_sent (fst gs'))"
proof -
  obtain r gs' where "validate_policy self name request gs = Ret (r, gs')"
    "sent_granted (group_granted self) (hs_sent (fst gs)) (hs_sent (fst gs'))"
    using validate_policy_returns [OF assms, of request gs] by auto
  then show ?thesis by (cases r; cases gs') (auto simp: member_call_def)
qed

lemma run_rhai_returns:
  assumes "\<forall>name. member_safe self name"
  shows "\<exists>r results' gs'. run_rhai (member_call self request) t (results, gs) = Ret (r, results', gs') \<and>
    sent_granted (group_granted self) (hs_sent (fst gs)) (hs_sent (fst gs'))"
proof (induction t arbitrary: results gs)
  case (RhaiDone r)
  then show ?case by simp
next
  case (RhaiCall name k)
  obtain r results1 gs1 where 1: "member_call self request name (results, gs) = Ret (r, results1, gs1)"
    "sent_granted (group_granted self) (hs_sent (fst gs)) (hs_sent (fst gs1))"
    using member_call_returns [of self name request results gs] assms by blast
  from RhaiCall.IH [of "k r" results1 gs1] 1 show ?case
    by (auto intro: sent_granted_trans)
qed

subsection \<open>Boolean expressions\<close>

text \<open>
  The documented expressions of a group, with the short-circuit evaluation of the engine: the right
  operand is evaluated only when the left one does not decide, an error ends the evaluation, and
  so does the call of a function that is not registered.
\<close>

datatype bexp = BLit bool | BCall string | BNot bexp | BAnd bexp bexp | BOr bexp bexp

primrec bexp_tree ::
  "string list \<Rightarrow> (string \<Rightarrow> string) \<Rightarrow> (string \<times> GroupEvaluationError \<Rightarrow> string) \<Rightarrow> bexp \<Rightarrow> (bool \<Rightarrow> rhai) \<Rightarrow> rhai" where
  "bexp_tree names unknown render (BLit v) k = k v"
| "bexp_tree names unknown render (BCall name) k =
     (if name \<in> set names
      then RhaiCall name (\<lambda>r. case r of Inl e \<Rightarrow> RhaiDone (Inl (render e)) | Inr v \<Rightarrow> k v)
      else RhaiDone (Inl (unknown name)))"
| "bexp_tree names unknown render (BNot b) k = bexp_tree names unknown render b (\<lambda>v. k (\<not> v))"
| "bexp_tree names unknown render (BAnd a b) k =
     bexp_tree names unknown render a (\<lambda>v. if v then bexp_tree names unknown render b k else k False)"
| "bexp_tree names unknown render (BOr a b) k =
     bexp_tree names unknown render a (\<lambda>v. if v then k True else bexp_tree names unknown render b k)"

primrec bval :: "(string \<Rightarrow> bool) \<Rightarrow> bexp \<Rightarrow> bool" where
  "bval v (BLit x) = x"
| "bval v (BCall name) = v name"
| "bval v (BNot b) = (\<not> bval v b)"
| "bval v (BAnd a b) = (bval v a \<and> bval v b)"
| "bval v (BOr a b) = (bval v a \<or> bval v b)"

primrec called :: "(string \<Rightarrow> bool) \<Rightarrow> bexp \<Rightarrow> string set" where
  "called v (BLit x) = {}"
| "called v (BCall name) = {name}"
| "called v (BNot b) = called v b"
| "called v (BAnd a b) = called v a \<union> (if bval v a then called v b else {})"
| "called v (BOr a b) = called v a \<union> (if bval v a then {} else called v b)"

text \<open>The verdict of a member: allowed, and without a mutation.\<close>

definition member_verdict ::
  "('op, 'wpre, 'engine, 'h, 's, 're, 'patch, 'ver, 'cpre) policy_group \<Rightarrow> ValidateRequest \<Rightarrow> string \<Rightarrow> bool \<Rightarrow> bool" where
  "member_verdict self request name v \<longleftrightarrow>
     (\<forall>gs. \<exists>r gs'. validate_policy self name request gs = Ret (Inr r, gs') \<and>
        (resp_allowed r \<and> resp_patch r = None) = v)"

definition records :: "(string \<Rightarrow> bool) \<Rightarrow> string set \<Rightarrow> (string \<times> MemberEvaluationResult) list \<Rightarrow> bool" where
  "records v names results \<longleftrightarrow>
     (\<forall>name. (name \<in> names \<longleftrightarrow> hm_get results name \<noteq> None) \<and>
        (\<forall>r. hm_get results name = Some r \<longrightarrow> mr_allowed r = v name))"

lemma member_call_verdict:
  assumes "member_verdict self request name (v name)" "records v names results"
  shows "\<exists>results' gs'. member_call self request name (results, gs) = Ret (Inr (v name), results', gs') \<and>
    records v (insert name names) results'"
proof -
  obtain r gs' where r: "validate_policy self name request gs = Ret (Inr r, gs')"
    "(resp_allowed r \<and> resp_patch r = None) = v name"
    using assms(1) unfolding member_verdict_def by blast
  let ?x = "if resp_patch r \<noteq> None then mutation_denied else member_result_from r"
  have "mr_allowed ?x = v name" using r(2) by (auto simp: mutation_denied_def member_result_from_def)
  with assms(2) have "records v (insert name names) (hm_insert name ?x results)"
    by (auto simp: records_def hm_get_insert)
  with r show ?thesis by (cases gs'; cases "resp_patch r") (auto simp: member_call_def)
qed

lemma run_bexp:
  assumes "\<forall>name \<in> called v b. name \<in> set ns \<and> member_verdict self request name (v name)" "records v names results"
  shows "\<exists>results' gs'. records v (names \<union> called v b) results' \<and>
    run_rhai (member_call self request) (bexp_tree ns unknown render b k) (results, gs) =
    run_rhai (member_call self request) (k (bval v b)) (results', gs')"
  using assms
proof (induction b arbitrary: k names results gs)
  case (BLit x)
  then show ?case by (intro exI [of _ results] exI [of _ gs]) simp
next
  case (BCall name)
  then obtain results' gs' where "member_call self request name (results, gs) = Ret (Inr (v name), results', gs')"
    "records v (insert name names) results'"
    using member_call_verdict [of self request name v names results gs] by auto
  with BCall.prems show ?case by (intro exI [of _ results'] exI [of _ gs']) simp
next
  case (BNot b)
  then show ?case using BNot.IH [of names results "\<lambda>v. k (\<not> v)" gs] by simp
next
  case (BAnd a b)
  let ?k = "\<lambda>v. if v then bexp_tree ns unknown render b k else k False"
  obtain results1 gs1 where 1: "records v (names \<union> called v a) results1"
    "run_rhai (member_call self request) (bexp_tree ns unknown render a ?k) (results, gs) =
     run_rhai (member_call self request) (?k (bval v a)) (results1, gs1)"
    using BAnd.IH(1) [of names results ?k gs] BAnd.prems by auto
  show ?case
  proof (cases "bval v a")
    case True
    with BAnd.IH(2) [of "names \<union> called v a" results1 k gs1] BAnd.prems 1 show ?thesis by (auto simp: Un_assoc)
  next
    case False
    with 1 show ?thesis by (intro exI [of _ results1] exI [of _ gs1]) simp
  qed
next
  case (BOr a b)
  let ?k = "\<lambda>v. if v then k True else bexp_tree ns unknown render b k"
  obtain results1 gs1 where 1: "records v (names \<union> called v a) results1"
    "run_rhai (member_call self request) (bexp_tree ns unknown render a ?k) (results, gs) =
     run_rhai (member_call self request) (?k (bval v a)) (results1, gs1)"
    using BOr.IH(1) [of names results ?k gs] BOr.prems by auto
  show ?case
  proof (cases "bval v a")
    case False
    with BOr.IH(2) [of "names \<union> called v a" results1 k gs1] BOr.prems 1 show ?thesis by (auto simp: Un_assoc)
  next
    case True
    with 1 show ?thesis by (intro exI [of _ results1] exI [of _ gs1]) simp
  qed
qed

lemma status_causes_fields:
  assumes "records v names results"
  shows "map sc_field (status_causes ms results) =
    map (\<lambda>name. Some (''spec.policies.'' @ name)) (filter (\<lambda>name. name \<in> names \<and> \<not> v name) ms)"
proof (induction ms)
  case (Cons m ms)
  have "hm_get results m = None \<longleftrightarrow> m \<notin> names" "\<And>r. hm_get results m = Some r \<Longrightarrow> mr_allowed r = v m"
    using assms by (auto simp: records_def)
  with Cons show ?case
    by (cases "hm_get results m") (auto simp: status_causes_def List.map_filter_simps)
qed (simp add: status_causes_def)

lemma run_all_true:
  "called (\<lambda>_. True) b \<subseteq> set ns \<Longrightarrow>
     run_rhai say_true (bexp_tree ns unknown render b k) st = run_rhai say_true (k (bval (\<lambda>_. True) b)) st"
  by (induction b arbitrary: k) (simp_all add: say_true_def split: if_split_asm)

lemma run_all_true_unknown:
  "\<not> called (\<lambda>_. True) b \<subseteq> set ns \<Longrightarrow>
     \<exists>e. run_rhai say_true (bexp_tree ns unknown render b k) st = Ret (Inl e, st)"
proof (induction b arbitrary: k)
  case (BAnd a b)
  show ?case
  proof (cases "called (\<lambda>_. True) a \<subseteq> set ns")
    case True
    with BAnd.prems BAnd.IH(2) [of k] show ?thesis
      by (simp add: run_all_true [OF True] split: if_split_asm)
  next
    case False
    with BAnd.IH(1) show ?thesis by simp
  qed
next
  case (BOr a b)
  show ?case
  proof (cases "called (\<lambda>_. True) a \<subseteq> set ns")
    case True
    with BOr.prems BOr.IH(2) [of k] show ?thesis
      by (simp add: run_all_true [OF True] split: if_split_asm)
  next
    case False
    with BOr.IH(1) show ?thesis by simp
  qed
qed auto

subsection \<open>Properties\<close>

text \<open>C4: when the members of a group have definite verdicts, the group allows a request exactly when
  its Boolean expression holds of the verdicts, where a member that mutates counts as denied; a
  denied request carries the message of the group and one cause for each member that the
  evaluation called and that denied, and no other member is named.\<close>

theorem group_verdict:
  assumes "engine (map fst (pg_members self)) (pg_expression self) =
      bexp_tree (map fst (pg_members self)) unknown render b (\<lambda>v. RhaiDone (Inr v))"
    and "\<forall>name \<in> called v b. name \<in> fst ` set (pg_members self) \<and> member_verdict self request name (v name)"
  shows "\<exists>r gs'. group_validate engine self request gs = Ret (r, gs') \<and> resp_allowed r = bval v b \<and>
    (case resp_status r of
       None \<Rightarrow> bval v b
     | Some status \<Rightarrow> \<not> bval v b \<and> st_message status = Some (pg_message self) \<and>
         map_option (\<lambda>d. map sc_field (sd_causes d)) (st_details status) =
         Some (map (\<lambda>name. Some (''spec.policies.'' @ name))
           (filter (\<lambda>name. name \<in> called v b \<and> \<not> v name) (map fst (pg_members self)))))"
proof -
  have "records v {} []" by (simp add: records_def hm_get_def)
  moreover have "\<forall>name \<in> called v b. name \<in> set (map fst (pg_members self)) \<and>
      member_verdict self request name (v name)" using assms(2) by simp
  ultimately obtain results gs' where "records v (called v b) results" and "run_rhai (member_call self request)
      (bexp_tree (map fst (pg_members self)) unknown render b (\<lambda>v. RhaiDone (Inr v))) ([], gs) =
      Ret (Inr (bval v b), results, gs')"
    using run_bexp [of v b "map fst (pg_members self)" self request "{}" "[]" unknown render "\<lambda>v. RhaiDone (Inr v)" gs]
    by auto
  with status_causes_fields [of v "called v b" results "map fst (pg_members self)"] assms(1) show ?thesis
    by (simp add: group_validate_def group_response_def)
qed


definition settings_verdict ::
  "('op, 'wpre, 'engine, 'h, 's, 're, 'patch, 'ver, 'cpre) policy_group \<Rightarrow> string \<Rightarrow> bool \<Rightarrow> bool" where
  "settings_verdict self name v \<longleftrightarrow>
     (\<forall>gs. \<exists>r gs'. validate_policy_settings self name gs = Ret (r, gs') \<and> is_ok r = v)"

lemma hm_insert_not_Nil [simp]: "hm_insert k v m \<noteq> []"
  by (cases "(k, v, m)" rule: hm_insert.cases) simp_all

lemma settings_errors_verdict:
  assumes "\<forall>name \<in> set names. settings_verdict self name (v name)"
  shows "\<exists>errors gs'. settings_errors self names errs gs = Ret (errors, gs') \<and>
    (errors = [] \<longleftrightarrow> errs = [] \<and> (\<forall>name \<in> set names. v name))"
  using assms
proof (induction names arbitrary: errs gs)
  case (Cons name names)
  then obtain r gs1 where r: "validate_policy_settings self name gs = Ret (r, gs1)" "is_ok r = v name"
    unfolding settings_verdict_def by (meson list.set_intros(1))
  let ?errs = "case r of Inl e \<Rightarrow> hm_insert (pg_policy_id self @ ''/'' @ name) (display_group_error e) errs | Inr _ \<Rightarrow> errs"
  obtain errors gs' where "settings_errors self names ?errs gs1 = Ret (errors, gs')"
    "errors = [] \<longleftrightarrow> ?errs = [] \<and> (\<forall>name \<in> set names. v name)"
    using Cons.IH [of ?errs gs1] Cons.prems by auto
  with r show ?case by (cases r) auto
qed simp

text \<open>C33: the settings of a group are valid exactly when the settings of every member are and the
  calls that its expression makes while every member says yes are calls of members: an unknown
  member behind an operand that is not evaluated then is accepted.\<close>

theorem group_settings_valid:
  assumes "engine (map fst (pg_members self)) (pg_expression self) =
      bexp_tree (map fst (pg_members self)) unknown render b (\<lambda>v. RhaiDone (Inr v))"
    and "\<forall>name \<in> fst ` set (pg_members self). settings_verdict self name (v name)"
  shows "\<exists>resp gs'. group_validate_settings engine self gs = Ret (resp, gs') \<and>
    (svr_valid resp \<longleftrightarrow> (\<forall>name \<in> fst ` set (pg_members self). v name) \<and>
       called (\<lambda>_. True) b \<subseteq> fst ` set (pg_members self))"
proof -
  have "\<forall>name \<in> set (map fst (pg_members self)). settings_verdict self name (v name)" using assms(2) by simp
  from settings_errors_verdict [OF this, of "[]" gs] obtain errors gs'
    where e: "settings_errors self (map fst (pg_members self)) [] gs = Ret (errors, gs')"
      "errors = [] \<longleftrightarrow> (\<forall>name \<in> fst ` set (pg_members self). v name)" by auto
  show ?thesis
  proof (cases "called (\<lambda>_. True) b \<subseteq> set (map fst (pg_members self))")
    case True
    with e assms(1) show ?thesis by (simp add: group_validate_settings_def run_all_true Let_def)
  next
    case False
    from run_all_true_unknown [OF this, of unknown render "\<lambda>v. RhaiDone (Inr v)" "()"] obtain x
      where "run_rhai say_true (bexp_tree (map fst (pg_members self)) unknown render b (\<lambda>v. RhaiDone (Inr v))) () =
        Ret (Inl x, ())" by blast
    with e(1) assms(1) have "group_validate_settings engine self gs = Ret (\<lparr>svr_valid = False, svr_message =
        Some (join_with '', '' (map (\<lambda>(policy, e). policy @ '': '' @ e) (hm_insert (pg_policy_id self) x errors)))\<rparr>, gs')"
      by (simp add: group_validate_settings_def Let_def)
    with False show ?thesis by simp
  qed
qed

subsection \<open>A small group\<close>

definition denying_platform ::
  "(unit, unit, unit, nat, bytes, unit, unit, unit, unit) platform" where
  "denying_platform = example_platform\<lparr>pf_opa := example_module
     (Array [Object [(''result'', Array [Object [(''msg'', String ''no'')]])]]) (EvalDone (Inr 0))\<rparr>"

definition example_settings :: PolicyGroupMemberSettings where
  "example_settings = \<lparr>gm_settings = [], gm_allow_list = [], gm_epoch_deadline = None\<rparr>"

definition example_group ::
  "(unit, unit, unit, nat, bytes, unit, unit, unit, unit) policy_group" where
  "example_group = add_policy_member (add_policy_member (group_new ''g'' ''not allowed'' ''a() && b()'' None)
     ''a'' (example_platform, PreRego \<lparr>rp_entrypoint_id = 0, rp_policy_execution_mode = RegoGatekeeper\<rparr>) example_settings)
     ''b'' (denying_platform, PreRego \<lparr>rp_entrypoint_id = 0, rp_policy_execution_mode = RegoGatekeeper\<rparr>) example_settings"

definition example_engine :: "bexp \<Rightarrow> string list \<Rightarrow> string \<Rightarrow> rhai" where
  "example_engine b names expression =
     bexp_tree names (\<lambda>name. ''Function not found: '' @ name) fst b (\<lambda>v. RhaiDone (Inr v))"

lemma example_members: "map fst (pg_members example_group) = [''a'', ''b'']"
  by (simp add: example_group_def add_policy_member_def group_new_def)

lemma example_find:
  "find_member example_group ''a'' = Inr ((example_platform,
     PreRego \<lparr>rp_entrypoint_id = 0, rp_policy_execution_mode = RegoGatekeeper\<rparr>), example_settings)"
  "find_member example_group ''b'' = Inr ((denying_platform,
     PreRego \<lparr>rp_entrypoint_id = 0, rp_policy_execution_mode = RegoGatekeeper\<rparr>), example_settings)"
  by (simp_all add: find_member_def example_group_def add_policy_member_def group_new_def hm_get_def)

lemma example_rehydrate:
  "policy_rehydrate (example_platform\<lparr>pf_opa := example_module result (EvalDone (Inr 0))\<rparr>)
     (PreRego \<lparr>rp_entrypoint_id = 0, rp_policy_execution_mode = RegoGatekeeper\<rparr>)
     (member_context example_group name example_settings) st =
   Ret (Inr \<lparr>pe_runtime = RuntimeRego (example_rego_stack RegoGatekeeper),
     pe_eval_ctx = member_context example_group name example_settings\<rparr>, st)"
proof -
  have "builder_build (\<lambda>i. Inr ()) (\<lambda>p. Inr ()) (example_module r k)
      (with_host_callbacks (with_module (with_engine builder_default))) = Ret (Inr example_evaluator)" for r k
    using example_evaluator_built [of r k] by (simp add: example_builder_def)
  then show ?thesis
    by (simp add: policy_rehydrate_def rego_stack_new_from_pre_def rego_rehydrate_def
        member_context_def example_settings_def example_rego_stack_def)
qed

lemma example_no_settings: "gm_settings example_settings = []"
  by (simp add: example_settings_def)

lemma example_platform_opa:
  "example_platform = example_platform\<lparr>pf_opa := example_module malformed_result (EvalDone (Inr 0))\<rparr>"
  by (simp add: example_platform_def)

lemma example_validate:
  assumes "example_evaluator' = \<lparr>pe_runtime = RuntimeRego (example_rego_stack RegoGatekeeper),
     pe_eval_ctx = member_context example_group name example_settings\<rparr>"
  shows "\<exists>ev. policy_evaluator_validate (example_platform\<lparr>pf_opa := example_module result (EvalDone (Inr 0))\<rparr>) []
     example_evaluator' (AdmissionReq example_admission_request) gs = Ret ((gatekeeper_response ''u1'' result, ev), gs)"
  using assms
  by (cases gs) (simp add: policy_evaluator_validate_def with_runtime_def build_kubernetes_context_def member_context_def
      example_settings_def rego_validate_def evaluate_gatekeeper_def example_rego_stack_def example_evaluate
      max_i32_def example_admission_request_def Let_def)

lemma example_verdicts:
  "member_verdict example_group (AdmissionReq example_admission_request) ''a'' True"
  "member_verdict example_group (AdmissionReq example_admission_request) ''b'' False"
proof -
  have a: "resp_allowed (gatekeeper_response ''u1'' malformed_result)" and b: "\<not> resp_allowed (gatekeeper_response ''u1''
      (Array [Object [(''result'', Array [Object [(''msg'', String ''no'')]])]]))"
    by (simp_all add: malformed_result_def gatekeeper_violations_def)
  have p: "resp_patch (gatekeeper_response u j) = None" for u j
    by (simp add: gatekeeper_response_def default_response_def Let_def)
  have "\<exists>gs'. validate_policy example_group ''a'' (AdmissionReq example_admission_request) gs =
      Ret (Inr (gatekeeper_response ''u1'' malformed_result), gs')" for gs
    using example_validate [OF refl, where name = "''a''" and result = malformed_result and gs = gs]
    by (auto simp: validate_policy_def example_find example_no_settings example_platform_opa [symmetric]
        example_rehydrate [of malformed_result, folded example_platform_opa])
  with a p show "member_verdict example_group (AdmissionReq example_admission_request) ''a'' True"
    unfolding member_verdict_def by metis
  have "\<exists>gs'. validate_policy example_group ''b'' (AdmissionReq example_admission_request) gs =
      Ret (Inr (gatekeeper_response ''u1'' (Array [Object [(''result'', Array [Object [(''msg'', String ''no'')]])]])), gs')" for gs
    using example_validate [OF refl, where name = "''b''" and gs = gs and
      result = "Array [Object [(''result'', Array [Object [(''msg'', String ''no'')]])]]"]
    by (auto simp: validate_policy_def example_find example_no_settings denying_platform_def example_rehydrate)
  with b p show "member_verdict example_group (AdmissionReq example_admission_request) ''b'' False"
    unfolding member_verdict_def by metis
qed

theorem group_verdict_witness:
  "\<exists>r gs'. group_validate (example_engine (BAnd (BCall ''a'') (BNot (BCall ''b'')))) example_group
      (AdmissionReq example_admission_request) (host_init, []) = Ret (r, gs') \<and> resp_allowed r"
proof -
  let ?v = "\<lambda>name. name = ''a''" and ?b = "BAnd (BCall ''a'') (BNot (BCall ''b''))"
  have ms: "fst ` set (pg_members example_group) = {''a'', ''b''}"
    using arg_cong [OF example_members, of set] by simp
  have e: "example_engine ?b (map fst (pg_members example_group)) (pg_expression example_group) =
      bexp_tree (map fst (pg_members example_group)) (\<lambda>name. ''Function not found: '' @ name) fst ?b (\<lambda>v. RhaiDone (Inr v))"
    by (simp add: example_engine_def)
  have "\<forall>name \<in> called ?v ?b. name \<in> fst ` set (pg_members example_group) \<and>
      member_verdict example_group (AdmissionReq example_admission_request) name (?v name)"
    using example_verdicts by (simp add: ms)
  from group_verdict [where engine = "example_engine ?b" and gs = "(host_init, [])", OF e this] show ?thesis by auto
qed

lemma example_member_safe: "member_safe example_group name"
proof (cases "name = ''a'' \<or> name = ''b''")
  case True
  then show ?thesis
    by (auto simp: member_safe_def example_find example_platform_def denying_platform_def example_module_safe
        example_setup_safe example_build_safe example_wire_def)
next
  case False
  then have "find_member example_group name = Inl (EvaluatorPreNotFound name)"
    by (simp add: find_member_def example_group_def add_policy_member_def group_new_def hm_get_def)
  then show ?thesis by (simp add: member_safe_def)
qed


lemma example_settings_verdicts:
  "settings_verdict example_group ''a'' True" "settings_verdict example_group ''b'' True"
proof -
  have w: "json_to_string (pf_wire example_platform) j = Inr ''{}''" for j
    by (simp add: example_platform_def example_wire_def)
  have "validate_policy_settings example_group ''a'' gs = Ret (Inr (), gs)" for gs
    by (cases gs) (simp add: validate_policy_settings_def example_find example_no_settings policy_evaluator_validate_settings_def
        w rego_validate_settings_def example_rehydrate [of malformed_result, folded example_platform_opa])
  then show "settings_verdict example_group ''a'' True" by (simp add: settings_verdict_def)
  have "validate_policy_settings example_group ''b'' gs = Ret (Inr (), gs)" for gs
    by (cases gs) (simp add: validate_policy_settings_def example_find example_no_settings policy_evaluator_validate_settings_def
        w rego_validate_settings_def denying_platform_def example_rehydrate)
  then show "settings_verdict example_group ''b'' True" by (simp add: settings_verdict_def)
qed

theorem group_settings_valid_witness:
  "\<exists>resp gs'. group_validate_settings (example_engine (BOr (BCall ''a'') (BCall ''typo''))) example_group (host_init, []) =
     Ret (resp, gs') \<and> svr_valid resp"
proof -
  let ?b = "BOr (BCall ''a'') (BCall ''typo'')"
  have ms: "fst ` set (pg_members example_group) = {''a'', ''b''}"
    using arg_cong [OF example_members, of set] by simp
  have e: "example_engine ?b (map fst (pg_members example_group)) (pg_expression example_group) =
      bexp_tree (map fst (pg_members example_group)) (\<lambda>name. ''Function not found: '' @ name) fst ?b (\<lambda>v. RhaiDone (Inr v))"
    by (simp add: example_engine_def)
  have "\<forall>name \<in> fst ` set (pg_members example_group). settings_verdict example_group name True"
    using example_settings_verdicts by (simp add: ms)
  from group_settings_valid [where engine = "example_engine ?b" and gs = "(host_init, [])" and v = "\<lambda>_. True", OF e this]
  show ?thesis by (auto simp: ms)
qed

end
