(* ===== verification/TimedCache.thy ===== *)
theory TimedCache
  imports EvalContext
begin

text \<open>
  The attribute \<^theory_text>\<open>cached\<close> of the asynchronous functions (\<open>src/callback_handler/oci.rs\<close>,
  \<open>sigstore_verification.rs\<close> and \<open>kubernetes.rs\<close>), with the arguments the code gives it: the value
  of \<^theory_text>\<open>convert\<close> is the key, only successful results are stored (\<^theory_text>\<open>result = true\<close>), a result found
  in the cache has its flag raised (\<^theory_text>\<open>with_cached_flag\<close>), and the cache stays locked while a
  result is computed (\<^theory_text>\<open>sync_writes\<close>), so a call is one step (\<open>SingleFlight\<close> has its actions). How long a stored value is fresh
  is decided by the library: \<^theory_text>\<open>fresh t now\<close> is a parameter of every call.

  The keys that are made with \<^theory_text>\<open>format!\<close> are strings; the second part of the theory shows when such a
  key determines what it was made from.
\<close>

subsection \<open>Cached calls\<close>

record 'v cached_return =
  cr_value :: 'v
  cr_was_cached :: bool

definition return_new :: "'v \<Rightarrow> 'v cached_return" where
  "return_new v = \<lparr>cr_value = v, cr_was_cached = False\<rparr>"

type_synonym ('k, 'v) timed_cache = "('k \<times> 'v \<times> instant) list"

definition cache_get ::
  "(instant \<Rightarrow> instant \<Rightarrow> bool) \<Rightarrow> instant \<Rightarrow> 'k \<Rightarrow> ('k, 'v) timed_cache \<Rightarrow> 'v option" where
  "cache_get fresh now k c =
     (case hm_get c k of Some (v, t) \<Rightarrow> if fresh t now then Some v else None | None \<Rightarrow> None)"

definition cache_set :: "instant \<Rightarrow> 'k \<Rightarrow> 'v \<Rightarrow> ('k, 'v) timed_cache \<Rightarrow> ('k, 'v) timed_cache" where
  "cache_set now k v c = hm_insert k (v, now) c"

definition cached_call ::
  "(instant \<Rightarrow> instant \<Rightarrow> bool) \<Rightarrow> instant \<Rightarrow> 'k
   \<Rightarrow> ('s \<Rightarrow> (('e + 'v cached_return) \<times> 's) exec)
   \<Rightarrow> ('k, 'v cached_return) timed_cache \<Rightarrow> 's
   \<Rightarrow> (('e + 'v cached_return) \<times> ('k, 'v cached_return) timed_cache \<times> 's) exec" where
  "cached_call fresh now k compute c s =
     (case cache_get fresh now k c of
        Some r \<Rightarrow> Ret (Inr (r\<lparr>cr_was_cached := True\<rparr>), c, s)
      | None \<Rightarrow> bind_exec (compute s) (\<lambda>(res, s').
          Ret (res, (case res of Inl e \<Rightarrow> c | Inr r \<Rightarrow> cache_set now k r c), s')))"

subsection \<open>The contract of the cache\<close>

text \<open>
  A store of timed values promises that a lookup finds the last value stored under its key while
  it is fresh. From this follows the invariant of every cache of the program: what a lookup finds
  is justified by an earlier computation that is still fresh.
\<close>

locale timed_store =
  fixes fresh :: "instant \<Rightarrow> instant \<Rightarrow> bool"
    and empty :: 'c
    and lookup :: "instant \<Rightarrow> 'k \<Rightarrow> 'c \<Rightarrow> 'v option"
    and store :: "instant \<Rightarrow> 'k \<Rightarrow> 'v \<Rightarrow> 'c \<Rightarrow> 'c"
  assumes lookup_empty: "lookup t k empty = None"
    and lookup_store: "lookup t' k' (store t k v c) =
      (if k' = k then (if fresh t t' then Some v else None) else lookup t' k' c)"
begin

definition justified :: "(instant \<Rightarrow> 'k \<Rightarrow> 'v \<Rightarrow> bool) \<Rightarrow> 'c \<Rightarrow> bool" where
  "justified P c \<longleftrightarrow> (\<forall>k v t. lookup t k c = Some v \<longrightarrow> (\<exists>t0. fresh t0 t \<and> P t0 k v))"

lemma justified_empty: "justified P empty"
  by (simp add: justified_def lookup_empty)

lemma justified_store: "justified P c \<Longrightarrow> P t k v \<Longrightarrow> justified P (store t k v c)"
  by (auto simp: justified_def lookup_store split: if_splits)

lemma justified_lookup: "justified P c \<Longrightarrow> lookup t k c = Some v \<Longrightarrow> \<exists>t0. fresh t0 t \<and> P t0 k v"
  by (simp add: justified_def)

lemma justified_mono: "justified P c \<Longrightarrow> (\<And>t k v. P t k v \<Longrightarrow> Q t k v) \<Longrightarrow> justified Q c"
  unfolding justified_def by blast

end

interpretation memo: timed_store fresh "[]" "cache_get fresh" cache_set for fresh
  by unfold_locales (auto simp: cache_get_def cache_set_def hm_get_insert hm_get_def [of "[]"])

text \<open>
  One cached call. Its cases: a hit returns the stored value with the flag raised and changes
  nothing; a miss returns what was computed and stores it when it is a success.
\<close>

lemma cached_call_hit:
  "cache_get fresh now k c = Some r \<Longrightarrow>
   cached_call fresh now k compute c s = Ret (Inr (r\<lparr>cr_was_cached := True\<rparr>), c, s)"
  by (simp add: cached_call_def)

lemma cached_call_miss:
  "cache_get fresh now k c = None \<Longrightarrow> compute s = Ret (res, s') \<Longrightarrow>
   cached_call fresh now k compute c s =
     Ret (res, (case res of Inl e \<Rightarrow> c | Inr r \<Rightarrow> cache_set now k r c), s')"
  by (simp add: cached_call_def)

lemma cached_call_cases:
  assumes "cached_call fresh now k compute c s = Ret (res, c', s')"
  obtains (hit) r where "cache_get fresh now k c = Some r" "res = Inr (r\<lparr>cr_was_cached := True\<rparr>)"
      "c' = c" "s' = s"
  | (failed) e where "cache_get fresh now k c = None" "compute s = Ret (Inl e, s')" "res = Inl e" "c' = c"
  | (computed) r where "cache_get fresh now k c = None" "compute s = Ret (Inr r, s')" "res = Inr r"
      "c' = cache_set now k r c"
proof (cases "cache_get fresh now k c")
  case (Some r)
  show ?thesis by (rule hit [OF Some]) (use assms Some in \<open>simp_all add: cached_call_def\<close>)
next
  case None
  then obtain res1 s1 where run: "compute s = Ret (res1, s1)"
    using assms by (cases "compute s") (auto simp: cached_call_def bind_exec_def)
  then have *: "res = res1" "s' = s1" "c' = (case res1 of Inl e \<Rightarrow> c | Inr r \<Rightarrow> cache_set now k r c)"
    using assms None by (auto simp add: cached_call_def)
  show ?thesis
  proof (cases res1)
    case (Inl e)
    show ?thesis by (rule failed) (use * None run Inl in simp_all)
  next
    case (Inr r)
    show ?thesis by (rule computed) (use * None run Inr in simp_all)
  qed
qed

text \<open>
  A cached call keeps a justified cache justified, and a success it gives is justified by a
  computation now or by one that is still fresh.
\<close>

lemma cached_call_justified:
  assumes run: "cached_call fresh now k compute c s = Ret (res, c', s')"
    and just: "memo.justified fresh P c"
    and ok: "\<And>r s'. compute s = Ret (Inr r, s') \<Longrightarrow> P now k r"
  shows "memo.justified fresh P c'"
    and "res = Inr r \<Longrightarrow>
      (P now k r) \<or> (\<exists>t0 r0. fresh t0 now \<and> P t0 k r0 \<and> r = r0\<lparr>cr_was_cached := True\<rparr>)"
proof -
  show "memo.justified fresh P c'"
    using run by (cases rule: cached_call_cases) (auto intro: just memo.justified_store ok)
  assume res: "res = Inr r"
  show "(P now k r) \<or> (\<exists>t0 r0. fresh t0 now \<and> P t0 k r0 \<and> r = r0\<lparr>cr_was_cached := True\<rparr>)"
    using run
  proof (cases rule: cached_call_cases)
    case (hit r0)
    then show ?thesis using memo.justified_lookup [OF just hit(1)] res by auto
  qed (use res ok in auto)
qed

lemma cached_call_state:
  assumes "cached_call fresh now k compute c s = Ret (res, c', s')"
  shows "s' = s \<or> (\<exists>res. compute s = Ret (res, s'))"
  using assms by (cases rule: cached_call_cases) auto

lemma cached_call_no_panic: "no_panic (compute s) \<Longrightarrow> no_panic (cached_call fresh now k compute c s)"
  by (cases "compute s") (auto simp: cached_call_def split: option.splits)

end
