(* ===== verification/CacheKeys.thy ===== *)
theory CacheKeys
  imports TimedCache
begin

text \<open>
  The keys of the caches that \<^theory_text>\<open>format!\<close> makes from an image, the \<open>Debug\<close> form of the keys and
  the \<open>Debug\<close> form of the annotations. The image is copied as it is, so the question is whether the
  rest can be told apart from it: it can, because every bracket of the rest but the first one
  stands between quotes.
\<close>

subsection \<open>The Debug form determines the string\<close>

lemma hex_digit_inj:
  assumes "m < 16" "n < 16"
  shows "hex_digit m = hex_digit n \<longleftrightarrow> m = n"
proof
  assume "hex_digit m = hex_digit n"
  then have "(if m < 10 then 48 + m else 87 + m) = (if n < 10 then 48 + n else 87 + n)"
    using of_char_hex_digit [OF assms(1)] of_char_hex_digit [OF assms(2)] by metis
  with assms show "m = n" by (simp split: if_splits)
qed simp

lemma hex_digit_brace:
  assumes "n < 16"
  shows "hex_digit n \<noteq> CHR ''}''" "hex_digit n \<noteq> CHR ''[''"
proof -
  have "(of_char (hex_digit n) :: nat) \<noteq> of_char (CHR ''}'')" "(of_char (hex_digit n) :: nat) \<noteq> of_char (CHR ''['')"
    using of_char_hex_digit [OF assms] assms by simp_all
  then show "hex_digit n \<noteq> CHR ''}''" "hex_digit n \<noteq> CHR ''[''" by metis+
qed

lemma of_char_digits:
  assumes "(of_char c :: nat) div 16 = of_char d div 16" "(of_char c :: nat) mod 16 = of_char d mod 16"
  shows "c = d"
proof -
  have "(of_char c :: nat) = of_char d"
    using assms by (metis div_mult_mod_eq)
  then show ?thesis by simp
qed

lemma of_char_div_16: "(of_char c :: nat) div 16 < 16"
  using nat_of_char_less_256 [of c] by (simp add: less_mult_imp_div_less)

text \<open>The forms of a character, with what tells them apart.\<close>

lemma debug_char_forms:
  obtains (short) d where "c \<in> {CHR 0x00, CHR 0x09, CHR 0x0D, CHR 0x0A, bs, dquote}"
      "debug_char c = [bs, d]" "d \<noteq> CHR ''u''"
      "(c, d) \<in> {(CHR 0x00, CHR ''0''), (CHR 0x09, CHR ''t''), (CHR 0x0D, CHR ''r''), (CHR 0x0A, CHR ''n''),
        (bs, bs), (dquote, dquote)}"
  | (one) "(of_char c :: nat) < 16" "debug_char c = [bs, CHR ''u'', CHR ''{'', hex_digit (of_char c), CHR ''}'']"
  | (two) "debug_char c = [bs, CHR ''u'', CHR ''{'', hex_digit (of_char c div 16), hex_digit (of_char c mod 16), CHR ''}'']"
  | (none) "c \<noteq> bs" "c \<noteq> dquote" "debug_char c = [c]"
proof (cases "c \<in> {CHR 0x00, CHR 0x09, CHR 0x0D, CHR 0x0A, bs, dquote}")
  case True
  then show ?thesis
    by (elim insertE; intro short) (auto simp: debug_char_def bs_def dquote_def)
next
  case False
  then show ?thesis
    by (cases "(of_char c :: nat) < 16"; cases "(of_char c :: nat) < 32 \<or> (of_char c :: nat) = 127")
      (auto simp: debug_char_def intro: one two none)
qed

lemma debug_char_prefix_free:
  assumes "debug_char c @ u = debug_char d @ v"
  shows "c = d"
proof -
  have div: "(of_char x :: nat) mod 16 < 16" for x by simp
  show ?thesis
  proof (cases c rule: debug_char_forms)
    case c: (short c')
    show ?thesis
      by (cases d rule: debug_char_forms) (use assms c in \<open>auto simp: bs_def dquote_def\<close>)
  next
    case c: one
    show ?thesis
    proof (cases d rule: debug_char_forms)
      case one
      then show ?thesis using assms c by (simp add: hex_digit_inj)
    next
      case two
      then show ?thesis using assms c hex_digit_brace [OF div, of d] by auto
    qed (use assms c in auto)
  next
    case c: two
    show ?thesis
    proof (cases d rule: debug_char_forms)
      case one
      then show ?thesis using assms c hex_digit_brace [OF div, of c] by auto
    next
      case two
      then show ?thesis using assms c
        by (intro of_char_digits) (simp_all add: hex_digit_inj of_char_div_16)
    qed (use assms c in auto)
  next
    case c: none
    show ?thesis
      by (cases d rule: debug_char_forms) (use assms c in auto)
  qed
qed

lemma debug_chars_inj: "concat (map debug_char a) = concat (map debug_char b) \<Longrightarrow> a = b"
proof (induction a arbitrary: b)
  case Nil
  then show ?case by (cases b) auto
next
  case (Cons c a)
  then show ?case
  proof (cases b)
    case Nil
    then show ?thesis using Cons.prems by simp
  next
    case (Cons d b')
    then have "c = d" using Cons.prems debug_char_prefix_free [of c _ d] by simp
    then show ?thesis using Cons Cons.IH [of b'] Cons.prems by simp
  qed
qed

lemma until_quote_debug_chars:
  "until_quote (concat (map debug_char s) @ t) = concat (map debug_char s) @ until_quote t"
  by (induction s) (simp_all add: until_quote_debug_char)

lemma until_quote_quote [simp]: "until_quote (dquote # t) = [dquote]"
  by simp

lemma debug_str_prefix_free: "debug_str a @ x = debug_str b @ y \<longleftrightarrow> a = b \<and> x = y"
proof
  let ?e = "\<lambda>s. concat (map debug_char s)"
  assume eq: "debug_str a @ x = debug_str b @ y"
  then have *: "?e a @ dquote # x = ?e b @ dquote # y" by (simp add: debug_str_def)
  then have "until_quote (?e a @ dquote # x) = until_quote (?e b @ dquote # y)" by simp
  then have "?e a = ?e b" unfolding until_quote_debug_chars by simp
  then have "a = b" by (rule debug_chars_inj)
  with eq show "a = b \<and> x = y" by simp
qed simp

subsection \<open>Lists of strings and annotations\<close>

definition debug_entry :: "string \<times> string \<Rightarrow> string" where
  "debug_entry e = debug_str (fst e) @ '': '' @ debug_str (snd e)"

definition debug_annotations :: "annotations \<Rightarrow> string" where
  "debug_annotations = debug_opt (\<lambda>m. ''{'' @ join_with '', '' (map debug_entry m) @ ''}'')"

lemma debug_entry_prefix_free: "debug_entry a @ x = debug_entry b @ y \<longleftrightarrow> a = b \<and> x = y"
  by (cases a; cases b) (auto simp: debug_entry_def debug_str_prefix_free)

text \<open>A list of items that are prefix free, closed by a character that differs from the comma.\<close>

lemma join_closed_inj:
  assumes free: "\<And>a b x y. f a @ x = f b @ y \<longleftrightarrow> a = b \<and> x = y"
    and no_close: "\<And>a x. f a @ x \<noteq> close # y" "\<And>a x. f a @ x \<noteq> close # y'"
    and close: "close \<noteq> CHR '',''"
    and eq: "join_with '', '' (map f xs) @ close # y = join_with '', '' (map f xs') @ close # y'"
  shows "xs = xs' \<and> y = y'"
  using eq
proof (induction xs arbitrary: xs' rule: induct_list012)
  case 1
  then show ?case
    by (cases xs' rule: remdups_adj.cases) (auto dest: no_close(1) [symmetric, THEN notE] simp: no_close [symmetric])
next
  case (2 a)
  then show ?case
    by (cases xs' rule: remdups_adj.cases) (use close free no_close in auto)
next
  case (3 a b xs)
  show ?case
  proof (cases xs' rule: remdups_adj.cases)
    case 1
    then show ?thesis using 3 no_close by simp
  next
    case (2 a')
    then show ?thesis using 3 close free by simp
  next
    case (3 a' b' xs'')
    then show ?thesis using "3.prems" "3.IH"(2) [of "b' # xs''"] free by simp
  qed
qed

lemma debug_str_not [simp]:
  "c \<noteq> dquote \<Longrightarrow> debug_str a @ x \<noteq> c # y"
  by (simp add: debug_str_def)

lemma debug_list_prefix_free:
  "debug_list debug_str xs @ x = debug_list debug_str ys @ y \<longleftrightarrow> xs = ys \<and> x = y"
proof
  assume "debug_list debug_str xs @ x = debug_list debug_str ys @ y"
  then have "join_with '', '' (map debug_str xs) @ CHR '']'' # x =
      join_with '', '' (map debug_str ys) @ CHR '']'' # y"
    by (simp add: debug_list_def)
  then show "xs = ys \<and> x = y"
    by (rule join_closed_inj [OF debug_str_prefix_free, rotated -1]) (simp_all add: dquote_def)
qed simp

lemma debug_annotations_inj: "debug_annotations a = debug_annotations b \<longleftrightarrow> a = b"
proof
  assume eq: "debug_annotations a = debug_annotations b"
  show "a = b"
  proof (cases a)
    case None
    then show ?thesis using eq by (cases b) (simp_all add: debug_annotations_def debug_opt_def)
  next
    case a: (Some m)
    show ?thesis
    proof (cases b)
      case None
      then show ?thesis using eq a by (simp add: debug_annotations_def debug_opt_def)
    next
      case (Some n)
      have "join_with '', '' (map debug_entry m) @ CHR ''}'' # '')'' =
          join_with '', '' (map debug_entry n) @ CHR ''}'' # '')''"
        using eq a Some by (simp add: debug_annotations_def debug_opt_def)
      then have "m = n \<and> '')'' = '')''"
        by (rule join_closed_inj [OF debug_entry_prefix_free, rotated -1])
          (simp_all add: debug_entry_def debug_str_def dquote_def)
      then show ?thesis using a Some by simp
    qed
  qed
qed simp

subsection \<open>Brackets between quotes\<close>

text \<open>
  Reading a text from the left: whether the position is between quotes, and whether it follows an
  unescaped backslash.
\<close>

fun scan_char :: "bool \<times> bool \<Rightarrow> char \<Rightarrow> bool \<times> bool" where
  "scan_char (q, e) c =
     (if e then (q, False) else if c = bs then (q, True) else if c = dquote then (\<not> q, False) else (q, False))"

definition scan :: "bool \<times> bool \<Rightarrow> string \<Rightarrow> bool \<times> bool" where
  "scan st s = foldl scan_char st s"

lemma scan_simps [simp]:
  "scan st [] = st" "scan st (c # s) = scan (scan_char st c) s" "scan st (a @ b) = scan (scan st a) b"
  by (simp_all add: scan_def)

lemma scan_flip: "scan (\<not> q, e) s = (\<not> fst (scan (q, e) s), snd (scan (q, e) s))"
proof (induction s arbitrary: q e)
  case (Cons c s)
  have "scan_char (\<not> q, e) c = (\<not> fst (scan_char (q, e) c), snd (scan_char (q, e) c))"
    by simp
  then show ?case using Cons.IH [of "fst (scan_char (q, e) c)" "snd (scan_char (q, e) c)"]
    by (simp del: scan_char.simps)
qed simp

text \<open>A text that keeps the state \<open>st\<close> and has its opening brackets between quotes, unescaped.\<close>

definition quoted_from :: "bool \<times> bool \<Rightarrow> string \<Rightarrow> bool" where
  "quoted_from st x \<longleftrightarrow> scan st x = st \<and> (\<forall>p t. x = p @ CHR ''['' # t \<longrightarrow> scan st p = (True, False))"

lemma quoted_Nil [simp, intro]: "quoted_from st []"
  by (simp add: quoted_from_def)

lemma quoted_append [intro]:
  assumes x: "quoted_from st x" and y: "quoted_from st y"
  shows "quoted_from st (x @ y)"
proof -
  have "scan st p = (True, False)" if "x @ y = p @ CHR ''['' # t" for p t
  proof -
    consider (left) us where "x = p @ us" "us @ y = CHR ''['' # t"
      | (right) us where "p = x @ us" "y = us @ CHR ''['' # t"
    proof -
      assume left: "\<And>us. x = p @ us \<Longrightarrow> us @ y = CHR ''['' # t \<Longrightarrow> thesis"
        and right: "\<And>us. p = x @ us \<Longrightarrow> y = us @ CHR ''['' # t \<Longrightarrow> thesis"
      obtain us where "x = p @ us \<and> us @ y = CHR ''['' # t \<or> x @ us = p \<and> y = us @ CHR ''['' # t"
        using \<open>x @ y = p @ CHR ''['' # t\<close> unfolding append_eq_append_conv2 by (rule exE)
      then show thesis using left [of us] right [of us] by (elim disjE conjE) simp_all
    qed
    then show ?thesis
    proof cases
      case left
      then show ?thesis
      proof (cases us)
        case Nil
        have "scan st [] = (True, False)"
          using y left Nil unfolding quoted_from_def by (metis append_Nil)
        then show ?thesis using x left Nil by (simp add: quoted_from_def)
      next
        case (Cons a us')
        then show ?thesis using x left by (auto simp: quoted_from_def)
      qed
    next
      case right
      then show ?thesis using x y by (auto simp: quoted_from_def)
    qed
  qed
  then show ?thesis using x y by (simp add: quoted_from_def)
qed

lemma quoted_concat: "(\<And>x. x \<in> set xs \<Longrightarrow> quoted_from st x) \<Longrightarrow> quoted_from st (concat xs)"
  by (induction xs) auto

lemma quoted_join:
  "quoted_from st sep \<Longrightarrow> (\<And>x. x \<in> set xs \<Longrightarrow> quoted_from st x) \<Longrightarrow> quoted_from st (join_with sep xs)"
  by (induction sep xs rule: join_with.induct) auto

lemma scan_no_quotes: "bs \<notin> set s \<Longrightarrow> dquote \<notin> set s \<Longrightarrow> scan (q, False) s = (q, False)"
  by (induction s) auto

lemma quoted_plain:
  "bs \<notin> set s \<Longrightarrow> dquote \<notin> set s \<Longrightarrow> CHR ''['' \<notin> set s \<Longrightarrow> quoted_from (q, False) s"
  by (auto simp: quoted_from_def scan_no_quotes)

lemma debug_char_bracket: "CHR ''['' \<in> set (debug_char c) \<Longrightarrow> debug_char c = ''[''"
proof (cases c rule: debug_char_forms)
  case two
  have "(of_char c :: nat) mod 16 < 16" by simp
  from hex_digit_brace [OF this] hex_digit_brace [OF of_char_div_16 [of c]]
  show "CHR ''['' \<in> set (debug_char c) \<Longrightarrow> ?thesis" using two by (auto simp: bs_def)
next
  case one
  then show "CHR ''['' \<in> set (debug_char c) \<Longrightarrow> ?thesis"
    using hex_digit_brace [OF one(1)] by (auto simp: bs_def)
qed (auto simp: bs_def dquote_def)

lemma quoted_debug_char: "quoted_from (True, False) (debug_char c)"
proof -
  have "scan (True, False) (debug_char c) = (True, False)"
    by (cases c rule: debug_char_cases) (simp_all add: scan_no_quotes bs_def dquote_def)
  then show ?thesis
    using debug_char_bracket [of c]
    by (auto simp: quoted_from_def Cons_eq_append_conv append_eq_Cons_conv)
qed

lemma quoted_debug_str: "quoted_from (False, False) (debug_str s)"
proof -
  have inner: "quoted_from (True, False) (concat (map debug_char s))"
    by (rule quoted_concat) (auto simp: quoted_debug_char)
  have "scan (False, False) p = (True, False)"
    if "dquote # concat (map debug_char s) @ [dquote] = p @ CHR ''['' # t" for p t
  proof -
    obtain p' where p: "p = dquote # p'" and rest: "concat (map debug_char s) @ [dquote] = p' @ CHR ''['' # t"
    proof (cases p)
      case Nil
      then show ?thesis using \<open>dquote # _ = _\<close> by (simp add: dquote_def)
    next
      case (Cons a p')
      show ?thesis by (rule that [of p']) (use Cons \<open>dquote # _ = _\<close> in simp_all)
    qed
    obtain t' where "t = t' @ [dquote]"
      using rest by (cases t rule: rev_cases) (auto simp: dquote_def)
    with rest have "concat (map debug_char s) = p' @ CHR ''['' # t'" by simp
    with inner p show ?thesis by (auto simp: quoted_from_def)
  qed
  then show ?thesis
    using inner by (auto simp: quoted_from_def debug_str_def)
qed

text \<open>
  What follows an unquoted bracket can be told from what stands before it, however the text
  before it looks: read from inside a quotation the quotes of the rest would not match up.
\<close>

lemma bracket_split:
  assumes y1: "quoted_from (False, False) y1" and y2: "quoted_from (False, False) y2"
    and eq: "a1 @ CHR ''['' # y1 = a2 @ CHR ''['' # y2"
  shows "a1 = a2 \<and> y1 = y2"
proof -
  have absurd: False
    if q1: "quoted_from (False, False) z1" and q2: "quoted_from (False, False) z2"
      and "z1 = p @ CHR ''['' # z2" for z1 z2 p
  proof -
    have "scan (True, False) z2 = (True, False)"
      using scan_flip [of False False z2] q2 by (simp add: quoted_from_def)
    moreover have "scan (False, False) p = (True, False)" "scan (False, False) z1 = (False, False)"
      using q1 that(3) by (auto simp: quoted_from_def)
    ultimately show False using that(3) by (simp add: bs_def dquote_def)
  qed
  obtain us where "a1 = a2 @ us \<and> us @ CHR ''['' # y1 = CHR ''['' # y2 \<or>
      a1 @ us = a2 \<and> CHR ''['' # y1 = us @ CHR ''['' # y2"
    using eq unfolding append_eq_append_conv2 by (rule exE)
  then show ?thesis
    by (cases us) (auto dest: absurd [OF y1 y2] absurd [OF y2 y1])
qed

lemma quoted_literals:
  "quoted_from (False, False) '', ''" "quoted_from (False, False) '': ''" "quoted_from (False, False) '']''"
  "quoted_from (False, False) ''{''" "quoted_from (False, False) ''}''" "quoted_from (False, False) ''Some(''"
  "quoted_from (False, False) '')''" "quoted_from (False, False) ''None''"
  by (rule quoted_plain; simp add: bs_def dquote_def)+

lemma quoted_debug_list_tail: "quoted_from (False, False) (join_with '', '' (map debug_str xs) @ '']'')"
  by (intro quoted_append quoted_join) (auto simp: quoted_debug_str quoted_literals)

lemma quoted_debug_entry: "quoted_from (False, False) (debug_entry e)"
  unfolding debug_entry_def
  by (intro quoted_append quoted_debug_str quoted_literals)

lemma quoted_debug_annotations: "quoted_from (False, False) (debug_annotations a)"
proof (cases a)
  case None
  then show ?thesis
    by (simp add: debug_annotations_def debug_opt_def quoted_literals)
next
  case (Some m)
  have "quoted_from (False, False) (''Some('' @ (''{'' @ join_with '', '' (map debug_entry m) @ ''}'') @ '')'')"
    by (intro quoted_append quoted_join) (auto simp: quoted_debug_entry quoted_literals)
  then show ?thesis using Some by (simp add: debug_annotations_def debug_opt_def)
qed

lemma image_keys_annotations_inj:
  "img @ debug_list debug_str keys @ debug_annotations anns =
   img' @ debug_list debug_str keys' @ debug_annotations anns' \<longleftrightarrow>
   img = img' \<and> keys = keys' \<and> anns = anns'"
proof
  let ?tail = "\<lambda>ks an. (join_with '', '' (map debug_str ks) @ '']'') @ debug_annotations an"
  assume "img @ debug_list debug_str keys @ debug_annotations anns =
      img' @ debug_list debug_str keys' @ debug_annotations anns'"
  then have "img @ CHR ''['' # ?tail keys anns = img' @ CHR ''['' # ?tail keys' anns'"
    by (simp add: debug_list_def)
  then have "img = img' \<and> ?tail keys anns = ?tail keys' anns'"
    by (rule bracket_split [rotated -1])
      (intro quoted_append quoted_debug_list_tail quoted_debug_annotations)+
  then have "img = img'" and tails: "?tail keys anns = ?tail keys' anns'" by blast+
  from tails have "debug_list debug_str keys @ debug_annotations anns =
      debug_list debug_str keys' @ debug_annotations anns'"
    by (simp add: debug_list_def)
  with \<open>img = img'\<close> show "img = img' \<and> keys = keys' \<and> anns = anns'"
    by (simp add: debug_list_prefix_free debug_annotations_inj)
qed simp

end
