(* ===== verification/Reflector.thy ===== *)
theory Reflector
  imports ContextAware CacheKeys
begin

text \<open>
  \<open>src/callback_handler/kubernetes/reflector.rs\<close>: a reflector keeps the objects of one query in
  memory and the time of the last change it saw. A background task feeds it the events of a
  watch: for each of them it first sets the time (\<^theory_text>\<open>watch_seen\<close>) and then applies the event to the
  objects (\<^theory_text>\<open>watch_applied\<close>). Readers run in other tasks and may come in between, so the two are
  steps of their own, and \<^theory_text>\<open>rf_pending\<close> is the event between them.

  The watch, the store of objects and the accessors of the metadata belong to the crate \<open>kube\<close>:
  they are the parameter \<^theory_text>\<open>watch_api\<close>.
\<close>

record ApiResource =
  ar_group :: string
  ar_version :: string
  ar_api_version :: string
  ar_kind :: string
  ar_plural :: string

record KubeResource =
  kr_resource :: ApiResource
  kr_namespaced :: bool

record ('store, 'ev) watch_api =
  wa_writer :: "ApiResource \<Rightarrow> 'store"
  wa_apply :: "'ev \<Rightarrow> 'store \<Rightarrow> 'store"
  wa_modify :: "(DynamicObject \<Rightarrow> DynamicObject) \<Rightarrow> 'ev \<Rightarrow> 'ev"
  wa_state :: "'store \<Rightarrow> DynamicObject list"
  wa_clear_managed_fields :: "DynamicObject \<Rightarrow> DynamicObject"
  wa_remove_annotation :: "string \<Rightarrow> DynamicObject \<Rightarrow> DynamicObject"
  wa_until_ready :: "instant \<Rightarrow> ApiResource \<Rightarrow> string option \<Rightarrow> string option \<Rightarrow> string option
    \<Rightarrow> lib_error + 'ev list"

record ('store, 'ev) reflector =
  rf_reader :: 'store
  rf_last_change_seen_at :: instant
  rf_pending :: "'ev option"

definition compute_id ::
  "KubeResource \<Rightarrow> string option \<Rightarrow> string option \<Rightarrow> string option \<Rightarrow> string" where
  "compute_id resource namespace label_selector field_selector =
     ar_api_version (kr_resource resource) @ ''|'' @ ar_kind (kr_resource resource) @ ''|'' @
     debug_opt debug_str namespace @ ''|'' @ debug_opt debug_str label_selector @ ''|'' @
     debug_opt debug_str field_selector"

definition strip_object :: "('store, 'ev) watch_api \<Rightarrow> DynamicObject \<Rightarrow> DynamicObject" where
  "strip_object wa obj =
     wa_remove_annotation wa ''kubectl.kubernetes.io/last-applied-configuration''
       (wa_clear_managed_fields wa obj)"

subsection \<open>The steps of the background task\<close>

definition watch_seen ::
  "('store, 'ev) watch_api \<Rightarrow> instant \<Rightarrow> 'ev \<Rightarrow> ('store, 'ev) reflector \<Rightarrow> ('store, 'ev) reflector" where
  "watch_seen wa now ev rf =
     rf\<lparr>rf_last_change_seen_at := now, rf_pending := Some (wa_modify wa (strip_object wa) ev)\<rparr>"

definition watch_applied ::
  "('store, 'ev) watch_api \<Rightarrow> ('store, 'ev) reflector \<Rightarrow> ('store, 'ev) reflector" where
  "watch_applied wa rf =
     (case rf_pending rf of
        None \<Rightarrow> rf
      | Some ev \<Rightarrow> rf\<lparr>rf_reader := wa_apply wa ev (rf_reader rf), rf_pending := None\<rparr>)"

text \<open>A whole event: an error of the watch is passed on and changes nothing.\<close>

definition reflector_tracking_changes_instant ::
  "('store, 'ev) watch_api \<Rightarrow> instant \<Rightarrow> lib_error + 'ev \<Rightarrow> ('store, 'ev) reflector
   \<Rightarrow> ('store, 'ev) reflector" where
  "reflector_tracking_changes_instant wa now item rf =
     (case item of
        Inl e \<Rightarrow> rf
      | Inr ev \<Rightarrow> watch_applied wa (watch_seen wa now ev rf))"

text \<open>
  The events that come before the store is ready are handled in the same way; the time of the
  reflector starts with its creation.
\<close>

definition create_and_run ::
  "('store, 'ev) watch_api \<Rightarrow> instant \<Rightarrow> KubeResource \<Rightarrow> string option \<Rightarrow> string option \<Rightarrow> string option
   \<Rightarrow> lib_error + ('store, 'ev) reflector" where
  "create_and_run wa now resource namespace label_selector field_selector =
     (let writer = wa_writer wa (kr_resource resource);
          rf = \<lparr>rf_reader = writer, rf_last_change_seen_at = now, rf_pending = None\<rparr>
      in bind_result (wa_until_ready wa now (kr_resource resource) namespace label_selector field_selector)
        (\<lambda>evs. Inr (fold (\<lambda>ev. reflector_tracking_changes_instant wa now (Inr ev)) evs rf)))"

definition last_change_seen_at :: "('store, 'ev) reflector \<Rightarrow> instant" where
  "last_change_seen_at self = rf_last_change_seen_at self"

text \<open>One step of the background task, and its runs after a point in time.\<close>

inductive watch_step ::
  "('store, 'ev) watch_api \<Rightarrow> instant \<Rightarrow> ('store, 'ev) reflector \<Rightarrow> ('store, 'ev) reflector \<Rightarrow> bool"
  for wa where
  seen: "rf_pending rf = None \<Longrightarrow> watch_step wa now rf (watch_seen wa now ev rf)"
| applied: "rf_pending rf \<noteq> None \<Longrightarrow> watch_step wa now rf (watch_applied wa rf)"
| failed: "watch_step wa now rf rf"

inductive watch_run ::
  "('store, 'ev) watch_api \<Rightarrow> instant \<Rightarrow> ('store, 'ev) reflector \<Rightarrow> ('store, 'ev) reflector \<Rightarrow> bool"
  for wa since where
  start: "watch_run wa since rf rf"
| next_step: "watch_run wa since rf rf' \<Longrightarrow> since < now \<Longrightarrow> watch_step wa now rf' rf'' \<Longrightarrow>
    watch_run wa since rf rf''"

inductive_cases watch_step_elim: "watch_step wa now rf rf'"

lemma reader_of_seen [simp]: "rf_reader (watch_seen wa now ev rf) = rf_reader rf"
  by (simp add: watch_seen_def)

lemma last_of_seen [simp]: "rf_last_change_seen_at (watch_seen wa now ev rf) = now"
  by (simp add: watch_seen_def)

lemma last_of_applied [simp]: "rf_last_change_seen_at (watch_applied wa rf) = rf_last_change_seen_at rf"
  by (simp add: watch_applied_def split: option.splits)

text \<open>A whole event is the two steps one after the other.\<close>

lemma tracking_is_run:
  assumes "rf_pending rf = None" "since < now"
  shows "watch_run wa since rf (reflector_tracking_changes_instant wa now item rf)"
proof (cases item)
  case (Inl e)
  then show ?thesis by (simp add: reflector_tracking_changes_instant_def watch_run.start)
next
  case (Inr ev)
  have "watch_run wa since rf (watch_seen wa now ev rf)"
    by (rule watch_run.next_step [OF watch_run.start assms(2) watch_step.seen [OF assms(1)]])
  then have "watch_run wa since rf (watch_applied wa (watch_seen wa now ev rf))"
    by (rule watch_run.next_step [OF _ assms(2) watch_step.applied]) (simp add: watch_seen_def)
  then show ?thesis by (simp add: Inr reflector_tracking_changes_instant_def)
qed

lemma created_no_pending:
  assumes "create_and_run wa now resource ns ls fs = Inr rf"
  shows "rf_pending rf = None" "rf_last_change_seen_at rf = now"
proof -
  have "rf_pending (fold (\<lambda>ev. reflector_tracking_changes_instant wa now (Inr ev)) evs rf) = None \<and>
      rf_last_change_seen_at (fold (\<lambda>ev. reflector_tracking_changes_instant wa now (Inr ev)) evs rf) = now"
    if "rf_pending rf = None" "rf_last_change_seen_at rf = now" for evs rf
    using that
    by (induction evs arbitrary: rf)
      (auto simp: reflector_tracking_changes_instant_def watch_applied_def watch_seen_def)
  then show "rf_pending rf = None" "rf_last_change_seen_at rf = now"
    using assms by (auto simp: create_and_run_def Let_def bind_result_def split: sum.splits)
qed

text \<open>
  As long as the time of the reflector is not after \<^theory_text>\<open>since\<close>, the only thing that can have
  happened is that an event seen before was applied.
\<close>

lemma watch_run_unseen:
  assumes "watch_run wa since rf rf'" "\<not> since < rf_last_change_seen_at rf'"
  shows "rf' = rf \<or> rf_pending rf \<noteq> None \<and> rf' = watch_applied wa rf"
  using assms
proof (induction rule: watch_run.induct)
  case (next_step rf rf' now rf'')
  from next_step.hyps(3) show ?case
  proof cases
    case (seen ev)
    then show ?thesis using next_step.hyps(2) next_step.prems by simp
  next
    case applied
    then have "\<not> since < rf_last_change_seen_at rf'" using next_step.prems by simp
    from next_step.IH [OF this] applied show ?thesis
      by (auto simp: watch_applied_def split: option.splits)
  next
    case failed
    then show ?thesis using next_step by simp
  qed
qed simp


text \<open>C35: what a reader may conclude from the time of a reflector. After it read the objects at the
  time \<open>since\<close>, the objects can differ although the reflector reports no change since then exactly
  when, at that time, the background task had already set the time for an event and not yet
  applied it to the objects. In every other case an unchanged time means unchanged objects.\<close>

theorem reflector_stale_reads:
  "(\<exists>rf'. watch_run wa since rf rf' \<and> \<not> since < last_change_seen_at rf' \<and> rf_reader rf' \<noteq> rf_reader rf) \<longleftrightarrow>
   (\<exists>ev. rf_pending rf = Some ev \<and> last_change_seen_at rf \<le> since \<and> wa_apply wa ev (rf_reader rf) \<noteq> rf_reader rf)"
proof
  assume "\<exists>rf'. watch_run wa since rf rf' \<and> \<not> since < last_change_seen_at rf' \<and> rf_reader rf' \<noteq> rf_reader rf"
  then obtain rf' where run: "watch_run wa since rf rf'" "\<not> since < rf_last_change_seen_at rf'"
      and differs: "rf_reader rf' \<noteq> rf_reader rf"
    by (auto simp: last_change_seen_at_def)
  from watch_run_unseen [OF run] differs
  have "rf_pending rf \<noteq> None" and rf': "rf' = watch_applied wa rf" by auto
  then obtain ev where "rf_pending rf = Some ev" by auto
  moreover have "wa_apply wa ev (rf_reader rf) \<noteq> rf_reader rf"
    using differs rf' calculation by (simp add: watch_applied_def)
  moreover have "last_change_seen_at rf \<le> since"
    using run(2) rf' by (simp add: last_change_seen_at_def)
  ultimately show "\<exists>ev. rf_pending rf = Some ev \<and> last_change_seen_at rf \<le> since \<and>
      wa_apply wa ev (rf_reader rf) \<noteq> rf_reader rf" by blast
next
  assume "\<exists>ev. rf_pending rf = Some ev \<and> last_change_seen_at rf \<le> since \<and>
      wa_apply wa ev (rf_reader rf) \<noteq> rf_reader rf"
  then obtain ev where ev: "rf_pending rf = Some ev" "last_change_seen_at rf \<le> since"
      "wa_apply wa ev (rf_reader rf) \<noteq> rf_reader rf" by blast
  then have "watch_step wa (Suc since) rf (watch_applied wa rf)"
    by (intro watch_step.applied) simp
  then have "watch_run wa since rf (watch_applied wa rf)"
    by (rule watch_run.next_step [OF watch_run.start, rotated]) simp
  moreover have "\<not> since < last_change_seen_at (watch_applied wa rf)"
    using ev(2) by (simp add: last_change_seen_at_def)
  moreover have "rf_reader (watch_applied wa rf) \<noteq> rf_reader rf"
    using ev(1,3) by (simp add: watch_applied_def)
  ultimately show "\<exists>rf'. watch_run wa since rf rf' \<and> \<not> since < last_change_seen_at rf' \<and>
      rf_reader rf' \<noteq> rf_reader rf" by blast
qed

subsection \<open>Identifiers\<close>

lemma debug_opt_str_prefix_free:
  "debug_opt debug_str a @ CHR ''|'' # x = debug_opt debug_str b @ CHR ''|'' # y \<longleftrightarrow> a = b \<and> x = y"
  by (cases a; cases b) (auto simp: debug_opt_def debug_str_prefix_free)

lemma debug_opt_str_inj: "debug_opt debug_str a = debug_opt debug_str b \<longleftrightarrow> a = b"
proof -
  have "debug_str s @ '')'' = debug_str s' @ '')'' \<longleftrightarrow> s = s'" for s s'
    using debug_str_prefix_free [of s "'')''" s' "'')''"] by simp
  then show ?thesis by (cases a; cases b) (auto simp: debug_opt_def)
qed

lemma bar_split:
  "CHR ''|'' \<notin> set a \<Longrightarrow> CHR ''|'' \<notin> set b \<Longrightarrow>
   a @ CHR ''|'' # x = b @ CHR ''|'' # y \<longleftrightarrow> a = b \<and> x = y"
  by (auto simp: append_eq_append_conv2 append_eq_Cons_conv Cons_eq_append_conv)

text \<open>
  The identifier of a reflector determines the query it serves, for API versions and kinds
  without a vertical bar (which Kubernetes names do not have); the namespace and the selectors
  are quoted and may be any text.
\<close>

lemma compute_id_inj:
  assumes "CHR ''|'' \<notin> set (ar_api_version (kr_resource r))" "CHR ''|'' \<notin> set (ar_kind (kr_resource r))"
    "CHR ''|'' \<notin> set (ar_api_version (kr_resource r'))" "CHR ''|'' \<notin> set (ar_kind (kr_resource r'))"
  shows "compute_id r ns ls fs = compute_id r' ns' ls' fs' \<longleftrightarrow>
    ar_api_version (kr_resource r) = ar_api_version (kr_resource r') \<and>
    ar_kind (kr_resource r) = ar_kind (kr_resource r') \<and> ns = ns' \<and> ls = ls' \<and> fs = fs'"
  unfolding compute_id_def
  by (simp add: bar_split assms debug_opt_str_prefix_free debug_opt_str_inj)

end
