(* ===== verification/Oci.thy ===== *)
theory Oci
  imports CacheKeys
begin

text \<open>
  \<open>src/callback_handler/oci.rs\<close>: the queries of an OCI registry and their caches. The registry
  client of the crate \<open>policy_fetcher\<close> is the parameter \<^theory_text>\<open>registry\<close>: what it answers depends on
  the time of the query. \<^theory_text>\<open>rg_whole\<close> parses a reference and prints it in full.

  The values that the asynchronous functions give are of different types, which
  \<^theory_text>\<open>serde_json::to_vec\<close> turns into bytes; \<^theory_text>\<open>callback_value\<close> is their sum.
\<close>

record DnsLookup =
  lr_ips :: "string list"

record VerificationResponse =
  ver_is_trusted :: bool
  ver_digest :: string

record ManifestAndConfigResponse =
  mc_manifest :: json
  mc_digest :: string
  mc_config :: json

record CertificateVerificationResponse =
  ctr_trusted :: bool
  ctr_reason :: string

text \<open>The prefix that makes the pulled image a registry URL.\<close>

record 'src registry =
  rg_whole :: "string \<Rightarrow> lib_error + string"
  rg_manifest_digest :: "instant \<Rightarrow> string \<Rightarrow> 'src option \<Rightarrow> lib_error + string"
  rg_manifest :: "instant \<Rightarrow> string \<Rightarrow> 'src option \<Rightarrow> lib_error + json"
  rg_manifest_and_config :: "instant \<Rightarrow> string \<Rightarrow> 'src option \<Rightarrow> lib_error + (json \<times> string \<times> json)"

record 'src oci_client =
  oci_sources :: "'src option"

definition oci_client_new :: "'src option \<Rightarrow> 'src oci_client" where
  "oci_client_new sources = \<lparr>oci_sources = sources\<rparr>"

definition oci_digest :: "'src registry \<Rightarrow> 'src oci_client \<Rightarrow> instant \<Rightarrow> string \<Rightarrow> lib_error + string" where
  "oci_digest rg self now img =
     bind_result (rg_whole rg img) (\<lambda>whole.
       rg_manifest_digest rg now (''registry://'' @ whole) (oci_sources self))"

definition oci_manifest :: "'src registry \<Rightarrow> 'src oci_client \<Rightarrow> instant \<Rightarrow> string \<Rightarrow> lib_error + json" where
  "oci_manifest rg self now img =
     bind_result (rg_whole rg img) (\<lambda>whole.
       rg_manifest rg now (''registry://'' @ whole) (oci_sources self))"

definition oci_manifest_and_config ::
  "'src registry \<Rightarrow> 'src oci_client \<Rightarrow> instant \<Rightarrow> string \<Rightarrow> lib_error + ManifestAndConfigResponse" where
  "oci_manifest_and_config rg self now img =
     bind_result (rg_whole rg img) (\<lambda>whole.
     bind_result (rg_manifest_and_config rg now (''registry://'' @ whole) (oci_sources self))
       (\<lambda>(manifest, digest, config).
         Inr \<lparr>mc_manifest = manifest, mc_digest = digest, mc_config = config\<rparr>))"

text \<open>The three caches have the image as key and a lifetime of a minute.\<close>

type_synonym freshness = "nat \<Rightarrow> instant \<Rightarrow> instant \<Rightarrow> bool"

definition get_oci_digest_cached ::
  "freshness \<Rightarrow> 'src registry \<Rightarrow> 'src oci_client \<Rightarrow> instant \<Rightarrow> string
   \<Rightarrow> (string, string cached_return) timed_cache
   \<Rightarrow> ((lib_error + string cached_return) \<times> (string, string cached_return) timed_cache \<times> unit) exec" where
  "get_oci_digest_cached fresh rg client now img c =
     cached_call (fresh 60) now img
       (\<lambda>u. Ret (bind_result (oci_digest rg client now img) (\<lambda>digest. Inr (return_new digest)), u)) c ()"

definition get_oci_manifest_cached ::
  "freshness \<Rightarrow> 'src registry \<Rightarrow> 'src oci_client \<Rightarrow> instant \<Rightarrow> string
   \<Rightarrow> (string, json cached_return) timed_cache
   \<Rightarrow> ((lib_error + json cached_return) \<times> (string, json cached_return) timed_cache \<times> unit) exec" where
  "get_oci_manifest_cached fresh rg client now img c =
     cached_call (fresh 60) now img
       (\<lambda>u. Ret (bind_result (oci_manifest rg client now img) (\<lambda>m. Inr (return_new m)), u)) c ()"

definition get_oci_manifest_and_config_cached ::
  "freshness \<Rightarrow> 'src registry \<Rightarrow> 'src oci_client \<Rightarrow> instant \<Rightarrow> string
   \<Rightarrow> (string, ManifestAndConfigResponse cached_return) timed_cache
   \<Rightarrow> ((lib_error + ManifestAndConfigResponse cached_return)
       \<times> (string, ManifestAndConfigResponse cached_return) timed_cache \<times> unit) exec" where
  "get_oci_manifest_and_config_cached fresh rg client now img c =
     cached_call (fresh 60) now img
       (\<lambda>u. Ret (bind_result (oci_manifest_and_config rg client now img) (\<lambda>m. Inr (return_new m)), u)) c ()"

text \<open>What is in a cache was answered by the registry, for the image it is stored under.\<close>

abbreviation answered_by :: "(instant \<Rightarrow> 'k \<Rightarrow> 'e + 'v) \<Rightarrow> instant \<Rightarrow> 'k \<Rightarrow> 'v cached_return \<Rightarrow> bool" where
  "answered_by query t k r \<equiv> query t k = Inr (cr_value r)"

lemma cached_query_sound:
  fixes query :: "instant \<Rightarrow> 'k \<Rightarrow> 'e + 'v"
  assumes run: "cached_call f now k
      (\<lambda>u. Ret (bind_result (query now k) (\<lambda>v. Inr (return_new v)), u)) c () = Ret (res, c', u)"
    and just: "memo.justified f (answered_by query) c"
  shows "memo.justified f (answered_by query) c'"
    and "res = Inr r \<Longrightarrow> \<exists>t0. (t0 = now \<or> f t0 now) \<and> query t0 k = Inr (cr_value r)"
    and "res = Inl e \<Longrightarrow> query now k = Inl e"
proof -
  note * = cached_call_justified [OF run just]
  have ok: "answered_by query now k r"
    if "Ret (bind_result (query now k) (\<lambda>v. Inr (return_new v)), ()) = Ret (Inr r, u')" for r u'
    using that by (cases "query now k") (auto simp: return_new_def)
  show "memo.justified f (answered_by query) c'" by (rule *(1)) (rule ok)
  show "\<exists>t0. (t0 = now \<or> f t0 now) \<and> query t0 k = Inr (cr_value r)" if "res = Inr r"
    using *(2) [OF ok that] by fastforce
  show "query now k = Inl e" if "res = Inl e"
    using run that
    by (cases "query now k"; cases rule: cached_call_cases [OF run]) (auto simp: return_new_def)
qed

lemma cached_query_no_panic:
  "no_panic (cached_call f now k (\<lambda>u. Ret (bind_result q (\<lambda>v. Inr (return_new v)), u)) c s)"
  by (rule cached_call_no_panic) simp

end
