(* ===== verification/Sigstore.thy ===== *)
theory Sigstore
  imports Oci
begin

text \<open>
  \<open>src/callback_handler/sigstore_verification.rs\<close>: the verifications of signatures of OCI images and
  their caches. The verifier of \<open>policy_fetcher\<close>, the cosign client, the URL parser, the hash and
  the derived \<open>Debug\<close> forms of two SDK types are the parameter \<^theory_text>\<open>cosign\<close>; the code builds what
  they are asked and turns what they answer into a response.
\<close>

subsection \<open>Configurations\<close>

text \<open>The types of \<open>policy_fetcher\<close> and \<open>sigstore\<close> that the code builds.\<close>

datatype Subject = SubjectEqual string | SubjectUrlPrefix string

datatype Signature =
    SigPubKey "string option" string annotations
  | SigGenericIssuer string Subject annotations
  | SigGithubAction string "string option" annotations

record LatestVerificationConfig =
  vc_all_of :: "Signature list option"
  vc_any_of :: "Signature list option"

record RegistryCertificate =
  rcert_data :: bytes
  rcert_encoding :: CertificateEncoding

datatype 'cv verification_constraint =
    CertificateVerifier 'cv | AnnotationVerifier "(string, string) btmap"

record ('layers, 'cv) cosign =
  cs_verify :: "instant \<Rightarrow> string \<Rightarrow> LatestVerificationConfig \<Rightarrow> lib_error + string"
  cs_fetch_remote_data :: "instant \<Rightarrow> string \<Rightarrow> lib_error + (string \<times> 'layers)"
  cs_from_pem :: "bytes \<Rightarrow> bool \<Rightarrow> RegistryCertificate list option \<Rightarrow> lib_error + 'cv"
  cs_verify_constraints :: "'layers \<Rightarrow> 'cv verification_constraint list \<Rightarrow> lib_error + unit"
  cs_parse_url :: "string \<Rightarrow> lib_error + string"
  cs_debug_keyless :: "KeylessInfo \<Rightarrow> string"
  cs_debug_keyless_prefix :: "KeylessPrefixInfo \<Rightarrow> string"
  cs_sha256_hex :: "bytes \<Rightarrow> string"

definition anyhow :: "string \<Rightarrow> lib_error" where
  "anyhow msg = \<lparr>le_display = msg, le_debug = msg\<rparr>"

text \<open>The common end of the verifications: all the signatures are demanded of the image.\<close>

definition verify_all_of ::
  "('layers, 'cv) cosign \<Rightarrow> instant \<Rightarrow> string \<Rightarrow> Signature list \<Rightarrow> lib_error + VerificationResponse" where
  "verify_all_of cs now img signatures_all_of =
     (case cs_verify cs now img \<lparr>vc_all_of = Some signatures_all_of, vc_any_of = None\<rparr> of
        Inr digest \<Rightarrow> Inr \<lparr>ver_is_trusted = True, ver_digest = digest\<rparr>
      | Inl e \<Rightarrow> Inl e)"

definition verify_public_key ::
  "('layers, 'cv) cosign \<Rightarrow> instant \<Rightarrow> string \<Rightarrow> string list \<Rightarrow> annotations
   \<Rightarrow> lib_error + VerificationResponse" where
  "verify_public_key cs now img pub_keys anns =
     (if pub_keys = [] then Inl (anyhow ''Must provide at least one pub key'')
      else verify_all_of cs now img (map (\<lambda>k. SigPubKey None k anns) pub_keys))"

definition verify_keyless ::
  "('layers, 'cv) cosign \<Rightarrow> instant \<Rightarrow> string \<Rightarrow> KeylessInfo list \<Rightarrow> annotations
   \<Rightarrow> lib_error + VerificationResponse" where
  "verify_keyless cs now img keyless anns =
     (if keyless = [] then Inl (anyhow ''Must provide keyless info'')
      else verify_all_of cs now img
        (map (\<lambda>k. SigGenericIssuer (keyless_issuer k) (SubjectEqual (keyless_subject k)) anns) keyless))"

text \<open>A prefix that is no URL panics: the loop stops at the first one.\<close>

definition prefix_signature ::
  "('layers, 'cv) cosign \<Rightarrow> annotations \<Rightarrow> KeylessPrefixInfo \<Rightarrow> Signature exec" where
  "prefix_signature cs anns k =
     (case cs_parse_url cs (keyless_prefix_url_prefix k) of
        Inl e \<Rightarrow> Panic (''Cannot build url prefix: '' @ le_debug e)
      | Inr url_prefix \<Rightarrow>
          Ret (SigGenericIssuer (keyless_prefix_issuer k) (SubjectUrlPrefix url_prefix) anns))"

definition verify_keyless_prefix ::
  "('layers, 'cv) cosign \<Rightarrow> instant \<Rightarrow> string \<Rightarrow> KeylessPrefixInfo list \<Rightarrow> annotations
   \<Rightarrow> (lib_error + VerificationResponse) exec" where
  "verify_keyless_prefix cs now img keyless_prefix anns =
     (if keyless_prefix = [] then Ret (Inl (anyhow ''Must provide keyless info''))
      else bind_exec (exec_map (prefix_signature cs anns) keyless_prefix)
        (\<lambda>signatures. Ret (verify_all_of cs now img signatures)))"

definition verify_github_actions ::
  "('layers, 'cv) cosign \<Rightarrow> instant \<Rightarrow> string \<Rightarrow> string \<Rightarrow> string option \<Rightarrow> annotations
   \<Rightarrow> lib_error + VerificationResponse" where
  "verify_github_actions cs now img owner repo anns =
     (if owner = [] then Inl (anyhow ''Must provide owner info'')
      else verify_all_of cs now img [SigGithubAction owner repo anns])"

text \<open>\<^theory_text>\<open>require\<close> is \<open>require_rekor_bundle\<close>.\<close>

definition verify_certificate_of ::
  "('layers, 'cv) cosign \<Rightarrow> instant \<Rightarrow> string \<Rightarrow> bytes \<Rightarrow> bytes list option \<Rightarrow> bool \<Rightarrow> annotations
   \<Rightarrow> lib_error + VerificationResponse" where
  "verify_certificate_of cs now img certificate certificate_chain require anns =
     bind_result (cs_fetch_remote_data cs now img) (\<lambda>(source_image_digest, trusted_layers).
     let chain = map_option (map (\<lambda>cert_data. \<lparr>rcert_data = cert_data, rcert_encoding = Pem\<rparr>)) certificate_chain
     in bind_result (cs_from_pem cs certificate require chain) (\<lambda>cert_verifier.
        let constraints = [CertificateVerifier cert_verifier] @
              (case anns of Some a \<Rightarrow> [AnnotationVerifier a] | None \<Rightarrow> [])
        in case cs_verify_constraints cs trusted_layers constraints of
             Inr u \<Rightarrow> Inr \<lparr>ver_is_trusted = True, ver_digest = source_image_digest\<rparr>
           | Inl e \<Rightarrow> Inl (anyhow (''verification failed: '' @ le_display e))))"

subsection \<open>Keys and cached verifications\<close>

definition pub_keys_cache_key :: "string \<Rightarrow> string list \<Rightarrow> annotations \<Rightarrow> string" where
  "pub_keys_cache_key img pub_keys anns = img @ debug_list debug_str pub_keys @ debug_annotations anns"

definition keyless_cache_key :: "('k \<Rightarrow> string) \<Rightarrow> string \<Rightarrow> 'k list \<Rightarrow> annotations \<Rightarrow> string" where
  "keyless_cache_key debug_info img keyless anns =
     img @ debug_list debug_info keyless @ debug_annotations anns"

definition github_cache_key :: "string \<Rightarrow> string \<Rightarrow> string option \<Rightarrow> annotations \<Rightarrow> string" where
  "github_cache_key img owner repo anns =
     img @ debug_str owner @ debug_opt debug_str repo @ debug_annotations anns"

text \<open>
  What is hashed for a certificate: \<^theory_text>\<open>update\<close> appends to the text of the hash, so nothing marks
  where a part ends. The keys of the annotations are sorted; each has a value.
\<close>

definition certificate_cache_text ::
  "string \<Rightarrow> bytes \<Rightarrow> bytes list option \<Rightarrow> bool \<Rightarrow> annotations \<Rightarrow> bytes" where
  "certificate_cache_text img certificate certificate_chain require anns =
     img @ certificate @ (case certificate_chain of Some certs \<Rightarrow> concat certs | None \<Rightarrow> []) @
     (if require then ''1'' else ''0'') @
     (case anns of
        Some a \<Rightarrow> concat (map (\<lambda>key. key @ [CHR 0x0A] @ the (bt_get a key)) (sort (bt_keys a)))
      | None \<Rightarrow> [])"

definition get_sigstore_certificate_verification_cache_key ::
  "('layers, 'cv) cosign \<Rightarrow> string \<Rightarrow> bytes \<Rightarrow> bytes list option \<Rightarrow> bool \<Rightarrow> annotations \<Rightarrow> string" where
  "get_sigstore_certificate_verification_cache_key cs img certificate certificate_chain require anns =
     cs_sha256_hex cs (certificate_cache_text img certificate certificate_chain require anns)"

type_synonym verification_cache = "(string, VerificationResponse cached_return) timed_cache"

type_synonym verification_result =
  "((lib_error + VerificationResponse cached_return) \<times> verification_cache \<times> unit) exec"

definition cached_verification ::
  "freshness \<Rightarrow> instant \<Rightarrow> string \<Rightarrow> (lib_error + VerificationResponse) exec
   \<Rightarrow> verification_cache \<Rightarrow> verification_result" where
  "cached_verification fresh now key verification c =
     cached_call (fresh 60) now key
       (\<lambda>u. bind_exec verification (\<lambda>r. Ret (bind_result r (\<lambda>v. Inr (return_new v)), u))) c ()"

definition get_sigstore_pub_key_verification_cached ::
  "freshness \<Rightarrow> ('layers, 'cv) cosign \<Rightarrow> instant \<Rightarrow> string \<Rightarrow> string list \<Rightarrow> annotations
   \<Rightarrow> verification_cache \<Rightarrow> verification_result" where
  "get_sigstore_pub_key_verification_cached fresh cs now img pub_keys anns c =
     cached_verification fresh now (pub_keys_cache_key img pub_keys anns)
       (Ret (verify_public_key cs now img pub_keys anns)) c"

definition get_sigstore_keyless_verification_cached ::
  "freshness \<Rightarrow> ('layers, 'cv) cosign \<Rightarrow> instant \<Rightarrow> string \<Rightarrow> KeylessInfo list \<Rightarrow> annotations
   \<Rightarrow> verification_cache \<Rightarrow> verification_result" where
  "get_sigstore_keyless_verification_cached fresh cs now img keyless anns c =
     cached_verification fresh now (keyless_cache_key (cs_debug_keyless cs) img keyless anns)
       (Ret (verify_keyless cs now img keyless anns)) c"

definition get_sigstore_keyless_prefix_verification_cached ::
  "freshness \<Rightarrow> ('layers, 'cv) cosign \<Rightarrow> instant \<Rightarrow> string \<Rightarrow> KeylessPrefixInfo list \<Rightarrow> annotations
   \<Rightarrow> verification_cache \<Rightarrow> verification_result" where
  "get_sigstore_keyless_prefix_verification_cached fresh cs now img keyless_prefix anns c =
     cached_verification fresh now
       (keyless_cache_key (cs_debug_keyless_prefix cs) img keyless_prefix anns)
       (verify_keyless_prefix cs now img keyless_prefix anns) c"

definition get_sigstore_github_actions_verification_cached ::
  "freshness \<Rightarrow> ('layers, 'cv) cosign \<Rightarrow> instant \<Rightarrow> string \<Rightarrow> string \<Rightarrow> string option \<Rightarrow> annotations
   \<Rightarrow> verification_cache \<Rightarrow> verification_result" where
  "get_sigstore_github_actions_verification_cached fresh cs now img owner repo anns c =
     cached_verification fresh now (github_cache_key img owner repo anns)
       (Ret (verify_github_actions cs now img owner repo anns)) c"

definition get_sigstore_certificate_verification_cached ::
  "freshness \<Rightarrow> ('layers, 'cv) cosign \<Rightarrow> instant \<Rightarrow> string \<Rightarrow> bytes \<Rightarrow> bytes list option \<Rightarrow> bool
   \<Rightarrow> annotations \<Rightarrow> verification_cache \<Rightarrow> verification_result" where
  "get_sigstore_certificate_verification_cached fresh cs now img certificate certificate_chain require anns c =
     cached_verification fresh now
       (get_sigstore_certificate_verification_cache_key cs img certificate certificate_chain require anns)
       (Ret (verify_certificate_of cs now img certificate certificate_chain require anns)) c"


subsection \<open>What a trusted image was checked against\<close>

lemma verify_all_of_ok:
  "verify_all_of cs now img sigs = Inr v \<longleftrightarrow>
   cs_verify cs now img \<lparr>vc_all_of = Some sigs, vc_any_of = None\<rparr> = Inr (ver_digest v) \<and> ver_is_trusted v"
  by (cases v) (auto simp: verify_all_of_def split: sum.splits)

lemma verify_public_key_ok:
  "verify_public_key cs now img keys anns = Inr v \<longleftrightarrow>
   keys \<noteq> [] \<and> ver_is_trusted v \<and>
   cs_verify cs now img \<lparr>vc_all_of = Some (map (\<lambda>k. SigPubKey None k anns) keys), vc_any_of = None\<rparr>
     = Inr (ver_digest v)"
  by (auto simp: verify_public_key_def verify_all_of_ok)

lemma verify_keyless_ok:
  "verify_keyless cs now img keyless anns = Inr v \<longleftrightarrow>
   keyless \<noteq> [] \<and> ver_is_trusted v \<and>
   cs_verify cs now img \<lparr>vc_all_of = Some (map (\<lambda>k. SigGenericIssuer (keyless_issuer k)
       (SubjectEqual (keyless_subject k)) anns) keyless), vc_any_of = None\<rparr> = Inr (ver_digest v)"
  by (auto simp: verify_keyless_def verify_all_of_ok)

lemma verify_github_actions_ok:
  "verify_github_actions cs now img owner repo anns = Inr v \<longleftrightarrow>
   owner \<noteq> [] \<and> ver_is_trusted v \<and>
   cs_verify cs now img \<lparr>vc_all_of = Some [SigGithubAction owner repo anns], vc_any_of = None\<rparr>
     = Inr (ver_digest v)"
  by (auto simp: verify_github_actions_def verify_all_of_ok)

lemma verify_certificate_ok:
  "verify_certificate_of cs now img certificate chain require anns = Inr v \<longleftrightarrow>
   ver_is_trusted v \<and> (\<exists>layers verifier.
     cs_fetch_remote_data cs now img = Inr (ver_digest v, layers) \<and>
     cs_from_pem cs certificate require
       (map_option (map (\<lambda>d. \<lparr>rcert_data = d, rcert_encoding = Pem\<rparr>)) chain) = Inr verifier \<and>
     cs_verify_constraints cs layers (CertificateVerifier verifier #
       (case anns of Some a \<Rightarrow> [AnnotationVerifier a] | None \<Rightarrow> [])) = Inr ())"
  by (cases v) (auto simp: verify_certificate_of_def bind_result_def split: sum.splits prod.splits)

text \<open>Every prefix is parsed before anything is verified, and the first bad one panics.\<close>

lemma prefix_signature_panics:
  "no_panic (prefix_signature cs anns k) \<longleftrightarrow> is_ok (cs_parse_url cs (keyless_prefix_url_prefix k))"
  by (simp add: prefix_signature_def is_ok_def split: sum.splits)

lemma prefix_signatures:
  "exec_map (prefix_signature cs anns) ks = Ret sigs \<longleftrightarrow>
   list_all2 (\<lambda>k s. \<exists>u. cs_parse_url cs (keyless_prefix_url_prefix k) = Inr u \<and>
     s = SigGenericIssuer (keyless_prefix_issuer k) (SubjectUrlPrefix u) anns) ks sigs"
proof (induction ks arbitrary: sigs)
  case (Cons k ks)
  then show ?case
    by (cases sigs) (auto simp: prefix_signature_def split: sum.splits)
qed auto

lemma verify_keyless_prefix_ok:
  "verify_keyless_prefix cs now img ks anns = Ret (Inr v) \<longleftrightarrow>
   ks \<noteq> [] \<and> ver_is_trusted v \<and> (\<exists>sigs. exec_map (prefix_signature cs anns) ks = Ret sigs \<and>
     cs_verify cs now img \<lparr>vc_all_of = Some sigs, vc_any_of = None\<rparr> = Inr (ver_digest v))"
  by (auto simp: verify_keyless_prefix_def verify_all_of_ok)

lemma exec_map_no_panic_iff: "no_panic (exec_map f xs) \<longleftrightarrow> (\<forall>x \<in> set xs. no_panic (f x))"
proof (induction xs)
  case (Cons x xs)
  then show ?case
    by (cases "f x"; cases "exec_map f xs") auto
qed simp

lemma verify_keyless_prefix_panics:
  "no_panic (verify_keyless_prefix cs now img ks anns) \<longleftrightarrow>
   (\<forall>k \<in> set ks. is_ok (cs_parse_url cs (keyless_prefix_url_prefix k)))"
proof (cases "exec_map (prefix_signature cs anns) ks")
  case (Ret sigs)
  then have "\<forall>k \<in> set ks. no_panic (prefix_signature cs anns k)"
    unfolding exec_map_no_panic_iff [symmetric] by simp
  then show ?thesis
    using Ret by (auto simp: verify_keyless_prefix_def exec_map_no_panic_iff prefix_signature_panics)
next
  case (Panic m)
  then have "\<not> (\<forall>k \<in> set ks. no_panic (prefix_signature cs anns k))" "ks \<noteq> []"
    unfolding exec_map_no_panic_iff [symmetric] by auto
  then show ?thesis
    using Panic by (auto simp: verify_keyless_prefix_def exec_map_no_panic_iff prefix_signature_panics)
qed

text \<open>What a cache of verifications holds: results of verifications with the key it stands under.\<close>

definition verified_by ::
  "('q \<Rightarrow> string) \<Rightarrow> (instant \<Rightarrow> 'q \<Rightarrow> (lib_error + VerificationResponse) exec)
   \<Rightarrow> instant \<Rightarrow> string \<Rightarrow> VerificationResponse cached_return \<Rightarrow> bool" where
  "verified_by key verify t k r \<longleftrightarrow> (\<exists>q. k = key q \<and> verify t q = Ret (Inr (cr_value r)))"

lemma cached_verification_sound:
  assumes run: "cached_verification fresh now (key q) (verify now q) c = Ret (res, c', u)"
    and just: "memo.justified (fresh 60) (verified_by key verify) c"
  shows "memo.justified (fresh 60) (verified_by key verify) c'"
    and "res = Inr r \<Longrightarrow> \<exists>t0 q0. (t0 = now \<or> fresh 60 t0 now) \<and> key q0 = key q \<and>
      verify t0 q0 = Ret (Inr (cr_value r))"
    and "res = Inl e \<Longrightarrow> verify now q = Ret (Inl e)"
proof -
  have ok: "verified_by key verify now (key q) r"
    if "bind_exec (verify now q) (\<lambda>r. Ret (bind_result r (\<lambda>v. Inr (return_new v)), ())) = Ret (Inr r, u)"
    for r u
  proof -
    obtain res where res: "verify now q = Ret res" "bind_result res (\<lambda>v. Inr (return_new v)) = Inr r"
      using \<open>bind_exec _ _ = _\<close> by auto
    then have "res = Inr (cr_value r)" by (cases res) (auto simp: return_new_def)
    then show ?thesis using res(1) by (auto simp: verified_by_def)
  qed
  note * = cached_call_justified [OF run [unfolded cached_verification_def] just ok]
  show "memo.justified (fresh 60) (verified_by key verify) c'" by (rule *(1))
  show "\<exists>t0 q0. (t0 = now \<or> fresh 60 t0 now) \<and> key q0 = key q \<and> verify t0 q0 = Ret (Inr (cr_value r))"
    if "res = Inr r"
    using *(2) [OF _ that] by (auto simp: verified_by_def) (metis cached_return.select_convs(1) cached_return.surjective cached_return.update_convs(2))+
  show "verify now q = Ret (Inl e)" if "res = Inl e"
  proof -
    have "bind_exec (verify now q) (\<lambda>r. Ret (bind_result r (\<lambda>v. Inr (return_new v)), ())) = Ret (Inl e, u)"
      using that
      by (cases rule: cached_call_cases [OF run [unfolded cached_verification_def]]) simp_all
    then obtain r where "verify now q = Ret r" "bind_result r (\<lambda>v. Inr (return_new v)) = Inl e" by auto
    then show ?thesis by (cases r) auto
  qed
qed


subsection \<open>The key of the certificate verification\<close>

text \<open>
  Where the image, the certificate and the links of its chain end is not part of the hashed text,
  and a missing chain is hashed like an empty one.
\<close>

lemma certificate_text_shift:
  "certificate_cache_text img (cert @ d) (Some chain) require anns =
   certificate_cache_text img cert (Some (d # chain)) require anns"
  by (simp add: certificate_cache_text_def)

lemma certificate_text_no_chain:
  "certificate_cache_text img cert (Some []) require anns = certificate_cache_text img cert None require anns"
  by (simp add: certificate_cache_text_def)

lemma certificate_text_no_annotations:
  "certificate_cache_text img cert chain require (Some []) = certificate_cache_text img cert chain require None"
  by (simp add: certificate_cache_text_def bt_keys_def)

lemma cached_verification_stored:
  assumes "cached_verification fresh t key v [] = Ret (Inr r, cache, ())" "fresh 60 t now"
  shows "cached_verification fresh now key v' cache = Ret (Inr (r\<lparr>cr_was_cached := True\<rparr>), cache, ())"
proof -
  have "cache = cache_set t key r []"
    using assms(1) unfolding cached_verification_def
    by (cases rule: cached_call_cases) (auto simp: cache_get_def hm_get_def)
  then have "cache_get (fresh 60) now key cache = Some r"
    using assms(2) by (simp add: memo.lookup_store)
  then show ?thesis unfolding cached_verification_def by (rule cached_call_hit)
qed

definition example_cosign :: "(unit, bytes) cosign" where
  "example_cosign = \<lparr>
     cs_verify = (\<lambda>now img config. if img = ''signed'' then Inr ''sha256:1'' else Inl (anyhow ''no signature'')),
     cs_fetch_remote_data = (\<lambda>now img. Inr (''sha256:1'', ())),
     cs_from_pem = (\<lambda>certificate require chain. if certificate = ''leaf'' then Inr certificate else Inl (anyhow ''bad PEM'')),
     cs_verify_constraints = (\<lambda>layers constraints. Inr ()),
     cs_parse_url = (\<lambda>url. if url = [] then Inl (anyhow ''relative URL without a base'') else Inr url),
     cs_debug_keyless = (\<lambda>k. debug_str (keyless_issuer k) @ debug_str (keyless_subject k)),
     cs_debug_keyless_prefix = (\<lambda>k. debug_str (keyless_prefix_issuer k) @ debug_str (keyless_prefix_url_prefix k)),
     cs_sha256_hex = (\<lambda>b. b)\<rparr>"

text \<open>C36: the cache of the certificate verification does not tell apart where the certificate ends
  and its chain begins, nor a missing chain from an empty one: as long as a verification is fresh,
  the verification of another certificate, which is the first one followed by the first link of
  its chain, is answered with it, and so is the verification without a chain, although the
  verifier would not accept the other certificate.\<close>

theorem certificate_cache_confusion:
  assumes "get_sigstore_certificate_verification_cached fresh cs t img cert (Some (d # chain)) require anns []
      = Ret (Inr r, cache, ())"
    and "fresh 60 t now"
  shows "get_sigstore_certificate_verification_cached fresh cs now img (cert @ d) (Some chain) require anns cache
      = Ret (Inr (r\<lparr>cr_was_cached := True\<rparr>), cache, ()) \<and>
    (chain = [] \<longrightarrow>
      get_sigstore_certificate_verification_cached fresh cs now img (cert @ d) None require anns cache
        = Ret (Inr (r\<lparr>cr_was_cached := True\<rparr>), cache, ()))"
  using cached_verification_stored [OF assms(1) [unfolded get_sigstore_certificate_verification_cached_def] assms(2)]
  by (auto simp: get_sigstore_certificate_verification_cached_def
      get_sigstore_certificate_verification_cache_key_def certificate_text_shift
      certificate_text_no_chain [symmetric])

theorem certificate_cache_confusion_witness:
  "\<exists>cache r. get_sigstore_certificate_verification_cached (\<lambda>l t now. now < t + l) example_cosign 30 ''img''
       (''leaf'' @ ''root'') None True None cache = Ret (Inr r, cache, ()) \<and> ver_is_trusted (cr_value r) \<and>
     verify_certificate_of example_cosign 30 ''img'' (''leaf'' @ ''root'') None True None = Inl (anyhow ''bad PEM'')"
proof -
  let ?r = "return_new \<lparr>ver_is_trusted = True, ver_digest = ''sha256:1''\<rparr>"
  have "verify_certificate_of example_cosign 0 ''img'' ''leaf'' (Some [''root'']) True None =
      Inr \<lparr>ver_is_trusted = True, ver_digest = ''sha256:1''\<rparr>"
    by (simp add: verify_certificate_of_def example_cosign_def)
  then have run: "get_sigstore_certificate_verification_cached (\<lambda>l t now. now < t + l) example_cosign 0 ''img''
      ''leaf'' (Some [''root'']) True None [] = Ret (Inr ?r,
        cache_set 0 (get_sigstore_certificate_verification_cache_key example_cosign ''img'' ''leaf''
          (Some [''root'']) True None) ?r [], ())"
    by (simp add: get_sigstore_certificate_verification_cached_def cached_verification_def cached_call_def
        cache_get_def hm_get_def)
  have "verify_certificate_of example_cosign 30 ''img'' (''leaf'' @ ''root'') None True None = Inl (anyhow ''bad PEM'')"
    by (simp add: verify_certificate_of_def example_cosign_def)
  moreover have "(30::nat) < 0 + 60" by simp
  note certificate_cache_confusion [OF run this]
  ultimately show ?thesis by (force simp: return_new_def)
qed

end
