(* ===== verification/KubeClient.thy ===== *)
theory KubeClient
  imports Reflector Sigstore
begin

text \<open>
  \<open>src/callback_handler/kubernetes/client.rs\<close> and \<open>src/callback_handler/kubernetes.rs\<close>: the client
  that answers the Kubernetes requests of policies. Its state, shared by all handlers, is what it
  knows about the kinds of the cluster and the reflectors it started. The API server is the
  parameter \<^theory_text>\<open>kube_api\<close>; its answers depend on the time they are asked for. An operation runs in
  one step, except that the background tasks of the reflectors run on their own; \<open>ConcurrentClient\<close>
  has the steps of an operation and their interleavings.
\<close>

record APIResource =
  apir_name :: string
  apir_kind :: string
  apir_namespaced :: bool

record ('store, 'ev) kube_api =
  ka_watch :: "('store, 'ev) watch_api"
  ka_core_resources :: "instant \<Rightarrow> string \<Rightarrow> lib_error + APIResource list"
  ka_group_resources :: "instant \<Rightarrow> string \<Rightarrow> lib_error + APIResource list"
  ka_get_opt :: "instant \<Rightarrow> ApiResource \<Rightarrow> string option \<Rightarrow> string \<Rightarrow> lib_error + DynamicObject option"
  ka_create_review :: "instant \<Rightarrow> SubjectAccessReview \<Rightarrow> lib_error + json option"

record ApiVersionKind =
  avk_api_version :: string
  avk_kind :: string

record ('store, 'ev) kube_client =
  kc_kube_resources :: "(ApiVersionKind \<times> KubeResource) list"
  kc_reflectors :: "(string \<times> ('store, 'ev) reflector) list"

record ObjectList =
  ol_api_version :: string
  ol_kind :: string
  ol_items :: "DynamicObject list"

definition kube_client_new :: "('store, 'ev) kube_client" where
  "kube_client_new = \<lparr>kc_kube_resources = [], kc_reflectors = []\<rparr>"

type_synonym ('store, 'ev, 'a) client_io = "(('store, 'ev) kube_client, lib_error, 'a) result_st"

subsection \<open>Finding out about a kind\<close>

definition api_resources ::
  "('store, 'ev) kube_api \<Rightarrow> instant \<Rightarrow> string \<Rightarrow> string \<Rightarrow> lib_error + APIResource list" where
  "api_resources ka now api_version kind =
     (if api_version = ''v1'' then ka_core_resources ka now api_version
      else map_err (\<lambda>e. anyhow (''error finding resource '' @ api_version @ '' / '' @ kind @ '': '' @ le_display e))
        (ka_group_resources ka now api_version))"

definition group_and_version :: "string \<Rightarrow> lib_error + (string \<times> string)" where
  "group_and_version api_version =
     (if api_version = ''v1'' then Inr ('''', ''v1'')
      else ok_or (anyhow (''cannot determine group and version for '' @ api_version))
        (split_once (CHR ''/'') api_version))"

definition find_resource ::
  "('store, 'ev) kube_api \<Rightarrow> instant \<Rightarrow> string \<Rightarrow> string \<Rightarrow> lib_error + KubeResource" where
  "find_resource ka now api_version kind =
     bind_result (api_resources ka now api_version kind) (\<lambda>resources_list.
     bind_result (ok_or (anyhow (''Cannot find resource '' @ api_version @ ''/'' @ kind))
       (find (\<lambda>r. apir_kind r = kind) resources_list)) (\<lambda>resource.
     bind_result (group_and_version api_version) (\<lambda>(group_name, version).
       Inr \<lparr>kr_resource = \<lparr>ar_group = group_name, ar_version = version, ar_api_version = api_version,
              ar_kind = kind, ar_plural = apir_name resource\<rparr>,
            kr_namespaced = apir_namespaced resource\<rparr>)))"

definition build_kube_resource ::
  "('store, 'ev) kube_api \<Rightarrow> instant \<Rightarrow> string \<Rightarrow> string \<Rightarrow> ('store, 'ev, KubeResource) client_io" where
  "build_kube_resource ka now api_version kind self =
     (let avk = \<lparr>avk_api_version = api_version, avk_kind = kind\<rparr>
      in case hm_get (kc_kube_resources self) avk of
           Some kr \<Rightarrow> (Inr kr, self)
         | None \<Rightarrow>
             (case find_resource ka now api_version kind of
                Inl e \<Rightarrow> (Inl e, self)
              | Inr kube_resource \<Rightarrow>
                  (Inr kube_resource,
                   self\<lparr>kc_kube_resources := hm_insert avk kube_resource (kc_kube_resources self)\<rparr>)))"

subsection \<open>Listings\<close>

definition get_reflector_reader ::
  "('store, 'ev) kube_api \<Rightarrow> instant \<Rightarrow> string \<Rightarrow> KubeResource \<Rightarrow> string option \<Rightarrow> string option
   \<Rightarrow> string option \<Rightarrow> ('store, 'ev, 'store) client_io" where
  "get_reflector_reader ka now reflector_id resource namespace label_selector field_selector self =
     (case hm_get (kc_reflectors self) reflector_id of
        Some rf \<Rightarrow> (Inr (rf_reader rf), self)
      | None \<Rightarrow>
          (case create_and_run (ka_watch ka) now resource namespace label_selector field_selector of
             Inl e \<Rightarrow> (Inl e, self)
           | Inr rf \<Rightarrow> (Inr (rf_reader rf),
               self\<lparr>kc_reflectors := hm_insert reflector_id rf (kc_reflectors self)\<rparr>)))"

definition list_resources_from_reflector ::
  "('store, 'ev) kube_api \<Rightarrow> instant \<Rightarrow> KubeResource \<Rightarrow> string option \<Rightarrow> string option \<Rightarrow> string option
   \<Rightarrow> ('store, 'ev, ObjectList) client_io" where
  "list_resources_from_reflector ka now resource namespace label_selector field_selector =
     (let reflector_id = compute_id resource namespace label_selector field_selector
      in bind_st (get_reflector_reader ka now reflector_id resource namespace label_selector field_selector)
           (\<lambda>reader. lift_st (Inr \<lparr>ol_api_version = ar_api_version (kr_resource resource),
              ol_kind = ar_kind (kr_resource resource) @ ''List'',
              ol_items = wa_state (ka_watch ka) reader\<rparr>)))"

definition client_list_by_namespace ::
  "('store, 'ev) kube_api \<Rightarrow> instant \<Rightarrow> string \<Rightarrow> string \<Rightarrow> string \<Rightarrow> string option \<Rightarrow> string option
   \<Rightarrow> ('store, 'ev, ObjectList) client_io" where
  "client_list_by_namespace ka now api_version kind namespace label_selector field_selector =
     bind_st (build_kube_resource ka now api_version kind) (\<lambda>resource.
       if \<not> kr_namespaced resource
       then lift_st (Inl (anyhow (''resource '' @ api_version @ ''/'' @ kind @
              '' is cluster wide. Cannot search for it inside of a namespace'')))
       else list_resources_from_reflector ka now resource (Some namespace) label_selector field_selector)"

definition client_list_all ::
  "('store, 'ev) kube_api \<Rightarrow> instant \<Rightarrow> string \<Rightarrow> string \<Rightarrow> string option \<Rightarrow> string option
   \<Rightarrow> ('store, 'ev, ObjectList) client_io" where
  "client_list_all ka now api_version kind label_selector field_selector =
     bind_st (build_kube_resource ka now api_version kind) (\<lambda>resource.
       list_resources_from_reflector ka now resource None label_selector field_selector)"

text \<open>A query that no reflector serves counts as changed.\<close>

definition have_reflector_resources_changed_since ::
  "KubeResource \<Rightarrow> string option \<Rightarrow> string option \<Rightarrow> string option \<Rightarrow> instant
   \<Rightarrow> ('store, 'ev) kube_client \<Rightarrow> bool" where
  "have_reflector_resources_changed_since resource namespace label_selector field_selector since self =
     (case hm_get (kc_reflectors self) (compute_id resource namespace label_selector field_selector) of
        Some rf \<Rightarrow> since < last_change_seen_at rf
      | None \<Rightarrow> True)"

definition client_has_changed ::
  "('store, 'ev) kube_api \<Rightarrow> instant \<Rightarrow> string \<Rightarrow> string \<Rightarrow> string option \<Rightarrow> string option \<Rightarrow> instant
   \<Rightarrow> ('store, 'ev, bool) client_io" where
  "client_has_changed ka now api_version kind label_selector field_selector since =
     bind_st (build_kube_resource ka now api_version kind) (\<lambda>resource self.
       (Inr (have_reflector_resources_changed_since resource None label_selector field_selector since self), self))"

subsection \<open>Single resources and reviews\<close>

definition client_get_resource ::
  "('store, 'ev) kube_api \<Rightarrow> instant \<Rightarrow> string \<Rightarrow> string \<Rightarrow> string \<Rightarrow> string option
   \<Rightarrow> ('store, 'ev, DynamicObject) client_io" where
  "client_get_resource ka now api_version kind name namespace =
     bind_st (build_kube_resource ka now api_version kind) (\<lambda>resource.
     bind_st (lift_st
       (if kr_namespaced resource
        then map_err anyhow (ok_or (''Resource '' @ api_version @ ''/'' @ kind @
               '' is namespaced, but no namespace was provided'') (map_option Some namespace))
        else Inr None)) (\<lambda>api_namespace.
     bind_st (lift_st (ka_get_opt ka now (kr_resource resource) api_namespace name)) (\<lambda>obj.
       lift_st (ok_or (anyhow (''Cannot find '' @ api_version @ ''/'' @ kind @ '' named '' @ squote @ name @
         squote @ '' inside of namespace '' @ squote @ debug_opt debug_str namespace @ squote)) obj))))"

definition client_plural_name ::
  "('store, 'ev) kube_api \<Rightarrow> instant \<Rightarrow> string \<Rightarrow> string \<Rightarrow> ('store, 'ev, string) client_io" where
  "client_plural_name ka now api_version kind =
     bind_st (build_kube_resource ka now api_version kind) (\<lambda>resource.
       lift_st (Inr (ar_plural (kr_resource resource))))"

definition client_can_i ::
  "('store, 'ev) kube_api \<Rightarrow> instant \<Rightarrow> SubjectAccessReview \<Rightarrow> lib_error + json" where
  "client_can_i ka now request =
     bind_result (ka_create_review ka now request)
       (\<lambda>status. ok_or (anyhow ''SubjectAccessReview did not return a response'') status)"


subsection \<open>The functions the handler calls\<close>

text \<open>
  Without a client every function fails. \<^theory_text>\<open>flag\<close> is the value of \<open>was_cached\<close> the function sets.
\<close>

definition with_client ::
  "bool \<Rightarrow> ('store, 'ev, 'a) client_io \<Rightarrow> ('store, 'ev) kube_client option
   \<Rightarrow> (lib_error + 'a cached_return) \<times> ('store, 'ev) kube_client option" where
  "with_client flag operation client =
     (case client of
        None \<Rightarrow> (Inl (anyhow ''kube::Client was not initialized properly''), None)
      | Some cl \<Rightarrow> (case operation cl of (r, cl') \<Rightarrow>
          (bind_result r (\<lambda>v. Inr \<lparr>cr_value = v, cr_was_cached = flag\<rparr>), Some cl')))"

type_synonym ('store, 'ev, 'a) kube_call =
  "('store, 'ev) kube_client option \<Rightarrow> (lib_error + 'a cached_return) \<times> ('store, 'ev) kube_client option"

definition list_resources_by_namespace ::
  "('store, 'ev) kube_api \<Rightarrow> instant \<Rightarrow> string \<Rightarrow> string \<Rightarrow> string \<Rightarrow> string option \<Rightarrow> string option
   \<Rightarrow> ('store, 'ev, ObjectList) kube_call" where
  "list_resources_by_namespace ka now api_version kind namespace label_selector field_selector =
     with_client False (client_list_by_namespace ka now api_version kind namespace label_selector field_selector)"

definition list_resources_all ::
  "('store, 'ev) kube_api \<Rightarrow> instant \<Rightarrow> string \<Rightarrow> string \<Rightarrow> string option \<Rightarrow> string option
   \<Rightarrow> ('store, 'ev, ObjectList) kube_call" where
  "list_resources_all ka now api_version kind label_selector field_selector =
     with_client False (client_list_all ka now api_version kind label_selector field_selector)"

definition get_resource ::
  "('store, 'ev) kube_api \<Rightarrow> instant \<Rightarrow> string \<Rightarrow> string \<Rightarrow> string \<Rightarrow> string option
   \<Rightarrow> ('store, 'ev, DynamicObject) kube_call" where
  "get_resource ka now api_version kind name namespace =
     with_client False (client_get_resource ka now api_version kind name namespace)"

definition get_resource_cache_key :: "string \<Rightarrow> string \<Rightarrow> string \<Rightarrow> string option \<Rightarrow> string" where
  "get_resource_cache_key api_version kind name namespace =
     ''get_resource_cached('' @ api_version @ '','' @ kind @ ''),'' @ name @ '','' @ debug_opt debug_str namespace"

definition get_resource_cached ::
  "freshness \<Rightarrow> ('store, 'ev) kube_api \<Rightarrow> instant \<Rightarrow> string \<Rightarrow> string \<Rightarrow> string \<Rightarrow> string option
   \<Rightarrow> (string, DynamicObject cached_return) timed_cache \<Rightarrow> ('store, 'ev) kube_client option
   \<Rightarrow> ((lib_error + DynamicObject cached_return) \<times> (string, DynamicObject cached_return) timed_cache
       \<times> ('store, 'ev) kube_client option) exec" where
  "get_resource_cached fresh ka now api_version kind name namespace c client =
     cached_call (fresh 5) now (get_resource_cache_key api_version kind name namespace)
       (\<lambda>client. Ret (get_resource ka now api_version kind name namespace client)) c client"

text \<open>Always flagged as cached: the client keeps the kinds it has seen.\<close>

definition get_resource_plural_name ::
  "('store, 'ev) kube_api \<Rightarrow> instant \<Rightarrow> string \<Rightarrow> string \<Rightarrow> ('store, 'ev, string) kube_call" where
  "get_resource_plural_name ka now api_version kind =
     with_client True (client_plural_name ka now api_version kind)"

definition has_list_resources_all_result_changed_since_instant ::
  "('store, 'ev) kube_api \<Rightarrow> instant \<Rightarrow> string \<Rightarrow> string \<Rightarrow> string option \<Rightarrow> string option \<Rightarrow> instant
   \<Rightarrow> ('store, 'ev, bool) kube_call" where
  "has_list_resources_all_result_changed_since_instant ka now api_version kind label_selector field_selector since =
     with_client False (client_has_changed ka now api_version kind label_selector field_selector since)"

definition can_i ::
  "('store, 'ev) kube_api \<Rightarrow> instant \<Rightarrow> SubjectAccessReview \<Rightarrow> ('store, 'ev, json) kube_call" where
  "can_i ka now request = with_client False (lift_st (client_can_i ka now request))"

definition can_i_cached ::
  "freshness \<Rightarrow> ('store, 'ev) kube_api \<Rightarrow> instant \<Rightarrow> SubjectAccessReview
   \<Rightarrow> (SubjectAccessReview, json cached_return) timed_cache \<Rightarrow> ('store, 'ev) kube_client option
   \<Rightarrow> ((lib_error + json cached_return) \<times> (SubjectAccessReview, json cached_return) timed_cache
       \<times> ('store, 'ev) kube_client option) exec" where
  "can_i_cached fresh ka now request c client =
     cached_call (fresh 5) now request (\<lambda>client. Ret (can_i ka now request client)) c client"

subsection \<open>What the client knows\<close>

text \<open>
  What the client knows about a kind was found out once, is about that kind, and stays. A
  reflector stands under the identifier of the query it was created for.
\<close>

definition found :: "('store, 'ev) kube_api \<Rightarrow> string \<Rightarrow> string \<Rightarrow> KubeResource \<Rightarrow> bool" where
  "found ka api_version kind resource \<longleftrightarrow> (\<exists>t. find_resource ka t api_version kind = Inr resource)"

definition reflector_for ::
  "('store, 'ev) kube_api \<Rightarrow> KubeResource \<Rightarrow> string option \<Rightarrow> string option \<Rightarrow> string option
   \<Rightarrow> ('store, 'ev) reflector \<Rightarrow> bool" where
  "reflector_for ka resource ns ls fs rf \<longleftrightarrow>
     (\<exists>t rf0. create_and_run (ka_watch ka) t resource ns ls fs = Inr rf0 \<and>
        (\<lambda>x y. \<exists>now. watch_step (ka_watch ka) now x y)\<^sup>*\<^sup>* rf0 rf)"

definition client_ok :: "('store, 'ev) kube_api \<Rightarrow> ('store, 'ev) kube_client \<Rightarrow> bool" where
  "client_ok ka c \<longleftrightarrow>
     (\<forall>avk kr. hm_get (kc_kube_resources c) avk = Some kr \<longrightarrow>
        found ka (avk_api_version avk) (avk_kind avk) kr) \<and>
     (\<forall>i rf. hm_get (kc_reflectors c) i = Some rf \<longrightarrow>
        (\<exists>a k resource ns ls fs. i = compute_id resource ns ls fs \<and> found ka a k resource \<and>
           reflector_for ka resource ns ls fs rf))"

definition client_grows :: "('store, 'ev) kube_client \<Rightarrow> ('store, 'ev) kube_client \<Rightarrow> bool" where
  "client_grows c c' \<longleftrightarrow>
     (\<forall>avk kr. hm_get (kc_kube_resources c) avk = Some kr \<longrightarrow> hm_get (kc_kube_resources c') avk = Some kr) \<and>
     (\<forall>i rf. hm_get (kc_reflectors c) i = Some rf \<longrightarrow> hm_get (kc_reflectors c') i = Some rf)"

lemma client_grows_refl [simp, intro]: "client_grows c c"
  by (simp add: client_grows_def)

lemma client_grows_trans: "client_grows a b \<Longrightarrow> client_grows b c \<Longrightarrow> client_grows a c"
  by (simp add: client_grows_def)

lemma client_new_ok [simp, intro]: "client_ok ka kube_client_new"
  by (simp add: client_ok_def kube_client_new_def hm_get_def)

text \<open>The contract of an operation of the client, with a condition on what it returns.\<close>

definition op_ok ::
  "('store, 'ev) kube_api \<Rightarrow> ('a \<Rightarrow> ('store, 'ev) kube_client \<Rightarrow> bool) \<Rightarrow> ('store, 'ev, 'a) client_io \<Rightarrow> bool" where
  "op_ok ka Q f \<longleftrightarrow> (\<forall>c r c'. client_ok ka c \<longrightarrow> f c = (r, c') \<longrightarrow>
     client_ok ka c' \<and> client_grows c c' \<and> (\<forall>a. r = Inr a \<longrightarrow> Q a c'))"

lemma op_okD:
  "op_ok ka Q f \<Longrightarrow> client_ok ka c \<Longrightarrow> f c = (r, c') \<Longrightarrow> client_ok ka c' \<and> client_grows c c'"
  by (simp add: op_ok_def)

lemma op_ok_result:
  "op_ok ka Q f \<Longrightarrow> client_ok ka c \<Longrightarrow> f c = (Inr a, c') \<Longrightarrow> Q a c'"
  by (simp add: op_ok_def)

lemma op_ok_lift: "(\<And>a c. r = Inr a \<Longrightarrow> Q a c) \<Longrightarrow> op_ok ka Q (lift_st r)"
  by (simp add: op_ok_def)

lemma op_ok_bind:
  assumes m: "op_ok ka (\<lambda>a c. Q a) m" and f: "\<And>a. Q a \<Longrightarrow> op_ok ka R (f a)"
  shows "op_ok ka R (bind_st m f)"
  unfolding op_ok_def
proof (intro allI impI)
  fix c r c'
  assume c: "client_ok ka c" and run: "bind_st m f c = (r, c')"
  obtain r1 c1 where m1: "m c = (r1, c1)" by (cases "m c")
  have c1: "client_ok ka c1" "client_grows c c1"
    using op_okD [OF m c m1] by simp_all
  show "client_ok ka c' \<and> client_grows c c' \<and> (\<forall>b. r = Inr b \<longrightarrow> R b c')"
  proof (cases r1)
    case (Inl e)
    then show ?thesis using run m1 c1 by (auto simp: bind_st_def)
  next
    case (Inr a)
    then have fa: "f a c1 = (r, c')" using run m1 by (simp add: bind_st_def)
    have Q: "Q a" using op_ok_result [OF m c] m1 Inr by simp
    show ?thesis
      using op_okD [OF f [OF Q] c1(1) fa] op_ok_result [OF f [OF Q] c1(1)] fa c1(2)
      by (auto intro: client_grows_trans)
  qed
qed

lemma build_kube_resource_ok:
  "op_ok ka (\<lambda>resource c. found ka a k resource) (build_kube_resource ka now a k)"
proof -
  have "found ka a k resource" if "find_resource ka now a k = Inr resource" for resource
    using that unfolding found_def by blast
  then show ?thesis
    by (fastforce simp: op_ok_def build_kube_resource_def Let_def client_ok_def client_grows_def hm_get_insert
        split: option.splits sum.splits if_splits)
qed

lemma get_reflector_reader_ok:
  assumes "found ka a k resource"
  shows "op_ok ka (\<lambda>reader c. \<exists>rf. hm_get (kc_reflectors c) (compute_id resource ns ls fs) = Some rf \<and>
      reader = rf_reader rf)
    (get_reflector_reader ka now (compute_id resource ns ls fs) resource ns ls fs)"
proof -
  have "reflector_for ka resource ns ls fs rf"
    if "create_and_run (ka_watch ka) now resource ns ls fs = Inr rf" for rf
    unfolding reflector_for_def using that by blast
  then show ?thesis
    using assms
    by (fastforce simp: op_ok_def get_reflector_reader_def client_ok_def client_grows_def hm_get_insert
        split: option.splits sum.splits if_splits)
qed

definition listing_of ::
  "('store, 'ev) kube_api \<Rightarrow> KubeResource \<Rightarrow> ('store, 'ev) reflector \<Rightarrow> ObjectList" where
  "listing_of ka resource rf =
     \<lparr>ol_api_version = ar_api_version (kr_resource resource),
      ol_kind = ar_kind (kr_resource resource) @ ''List'', ol_items = wa_state (ka_watch ka) (rf_reader rf)\<rparr>"

lemma list_from_reflector_ok:
  assumes "found ka a k resource"
  shows "op_ok ka (\<lambda>ol c. \<exists>rf. hm_get (kc_reflectors c) (compute_id resource ns ls fs) = Some rf \<and>
      ol = listing_of ka resource rf)
    (list_resources_from_reflector ka now resource ns ls fs)"
  unfolding op_ok_def
proof (intro allI impI)
  fix c r c'
  assume c: "client_ok ka c" and run: "list_resources_from_reflector ka now resource ns ls fs c = (r, c')"
  obtain r1 c1 where
    read: "get_reflector_reader ka now (compute_id resource ns ls fs) resource ns ls fs c = (r1, c1)"
    by (cases "get_reflector_reader ka now (compute_id resource ns ls fs) resource ns ls fs c")
  note ok = op_okD [OF get_reflector_reader_ok [OF assms] c read]
  show "client_ok ka c' \<and> client_grows c c' \<and> (\<forall>a. r = Inr a \<longrightarrow>
      (\<exists>rf. hm_get (kc_reflectors c') (compute_id resource ns ls fs) = Some rf \<and> a = listing_of ka resource rf))"
  proof (cases r1)
    case (Inl e)
    then show ?thesis using run read ok by (auto simp: list_resources_from_reflector_def bind_st_def)
  next
    case (Inr reader)
    then show ?thesis
      using run read ok op_ok_result [OF get_reflector_reader_ok [OF assms] c, of now ns ls fs reader c1]
      by (auto simp: list_resources_from_reflector_def bind_st_def listing_of_def)
  qed
qed

lemma op_ok_mono: "op_ok ka Q f \<Longrightarrow> (\<And>a c. Q a c \<Longrightarrow> R a c) \<Longrightarrow> op_ok ka R f"
  unfolding op_ok_def by metis

text \<open>Where a listing comes from.\<close>

definition listed ::
  "('store, 'ev) kube_api \<Rightarrow> string \<Rightarrow> string \<Rightarrow> string option \<Rightarrow> string option \<Rightarrow> string option
   \<Rightarrow> ObjectList \<Rightarrow> ('store, 'ev) kube_client \<Rightarrow> bool" where
  "listed ka a k ns ls fs ol c \<longleftrightarrow> (\<exists>resource rf. found ka a k resource \<and>
     hm_get (kc_reflectors c) (compute_id resource ns ls fs) = Some rf \<and> ol = listing_of ka resource rf)"

lemma client_ops_ok:
  "op_ok ka (listed ka a k (Some n) ls fs) (client_list_by_namespace ka now a k n ls fs)"
  "op_ok ka (listed ka a k None ls fs) (client_list_all ka now a k ls fs)"
  "op_ok ka (\<lambda>_ _. True) (client_get_resource ka now a k name nso)"
  "op_ok ka (\<lambda>_ _. True) (client_plural_name ka now a k)"
  "op_ok ka (\<lambda>_ _. True) (client_has_changed ka now a k ls fs since)"
proof -
  have list: "op_ok ka (listed ka a k nso ls fs) (list_resources_from_reflector ka now resource nso ls fs)"
    if "found ka a k resource" for resource nso
    by (rule op_ok_mono [OF list_from_reflector_ok [OF that]]) (use that in \<open>auto simp: listed_def\<close>)
  show "op_ok ka (listed ka a k (Some n) ls fs) (client_list_by_namespace ka now a k n ls fs)"
    unfolding client_list_by_namespace_def
    by (rule op_ok_bind [OF build_kube_resource_ok]) (auto intro: list op_ok_lift)
  show "op_ok ka (listed ka a k None ls fs) (client_list_all ka now a k ls fs)"
    unfolding client_list_all_def
    by (rule op_ok_bind [OF build_kube_resource_ok]) (simp add: list)
  show "op_ok ka (\<lambda>_ _. True) (client_get_resource ka now a k name nso)"
    unfolding client_get_resource_def
    by (rule op_ok_bind [OF build_kube_resource_ok], rule op_ok_bind [where Q = "\<lambda>_. True"],
      simp add: op_ok_lift, rule op_ok_bind [where Q = "\<lambda>_. True"]) (simp_all add: op_ok_lift)
  show "op_ok ka (\<lambda>_ _. True) (client_plural_name ka now a k)"
    unfolding client_plural_name_def
    by (rule op_ok_bind [OF build_kube_resource_ok]) (simp add: op_ok_lift)
  show "op_ok ka (\<lambda>_ _. True) (client_has_changed ka now a k ls fs since)"
    unfolding client_has_changed_def
    by (rule op_ok_bind [OF build_kube_resource_ok]) (simp add: op_ok_def)
qed

text \<open>
  Names of the API server have no vertical bar: a hypothesis about Kubernetes, where the names of
  kinds, groups and versions are DNS labels and identifiers.
\<close>

definition plain_names :: "('store, 'ev) kube_api \<Rightarrow> bool" where
  "plain_names ka \<longleftrightarrow> (\<forall>a k resource. found ka a k resource \<longrightarrow> CHR ''|'' \<notin> set a \<and> CHR ''|'' \<notin> set k)"

lemma found_names:
  "found ka a k resource \<Longrightarrow> ar_api_version (kr_resource resource) = a \<and> ar_kind (kr_resource resource) = k"
  by (auto simp: found_def find_resource_def bind_result_Inr_iff)

lemma compute_id_same_query:
  assumes plain: "plain_names ka" and f: "found ka a k resource" and f0: "found ka a0 k0 resource0"
    and i: "compute_id resource ns ls fs = compute_id resource0 ns0 ls0 fs0"
  shows "a0 = a \<and> k0 = k \<and> ns0 = ns \<and> ls0 = ls \<and> fs0 = fs"
proof -
  have "CHR ''|'' \<notin> set a" "CHR ''|'' \<notin> set k" "CHR ''|'' \<notin> set a0" "CHR ''|'' \<notin> set k0"
    using plain f f0 unfolding plain_names_def by blast+
  then show ?thesis using i found_names [OF f] found_names [OF f0] by (simp add: compute_id_inj)
qed

text \<open>Under plain names, the reflector behind an identifier was created for the same query.\<close>

lemma reflector_serves_query:
  assumes ok: "client_ok ka c" and plain: "plain_names ka" and f: "found ka a k resource"
    and rf: "hm_get (kc_reflectors c) (compute_id resource ns ls fs) = Some rf"
  shows "\<exists>resource0. found ka a k resource0 \<and> reflector_for ka resource0 ns ls fs rf"
proof -
  obtain a0 k0 resource0 ns0 ls0 fs0 where
    i: "compute_id resource ns ls fs = compute_id resource0 ns0 ls0 fs0" and
    f0: "found ka a0 k0 resource0" and r0: "reflector_for ka resource0 ns0 ls0 fs0 rf"
    using ok rf unfolding client_ok_def by blast
  from compute_id_same_query [OF plain f f0 i] show ?thesis using f0 r0 by blast
qed

end
