(* ===== verification/Crypto.thy ===== *)
theory Crypto
  imports Sigstore
begin

text \<open>
  \<open>src/callback_handler/crypto.rs\<close>: whether a certificate is trusted. Parsing and path validation
  belong to the crates \<open>webpki\<close>, \<open>pki_types\<close> and \<open>chrono\<close>, the parameter \<^theory_text>\<open>webpki\<close>; the code
  chooses the time, the roots and the intermediates, and turns the outcome into a verdict. The
  clock is an argument, in seconds since 1970.
\<close>

datatype webpki_error =
    InvalidSignatureForPublicKey
  | CertExpired i64 i64
  | CertNotValidYet i64 i64
  | UnknownIssuer
  | OtherWebpkiError string

record ('der, 'ee, 'anchor) webpki =
  wp_from_pem_slice :: "bytes \<Rightarrow> lib_error + 'der"
  wp_from_slice :: "bytes \<Rightarrow> 'der"
  wp_end_entity :: "'der \<Rightarrow> lib_error + 'ee"
  wp_anchor :: "'der \<Rightarrow> lib_error + 'anchor"
  wp_tls_server_roots :: "'anchor list"
  wp_verify_for_usage :: "'ee \<Rightarrow> 'anchor list \<Rightarrow> 'der list \<Rightarrow> u64 \<Rightarrow> webpki_error + unit"
  wp_parse_from_rfc3339 :: "string \<Rightarrow> i64 option"
  wp_display :: "webpki_error \<Rightarrow> string"

record ('der, 'anchor) CertificatePool =
  cp_trusted_roots :: "'anchor list"
  cp_intermediates :: "'der list"

definition certificate_used_after_expiration :: string where
  "certificate_used_after_expiration = ''Certificate is being used after its expiration date''"

definition certificate_used_before_validity :: string where
  "certificate_used_before_validity = ''Certificate is being used before its validity date''"

definition certificate_not_trusted_by_chain :: string where
  "certificate_not_trusted_by_chain = ''Certificate is not trusted by the provided cert chain''"

definition get_certificate_der ::
  "('der, 'ee, 'anchor) webpki \<Rightarrow> Certificate \<Rightarrow> lib_error + 'der" where
  "get_certificate_der wp cert =
     (case cert_encoding cert of
        Pem \<Rightarrow> map_err (\<lambda>e. anyhow (''Certificate PEM data is not valid: '' @ le_display e))
          (wp_from_pem_slice wp (cert_data cert))
      | Der \<Rightarrow> Inr (wp_from_slice wp (cert_data cert)))"

text \<open>The last certificate is the root; the others are popped from the end.\<close>

definition from_certificates ::
  "('der, 'ee, 'anchor) webpki \<Rightarrow> Certificate list \<Rightarrow> lib_error + ('der, 'anchor) CertificatePool" where
  "from_certificates wp certs =
     bind_result (try_map (get_certificate_der wp) certs) (\<lambda>certs_der.
     if certs_der = [] then Inr \<lparr>cp_trusted_roots = [], cp_intermediates = []\<rparr>
     else bind_result (wp_anchor wp (last certs_der)) (\<lambda>root.
       Inr \<lparr>cp_trusted_roots = [root], cp_intermediates = rev (butlast certs_der)\<rparr>))"

definition from_webpki_roots ::
  "('der, 'ee, 'anchor) webpki \<Rightarrow> lib_error + ('der, 'anchor) CertificatePool" where
  "from_webpki_roots wp = Inr \<lparr>cp_trusted_roots = wp_tls_server_roots wp, cp_intermediates = []\<rparr>"

definition untrusted :: "string \<Rightarrow> CertificateVerificationResponse" where
  "untrusted reason = \<lparr>ctr_trusted = False, ctr_reason = reason\<rparr>"

definition verification_verdict ::
  "('der, 'ee, 'anchor) webpki \<Rightarrow> webpki_error + unit \<Rightarrow> CertificateVerificationResponse" where
  "verification_verdict wp verification_result =
     (case verification_result of
        Inr u \<Rightarrow> \<lparr>ctr_trusted = True, ctr_reason = []\<rparr>
      | Inl InvalidSignatureForPublicKey \<Rightarrow> untrusted certificate_not_trusted_by_chain
      | Inl (CertExpired t not_after) \<Rightarrow> untrusted certificate_used_after_expiration
      | Inl (CertNotValidYet t not_before) \<Rightarrow> untrusted certificate_used_before_validity
      | Inl UnknownIssuer \<Rightarrow> untrusted certificate_not_trusted_by_chain
      | Inl e \<Rightarrow> untrusted (''Certificate not trusted: '' @ wp_display wp e))"

definition verify_cert_chain ::
  "('der, 'ee, 'anchor) webpki \<Rightarrow> Certificate list option \<Rightarrow> 'ee \<Rightarrow> u64
   \<Rightarrow> lib_error + CertificateVerificationResponse cached_return" where
  "verify_cert_chain wp cert_chain end_entity verification_time =
     bind_result (case cert_chain of
         None \<Rightarrow> from_webpki_roots wp
       | Some chain \<Rightarrow> from_certificates wp chain) (\<lambda>cert_pool.
       Inr (return_new (verification_verdict wp
         (wp_verify_for_usage wp end_entity (cp_trusted_roots cert_pool) (cp_intermediates cert_pool)
            verification_time))))"

text \<open>
  The time of the verification. A timestamp is a signed number of seconds, and \<^theory_text>\<open>as u64\<close> keeps
  its bits.
\<close>

definition verification_time ::
  "('der, 'ee, 'anchor) webpki \<Rightarrow> i64 \<Rightarrow> string option \<Rightarrow> lib_error + u64" where
  "verification_time wp now not_after =
     (case not_after of
        Some not_after_str \<Rightarrow>
          bind_result (ok_or (anyhow ''Timestamp not_after is not in RFC3339 format'')
            (wp_parse_from_rfc3339 wp not_after_str)) (\<lambda>timestamp. Inr (ucast timestamp))
      | None \<Rightarrow> Inr (ucast now))"

definition verify_certificate ::
  "('der, 'ee, 'anchor) webpki \<Rightarrow> i64 \<Rightarrow> CertificateVerificationRequest
   \<Rightarrow> lib_error + CertificateVerificationResponse cached_return" where
  "verify_certificate wp now req =
     bind_result (get_certificate_der wp (cvr_cert req)) (\<lambda>cert_der.
     bind_result (map_err (\<lambda>e. anyhow (''Certificate is not a valid end-entity certificate: '' @ le_display e))
       (wp_end_entity wp cert_der)) (\<lambda>end_entity_certificate.
     bind_result (verification_time wp now (cvr_not_after req)) (\<lambda>t.
       verify_cert_chain wp (cvr_cert_chain req) end_entity_certificate t)))"

subsection \<open>The verdict\<close>

lemma verdict_trusted: "ctr_trusted (verification_verdict wp r) \<longleftrightarrow> is_ok r"
  by (simp add: verification_verdict_def untrusted_def split: sum.splits webpki_error.splits)

lemma verdict_reason: "ctr_trusted (verification_verdict wp r) \<longleftrightarrow> ctr_reason (verification_verdict wp r) = []"
  by (simp add: verification_verdict_def untrusted_def certificate_used_after_expiration_def
      certificate_used_before_validity_def certificate_not_trusted_by_chain_def
      split: sum.splits webpki_error.splits)

lemma from_certificates_roots:
  "from_certificates wp certs = Inr pool \<Longrightarrow>
   length (cp_trusted_roots pool) = (if certs = [] then 0 else 1) \<and>
   length (cp_intermediates pool) = length certs - 1"
proof -
  assume "from_certificates wp certs = Inr pool"
  moreover have "try_map f xs = Inr ys \<Longrightarrow> length ys = length xs" for f :: "Certificate \<Rightarrow> lib_error + 'a" and xs ys
    by (induction xs arbitrary: ys) auto
  ultimately show ?thesis
    by (fastforce simp: from_certificates_def split: if_splits)
qed

text \<open>A point in time before 1970 becomes one in the far future.\<close>

lemma time_before_epoch:
  assumes "sint (ts :: i64) < 0"
  shows "uint (ucast ts :: u64) = 2 ^ 64 + sint ts"
proof -
  have "- (2 ^ 63) \<le> sint ts" using sint_greater_eq [of ts] by simp
  then have "sint ts mod 2 ^ 64 = (sint ts + 2 ^ 64) mod 2 ^ 64" and "0 \<le> sint ts + 2 ^ 64"
      and "sint ts + 2 ^ 64 < 2 ^ 64"
    using assms by simp_all
  then have "sint ts mod 2 ^ 64 = sint ts + 2 ^ 64" by (metis mod_pos_pos_trivial)
  then show ?thesis by (simp add: uint_sint [of ts] take_bit_eq_mod)
qed


text \<open>What a certificate is checked against: specified without the code's order of steps.\<close>

definition chosen_pool ::
  "('der, 'ee, 'anchor) webpki \<Rightarrow> Certificate list option \<Rightarrow> 'anchor list \<Rightarrow> 'der list \<Rightarrow> bool" where
  "chosen_pool wp chain roots intermediates \<longleftrightarrow>
     (case chain of
        None \<Rightarrow> roots = wp_tls_server_roots wp \<and> intermediates = []
      | Some certs \<Rightarrow> (\<exists>ders. map (get_certificate_der wp) certs = map Inr ders \<and>
          (if certs = [] then roots = [] \<and> intermediates = []
           else \<exists>root. wp_anchor wp (last ders) = Inr root \<and> roots = [root] \<and>
             rev intermediates @ [last ders] = ders)))"

definition chosen_time ::
  "('der, 'ee, 'anchor) webpki \<Rightarrow> i64 \<Rightarrow> string option \<Rightarrow> u64 \<Rightarrow> bool" where
  "chosen_time wp now not_after t \<longleftrightarrow>
     (case not_after of
        None \<Rightarrow> t = ucast now
      | Some s \<Rightarrow> (\<exists>ts. wp_parse_from_rfc3339 wp s = Some ts \<and>
          uint t = (if sint ts < 0 then 2 ^ 64 + sint ts else sint ts)))"

lemma try_map_map_Inr: "try_map f xs = Inr ys \<longleftrightarrow> map f xs = map Inr ys"
  by (induction xs arbitrary: ys) (auto simp: Cons_eq_map_conv map_eq_Cons_conv)

lemma chosen_pool_iff:
  "(case chain of None \<Rightarrow> from_webpki_roots wp | Some certs \<Rightarrow> from_certificates wp certs) = Inr pool \<longleftrightarrow>
   chosen_pool wp chain (cp_trusted_roots pool) (cp_intermediates pool)"
proof (cases chain)
  case None
  then show ?thesis
    by (cases pool) (auto simp: chosen_pool_def from_webpki_roots_def)
next
  case (Some certs)
  show ?thesis
  proof (cases "certs = []")
    case True
    then show ?thesis
      using Some by (cases pool) (auto simp: chosen_pool_def from_certificates_def)
  next
    case False
    have "from_certificates wp certs = Inr pool \<longleftrightarrow> (\<exists>ders root.
        map (get_certificate_der wp) certs = map Inr ders \<and> wp_anchor wp (last ders) = Inr root \<and>
        pool = \<lparr>cp_trusted_roots = [root], cp_intermediates = rev (butlast ders)\<rparr>)"
    proof -
      have "(if ders = [] then Inr \<lparr>cp_trusted_roots = [], cp_intermediates = []\<rparr>
          else bind_result (wp_anchor wp (last ders)) (\<lambda>root.
            Inr \<lparr>cp_trusted_roots = [root], cp_intermediates = rev (butlast ders)\<rparr>)) = Inr pool \<longleftrightarrow>
          (\<exists>root. wp_anchor wp (last ders) = Inr root \<and>
            pool = \<lparr>cp_trusted_roots = [root], cp_intermediates = rev (butlast ders)\<rparr>)"
        if "map (get_certificate_der wp) certs = map Inr ders" for ders
      proof -
        have "ders \<noteq> []" using that False by auto
        then show ?thesis by auto
      qed
      then show ?thesis
        unfolding from_certificates_def bind_result_Inr_iff try_map_map_Inr by blast
    qed
    also have "\<dots> \<longleftrightarrow> (\<exists>ders root.
        map (get_certificate_der wp) certs = map Inr ders \<and> wp_anchor wp (last ders) = Inr root \<and>
        cp_trusted_roots pool = [root] \<and> rev (cp_intermediates pool) @ [last ders] = ders)"
    proof -
      have "pool = \<lparr>cp_trusted_roots = [root], cp_intermediates = rev (butlast ders)\<rparr> \<longleftrightarrow>
          cp_trusted_roots pool = [root] \<and> rev (cp_intermediates pool) @ [last ders] = ders"
        if "map (get_certificate_der wp) certs = map Inr ders" for ders root
      proof -
        have "ders \<noteq> []" using that False by auto
        then have "rev (cp_intermediates pool) @ [last ders] = ders \<longleftrightarrow>
            rev (cp_intermediates pool) = butlast ders"
          by (metis append_butlast_last_id butlast_snoc)
        then show ?thesis by (cases pool) (auto simp: rev_swap)
      qed
      then show ?thesis by blast
    qed
    finally show ?thesis using Some False by (auto simp: chosen_pool_def)
  qed
qed

lemma time_after_epoch: "0 \<le> sint (ts :: i64) \<Longrightarrow> uint (ucast ts :: u64) = sint ts"
  using sint_less [of ts] by (simp add: uint_sint [of ts] take_bit_eq_mod)

lemma chosen_time_iff: "verification_time wp now not_after = Inr t \<longleftrightarrow> chosen_time wp now not_after t"
proof (cases not_after)
  case None
  then show ?thesis by (auto simp: verification_time_def chosen_time_def)
next
  case (Some s)
  have "t = ucast ts \<longleftrightarrow> uint t = (if sint ts < 0 then 2 ^ 64 + sint ts else sint ts)" for ts :: i64
    using time_before_epoch [of ts] time_after_epoch [of ts] word_uint_eq_iff [of t "ucast ts"]
    by (auto simp del: uint_word_of_int_eq ucast_id)
  note eq = this
  have "verification_time wp now not_after = Inr t \<longleftrightarrow>
      (\<exists>ts. wp_parse_from_rfc3339 wp s = Some ts \<and> t = ucast ts)"
    using Some by (auto simp: verification_time_def)
  also have "\<dots> \<longleftrightarrow> chosen_time wp now not_after t"
    unfolding eq using Some by (simp add: chosen_time_def)
  finally show ?thesis .
qed

text \<open>C30: a certificate is reported trusted exactly when it parses, is an end-entity certificate, and
  the validator accepts it at the time of the request with the chosen certificates: without a
  chain the roots of the platform, and with a chain its last certificate as the only root and the
  others as intermediates. An empty chain leaves no root at all. The time is the given point in
  time, which before 1970 wraps to one in the far future, or the present. A verdict never comes from
  a cache, and gives a reason exactly when the certificate is not trusted.\<close>

theorem certificate_verdict:
  fixes wp :: "('der, 'ee, 'anchor) webpki"
  shows "(\<exists>r. verify_certificate wp now req = Inr r \<and> ctr_trusted (cr_value r) = trusted \<and>
      (ctr_reason (cr_value r) = []) = trusted \<and> \<not> cr_was_cached r) \<longleftrightarrow>
   (\<exists>der ee t roots intermediates.
      get_certificate_der wp (cvr_cert req) = Inr der \<and> wp_end_entity wp der = Inr ee \<and>
      chosen_time wp now (cvr_not_after req) t \<and>
      chosen_pool wp (cvr_cert_chain req) roots intermediates \<and>
      is_ok (wp_verify_for_usage wp ee roots intermediates t) = trusted)"
    (is "?l \<longleftrightarrow> ?r")
proof -
  have run: "verify_certificate wp now req = Inr r \<longleftrightarrow>
      (\<exists>der ee t (pool :: ('der, 'anchor) CertificatePool). get_certificate_der wp (cvr_cert req) = Inr der \<and>
        wp_end_entity wp der = Inr ee \<and> chosen_time wp now (cvr_not_after req) t \<and>
        chosen_pool wp (cvr_cert_chain req) (cp_trusted_roots pool) (cp_intermediates pool) \<and>
        r = return_new (verification_verdict wp (wp_verify_for_usage wp ee (cp_trusted_roots pool)
          (cp_intermediates pool) t)))" for r
    unfolding verify_certificate_def verify_cert_chain_def bind_result_Inr_iff map_err_Inr_iff
      chosen_time_iff chosen_pool_iff sum.inject(2) eq_commute [of r]
    by blast
  show ?thesis
  proof
    assume ?l
    then show ?r unfolding run
      by (elim exE conjE, intro exI conjI) (auto simp: return_new_def verdict_trusted)
  next
    assume ?r
    then obtain der ee t roots intermediates where
      *: "get_certificate_der wp (cvr_cert req) = Inr der" "wp_end_entity wp der = Inr ee"
        "chosen_time wp now (cvr_not_after req) t" "chosen_pool wp (cvr_cert_chain req) roots intermediates"
        "is_ok (wp_verify_for_usage wp ee roots intermediates t) = trusted" by blast
    define pool :: "('der, 'anchor) CertificatePool" where
      "pool = \<lparr>cp_trusted_roots = roots, cp_intermediates = intermediates\<rparr>"
    then have p: "cp_trusted_roots pool = roots" "cp_intermediates pool = intermediates" by simp_all
    have "verify_certificate wp now req =
        Inr (return_new (verification_verdict wp (wp_verify_for_usage wp ee roots intermediates t)))"
      unfolding run using * p by blast
    then show ?l
      using *(5) by (simp add: return_new_def verdict_trusted verdict_reason [symmetric])
  qed
qed

end
