(* ===== verification/CallbackHandler.thy ===== *)
theory CallbackHandler
  imports KubeClient Crypto
begin

text \<open>
  \<open>src/callback_handler.rs\<close> and \<open>src/callback_handler/builder.rs\<close>: the asynchronous side of the
  host. It receives the requests of \<open>src/callback_requests.rs\<close> one after the other, answers each of
  them in a task of its own and stops when it is told to. A request runs in one step at the time it
  is received: the caches are locked while a result is computed. How the operations of the
  Kubernetes client interleave when their tasks run at the same time is in \<open>ConcurrentClient\<close>.
\<close>

subsection \<open>The parts of a handler\<close>

text \<open>The types that are serialized for the synchronous side.\<close>

datatype callback_value =
    ValueDigest string
  | ValueManifest json
  | ValueManifestAndConfig ManifestAndConfigResponse
  | ValueVerification VerificationResponse
  | ValueLookup DnsLookup
  | ValueObjectList ObjectList
  | ValueObject DynamicObject
  | ValueString string
  | ValueBool bool
  | ValueReviewStatus json
  | ValueCertificate CertificateVerificationResponse

record ('src, 'layers, 'cv, 'store, 'ev, 'der, 'ee, 'anchor) async_env =
  ae_fresh :: freshness
  ae_registry :: "'src registry"
  ae_cosign :: "('layers, 'cv) cosign"
  ae_kube :: "('store, 'ev) kube_api"
  ae_webpki :: "('der, 'ee, 'anchor) webpki"
  ae_timestamp :: "instant \<Rightarrow> i64"
  ae_lookup_host :: "instant \<Rightarrow> string \<Rightarrow> lib_error + string list"
  ae_to_vec :: "callback_value \<Rightarrow> lib_error + bytes"

record async_caches =
  ac_digest :: "(string, string cached_return) timed_cache"
  ac_manifest :: "(string, json cached_return) timed_cache"
  ac_manifest_and_config :: "(string, ManifestAndConfigResponse cached_return) timed_cache"
  ac_pub_key :: verification_cache
  ac_keyless :: verification_cache
  ac_keyless_prefix :: verification_cache
  ac_github :: verification_cache
  ac_certificate :: verification_cache
  ac_resource :: "(string, DynamicObject cached_return) timed_cache"
  ac_can_i :: "(SubjectAccessReview, json cached_return) timed_cache"

record ('src, 'store, 'ev) callback_handler =
  ch_oci_client :: "'src oci_client"
  ch_kubernetes_client :: "('store, 'ev) kube_client option"
  ch_caches :: async_caches
  ch_channel_size :: nat

definition empty_caches :: async_caches where
  "empty_caches = \<lparr>ac_digest = [], ac_manifest = [], ac_manifest_and_config = [], ac_pub_key = [],
     ac_keyless = [], ac_keyless_prefix = [], ac_github = [], ac_certificate = [], ac_resource = [],
     ac_can_i = []\<rparr>"

subsection \<open>The builder\<close>

definition default_channel_buff_size :: nat where
  "default_channel_buff_size = 100"

record ('src, 'root) handler_builder =
  hb_oci_sources :: "'src option"
  hb_channel_buffer_size :: nat
  hb_trust_root :: "'root option"
  hb_kube_client :: bool

definition handler_builder_new :: "('src, 'root) handler_builder" where
  "handler_builder_new = \<lparr>hb_oci_sources = None, hb_channel_buffer_size = default_channel_buff_size,
     hb_trust_root = None, hb_kube_client = False\<rparr>"

definition builder_registry_config ::
  "('src, 'root) handler_builder \<Rightarrow> 'src option \<Rightarrow> ('src, 'root) handler_builder" where
  "builder_registry_config self sources = self\<lparr>hb_oci_sources := sources\<rparr>"

definition builder_trust_root ::
  "('src, 'root) handler_builder \<Rightarrow> 'root option \<Rightarrow> ('src, 'root) handler_builder" where
  "builder_trust_root self trust_root = self\<lparr>hb_trust_root := trust_root\<rparr>"

definition builder_channel_buffer_size ::
  "('src, 'root) handler_builder \<Rightarrow> nat \<Rightarrow> ('src, 'root) handler_builder" where
  "builder_channel_buffer_size self buffer_size = self\<lparr>hb_channel_buffer_size := buffer_size\<rparr>"

definition builder_kube_client :: "('src, 'root) handler_builder \<Rightarrow> ('src, 'root) handler_builder" where
  "builder_kube_client self = self\<lparr>hb_kube_client := True\<rparr>"

text \<open>The cosign client: a trust root that cannot be used is an error, none is accepted.\<close>

record ('src, 'root, 'cb, 'cosign) cosign_builder =
  cb_default_sources :: 'src
  cb_new :: "'src \<Rightarrow> 'cb"
  cb_with_trust_repository :: "'root \<Rightarrow> 'cb \<Rightarrow> lib_error + 'cb"
  cb_build :: "'cb \<Rightarrow> lib_error + 'cosign"

definition build_cosign_client ::
  "('src, 'root, 'cb, 'cosign) cosign_builder \<Rightarrow> 'src option \<Rightarrow> 'root option \<Rightarrow> lib_error + 'cosign" where
  "build_cosign_client cb sources trust_root =
     (let cosign_client_builder = cb_new cb (unwrap_or (cb_default_sources cb) sources)
      in case trust_root of
           Some root \<Rightarrow> bind_result (cb_with_trust_repository cb root cosign_client_builder) (cb_build cb)
         | None \<Rightarrow> cb_build cb cosign_client_builder)"

text \<open>
  The channel of the handler: \<^theory_text>\<open>mpsc::channel\<close> panics on a buffer of size 0. The built handler comes
  with the cosign client its verifications use.
\<close>

definition builder_build_handler ::
  "('src, 'root, 'cb, 'cosign) cosign_builder \<Rightarrow> ('src, 'root) handler_builder
   \<Rightarrow> (lib_error + ('cosign \<times> ('src, 'store, 'ev) callback_handler)) exec" where
  "builder_build_handler cb self =
     (if hb_channel_buffer_size self = 0 then Panic ''mpsc bounded channel requires buffer > 0''
      else Ret (bind_result (build_cosign_client cb (hb_oci_sources self) (hb_trust_root self)) (\<lambda>cosign.
        Inr (cosign, \<lparr>ch_oci_client = oci_client_new (hb_oci_sources self),
          ch_kubernetes_client = (if hb_kube_client self then Some kube_client_new else None),
          ch_caches = empty_caches, ch_channel_size = hb_channel_buffer_size self\<rparr>))))"


subsection \<open>Handling a request\<close>

text \<open>The macro: the value of a success is serialized, an error is the answer.\<close>

definition handle_callback ::
  "('src, 'layers, 'cv, 'store, 'ev, 'der, 'ee, 'anchor) async_env \<Rightarrow> ('v \<Rightarrow> callback_value)
   \<Rightarrow> lib_error + 'v cached_return \<Rightarrow> lib_error + bytes" where
  "handle_callback ae wrap response =
     bind_result response (\<lambda>response.
       map_err (\<lambda>e. anyhow (''error serializing payload: '' @ le_debug e))
         (ae_to_vec ae (wrap (cr_value response))))"

definition handle_dns_lookup ::
  "('src, 'layers, 'cv, 'store, 'ev, 'der, 'ee, 'anchor) async_env \<Rightarrow> instant \<Rightarrow> string
   \<Rightarrow> (lib_error + bytes) exec" where
  "handle_dns_lookup ae now host =
     (case ae_lookup_host ae now host of
        Inl e \<Rightarrow> Ret (Inl e)
      | Inr ip_addresses \<Rightarrow>
          (case ae_to_vec ae (ValueLookup \<lparr>lr_ips = ip_addresses\<rparr>) of
             Inr payload \<Rightarrow> Ret (Inr payload)
           | Inl e \<Rightarrow> Panic (''called Result::unwrap() on an Err value: '' @ le_debug e)))"

type_synonym ('src, 'store, 'ev) handled = "((lib_error + bytes) \<times> ('src, 'store, 'ev) callback_handler) exec"

text \<open>Run a cached function on its cache, and a function of the client on the client.\<close>

definition on_cache ::
  "('src, 'layers, 'cv, 'store, 'ev, 'der, 'ee, 'anchor) async_env \<Rightarrow> ('v \<Rightarrow> callback_value)
   \<Rightarrow> ('c \<Rightarrow> ((lib_error + 'v cached_return) \<times> 'c \<times> unit) exec)
   \<Rightarrow> (async_caches \<Rightarrow> 'c) \<Rightarrow> ('c \<Rightarrow> async_caches \<Rightarrow> async_caches)
   \<Rightarrow> ('src, 'store, 'ev) callback_handler \<Rightarrow> ('src, 'store, 'ev) handled" where
  "on_cache ae wrap f sel upd self =
     bind_exec (f (sel (ch_caches self))) (\<lambda>(response, c, u).
       Ret (handle_callback ae wrap response, self\<lparr>ch_caches := upd c (ch_caches self)\<rparr>))"

definition on_client ::
  "('src, 'layers, 'cv, 'store, 'ev, 'der, 'ee, 'anchor) async_env \<Rightarrow> ('v \<Rightarrow> callback_value)
   \<Rightarrow> ('store, 'ev, 'v) kube_call \<Rightarrow> ('src, 'store, 'ev) callback_handler \<Rightarrow> ('src, 'store, 'ev) handled" where
  "on_client ae wrap f self =
     (case f (ch_kubernetes_client self) of (response, client) \<Rightarrow>
       Ret (handle_callback ae wrap response, self\<lparr>ch_kubernetes_client := client\<rparr>))"

definition on_cache_and_client ::
  "('src, 'layers, 'cv, 'store, 'ev, 'der, 'ee, 'anchor) async_env \<Rightarrow> ('v \<Rightarrow> callback_value)
   \<Rightarrow> ('c \<Rightarrow> ('store, 'ev) kube_client option
       \<Rightarrow> ((lib_error + 'v cached_return) \<times> 'c \<times> ('store, 'ev) kube_client option) exec)
   \<Rightarrow> (async_caches \<Rightarrow> 'c) \<Rightarrow> ('c \<Rightarrow> async_caches \<Rightarrow> async_caches)
   \<Rightarrow> ('src, 'store, 'ev) callback_handler \<Rightarrow> ('src, 'store, 'ev) handled" where
  "on_cache_and_client ae wrap f sel upd self =
     bind_exec (f (sel (ch_caches self)) (ch_kubernetes_client self)) (\<lambda>(response, c, client).
       Ret (handle_callback ae wrap response,
         self\<lparr>ch_caches := upd c (ch_caches self), ch_kubernetes_client := client\<rparr>))"

fun handle_request ::
  "('src, 'layers, 'cv, 'store, 'ev, 'der, 'ee, 'anchor) async_env \<Rightarrow> instant
   \<Rightarrow> ('src, 'store, 'ev) callback_handler \<Rightarrow> CallbackRequestType \<Rightarrow> ('src, 'store, 'ev) handled" where
  "handle_request ae now self (OciManifestDigest img) =
     on_cache ae ValueDigest
       (get_oci_digest_cached (ae_fresh ae) (ae_registry ae) (ch_oci_client self) now img)
       ac_digest (\<lambda>c cs. cs\<lparr>ac_digest := c\<rparr>) self"
| "handle_request ae now self (OciManifest img) =
     on_cache ae ValueManifest
       (get_oci_manifest_cached (ae_fresh ae) (ae_registry ae) (ch_oci_client self) now img)
       ac_manifest (\<lambda>c cs. cs\<lparr>ac_manifest := c\<rparr>) self"
| "handle_request ae now self (OciManifestAndConfig img) =
     on_cache ae ValueManifestAndConfig
       (get_oci_manifest_and_config_cached (ae_fresh ae) (ae_registry ae) (ch_oci_client self) now img)
       ac_manifest_and_config (\<lambda>c cs. cs\<lparr>ac_manifest_and_config := c\<rparr>) self"
| "handle_request ae now self (SigstorePubKeyVerify img pub_keys anns) =
     on_cache ae ValueVerification
       (get_sigstore_pub_key_verification_cached (ae_fresh ae) (ae_cosign ae) now img pub_keys anns)
       ac_pub_key (\<lambda>c cs. cs\<lparr>ac_pub_key := c\<rparr>) self"
| "handle_request ae now self (SigstoreKeylessVerify img keyless anns) =
     on_cache ae ValueVerification
       (get_sigstore_keyless_verification_cached (ae_fresh ae) (ae_cosign ae) now img keyless anns)
       ac_keyless (\<lambda>c cs. cs\<lparr>ac_keyless := c\<rparr>) self"
| "handle_request ae now self (SigstoreKeylessPrefixVerify img keyless_prefix anns) =
     on_cache ae ValueVerification
       (get_sigstore_keyless_prefix_verification_cached (ae_fresh ae) (ae_cosign ae) now img keyless_prefix anns)
       ac_keyless_prefix (\<lambda>c cs. cs\<lparr>ac_keyless_prefix := c\<rparr>) self"
| "handle_request ae now self (SigstoreGithubActionsVerify img owner repo anns) =
     on_cache ae ValueVerification
       (get_sigstore_github_actions_verification_cached (ae_fresh ae) (ae_cosign ae) now img owner repo anns)
       ac_github (\<lambda>c cs. cs\<lparr>ac_github := c\<rparr>) self"
| "handle_request ae now self (SigstoreCertificateVerify img certificate certificate_chain require anns) =
     on_cache ae ValueVerification
       (get_sigstore_certificate_verification_cached (ae_fresh ae) (ae_cosign ae) now img certificate
          certificate_chain require anns)
       ac_certificate (\<lambda>c cs. cs\<lparr>ac_certificate := c\<rparr>) self"
| "handle_request ae now self (DNSLookupHost host) =
     bind_exec (handle_dns_lookup ae now host) (\<lambda>response. Ret (response, self))"
| "handle_request ae now self (KubernetesListResourceNamespace api_version kind namespace ls fs) =
     on_client ae ValueObjectList
       (list_resources_by_namespace (ae_kube ae) now api_version kind namespace ls fs) self"
| "handle_request ae now self (KubernetesListResourceAll api_version kind ls fs) =
     on_client ae ValueObjectList (list_resources_all (ae_kube ae) now api_version kind ls fs) self"
| "handle_request ae now self (KubernetesGetResource api_version kind name namespace disable_cache) =
     (if disable_cache
      then on_client ae ValueObject (get_resource (ae_kube ae) now api_version kind name namespace) self
      else on_cache_and_client ae ValueObject
        (get_resource_cached (ae_fresh ae) (ae_kube ae) now api_version kind name namespace)
        ac_resource (\<lambda>c cs. cs\<lparr>ac_resource := c\<rparr>) self)"
| "handle_request ae now self (KubernetesGetResourcePluralName api_version kind) =
     on_client ae ValueString (get_resource_plural_name (ae_kube ae) now api_version kind) self"
| "handle_request ae now self
     (HasKubernetesListResourceAllResultChangedSinceInstant api_version kind ls fs since) =
     on_client ae ValueBool
       (has_list_resources_all_result_changed_since_instant (ae_kube ae) now api_version kind ls fs since) self"
| "handle_request ae now self (KubernetesCanI request disable_cache) =
     (if disable_cache
      then on_client ae ValueReviewStatus (can_i (ae_kube ae) now request) self
      else on_cache_and_client ae ValueReviewStatus
        (can_i_cached (ae_fresh ae) (ae_kube ae) now request)
        ac_can_i (\<lambda>c cs. cs\<lparr>ac_can_i := c\<rparr>) self)"
| "handle_request ae now self (CryptoIsCertificateTrusted request) =
     Ret (handle_callback ae ValueCertificate (verify_certificate (ae_webpki ae) (ae_timestamp ae now) request), self)"

text \<open>
  What the requester sees. A request runs in a task of its own: when the task panics, its end of
  the response channel is dropped and the handler goes on.
\<close>

definition answer_request ::
  "('src, 'layers, 'cv, 'store, 'ev, 'der, 'ee, 'anchor) async_env \<Rightarrow> instant
   \<Rightarrow> ('src, 'store, 'ev) callback_handler \<Rightarrow> CallbackRequestType
   \<Rightarrow> reply \<times> ('src, 'store, 'ev) callback_handler" where
  "answer_request ae now self req =
     (case handle_request ae now self req of
        Ret (response, self') \<Rightarrow> (Answer response, self')
      | Panic msg \<Rightarrow> (Dropped, self))"

subsection \<open>The loop\<close>

text \<open>
  What the loop finds at its turns: the shutdown message, which may be there together with a
  request (the choice is not fixed then, so it is part of the input), or a request. The handler
  keeps a sender of its own channel, so the channel is never closed; \<^theory_text>\<open>Closed\<close> is kept as the
  code handles it.
\<close>

datatype loop_event = Shutdown | Received CallbackRequestType | Closed

text \<open>The replies, the handler, and whether the loop has ended when the events are used up.\<close>

fun loop_eval ::
  "('src, 'layers, 'cv, 'store, 'ev, 'der, 'ee, 'anchor) async_env
   \<Rightarrow> ('src, 'store, 'ev) callback_handler \<Rightarrow> (instant \<times> loop_event) list
   \<Rightarrow> reply list \<times> ('src, 'store, 'ev) callback_handler \<times> bool" where
  "loop_eval ae self [] = ([], self, False)"
| "loop_eval ae self ((now, Shutdown) # evs) = ([], self, True)"
| "loop_eval ae self ((now, Received req) # evs) =
     (case answer_request ae now self req of (r, self') \<Rightarrow>
       (case loop_eval ae self' evs of (rs, self'', ended) \<Rightarrow> (r # rs, self'', ended)))"
| "loop_eval ae self ((now, Closed) # evs) = loop_eval ae self evs"

end
