(* ===== verification/ConcurrentClient.thy ===== *)
theory ConcurrentClient
  imports Interleaving CallbackHandler
begin

text \<open>
  The client of \<open>src/callback_handler/kubernetes/client.rs\<close> as the handler uses it: every request is a
  task of its own (\<^theory_text>\<open>tokio::spawn\<close> in \<open>src/callback_handler.rs\<close>), the clones of the client share
  their two maps, and a task gives way at every \<open>await\<close>. An operation is a tree of actions: a lock
  held for one lookup or one insertion is one action, a query of the API server is one, and other
  tasks and the watches of the reflectors run between two actions. \<open>KubeClient\<close> has the same
  operations as functions, each in one step: what a task does when nothing comes in between.
\<close>

subsection \<open>What the clones share\<close>

text \<open>
  A reflector is shared by its watch and by those who read it, also after it left the map: it is a
  place in \<^theory_text>\<open>sc_created\<close>, and the map of reflectors holds places.
\<close>

record ('store, 'ev) shared_client =
  sc_kube_resources :: "(ApiVersionKind \<times> KubeResource) list"
  sc_reflectors :: "(string \<times> nat) list"
  sc_created :: "('store, 'ev) reflector list"

definition shared_client_new :: "('store, 'ev) shared_client" where
  "shared_client_new = \<lparr>sc_kube_resources = [], sc_reflectors = [], sc_created = []\<rparr>"

subsection \<open>Operations as trees of actions\<close>

datatype ('store, 'a) job =
    JobDone "lib_error + 'a"
  | ReadKind ApiVersionKind "KubeResource option \<Rightarrow> ('store, 'a) job"
  | QueryApi "instant \<Rightarrow> ('store, 'a) job"
  | WriteKind ApiVersionKind KubeResource "('store, 'a) job"
  | ReadReflector string "nat option \<Rightarrow> ('store, 'a) job"
  | CreateReflector KubeResource "string option" "string option" "string option"
      "lib_error + nat \<Rightarrow> ('store, 'a) job"
  | WriteReflector string nat "('store, 'a) job"
  | ReadStore nat "'store \<Rightarrow> ('store, 'a) job"
  | ReadLastChange nat "instant \<Rightarrow> ('store, 'a) job"

primrec bind_job :: "('store, 'a) job \<Rightarrow> ('a \<Rightarrow> ('store, 'b) job) \<Rightarrow> ('store, 'b) job" where
  "bind_job (JobDone r) g = (case r of Inl e \<Rightarrow> JobDone (Inl e) | Inr a \<Rightarrow> g a)"
| "bind_job (ReadKind avk f) g = ReadKind avk (\<lambda>known. bind_job (f known) g)"
| "bind_job (QueryApi f) g = QueryApi (\<lambda>now. bind_job (f now) g)"
| "bind_job (WriteKind avk kr j) g = WriteKind avk kr (bind_job j g)"
| "bind_job (ReadReflector i f) g = ReadReflector i (\<lambda>known. bind_job (f known) g)"
| "bind_job (CreateReflector resource ns ls fs f) g =
     CreateReflector resource ns ls fs (\<lambda>r. bind_job (f r) g)"
| "bind_job (WriteReflector i h j) g = WriteReflector i h (bind_job j g)"
| "bind_job (ReadStore h f) g = ReadStore h (\<lambda>s. bind_job (f s) g)"
| "bind_job (ReadLastChange h f) g = ReadLastChange h (\<lambda>t. bind_job (f t) g)"

definition job_build_kube_resource ::
  "('store, 'ev) kube_api \<Rightarrow> string \<Rightarrow> string \<Rightarrow> ('store, KubeResource) job" where
  "job_build_kube_resource ka api_version kind =
     (let avk = \<lparr>avk_api_version = api_version, avk_kind = kind\<rparr>
      in ReadKind avk (\<lambda>kube_resource. case kube_resource of
           Some kr \<Rightarrow> JobDone (Inr kr)
         | None \<Rightarrow> QueryApi (\<lambda>now. case find_resource ka now api_version kind of
             Inl e \<Rightarrow> JobDone (Inl e)
           | Inr kr \<Rightarrow> WriteKind avk kr (JobDone (Inr kr)))))"

definition job_get_reflector_reader ::
  "string \<Rightarrow> KubeResource \<Rightarrow> string option \<Rightarrow> string option \<Rightarrow> string option \<Rightarrow> ('store, nat) job" where
  "job_get_reflector_reader reflector_id resource namespace label_selector field_selector =
     ReadReflector reflector_id (\<lambda>reader. case reader of
       Some h \<Rightarrow> JobDone (Inr h)
     | None \<Rightarrow> CreateReflector resource namespace label_selector field_selector (\<lambda>r. case r of
         Inl e \<Rightarrow> JobDone (Inl e)
       | Inr h \<Rightarrow> WriteReflector reflector_id h (JobDone (Inr h))))"

definition job_list_resources_from_reflector ::
  "('store, 'ev) kube_api \<Rightarrow> KubeResource \<Rightarrow> string option \<Rightarrow> string option \<Rightarrow> string option
   \<Rightarrow> ('store, ObjectList) job" where
  "job_list_resources_from_reflector ka resource namespace label_selector field_selector =
     (let reflector_id = compute_id resource namespace label_selector field_selector
      in bind_job (job_get_reflector_reader reflector_id resource namespace label_selector field_selector)
           (\<lambda>reader. ReadStore reader (\<lambda>state. JobDone (Inr
              \<lparr>ol_api_version = ar_api_version (kr_resource resource),
               ol_kind = ar_kind (kr_resource resource) @ ''List'', ol_items = wa_state (ka_watch ka) state\<rparr>))))"

definition job_list_by_namespace ::
  "('store, 'ev) kube_api \<Rightarrow> string \<Rightarrow> string \<Rightarrow> string \<Rightarrow> string option \<Rightarrow> string option
   \<Rightarrow> ('store, ObjectList) job" where
  "job_list_by_namespace ka api_version kind namespace label_selector field_selector =
     bind_job (job_build_kube_resource ka api_version kind) (\<lambda>resource.
       if \<not> kr_namespaced resource
       then JobDone (Inl (anyhow (''resource '' @ api_version @ ''/'' @ kind @
              '' is cluster wide. Cannot search for it inside of a namespace'')))
       else job_list_resources_from_reflector ka resource (Some namespace) label_selector field_selector)"

definition job_list_all ::
  "('store, 'ev) kube_api \<Rightarrow> string \<Rightarrow> string \<Rightarrow> string option \<Rightarrow> string option \<Rightarrow> ('store, ObjectList) job" where
  "job_list_all ka api_version kind label_selector field_selector =
     bind_job (job_build_kube_resource ka api_version kind) (\<lambda>resource.
       job_list_resources_from_reflector ka resource None label_selector field_selector)"

definition job_have_changed_since ::
  "KubeResource \<Rightarrow> string option \<Rightarrow> string option \<Rightarrow> string option \<Rightarrow> instant \<Rightarrow> ('store, bool) job" where
  "job_have_changed_since resource namespace label_selector field_selector since =
     ReadReflector (compute_id resource namespace label_selector field_selector) (\<lambda>reader. case reader of
       None \<Rightarrow> JobDone (Inr True)
     | Some h \<Rightarrow> ReadLastChange h (\<lambda>last_change. JobDone (Inr (since < last_change))))"

definition job_has_changed ::
  "('store, 'ev) kube_api \<Rightarrow> string \<Rightarrow> string \<Rightarrow> string option \<Rightarrow> string option \<Rightarrow> instant
   \<Rightarrow> ('store, bool) job" where
  "job_has_changed ka api_version kind label_selector field_selector since =
     bind_job (job_build_kube_resource ka api_version kind) (\<lambda>resource.
       job_have_changed_since resource None label_selector field_selector since)"

definition job_get_resource ::
  "('store, 'ev) kube_api \<Rightarrow> string \<Rightarrow> string \<Rightarrow> string \<Rightarrow> string option \<Rightarrow> ('store, DynamicObject) job" where
  "job_get_resource ka api_version kind name namespace =
     bind_job (job_build_kube_resource ka api_version kind) (\<lambda>resource.
     bind_job (JobDone
       (if kr_namespaced resource
        then map_err anyhow (ok_or (''Resource '' @ api_version @ ''/'' @ kind @
               '' is namespaced, but no namespace was provided'') (map_option Some namespace))
        else Inr None)) (\<lambda>api_namespace.
     QueryApi (\<lambda>now. JobDone
       (bind_result (ka_get_opt ka now (kr_resource resource) api_namespace name)
         (ok_or (anyhow (''Cannot find '' @ api_version @ ''/'' @ kind @ '' named '' @ squote @ name @
           squote @ '' inside of namespace '' @ squote @ debug_opt debug_str namespace @ squote)))))))"

definition job_plural_name ::
  "('store, 'ev) kube_api \<Rightarrow> string \<Rightarrow> string \<Rightarrow> ('store, string) job" where
  "job_plural_name ka api_version kind =
     bind_job (job_build_kube_resource ka api_version kind) (\<lambda>resource.
       JobDone (Inr (ar_plural (kr_resource resource))))"

definition job_can_i :: "('store, 'ev) kube_api \<Rightarrow> SubjectAccessReview \<Rightarrow> ('store, json) job" where
  "job_can_i ka request = QueryApi (\<lambda>now. JobDone (client_can_i ka now request))"

text \<open>The operations of the client, as tasks run them.\<close>

datatype client_call =
    CallListByNamespace string string string "string option" "string option"
  | CallListAll string string "string option" "string option"
  | CallHasChanged string string "string option" "string option" instant
  | CallGetResource string string string "string option"
  | CallPluralName string string
  | CallCanI SubjectAccessReview

definition job_value :: "('a \<Rightarrow> callback_value) \<Rightarrow> ('store, 'a) job \<Rightarrow> ('store, callback_value) job" where
  "job_value wrap j = bind_job j (\<lambda>v. JobDone (Inr (wrap v)))"

fun client_job :: "('store, 'ev) kube_api \<Rightarrow> client_call \<Rightarrow> ('store, callback_value) job" where
  "client_job ka (CallListByNamespace a k n ls fs) = job_value ValueObjectList (job_list_by_namespace ka a k n ls fs)"
| "client_job ka (CallListAll a k ls fs) = job_value ValueObjectList (job_list_all ka a k ls fs)"
| "client_job ka (CallHasChanged a k ls fs since) = job_value ValueBool (job_has_changed ka a k ls fs since)"
| "client_job ka (CallGetResource a k name ns) = job_value ValueObject (job_get_resource ka a k name ns)"
| "client_job ka (CallPluralName a k) = job_value ValueString (job_plural_name ka a k)"
| "client_job ka (CallCanI request) = job_value ValueReviewStatus (job_can_i ka request)"

text \<open>
  The call behind a request of the handler. A request that goes through a cache runs its call while
  it holds the lock of the cache, or not at all: see \<open>SingleFlight\<close> and \<open>ConcurrentCaches\<close>.
\<close>

fun request_call :: "CallbackRequestType \<Rightarrow> client_call option" where
  "request_call (KubernetesListResourceNamespace a k n ls fs) = Some (CallListByNamespace a k n ls fs)"
| "request_call (KubernetesListResourceAll a k ls fs) = Some (CallListAll a k ls fs)"
| "request_call (KubernetesGetResource a k name ns disable_cache) =
     (if disable_cache then Some (CallGetResource a k name ns) else None)"
| "request_call (KubernetesGetResourcePluralName a k) = Some (CallPluralName a k)"
| "request_call (HasKubernetesListResourceAllResultChangedSinceInstant a k ls fs since) =
     Some (CallHasChanged a k ls fs since)"
| "request_call (KubernetesCanI request disable_cache) =
     (if disable_cache then Some (CallCanI request) else None)"
| "request_call req = None"

subsection \<open>Actions\<close>

text \<open>
  One action of a job at a time. A reflector gets the time its creation started; it is seen by
  nobody else before it is in the map.
\<close>

fun job_action ::
  "('store, 'ev) kube_api \<Rightarrow> instant \<Rightarrow> ('store, 'a) job \<Rightarrow> ('store, 'ev) shared_client
   \<Rightarrow> (('store, 'a) job \<times> ('store, 'ev) shared_client) option" where
  "job_action ka now (JobDone r) s = None"
| "job_action ka now (ReadKind avk f) s = Some (f (hm_get (sc_kube_resources s) avk), s)"
| "job_action ka now (QueryApi f) s = Some (f now, s)"
| "job_action ka now (WriteKind avk kr j) s =
     Some (j, s\<lparr>sc_kube_resources := hm_insert avk kr (sc_kube_resources s)\<rparr>)"
| "job_action ka now (ReadReflector i f) s = Some (f (hm_get (sc_reflectors s) i), s)"
| "job_action ka now (CreateReflector resource ns ls fs f) s =
     (case create_and_run (ka_watch ka) now resource ns ls fs of
        Inl e \<Rightarrow> Some (f (Inl e), s)
      | Inr rf \<Rightarrow> Some (f (Inr (length (sc_created s))), s\<lparr>sc_created := sc_created s @ [rf]\<rparr>))"
| "job_action ka now (WriteReflector i h j) s =
     Some (j, s\<lparr>sc_reflectors := hm_insert i h (sc_reflectors s)\<rparr>)"
| "job_action ka now (ReadStore h f) s = Some (f (rf_reader (sc_created s ! h)), s)"
| "job_action ka now (ReadLastChange h f) s = Some (f (last_change_seen_at (sc_created s ! h)), s)"

text \<open>A task is the call it runs and what is left to do; the background is the watch of any reflector.\<close>

type_synonym 'store client_task = "client_call \<times> ('store, callback_value) job"

definition task_action ::
  "('store, 'ev) kube_api \<Rightarrow> instant \<Rightarrow> 'store client_task \<Rightarrow> ('store, 'ev) shared_client
   \<Rightarrow> ('store client_task \<times> ('store, 'ev) shared_client) option" where
  "task_action ka now t s = map_option (\<lambda>(j, s'). ((fst t, j), s')) (job_action ka now (snd t) s)"

definition new_task :: "('store, 'ev) kube_api \<Rightarrow> 'store client_task \<Rightarrow> bool" where
  "new_task ka t \<longleftrightarrow> snd t = client_job ka (fst t)"

inductive watch_background ::
  "('store, 'ev) kube_api \<Rightarrow> instant \<Rightarrow> ('store, 'ev) shared_client \<Rightarrow> ('store, 'ev) shared_client \<Rightarrow> bool"
  for ka now where
  "h < length (sc_created s) \<Longrightarrow> watch_step (ka_watch ka) now (sc_created s ! h) rf \<Longrightarrow>
   watch_background ka now s (s\<lparr>sc_created := (sc_created s)[h := rf]\<rparr>)"

inductive_cases watch_background_elim: "watch_background ka now s s'"

abbreviation concurrent_client ::
  "('store, 'ev) kube_api \<Rightarrow> (instant \<times> actor) list \<Rightarrow> ('store, 'ev) shared_client
   \<Rightarrow> 'store client_task list \<Rightarrow> bool" where
  "concurrent_client ka \<equiv>
     interleaved (task_action ka) (watch_background ka) (new_task ka) shared_client_new"

subsection \<open>A task that is not interrupted\<close>

primrec run_job ::
  "('store, 'ev) kube_api \<Rightarrow> instant \<Rightarrow> ('store, 'a) job \<Rightarrow> ('store, 'ev) shared_client
   \<Rightarrow> (lib_error + 'a) \<times> ('store, 'ev) shared_client" where
  "run_job ka now (JobDone r) s = (r, s)"
| "run_job ka now (ReadKind avk f) s = run_job ka now (f (hm_get (sc_kube_resources s) avk)) s"
| "run_job ka now (QueryApi f) s = run_job ka now (f now) s"
| "run_job ka now (WriteKind avk kr j) s =
     run_job ka now j (s\<lparr>sc_kube_resources := hm_insert avk kr (sc_kube_resources s)\<rparr>)"
| "run_job ka now (ReadReflector i f) s = run_job ka now (f (hm_get (sc_reflectors s) i)) s"
| "run_job ka now (CreateReflector resource ns ls fs f) s =
     (case create_and_run (ka_watch ka) now resource ns ls fs of
        Inl e \<Rightarrow> run_job ka now (f (Inl e)) s
      | Inr rf \<Rightarrow> run_job ka now (f (Inr (length (sc_created s)))) (s\<lparr>sc_created := sc_created s @ [rf]\<rparr>))"
| "run_job ka now (WriteReflector i h j) s =
     run_job ka now j (s\<lparr>sc_reflectors := hm_insert i h (sc_reflectors s)\<rparr>)"
| "run_job ka now (ReadStore h f) s = run_job ka now (f (rf_reader (sc_created s ! h))) s"
| "run_job ka now (ReadLastChange h f) s = run_job ka now (f (last_change_seen_at (sc_created s ! h))) s"

lemma run_job_bind:
  "run_job ka now (bind_job j g) s = bind_st (run_job ka now j) (\<lambda>a. run_job ka now (g a)) s"
  by (induction j arbitrary: s) (simp_all add: bind_st_def split: sum.splits)

text \<open>The shared state, with the reflectors in their places in the map, is the state of the client.\<close>

definition places_ok :: "('store, 'ev) shared_client \<Rightarrow> bool" where
  "places_ok s \<longleftrightarrow> (\<forall>p \<in> set (sc_reflectors s). snd p < length (sc_created s))"

definition abs_client :: "('store, 'ev) shared_client \<Rightarrow> ('store, 'ev) kube_client" where
  "abs_client s = \<lparr>kc_kube_resources = sc_kube_resources s,
     kc_reflectors = map (\<lambda>(i, h). (i, sc_created s ! h)) (sc_reflectors s)\<rparr>"

definition refines ::
  "('store, 'ev) kube_api \<Rightarrow> instant \<Rightarrow> ('store, 'a) job \<Rightarrow> ('store, 'ev, 'a) client_io \<Rightarrow> bool" where
  "refines ka now j f \<longleftrightarrow> (\<forall>s r s'. places_ok s \<longrightarrow> run_job ka now j s = (r, s') \<longrightarrow>
     places_ok s' \<and> f (abs_client s) = (r, abs_client s'))"

lemma refines_done: "refines ka now (JobDone r) (lift_st r)"
  by (simp add: refines_def)

lemma refines_query: "refines ka now (f now) g \<Longrightarrow> refines ka now (QueryApi f) g"
  by (simp add: refines_def)

lemma refines_bind:
  assumes "refines ka now j f" "\<And>a. refines ka now (g a) (h a)"
  shows "refines ka now (bind_job j g) (bind_st f h)"
  unfolding refines_def
proof (intro allI impI)
  fix s r s'
  assume s: "places_ok s" and run: "run_job ka now (bind_job j g) s = (r, s')"
  obtain r1 s1 where j: "run_job ka now j s = (r1, s1)" by (cases "run_job ka now j s")
  have s1: "places_ok s1" "f (abs_client s) = (r1, abs_client s1)"
    using assms(1) s j unfolding refines_def by blast+
  show "places_ok s' \<and> bind_st f h (abs_client s) = (r, abs_client s')"
  proof (cases r1)
    case (Inl e)
    then show ?thesis using run s1 j by (simp add: run_job_bind bind_st_def)
  next
    case (Inr a)
    then have "run_job ka now (g a) s1 = (r, s')" using run j by (simp add: run_job_bind bind_st_def)
    then show ?thesis using assms(2) [of a] s1 Inr by (simp add: refines_def bind_st_def)
  qed
qed

lemma hm_get_places:
  "hm_get (map (\<lambda>(i, h). (i, cs ! h)) m) i = map_option ((!) cs) (hm_get m i)"
  by (induction m) (auto simp: hm_get_def)

lemma hm_insert_places:
  "map (\<lambda>(i, h). (i, cs ! h)) (hm_insert i h m) = hm_insert i (cs ! h) (map (\<lambda>(i, h). (i, cs ! h)) m)"
  by (induction i h m rule: hm_insert.induct) auto

lemma places_append:
  "\<forall>p \<in> set m. snd p < length cs \<Longrightarrow>
   map (\<lambda>(i, h). (i, (cs @ [rf]) ! h)) m = map (\<lambda>(i, h). (i, cs ! h)) m"
  by (auto simp: nth_append)

lemma set_hm_insert_places: "p \<in> set (hm_insert i h m) \<Longrightarrow> p = (i, h) \<or> p \<in> set m"
  by (induction i h m rule: hm_insert.induct) (auto split: if_splits)

lemmas place_simps = abs_client_def places_ok_def hm_get_places hm_insert_places places_append

lemma register_reflector:
  assumes "places_ok s"
    and s': "s' = s\<lparr>sc_created := sc_created s @ [rf],
      sc_reflectors := hm_insert i (length (sc_created s)) (sc_reflectors s)\<rparr>"
  shows "places_ok s'" "abs_client s' = (abs_client s)\<lparr>kc_reflectors := hm_insert i rf (kc_reflectors (abs_client s))\<rparr>"
proof -
  show "places_ok s'"
    using assms by (force simp: places_ok_def dest: set_hm_insert_places)
  have "map (\<lambda>(i, h). (i, (sc_created s @ [rf]) ! h)) (hm_insert i (length (sc_created s)) (sc_reflectors s)) =
      hm_insert i rf (map (\<lambda>(i, h). (i, sc_created s ! h)) (sc_reflectors s))"
    using assms(1) by (simp add: hm_insert_places places_ok_def places_append)
  then show "abs_client s' = (abs_client s)\<lparr>kc_reflectors := hm_insert i rf (kc_reflectors (abs_client s))\<rparr>"
    by (simp add: s' abs_client_def)
qed

lemma refines_build: "refines ka now (job_build_kube_resource ka a k) (build_kube_resource ka now a k)"
  by (auto simp: refines_def job_build_kube_resource_def build_kube_resource_def Let_def place_simps
      split: option.splits sum.splits)

lemma refines_list_from_reflector:
  "refines ka now (job_list_resources_from_reflector ka resource ns ls fs)
     (list_resources_from_reflector ka now resource ns ls fs)"
  unfolding refines_def
proof (intro allI impI)
  fix s :: "('a, 'b) shared_client" and r s'
  assume s: "places_ok s" and run: "run_job ka now (job_list_resources_from_reflector ka resource ns ls fs) s = (r, s')"
  let ?i = "compute_id resource ns ls fs"
  note defs = job_list_resources_from_reflector_def job_get_reflector_reader_def
    list_resources_from_reflector_def get_reflector_reader_def bind_st_def Let_def
  show "places_ok s' \<and> list_resources_from_reflector ka now resource ns ls fs (abs_client s) = (r, abs_client s')"
  proof (cases "hm_get (sc_reflectors s) ?i")
    case (Some h)
    then show ?thesis using run s by (auto simp: defs place_simps)
  next
    case None
    show ?thesis
    proof (cases "create_and_run (ka_watch ka) now resource ns ls fs")
      case (Inl e)
      then show ?thesis using run s None by (auto simp: defs place_simps)
    next
      case (Inr rf)
      let ?s = "s\<lparr>sc_created := sc_created s @ [rf],
        sc_reflectors := hm_insert ?i (length (sc_created s)) (sc_reflectors s)\<rparr>"
      have "s' = ?s" using run None Inr by (simp add: defs)
      then show ?thesis
        using run None Inr register_reflector [OF s \<open>s' = ?s\<close>]
        by (auto simp: defs hm_get_places abs_client_def)
    qed
  qed
qed

lemma refines_has_changed:
  "refines ka now (job_have_changed_since resource ns ls fs since)
     (\<lambda>c. (Inr (have_reflector_resources_changed_since resource ns ls fs since c), c))"
  by (auto simp: refines_def job_have_changed_since_def have_reflector_resources_changed_since_def
      place_simps split: option.splits)

text \<open>The operations of the client in one step.\<close>

fun client_answer ::
  "('store, 'ev) kube_api \<Rightarrow> instant \<Rightarrow> client_call \<Rightarrow> ('store, 'ev, callback_value) client_io" where
  "client_answer ka now (CallListByNamespace a k n ls fs) =
     bind_st (client_list_by_namespace ka now a k n ls fs) (\<lambda>v. lift_st (Inr (ValueObjectList v)))"
| "client_answer ka now (CallListAll a k ls fs) =
     bind_st (client_list_all ka now a k ls fs) (\<lambda>v. lift_st (Inr (ValueObjectList v)))"
| "client_answer ka now (CallHasChanged a k ls fs since) =
     bind_st (client_has_changed ka now a k ls fs since) (\<lambda>v. lift_st (Inr (ValueBool v)))"
| "client_answer ka now (CallGetResource a k name ns) =
     bind_st (client_get_resource ka now a k name ns) (\<lambda>v. lift_st (Inr (ValueObject v)))"
| "client_answer ka now (CallPluralName a k) =
     bind_st (client_plural_name ka now a k) (\<lambda>v. lift_st (Inr (ValueString v)))"
| "client_answer ka now (CallCanI request) =
     bind_st (lift_st (client_can_i ka now request)) (\<lambda>v. lift_st (Inr (ValueReviewStatus v)))"

lemma refines_client_job: "refines ka now (client_job ka call) (client_answer ka now call)"
proof -
  have done': "refines ka now (JobDone r) (\<lambda>c. (r, c))" for r
    using refines_done [of ka now r] by (simp add: lift_st_def [abs_def])
  have get: "refines ka now (job_get_resource ka a k name ns) (client_get_resource ka now a k name ns)"
    for a k name ns
    unfolding job_get_resource_def client_get_resource_def
    by (intro refines_bind refines_build refines_done refines_query)
      (auto simp: refines_def bind_st_def split: sum.splits)
  show ?thesis
    by (cases call) (auto simp del: bind_job.simps(1) simp: job_value_def job_list_by_namespace_def client_list_by_namespace_def
        job_list_all_def client_list_all_def job_has_changed_def client_has_changed_def job_plural_name_def
        client_plural_name_def job_can_i_def
        intro!: refines_bind refines_build refines_list_from_reflector refines_has_changed refines_done
          refines_query get split: if_splits)
qed

text \<open>What the handler sends back for the answer of a call.\<close>

definition call_reply ::
  "('src, 'layers, 'cv, 'store, 'ev, 'der, 'ee, 'anchor) async_env \<Rightarrow> lib_error + callback_value
   \<Rightarrow> lib_error + bytes" where
  "call_reply ae r = bind_result r (\<lambda>v.
     map_err (\<lambda>e. anyhow (''error serializing payload: '' @ le_debug e)) (ae_to_vec ae v))"

text \<open>The handler answers such a request with the call, and changes its client as the call does.\<close>

lemma on_client_call:
  assumes "ch_kubernetes_client h = Some c"
    and "bind_st f (\<lambda>v. lift_st (Inr (wrap v))) c = (r, c')"
  shows "on_client ae wrap (with_client flag f) h = Ret (call_reply ae r, h\<lparr>ch_kubernetes_client := Some c'\<rparr>)"
  using assms
  by (auto simp: on_client_def with_client_def bind_st_def handle_callback_def call_reply_def
      split: prod.splits sum.splits)

lemma handle_request_call:
  assumes "request_call req = Some call" "ch_kubernetes_client h = Some c"
    "client_answer (ae_kube ae) now call c = (r, c')"
  shows "handle_request ae now h req = Ret (call_reply ae r, h\<lparr>ch_kubernetes_client := Some c'\<rparr>)"
  using assms
  by (cases req) (auto intro: on_client_call simp: list_resources_by_namespace_def list_resources_all_def
      get_resource_def get_resource_plural_name_def has_list_resources_all_result_changed_since_instant_def
      can_i_def split: if_splits)

end
