(* ===== verification/ConcurrentSafety.thy ===== *)
theory ConcurrentSafety
  imports ConcurrentClient
begin

text \<open>
  What holds of the concurrent client of \<open>ConcurrentClient\<close> however its tasks interleave: the client
  is an instance of the locale \<open>bounded_tasks\<close>.
\<close>

subsection \<open>The invariant of the shared state and the claims of a task\<close>

abbreviation watched_star ::
  "('store, 'ev) kube_api \<Rightarrow> ('store, 'ev) reflector \<Rightarrow> ('store, 'ev) reflector \<Rightarrow> bool" where
  "watched_star ka \<equiv> (\<lambda>x y. \<exists>now. watch_step (ka_watch ka) now x y)\<^sup>*\<^sup>*"

text \<open>A reflector that was created for a query with this identifier, whatever its watch did since.\<close>

definition reflector_of :: "('store, 'ev) kube_api \<Rightarrow> string \<Rightarrow> ('store, 'ev) reflector \<Rightarrow> bool" where
  "reflector_of ka i rf \<longleftrightarrow> (\<exists>a k resource ns ls fs. i = compute_id resource ns ls fs \<and>
     found ka a k resource \<and> reflector_for ka resource ns ls fs rf)"

definition place_for :: "('store, 'ev) kube_api \<Rightarrow> ('store, 'ev) shared_client \<Rightarrow> string \<Rightarrow> nat \<Rightarrow> bool" where
  "place_for ka s i h \<longleftrightarrow> h < length (sc_created s) \<and> reflector_of ka i (sc_created s ! h)"

definition shared_ok :: "('store, 'ev) kube_api \<Rightarrow> ('store, 'ev) shared_client \<Rightarrow> bool" where
  "shared_ok ka s \<longleftrightarrow>
     (\<forall>avk kr. hm_get (sc_kube_resources s) avk = Some kr \<longrightarrow>
        found ka (avk_api_version avk) (avk_kind avk) kr) \<and>
     (\<forall>(i, h) \<in> set (sc_reflectors s). place_for ka s i h)"

text \<open>Others may add reflectors and run watches; nothing else matters to a task.\<close>

definition grown :: "('store, 'ev) kube_api \<Rightarrow> ('store, 'ev) shared_client \<Rightarrow> ('store, 'ev) shared_client \<Rightarrow> bool" where
  "grown ka s s' \<longleftrightarrow> length (sc_created s) \<le> length (sc_created s') \<and>
     (\<forall>h < length (sc_created s). watched_star ka (sc_created s ! h) (sc_created s' ! h))"

lemma grown_refl [simp, intro]: "grown ka s s"
  by (simp add: grown_def)

lemma grown_trans: "grown ka s s' \<Longrightarrow> grown ka s' s'' \<Longrightarrow> grown ka s s''"
proof -
  assume *: "grown ka s s'" "grown ka s' s''"
  have "watched_star ka (sc_created s ! h) (sc_created s'' ! h)" if "h < length (sc_created s)" for h
    by (rule rtranclp_trans [of _ _ "sc_created s' ! h"]) (use * that in \<open>auto simp: grown_def\<close>)
  then show ?thesis using * by (auto simp: grown_def)
qed

lemma grown_created [simp]: "sc_created s' = sc_created s \<Longrightarrow> grown ka s s'"
  by (simp add: grown_def)

lemma grown_append: "sc_created s' = sc_created s @ [rf] \<Longrightarrow> grown ka s s'"
  by (simp add: grown_def nth_append)

lemma reflector_for_watched:
  "reflector_for ka resource ns ls fs rf \<Longrightarrow> watched_star ka rf rf' \<Longrightarrow> reflector_for ka resource ns ls fs rf'"
  unfolding reflector_for_def by (blast intro: rtranclp_trans)

lemma reflector_of_watched: "reflector_of ka i rf \<Longrightarrow> watched_star ka rf rf' \<Longrightarrow> reflector_of ka i rf'"
  unfolding reflector_of_def using reflector_for_watched by blast

lemma place_for_lt: "place_for ka s i h \<Longrightarrow> h < length (sc_created s)"
  by (simp add: place_for_def)

lemma place_for_grown: "place_for ka s i h \<Longrightarrow> grown ka s s' \<Longrightarrow> place_for ka s' i h"
  unfolding place_for_def grown_def using reflector_of_watched by fastforce

lemma shared_ok_places: "shared_ok ka s \<Longrightarrow> places_ok s"
  by (auto simp: shared_ok_def places_ok_def place_for_def)

lemma shared_ok_get:
  "shared_ok ka s \<Longrightarrow> hm_get (sc_reflectors s) i = Some h \<Longrightarrow> place_for ka s i h"
  by (auto simp: shared_ok_def hm_get_def dest: map_of_SomeD)

lemma shared_ok_grown:
  "shared_ok ka s \<Longrightarrow> grown ka s s' \<Longrightarrow> sc_kube_resources s' = sc_kube_resources s \<Longrightarrow>
   sc_reflectors s' = sc_reflectors s \<Longrightarrow> shared_ok ka s'"
  by (auto simp: shared_ok_def dest: place_for_grown)

text \<open>
  \<^theory_text>\<open>job_safe ka Q j s\<close>: from the state \<open>s\<close>, whatever the others do before each action, the job writes
  only what it found out and created, reads only reflectors that exist, and its result meets \<open>Q\<close>.
\<close>

primrec job_safe ::
  "('store, 'ev) kube_api \<Rightarrow> ('a \<Rightarrow> ('store, 'ev) shared_client \<Rightarrow> bool) \<Rightarrow> ('store, 'a) job
   \<Rightarrow> ('store, 'ev) shared_client \<Rightarrow> bool" where
  "job_safe ka Q (JobDone r) s = (\<forall>a. r = Inr a \<longrightarrow> Q a s)"
| "job_safe ka Q (ReadKind avk f) s = (\<forall>s' known. grown ka s s' \<longrightarrow>
     (\<forall>kr. known = Some kr \<longrightarrow> found ka (avk_api_version avk) (avk_kind avk) kr) \<longrightarrow> job_safe ka Q (f known) s')"
| "job_safe ka Q (QueryApi f) s = (\<forall>s' now. grown ka s s' \<longrightarrow> job_safe ka Q (f now) s')"
| "job_safe ka Q (WriteKind avk kr j) s = (found ka (avk_api_version avk) (avk_kind avk) kr \<and>
     (\<forall>s'. grown ka s s' \<longrightarrow> job_safe ka Q j s'))"
| "job_safe ka Q (ReadReflector i f) s = (\<forall>s'. grown ka s s' \<longrightarrow> job_safe ka Q (f None) s' \<and>
     (\<forall>h. place_for ka s' i h \<longrightarrow> job_safe ka Q (f (Some h)) s'))"
| "job_safe ka Q (CreateReflector resource ns ls fs f) s = ((\<exists>a k. found ka a k resource) \<and>
     (\<forall>s'. grown ka s s' \<longrightarrow> (\<forall>e. job_safe ka Q (f (Inl e)) s') \<and>
        (\<forall>h. place_for ka s' (compute_id resource ns ls fs) h \<longrightarrow> job_safe ka Q (f (Inr h)) s')))"
| "job_safe ka Q (WriteReflector i h j) s = (place_for ka s i h \<and>
     (\<forall>s'. grown ka s s' \<longrightarrow> job_safe ka Q j s'))"
| "job_safe ka Q (ReadStore h f) s = (h < length (sc_created s) \<and>
     (\<forall>s'. grown ka s s' \<longrightarrow> job_safe ka Q (f (rf_reader (sc_created s' ! h))) s'))"
| "job_safe ka Q (ReadLastChange h f) s = (h < length (sc_created s) \<and>
     (\<forall>s'. grown ka s s' \<longrightarrow> job_safe ka Q (f (last_change_seen_at (sc_created s' ! h))) s'))"

definition lasting :: "('store, 'ev) kube_api \<Rightarrow> ('a \<Rightarrow> ('store, 'ev) shared_client \<Rightarrow> bool) \<Rightarrow> bool" where
  "lasting ka Q \<longleftrightarrow> (\<forall>a s s'. Q a s \<longrightarrow> grown ka s s' \<longrightarrow> Q a s')"

lemma lasting_const [simp, intro]: "lasting ka (\<lambda>a s. P a)"
  by (simp add: lasting_def)

lemma lasting_place [simp, intro]: "lasting ka (\<lambda>h s. place_for ka s i h)"
  by (auto simp: lasting_def intro: place_for_grown)

lemma job_safe_grown:
  assumes "job_safe ka Q j s" "grown ka s s'" "lasting ka Q"
  shows "job_safe ka Q j s'"
  using assms by (cases j) (auto simp: lasting_def place_for_grown intro: grown_trans, auto simp: grown_def)

lemma job_safe_bind:
  assumes "job_safe ka P j s" and "\<And>a s'. grown ka s s' \<Longrightarrow> P a s' \<Longrightarrow> job_safe ka Q (g a) s'"
  shows "job_safe ka Q (bind_job j g) s"
  using assms
proof (induction j arbitrary: s)
  case (JobDone r)
  then show ?case by (auto split: sum.splits)
next
  case (ReadReflector i f)
  then show ?case by (simp, meson grown_trans rangeI)
next
  case (CreateReflector resource ns ls fs f)
  then show ?case by (simp, meson grown_trans rangeI)
qed (simp_all, (meson grown_trans rangeI)+)

lemma job_safe_mono:
  assumes "job_safe ka P j s" "\<And>a s. P a s \<Longrightarrow> Q a s"
  shows "job_safe ka Q j s"
  using assms(1)
  by (induction j arbitrary: s) (simp_all add: assms(2))

lemma job_safe_action:
  assumes ok: "shared_ok ka s" and safe: "job_safe ka Q j s" and act: "job_action ka now j s = Some (j', s')"
  shows "shared_ok ka s' \<and> grown ka s s' \<and> job_safe ka Q j' s'"
proof (cases j)
  case (ReadKind avk f)
  then show ?thesis using assms by (auto simp: shared_ok_def)
next
  case (WriteKind avk kr j1)
  then show ?thesis using assms by (auto simp: shared_ok_def hm_get_insert place_for_def split: if_splits)
next
  case (ReadReflector i f)
  then show ?thesis
    using assms shared_ok_get [OF ok] by (cases "hm_get (sc_reflectors s) i") auto
next
  case (CreateReflector resource ns ls fs f)
  show ?thesis
  proof (cases "create_and_run (ka_watch ka) now resource ns ls fs")
    case (Inl e)
    then show ?thesis using assms CreateReflector by auto
  next
    case (Inr rf)
    then have s': "s' = s\<lparr>sc_created := sc_created s @ [rf]\<rparr>" and j': "j' = f (Inr (length (sc_created s)))"
      using act CreateReflector by simp_all
    have "reflector_for ka resource ns ls fs rf" using Inr unfolding reflector_for_def by blast
    moreover obtain a k where "found ka a k resource" using safe CreateReflector by auto
    ultimately have "reflector_of ka (compute_id resource ns ls fs) rf"
      unfolding reflector_of_def by blast
    then have "place_for ka s' (compute_id resource ns ls fs) (length (sc_created s))"
      by (simp add: place_for_def s')
    moreover have g: "grown ka s s'" by (simp add: s' grown_append)
    moreover have "shared_ok ka s'" by (rule shared_ok_grown [OF ok g]) (simp_all add: s')
    ultimately show ?thesis using safe CreateReflector j' by simp
  qed
next
  case (WriteReflector i h j1)
  then have s': "s' = s\<lparr>sc_reflectors := hm_insert i h (sc_reflectors s)\<rparr>" and "j' = j1"
    and p: "place_for ka s i h" using act safe by simp_all
  have g: "grown ka s s'" by (simp add: s')
  have "shared_ok ka s'"
    using ok p place_for_grown [OF _ g] by (auto simp: shared_ok_def s' dest!: set_hm_insert_places)
  then show ?thesis using WriteReflector safe g \<open>j' = j1\<close> by simp
qed (use assms in auto)

subsection \<open>The operations of the client are safe\<close>

lemma build_safe: "job_safe ka (\<lambda>resource s. found ka a k resource) (job_build_kube_resource ka a k) s"
proof -
  have "found ka a k resource" if "find_resource ka now a k = Inr resource" for now resource
    using that unfolding found_def by blast
  then show ?thesis
    by (auto simp: job_build_kube_resource_def Let_def split: option.splits sum.splits)
qed

lemma get_reader_safe:
  "found ka a k resource \<Longrightarrow> job_safe ka (\<lambda>h s. place_for ka s (compute_id resource ns ls fs) h)
     (job_get_reflector_reader (compute_id resource ns ls fs) resource ns ls fs) s"
  by (auto simp: job_get_reflector_reader_def intro: place_for_grown)

lemma list_from_reflector_safe:
  assumes "found ka a k resource"
  shows "job_safe ka (\<lambda>ol s. \<exists>rf. reflector_of ka (compute_id resource ns ls fs) rf \<and> ol = listing_of ka resource rf)
    (job_list_resources_from_reflector ka resource ns ls fs) s"
proof -
  have "\<exists>rf. reflector_of ka i rf \<and> listing_of ka resource (sc_created s' ! h) = listing_of ka resource rf"
    if "place_for ka s i h" "grown ka s s'" for i h s s'
    using place_for_grown [OF that] unfolding place_for_def by blast
  then show ?thesis
    unfolding job_list_resources_from_reflector_def Let_def
    by (intro job_safe_bind [OF get_reader_safe [OF assms]])
      (auto simp: listing_of_def [symmetric] dest: place_for_lt)
qed

text \<open>
  What the answer of a call says, whatever the other tasks did: a listing is that of a reflector
  created for this query, and an unchanged result comes from such a reflector.
\<close>

definition serves_query ::
  "('store, 'ev) kube_api \<Rightarrow> string \<Rightarrow> string \<Rightarrow> string option \<Rightarrow> string option \<Rightarrow> string option
   \<Rightarrow> ('store, 'ev) reflector \<Rightarrow> bool" where
  "serves_query ka a k ns ls fs rf \<longleftrightarrow>
     (\<exists>resource. found ka a k resource \<and> reflector_for ka resource ns ls fs rf)"

lemma reflector_of_serves:
  assumes "plain_names ka" and f: "found ka a k resource" and "reflector_of ka (compute_id resource ns ls fs) rf"
  shows "serves_query ka a k ns ls fs rf"
proof -
  obtain a0 k0 resource0 ns0 ls0 fs0 where
    i: "compute_id resource ns ls fs = compute_id resource0 ns0 ls0 fs0" and
    f0: "found ka a0 k0 resource0" and r0: "reflector_for ka resource0 ns0 ls0 fs0 rf"
    using assms(3) unfolding reflector_of_def by blast
  from compute_id_same_query [OF assms(1) f f0 i]
  show ?thesis using f0 r0 unfolding serves_query_def by blast
qed

fun answer_ok :: "('store, 'ev) kube_api \<Rightarrow> client_call \<Rightarrow> callback_value \<Rightarrow> bool" where
  "answer_ok ka (CallListByNamespace a k n ls fs) v \<longleftrightarrow> (\<exists>resource rf. found ka a k resource \<and>
     kr_namespaced resource \<and> serves_query ka a k (Some n) ls fs rf \<and>
     v = ValueObjectList (listing_of ka resource rf))"
| "answer_ok ka (CallListAll a k ls fs) v \<longleftrightarrow> (\<exists>resource rf. found ka a k resource \<and>
     serves_query ka a k None ls fs rf \<and> v = ValueObjectList (listing_of ka resource rf))"
| "answer_ok ka (CallHasChanged a k ls fs since) v \<longleftrightarrow> (\<exists>changed. v = ValueBool changed \<and>
     (\<not> changed \<longrightarrow> (\<exists>rf. serves_query ka a k None ls fs rf \<and> last_change_seen_at rf \<le> since)))"
| "answer_ok ka (CallGetResource a k name ns) v \<longleftrightarrow> (\<exists>resource t obj. found ka a k resource \<and>
     (kr_namespaced resource \<longrightarrow> ns \<noteq> None) \<and>
     ka_get_opt ka t (kr_resource resource) (if kr_namespaced resource then ns else None) name = Inr (Some obj) \<and>
     v = ValueObject obj)"
| "answer_ok ka (CallPluralName a k) v \<longleftrightarrow>
     (\<exists>resource. found ka a k resource \<and> v = ValueString (ar_plural (kr_resource resource)))"
| "answer_ok ka (CallCanI request) v \<longleftrightarrow>
     (\<exists>t status. client_can_i ka t request = Inr status \<and> v = ValueReviewStatus status)"

lemma job_value_safe:
  assumes "job_safe ka (\<lambda>a s. Q (wrap a)) j s"
  shows "job_safe ka (\<lambda>v s. Q v) (job_value wrap j) s"
  unfolding job_value_def by (rule job_safe_bind [OF assms]) simp

lemma client_job_safe: "job_safe ka (\<lambda>v s. plain_names ka \<longrightarrow> answer_ok ka call v) (client_job ka call) s"
  (is "job_safe ka (\<lambda>v s. ?Q v) _ s")
proof (cases call)
  case (CallListByNamespace a k n ls fs)
  have "job_safe ka (\<lambda>ol s. ?Q (ValueObjectList ol)) (job_list_by_namespace ka a k n ls fs) s"
    unfolding job_list_by_namespace_def CallListByNamespace
    by (rule job_safe_bind [OF build_safe])
      (auto intro!: job_safe_mono [OF list_from_reflector_safe] dest: reflector_of_serves)
  from job_value_safe [where Q = ?Q, OF this] show ?thesis using CallListByNamespace by simp
next
  case (CallListAll a k ls fs)
  have "job_safe ka (\<lambda>ol s. ?Q (ValueObjectList ol)) (job_list_all ka a k ls fs) s"
    unfolding job_list_all_def CallListAll
    by (rule job_safe_bind [OF build_safe], rule job_safe_mono [OF list_from_reflector_safe])
      (auto dest: reflector_of_serves)
  from job_value_safe [where Q = ?Q, OF this] show ?thesis using CallListAll by simp
next
  case (CallHasChanged a k ls fs since)
  have ex: "\<exists>rf. serves_query ka a k None ls fs rf \<and> last_change_seen_at rf \<le> since"
    if "plain_names ka" "found ka a k resource" "place_for ka s (compute_id resource None ls fs) h"
      "grown ka s s'" "\<not> since < last_change_seen_at (sc_created s' ! h)" for resource h s s'
    using reflector_of_serves [OF that(1,2)] place_for_grown [OF that(3,4)] that(5)
    unfolding place_for_def by (meson not_less)
  have "job_safe ka (\<lambda>b s. ?Q (ValueBool b)) (job_has_changed ka a k ls fs since) s"
    unfolding job_has_changed_def CallHasChanged
    by (rule job_safe_bind [OF build_safe])
      (auto simp: job_have_changed_since_def dest: place_for_lt intro: ex)
  from job_value_safe [where Q = ?Q, OF this] show ?thesis using CallHasChanged by simp
next
  case (CallGetResource a k name ns)
  have "job_safe ka (\<lambda>obj s. ?Q (ValueObject obj)) (job_get_resource ka a k name ns) s"
    unfolding job_get_resource_def CallGetResource
    by (rule job_safe_bind [OF build_safe]) (cases ns, auto simp: bind_result_Inr_iff split: sum.splits if_splits)
  from job_value_safe [where Q = ?Q, OF this] show ?thesis using CallGetResource by simp
next
  case (CallPluralName a k)
  have "job_safe ka (\<lambda>p s. ?Q (ValueString p)) (job_plural_name ka a k) s"
    unfolding job_plural_name_def CallPluralName by (rule job_safe_bind [OF build_safe]) auto
  from job_value_safe [where Q = ?Q, OF this] show ?thesis using CallPluralName by simp
next
  case (CallCanI request)
  have "job_safe ka (\<lambda>j s. ?Q (ValueReviewStatus j)) (job_can_i ka request) s"
    unfolding job_can_i_def CallCanI by auto
  from job_value_safe [where Q = ?Q, OF this] show ?thesis using CallCanI by simp
qed

subsection \<open>How many actions a call takes\<close>

primrec job_within :: "('store, 'a) job \<Rightarrow> nat \<Rightarrow> bool" where
  "job_within (JobDone r) n = True"
| "job_within (ReadKind avk f) n = (0 < n \<and> (\<forall>known. job_within (f known) (n - 1)))"
| "job_within (QueryApi f) n = (0 < n \<and> (\<forall>now. job_within (f now) (n - 1)))"
| "job_within (WriteKind avk kr j) n = (0 < n \<and> job_within j (n - 1))"
| "job_within (ReadReflector i f) n = (0 < n \<and> (\<forall>known. job_within (f known) (n - 1)))"
| "job_within (CreateReflector resource ns ls fs f) n = (0 < n \<and> (\<forall>r. job_within (f r) (n - 1)))"
| "job_within (WriteReflector i h j) n = (0 < n \<and> job_within j (n - 1))"
| "job_within (ReadStore h f) n = (0 < n \<and> (\<forall>s. job_within (f s) (n - 1)))"
| "job_within (ReadLastChange h f) n = (0 < n \<and> (\<forall>t. job_within (f t) (n - 1)))"

lemma job_within_action:
  "job_within j n \<Longrightarrow> job_action ka now j s = Some (j', s') \<Longrightarrow> 0 < n \<and> job_within j' (n - 1)"
  by (cases j) (auto split: sum.splits)

lemma job_action_None: "job_action ka now j s = None \<longleftrightarrow> (\<exists>r. j = JobDone r)"
  by (cases j) (auto split: sum.splits)

lemma job_within_mono: "job_within j n \<Longrightarrow> n \<le> m \<Longrightarrow> job_within j m"
proof (induction j arbitrary: n m)
  case (WriteKind avk kr j)
  then show ?case by (simp, meson diff_le_mono)
next
  case (WriteReflector i h j)
  then show ?case by (simp, meson diff_le_mono)
qed (simp_all, (meson diff_le_mono rangeI less_le_trans)+)

lemma job_within_bind:
  "job_within j n \<Longrightarrow> (\<And>a. job_within (g a) m) \<Longrightarrow> job_within (bind_job j g) (n + m)"
proof (induction j arbitrary: n)
  case (JobDone r)
  then show ?case by (cases r) (simp_all add: job_within_mono [of _ m])
qed (auto simp: gr0_conv_Suc)

lemma build_within: "job_within (job_build_kube_resource ka a k) 3"
  by (simp add: job_build_kube_resource_def Let_def numeral_3_eq_3 split: option.splits sum.splits)

lemma list_from_reflector_within: "job_within (job_list_resources_from_reflector ka resource ns ls fs) 4"
proof -
  have "job_within (job_get_reflector_reader i resource ns ls fs) 3" for i
    by (simp add: job_get_reflector_reader_def numeral_3_eq_3 split: option.splits sum.splits)
  then have "job_within (job_list_resources_from_reflector ka resource ns ls fs) (3 + 1)"
    unfolding job_list_resources_from_reflector_def Let_def by (rule job_within_bind) simp
  then show ?thesis by simp
qed

text \<open>Finding out about a kind takes three actions at most, and a listing four more.\<close>

definition client_actions :: nat where
  "client_actions = 7"

lemma client_job_within: "job_within (client_job ka call) client_actions"
proof -
  have wrapped: "job_within (job_value wrap j) n" if "job_within j n" for wrap j n
    using job_within_bind [OF that, of "\<lambda>v. JobDone (Inr (wrap v))" 0] by (simp add: job_value_def)
  have built: "job_within (bind_job (job_build_kube_resource ka a k) g) client_actions"
    if "\<And>resource. job_within (g resource) 4" for a k g
    using job_within_bind [OF build_within that] by (simp add: client_actions_def)
  show ?thesis
  proof (cases call)
    case (CallCanI request)
    then show ?thesis by (auto simp: job_can_i_def client_actions_def intro!: wrapped)
  next
    case (CallGetResource a k name ns)
    then show ?thesis
      by (auto simp: job_get_resource_def split: sum.splits intro!: wrapped built)
  qed (auto simp: job_list_by_namespace_def job_list_all_def job_has_changed_def job_plural_name_def
      job_have_changed_since_def list_from_reflector_within split: option.splits intro!: wrapped built)
qed

subsection \<open>The client as shared tasks\<close>

definition task_safe :: "('store, 'ev) kube_api \<Rightarrow> 'store client_task \<Rightarrow> ('store, 'ev) shared_client \<Rightarrow> bool" where
  "task_safe ka t s \<longleftrightarrow> job_safe ka (\<lambda>v s. plain_names ka \<longrightarrow> answer_ok ka (fst t) v) (snd t) s"

definition task_within :: "nat \<Rightarrow> 'store client_task \<Rightarrow> bool" where
  "task_within n t \<longleftrightarrow> job_within (snd t) n"

definition task_done :: "'store client_task \<Rightarrow> bool" where
  "task_done t = (case snd t of JobDone r \<Rightarrow> True | _ \<Rightarrow> False)"

lemma task_action_Some:
  "task_action ka now t s = Some (t', s') \<longleftrightarrow>
   job_action ka now (snd t) s = Some (snd t', s') \<and> fst t' = fst t"
  by (cases t') (auto simp: task_action_def)

lemma watch_background_grown:
  assumes "watch_background ka now s s'"
  shows "grown ka s s' \<and> sc_kube_resources s' = sc_kube_resources s \<and> sc_reflectors s' = sc_reflectors s"
  using assms by cases (auto simp: grown_def nth_list_update intro: r_into_rtranclp)

interpretation concurrent: bounded_tasks "task_action ka" "watch_background ka" "new_task ka" "shared_ok ka"
  "grown ka" "task_safe ka" task_within task_done client_actions for ka
proof unfold_locales
  fix s s' :: "('a, 'b) shared_client" and t t' :: "'a client_task" and now n
  show "shared_ok ka s'" "grown ka s s'" "task_safe ka t' s'"
    if "shared_ok ka s" "task_safe ka t s" "task_action ka now t s = Some (t', s')"
    using that job_safe_action [of ka s "\<lambda>v s. plain_names ka \<longrightarrow> answer_ok ka (fst t) v" "snd t" now "snd t'" s']
    by (auto simp: task_safe_def task_action_Some)
  show "shared_ok ka s'" if "shared_ok ka s" "watch_background ka now s s'"
    using that watch_background_grown [OF that(2)] by (auto intro: shared_ok_grown)
  show "grown ka s s'" if "watch_background ka now s s'"
    using watch_background_grown [OF that] by simp
  show "task_safe ka t s'" if "task_safe ka t s" "grown ka s s'"
    using that unfolding task_safe_def by (rule job_safe_grown) simp
  show "task_safe ka t s" if "new_task ka t"
    using that by (simp add: task_safe_def new_task_def client_job_safe)
  show "0 < n \<and> task_within (n - 1) t'" if "task_within n t" "task_action ka now t s = Some (t', s')"
    using that job_within_action by (force simp: task_within_def task_action_Some)
  show "task_action ka now t s = None \<longleftrightarrow> task_done t"
    by (simp add: task_action_def job_action_None task_done_def split: job.splits)
  show "task_within client_actions t" if "new_task ka t"
    using that by (simp add: task_within_def new_task_def client_job_within)
qed

lemma shared_client_new_ok [simp, intro]: "shared_ok ka shared_client_new"
  by (simp add: shared_ok_def shared_client_new_def hm_get_def)

end
