(* ===== verification/HandlerSafety.thy ===== *)
theory HandlerSafety
  imports CallbackHandler
begin

text \<open>
  What holds of the asynchronous side in every state it can reach: the handler of
  \<open>src/callback_handler.rs\<close> after any requests at any times, with the background tasks of its
  reflectors running in between.
\<close>

subsection \<open>The invariant\<close>

text \<open>
  The verifications as functions of what is asked; a cache holds results of its verification,
  under the key of what was asked.
\<close>

definition pub_key_check ::
  "('layers, 'cv) cosign \<Rightarrow> instant \<Rightarrow> string \<times> string list \<times> annotations
   \<Rightarrow> (lib_error + VerificationResponse) exec" where
  "pub_key_check cs t = (\<lambda>(img, pub_keys, anns). Ret (verify_public_key cs t img pub_keys anns))"

definition keyless_check ::
  "('layers, 'cv) cosign \<Rightarrow> instant \<Rightarrow> string \<times> KeylessInfo list \<times> annotations
   \<Rightarrow> (lib_error + VerificationResponse) exec" where
  "keyless_check cs t = (\<lambda>(img, keyless, anns). Ret (verify_keyless cs t img keyless anns))"

definition keyless_prefix_check ::
  "('layers, 'cv) cosign \<Rightarrow> instant \<Rightarrow> string \<times> KeylessPrefixInfo list \<times> annotations
   \<Rightarrow> (lib_error + VerificationResponse) exec" where
  "keyless_prefix_check cs t = (\<lambda>(img, keyless, anns). verify_keyless_prefix cs t img keyless anns)"

definition github_check ::
  "('layers, 'cv) cosign \<Rightarrow> instant \<Rightarrow> string \<times> string \<times> string option \<times> annotations
   \<Rightarrow> (lib_error + VerificationResponse) exec" where
  "github_check cs t = (\<lambda>(img, owner, repo, anns). Ret (verify_github_actions cs t img owner repo anns))"

definition certificate_check ::
  "('layers, 'cv) cosign \<Rightarrow> instant \<Rightarrow> string \<times> bytes \<times> bytes list option \<times> bool \<times> annotations
   \<Rightarrow> (lib_error + VerificationResponse) exec" where
  "certificate_check cs t = (\<lambda>(img, cert, chain, require, anns).
     Ret (verify_certificate_of cs t img cert chain require anns))"

lemmas check_defs = pub_key_check_def keyless_check_def keyless_prefix_check_def github_check_def
  certificate_check_def

definition pub_key_key :: "string \<times> string list \<times> annotations \<Rightarrow> string" where
  "pub_key_key = (\<lambda>(img, pub_keys, anns). pub_keys_cache_key img pub_keys anns)"

definition keyless_key :: "('k \<Rightarrow> string) \<Rightarrow> string \<times> 'k list \<times> annotations \<Rightarrow> string" where
  "keyless_key dbg = (\<lambda>(img, keyless, anns). keyless_cache_key dbg img keyless anns)"

definition github_key :: "string \<times> string \<times> string option \<times> annotations \<Rightarrow> string" where
  "github_key = (\<lambda>(img, owner, repo, anns). github_cache_key img owner repo anns)"

definition certificate_key ::
  "('layers, 'cv) cosign \<Rightarrow> string \<times> bytes \<times> bytes list option \<times> bool \<times> annotations \<Rightarrow> string" where
  "certificate_key cs = (\<lambda>(img, cert, chain, require, anns).
     get_sigstore_certificate_verification_cache_key cs img cert chain require anns)"

lemmas key_defs = pub_key_key_def keyless_key_def github_key_def certificate_key_def

definition caches_ok ::
  "('src, 'layers, 'cv, 'store, 'ev, 'der, 'ee, 'anchor) async_env \<Rightarrow> 'src oci_client \<Rightarrow> async_caches \<Rightarrow> bool" where
  "caches_ok ae oc cs \<longleftrightarrow>
     memo.justified (ae_fresh ae 60) (answered_by (oci_digest (ae_registry ae) oc)) (ac_digest cs) \<and>
     memo.justified (ae_fresh ae 60) (answered_by (oci_manifest (ae_registry ae) oc)) (ac_manifest cs) \<and>
     memo.justified (ae_fresh ae 60) (answered_by (oci_manifest_and_config (ae_registry ae) oc))
       (ac_manifest_and_config cs) \<and>
     memo.justified (ae_fresh ae 60) (verified_by pub_key_key (pub_key_check (ae_cosign ae))) (ac_pub_key cs) \<and>
     memo.justified (ae_fresh ae 60) (verified_by (keyless_key (cs_debug_keyless (ae_cosign ae)))
       (keyless_check (ae_cosign ae))) (ac_keyless cs) \<and>
     memo.justified (ae_fresh ae 60) (verified_by (keyless_key (cs_debug_keyless_prefix (ae_cosign ae)))
       (keyless_prefix_check (ae_cosign ae))) (ac_keyless_prefix cs) \<and>
     memo.justified (ae_fresh ae 60) (verified_by github_key (github_check (ae_cosign ae))) (ac_github cs) \<and>
     memo.justified (ae_fresh ae 60) (verified_by (certificate_key (ae_cosign ae))
       (certificate_check (ae_cosign ae))) (ac_certificate cs) \<and>
     memo.justified (ae_fresh ae 5) (answered_by (client_can_i (ae_kube ae))) (ac_can_i cs)"

definition handler_ok ::
  "('src, 'layers, 'cv, 'store, 'ev, 'der, 'ee, 'anchor) async_env
   \<Rightarrow> ('src, 'store, 'ev) callback_handler \<Rightarrow> bool" where
  "handler_ok ae h \<longleftrightarrow> caches_ok ae (ch_oci_client h) (ch_caches h) \<and>
     (\<forall>c. ch_kubernetes_client h = Some c \<longrightarrow> client_ok (ae_kube ae) c)"

text \<open>The rules of the calls.\<close>

lemma on_cache_Ret:
  assumes "on_cache ae wrap f sel upd h = Ret (r, h')"
  obtains res c u where "f (sel (ch_caches h)) = Ret (res, c, u)" "r = handle_callback ae wrap res"
    "h' = h\<lparr>ch_caches := upd c (ch_caches h)\<rparr>"
  using assms unfolding on_cache_def by auto

lemma with_client_ok:
  assumes "op_ok ka Q f" and "\<And>c. client = Some c \<Longrightarrow> client_ok ka c"
    and "with_client flag f client = (res, client')"
  shows "\<forall>c'. client' = Some c' \<longrightarrow> client_ok ka c'"
proof (cases client)
  case None
  then show ?thesis using assms(3) by (simp add: with_client_def)
next
  case (Some c)
  obtain r c' where run: "f c = (r, c')" by (cases "f c")
  then show ?thesis
    using op_okD [OF assms(1) assms(2) [OF Some] run] assms(3) Some by (auto simp: with_client_def)
qed

lemma on_client_ok:
  assumes "\<And>res client'. f (ch_kubernetes_client h) = (res, client') \<Longrightarrow>
      \<forall>c'. client' = Some c' \<longrightarrow> client_ok (ae_kube ae) c'"
    and "handler_ok ae h" "on_client ae wrap f h = Ret (r, h')"
  shows "handler_ok ae h'"
  using assms unfolding on_client_def handler_ok_def
  by (auto split: prod.splits)


lemma kube_calls_ok:
  assumes "\<And>c. client = Some c \<Longrightarrow> client_ok ka c"
  shows "list_resources_by_namespace ka now a k n ls fs client = (res1, client') \<Longrightarrow>
      \<forall>c'. client' = Some c' \<longrightarrow> client_ok ka c'"
    and "list_resources_all ka now a k ls fs client = (res1, client') \<Longrightarrow>
      \<forall>c'. client' = Some c' \<longrightarrow> client_ok ka c'"
    and "get_resource ka now a k name nso client = (res2, client') \<Longrightarrow>
      \<forall>c'. client' = Some c' \<longrightarrow> client_ok ka c'"
    and "get_resource_plural_name ka now a k client = (res3, client') \<Longrightarrow>
      \<forall>c'. client' = Some c' \<longrightarrow> client_ok ka c'"
    and "has_list_resources_all_result_changed_since_instant ka now a k ls fs since client = (res4, client') \<Longrightarrow>
      \<forall>c'. client' = Some c' \<longrightarrow> client_ok ka c'"
    and "can_i ka now review client = (res5, client') \<Longrightarrow>
      \<forall>c'. client' = Some c' \<longrightarrow> client_ok ka c'"
proof -
  note c = with_client_ok [OF _ assms]
  show "list_resources_by_namespace ka now a k n ls fs client = (res1, client') \<Longrightarrow>
      \<forall>c'. client' = Some c' \<longrightarrow> client_ok ka c'"
    unfolding list_resources_by_namespace_def by (rule c [OF client_ops_ok(1)])
  show "list_resources_all ka now a k ls fs client = (res1, client') \<Longrightarrow>
      \<forall>c'. client' = Some c' \<longrightarrow> client_ok ka c'"
    unfolding list_resources_all_def by (rule c [OF client_ops_ok(2)])
  show "get_resource ka now a k name nso client = (res2, client') \<Longrightarrow>
      \<forall>c'. client' = Some c' \<longrightarrow> client_ok ka c'"
    unfolding get_resource_def by (rule c [OF client_ops_ok(3)])
  show "get_resource_plural_name ka now a k client = (res3, client') \<Longrightarrow>
      \<forall>c'. client' = Some c' \<longrightarrow> client_ok ka c'"
    unfolding get_resource_plural_name_def by (rule c [OF client_ops_ok(4)])
  show "has_list_resources_all_result_changed_since_instant ka now a k ls fs since client = (res4, client') \<Longrightarrow>
      \<forall>c'. client' = Some c' \<longrightarrow> client_ok ka c'"
    unfolding has_list_resources_all_result_changed_since_instant_def by (rule c [OF client_ops_ok(5)])
  show "can_i ka now review client = (res5, client') \<Longrightarrow> \<forall>c'. client' = Some c' \<longrightarrow> client_ok ka c'"
    unfolding can_i_def by (rule c [OF op_ok_lift [of _ "\<lambda>_ _. True"]]) simp_all
qed

lemma on_cache_ok:
  assumes "handler_ok ae h" "on_cache ae wrap f sel upd h = Ret (r, h')"
    and "\<And>res c u. f (sel (ch_caches h)) = Ret (res, c, u) \<Longrightarrow> caches_ok ae (ch_oci_client h) (ch_caches h) \<Longrightarrow>
      caches_ok ae (ch_oci_client h) (upd c (ch_caches h))"
  shows "handler_ok ae h' \<and> ch_oci_client h' = ch_oci_client h"
  using assms(2)
proof (rule on_cache_Ret)
  fix res c u
  assume "f (sel (ch_caches h)) = Ret (res, c, u)" "h' = h\<lparr>ch_caches := upd c (ch_caches h)\<rparr>"
  then show ?thesis
    using assms(1) assms(3) by (auto simp: handler_ok_def)
qed

lemma verification_eqs:
  "get_sigstore_pub_key_verification_cached fresh cs now img keys anns =
     cached_verification fresh now (pub_key_key (img, keys, anns)) (pub_key_check cs now (img, keys, anns))"
  "get_sigstore_keyless_verification_cached fresh cs now img keyless anns =
     cached_verification fresh now (keyless_key (cs_debug_keyless cs) (img, keyless, anns))
       (keyless_check cs now (img, keyless, anns))"
  "get_sigstore_keyless_prefix_verification_cached fresh cs now img keyless_prefix anns =
     cached_verification fresh now (keyless_key (cs_debug_keyless_prefix cs) (img, keyless_prefix, anns))
       (keyless_prefix_check cs now (img, keyless_prefix, anns))"
  "get_sigstore_github_actions_verification_cached fresh cs now img owner repo anns =
     cached_verification fresh now (github_key (img, owner, repo, anns))
       (github_check cs now (img, owner, repo, anns))"
  "get_sigstore_certificate_verification_cached fresh cs now img cert chain require anns =
     cached_verification fresh now (certificate_key cs (img, cert, chain, require, anns))
       (certificate_check cs now (img, cert, chain, require, anns))"
  by (rule ext, simp add: check_defs key_defs get_sigstore_pub_key_verification_cached_def
      get_sigstore_keyless_verification_cached_def get_sigstore_keyless_prefix_verification_cached_def
      get_sigstore_github_actions_verification_cached_def get_sigstore_certificate_verification_cached_def)+

definition steps_ok ::
  "('src, 'layers, 'cv, 'store, 'ev, 'der, 'ee, 'anchor) async_env \<Rightarrow> instant
   \<Rightarrow> ('src, 'store, 'ev) callback_handler \<Rightarrow> CallbackRequestType \<Rightarrow> bool" where
  "steps_ok ae now h req \<longleftrightarrow> (\<forall>r h'. handle_request ae now h req = Ret (r, h') \<longrightarrow>
     handler_ok ae h' \<and> ch_oci_client h' = ch_oci_client h)"

text \<open>Storing into one cache asks for the justification of that cache only.\<close>

lemma caches_ok_store:
  assumes "caches_ok ae oc cs"
  shows "memo.justified (ae_fresh ae 60) (answered_by (oci_digest (ae_registry ae) oc)) c0 \<Longrightarrow>
      caches_ok ae oc (cs\<lparr>ac_digest := c0\<rparr>)"
    "memo.justified (ae_fresh ae 60) (answered_by (oci_manifest (ae_registry ae) oc)) c1 \<Longrightarrow>
      caches_ok ae oc (cs\<lparr>ac_manifest := c1\<rparr>)"
    "memo.justified (ae_fresh ae 60) (answered_by (oci_manifest_and_config (ae_registry ae) oc)) c2 \<Longrightarrow>
      caches_ok ae oc (cs\<lparr>ac_manifest_and_config := c2\<rparr>)"
    "memo.justified (ae_fresh ae 60) (verified_by pub_key_key (pub_key_check (ae_cosign ae))) c3 \<Longrightarrow>
      caches_ok ae oc (cs\<lparr>ac_pub_key := c3\<rparr>)"
    "memo.justified (ae_fresh ae 60) (verified_by (keyless_key (cs_debug_keyless (ae_cosign ae))) (keyless_check (ae_cosign ae))) c4 \<Longrightarrow>
      caches_ok ae oc (cs\<lparr>ac_keyless := c4\<rparr>)"
    "memo.justified (ae_fresh ae 60) (verified_by (keyless_key (cs_debug_keyless_prefix (ae_cosign ae))) (keyless_prefix_check (ae_cosign ae))) c5 \<Longrightarrow>
      caches_ok ae oc (cs\<lparr>ac_keyless_prefix := c5\<rparr>)"
    "memo.justified (ae_fresh ae 60) (verified_by github_key (github_check (ae_cosign ae))) c6 \<Longrightarrow>
      caches_ok ae oc (cs\<lparr>ac_github := c6\<rparr>)"
    "memo.justified (ae_fresh ae 60) (verified_by (certificate_key (ae_cosign ae)) (certificate_check (ae_cosign ae))) c7 \<Longrightarrow>
      caches_ok ae oc (cs\<lparr>ac_certificate := c7\<rparr>)"
    "memo.justified (ae_fresh ae 5) (answered_by (client_can_i (ae_kube ae))) c8 \<Longrightarrow>
      caches_ok ae oc (cs\<lparr>ac_can_i := c8\<rparr>)"
    "caches_ok ae oc (cs\<lparr>ac_resource := cr\<rparr>)"
  using assms by (auto simp: caches_ok_def)

lemma oci_steps_ok:
  assumes "handler_ok ae h"
  shows "steps_ok ae now h (OciManifestDigest img)" "steps_ok ae now h (OciManifest img)"
    "steps_ok ae now h (OciManifestAndConfig img)"
proof -
  show "steps_ok ae now h (OciManifestDigest img)"
    unfolding steps_ok_def handle_request.simps get_oci_digest_cached_def
    by (intro allI impI, erule on_cache_ok [OF assms], rule caches_ok_store(1), assumption,
      erule cached_query_sound(1))
      (simp add: caches_ok_def)
  show "steps_ok ae now h (OciManifest img)"
    unfolding steps_ok_def handle_request.simps get_oci_manifest_cached_def
    by (intro allI impI, erule on_cache_ok [OF assms], rule caches_ok_store(2), assumption,
      erule cached_query_sound(1))
      (simp add: caches_ok_def)
  show "steps_ok ae now h (OciManifestAndConfig img)"
    unfolding steps_ok_def handle_request.simps get_oci_manifest_and_config_cached_def
    by (intro allI impI, erule on_cache_ok [OF assms], rule caches_ok_store(3), assumption,
      erule cached_query_sound(1))
      (simp add: caches_ok_def)
qed

lemma sigstore_steps_ok:
  assumes "handler_ok ae h"
  shows "steps_ok ae now h (SigstorePubKeyVerify img keys anns)"
    "steps_ok ae now h (SigstoreKeylessVerify img keyless anns)"
    "steps_ok ae now h (SigstoreKeylessPrefixVerify img keyless_prefix anns)"
    "steps_ok ae now h (SigstoreGithubActionsVerify img owner repo anns)"
    "steps_ok ae now h (SigstoreCertificateVerify img cert chain require anns)"
proof -
  show "steps_ok ae now h (SigstorePubKeyVerify img keys anns)"
    unfolding steps_ok_def handle_request.simps verification_eqs
    by (intro allI impI, erule on_cache_ok [OF assms], rule caches_ok_store(4), assumption,
      erule cached_verification_sound(1)) (simp add: caches_ok_def)
  show "steps_ok ae now h (SigstoreKeylessVerify img keyless anns)"
    unfolding steps_ok_def handle_request.simps verification_eqs
    by (intro allI impI, erule on_cache_ok [OF assms], rule caches_ok_store(5), assumption,
      erule cached_verification_sound(1)) (simp add: caches_ok_def)
  show "steps_ok ae now h (SigstoreKeylessPrefixVerify img keyless_prefix anns)"
    unfolding steps_ok_def handle_request.simps verification_eqs
    by (intro allI impI, erule on_cache_ok [OF assms], rule caches_ok_store(6), assumption,
      erule cached_verification_sound(1)) (simp add: caches_ok_def)
  show "steps_ok ae now h (SigstoreGithubActionsVerify img owner repo anns)"
    unfolding steps_ok_def handle_request.simps verification_eqs
    by (intro allI impI, erule on_cache_ok [OF assms], rule caches_ok_store(7), assumption,
      erule cached_verification_sound(1)) (simp add: caches_ok_def)
  show "steps_ok ae now h (SigstoreCertificateVerify img cert chain require anns)"
    unfolding steps_ok_def handle_request.simps verification_eqs
    by (intro allI impI, erule on_cache_ok [OF assms], rule caches_ok_store(8), assumption,
      erule cached_verification_sound(1)) (simp add: caches_ok_def)
qed


lemma on_cache_and_client_Ret:
  assumes "on_cache_and_client ae wrap f sel upd h = Ret (r, h')"
  obtains res c client' where "f (sel (ch_caches h)) (ch_kubernetes_client h) = Ret (res, c, client')"
    "r = handle_callback ae wrap res"
    "h' = h\<lparr>ch_caches := upd c (ch_caches h), ch_kubernetes_client := client'\<rparr>"
  using assms unfolding on_cache_and_client_def by auto

lemma can_i_answer:
  assumes "can_i ka now review client = (Inr r, client')"
  shows "client_can_i ka now review = Inr (cr_value r)"
  using assms by (auto simp: can_i_def with_client_def split: option.splits)

lemma client_step_ok:
  assumes h: "handler_ok ae h" and f: "\<And>res client'. f (ch_kubernetes_client h) = (res, client') \<Longrightarrow>
      \<forall>c'. client' = Some c' \<longrightarrow> client_ok (ae_kube ae) c'"
    and run: "on_client ae wrap f h = Ret (r, h')"
  shows "handler_ok ae h' \<and> ch_oci_client h' = ch_oci_client h"
  using on_client_ok [OF f h run] run by (auto simp: on_client_def split: prod.splits)

lemma kube_steps_ok:
  assumes h: "handler_ok ae h"
  shows "steps_ok ae now h (KubernetesListResourceNamespace a k n ls fs)"
    "steps_ok ae now h (KubernetesListResourceAll a k ls fs)"
    "steps_ok ae now h (KubernetesGetResource a k name nso disable_cache)"
    "steps_ok ae now h (KubernetesGetResourcePluralName a k)"
    "steps_ok ae now h (HasKubernetesListResourceAllResultChangedSinceInstant a k ls fs since)"
    "steps_ok ae now h (KubernetesCanI review disable_cache)"
proof -
  have c: "\<And>c. ch_kubernetes_client h = Some c \<Longrightarrow> client_ok (ae_kube ae) c"
    using h by (simp add: handler_ok_def)
  note calls = kube_calls_ok [OF c] and step = client_step_ok [OF h]
  show "steps_ok ae now h (KubernetesListResourceNamespace a k n ls fs)"
    unfolding steps_ok_def handle_request.simps
    by (intro allI impI, erule step [rotated]) (rule calls(1))
  show "steps_ok ae now h (KubernetesListResourceAll a k ls fs)"
    unfolding steps_ok_def handle_request.simps
    by (intro allI impI, erule step [rotated]) (rule calls(2))
  show "steps_ok ae now h (KubernetesGetResourcePluralName a k)"
    unfolding steps_ok_def handle_request.simps
    by (intro allI impI, erule step [rotated]) (rule calls(4))
  show "steps_ok ae now h (HasKubernetesListResourceAllResultChangedSinceInstant a k ls fs since)"
    unfolding steps_ok_def handle_request.simps
    by (intro allI impI, erule step [rotated]) (rule calls(5))
  show "steps_ok ae now h (KubernetesGetResource a k name nso disable_cache)"
  proof (cases disable_cache)
    case True
    show ?thesis
      unfolding steps_ok_def handle_request.simps if_P [OF True]
      by (intro allI impI, erule step [rotated]) (rule calls(3))
  next
    case False
    have "handler_ok ae h' \<and> ch_oci_client h' = ch_oci_client h"
      if "handle_request ae now h (KubernetesGetResource a k name nso disable_cache) = Ret (r, h')" for r h'
      using that unfolding handle_request.simps if_not_P [OF False]
    proof (rule on_cache_and_client_Ret)
      fix res c' client'
      assume run: "get_resource_cached (ae_fresh ae) (ae_kube ae) now a k name nso
          (ac_resource (ch_caches h)) (ch_kubernetes_client h) = Ret (res, c', client')"
        and h': "h' = h\<lparr>ch_caches := (ch_caches h)\<lparr>ac_resource := c'\<rparr>, ch_kubernetes_client := client'\<rparr>"
      from cached_call_state [OF run [unfolded get_resource_cached_def]]
      have "\<forall>c'. client' = Some c' \<longrightarrow> client_ok (ae_kube ae) c'"
      proof (elim disjE exE)
        fix res
        assume "Ret (get_resource (ae_kube ae) now a k name nso (ch_kubernetes_client h)) = Ret (res, client')"
        then have "get_resource (ae_kube ae) now a k name nso (ch_kubernetes_client h) = (res, client')" by simp
        then show ?thesis by (rule calls(3) [rotated])
      qed (simp add: c)
      moreover have "caches_ok ae (ch_oci_client h) ((ch_caches h)\<lparr>ac_resource := c'\<rparr>)"
        by (rule caches_ok_store(10)) (use h in \<open>simp add: handler_ok_def\<close>)
      ultimately show ?thesis unfolding h' handler_ok_def by simp
    qed
    then show ?thesis unfolding steps_ok_def by blast
  qed
  show "steps_ok ae now h (KubernetesCanI review disable_cache)"
  proof (cases disable_cache)
    case True
    show ?thesis
      unfolding steps_ok_def handle_request.simps if_P [OF True]
      by (intro allI impI, erule step [rotated]) (rule calls(6))
  next
    case False
    have "handler_ok ae h' \<and> ch_oci_client h' = ch_oci_client h"
      if "handle_request ae now h (KubernetesCanI review disable_cache) = Ret (r, h')" for r h'
      using that unfolding handle_request.simps if_not_P [OF False]
    proof (rule on_cache_and_client_Ret)
      fix res c' client'
      assume run: "can_i_cached (ae_fresh ae) (ae_kube ae) now review
          (ac_can_i (ch_caches h)) (ch_kubernetes_client h) = Ret (res, c', client')"
        and h': "h' = h\<lparr>ch_caches := (ch_caches h)\<lparr>ac_can_i := c'\<rparr>, ch_kubernetes_client := client'\<rparr>"
      note run' = run [unfolded can_i_cached_def]
      from cached_call_state [OF run']
      have "\<forall>c'. client' = Some c' \<longrightarrow> client_ok (ae_kube ae) c'"
      proof (elim disjE exE)
        fix res
        assume "Ret (can_i (ae_kube ae) now review (ch_kubernetes_client h)) = Ret (res, client')"
        then have "can_i (ae_kube ae) now review (ch_kubernetes_client h) = (res, client')" by simp
        then show ?thesis by (rule calls(6) [rotated])
      qed (simp add: c)
      moreover have "memo.justified (ae_fresh ae 5) (answered_by (client_can_i (ae_kube ae))) c'"
        by (rule cached_call_justified(1) [OF run'])
          (use h in \<open>auto simp: handler_ok_def caches_ok_def dest: can_i_answer\<close>)
      ultimately have "caches_ok ae (ch_oci_client h) ((ch_caches h)\<lparr>ac_can_i := c'\<rparr>)"
          and "\<forall>c'. client' = Some c' \<longrightarrow> client_ok (ae_kube ae) c'"
        using h by (auto simp: handler_ok_def intro: caches_ok_store(9))
      then show ?thesis unfolding h' handler_ok_def by simp
    qed
    then show ?thesis unfolding steps_ok_def by blast
  qed
qed

lemma handle_request_ok: "handler_ok ae h \<Longrightarrow> steps_ok ae now h req"
proof (cases req)
  case (DNSLookupHost host)
  assume "handler_ok ae h"
  then show ?thesis unfolding DNSLookupHost steps_ok_def handle_request.simps by auto
next
  case (CryptoIsCertificateTrusted r)
  assume "handler_ok ae h"
  then show ?thesis unfolding CryptoIsCertificateTrusted steps_ok_def handle_request.simps by auto
qed (simp_all add: oci_steps_ok sigstore_steps_ok kube_steps_ok del: handle_request.simps)


subsection \<open>Reachable handlers\<close>

text \<open>
  A handler starts with empty caches, and with a client that knows nothing if it has one. It takes
  steps for requests, and the background task of a reflector takes steps of its own.
\<close>

inductive handler_reach ::
  "('src, 'layers, 'cv, 'store, 'ev, 'der, 'ee, 'anchor) async_env
   \<Rightarrow> ('src, 'store, 'ev) callback_handler \<Rightarrow> bool" for ae where
  built: "client = None \<or> client = Some kube_client_new \<Longrightarrow>
    handler_reach ae \<lparr>ch_oci_client = oc, ch_kubernetes_client = client, ch_caches = empty_caches,
      ch_channel_size = n\<rparr>"
| handled: "handler_reach ae h \<Longrightarrow> answer_request ae now h req = (r, h') \<Longrightarrow> handler_reach ae h'"
| watched: "handler_reach ae h \<Longrightarrow> ch_kubernetes_client h = Some c \<Longrightarrow>
    hm_get (kc_reflectors c) i = Some rf \<Longrightarrow> watch_step (ka_watch (ae_kube ae)) now rf rf' \<Longrightarrow>
    handler_reach ae (h\<lparr>ch_kubernetes_client :=
      Some (c\<lparr>kc_reflectors := hm_insert i rf' (kc_reflectors c)\<rparr>)\<rparr>)"

lemma empty_caches_ok: "caches_ok ae oc empty_caches"
  by (simp add: caches_ok_def empty_caches_def memo.justified_empty)

lemma built_reach:
  "builder_build_handler cb b = Ret (Inr (cosign, h)) \<Longrightarrow> handler_reach ae h"
  by (auto simp: builder_build_handler_def split: if_splits intro!: handler_reach.built)

lemma watched_client_ok:
  assumes c: "client_ok ka c" and rf: "hm_get (kc_reflectors c) i = Some rf"
    and step: "watch_step (ka_watch ka) now rf rf'"
  shows "client_ok ka (c\<lparr>kc_reflectors := hm_insert i rf' (kc_reflectors c)\<rparr>)"
proof -
  obtain a k resource ns ls fs where i: "i = compute_id resource ns ls fs" "found ka a k resource"
      "reflector_for ka resource ns ls fs rf"
    using c rf unfolding client_ok_def by blast
  then obtain t rf0 where rf0: "create_and_run (ka_watch ka) t resource ns ls fs = Inr rf0"
      "(\<lambda>x y. \<exists>now. watch_step (ka_watch ka) now x y)\<^sup>*\<^sup>* rf0 rf"
    unfolding reflector_for_def by blast
  have "(\<lambda>x y. \<exists>now. watch_step (ka_watch ka) now x y)\<^sup>*\<^sup>* rf0 rf'"
    by (rule rtranclp.rtrancl_into_rtrancl [OF rf0(2)]) (use step in blast)
  with rf0(1) have "reflector_for ka resource ns ls fs rf'"
    unfolding reflector_for_def by blast
  then show ?thesis
    using c i(1,2) unfolding client_ok_def by (simp add: hm_get_insert) blast
qed

lemma reach_ok: "handler_reach ae h \<Longrightarrow> handler_ok ae h"
proof (induction rule: handler_reach.induct)
  case (built client oc n)
  then show ?case by (auto simp: handler_ok_def empty_caches_ok)
next
  case (handled h now req r h')
  then show ?case
    using handle_request_ok [of ae h now req]
    by (auto simp: answer_request_def steps_ok_def split: exec.splits simp del: handle_request.simps)
next
  case (watched h c i rf now rf')
  then show ?case
    using watched_client_ok [of "ae_kube ae" c i rf now rf'] by (auto simp: handler_ok_def)
qed

lemma answer_request_Answer:
  "answer_request ae now h req = (Answer r, h') \<longleftrightarrow> handle_request ae now h req = Ret (r, h')"
  by (auto simp: answer_request_def split: exec.splits simp del: handle_request.simps)

subsection \<open>Trusted images\<close>

definition all_keys_verified ::
  "('src, 'layers, 'cv, 'store, 'ev, 'der, 'ee, 'anchor) async_env \<Rightarrow> instant \<Rightarrow> string
   \<Rightarrow> string list \<Rightarrow> annotations \<Rightarrow> bytes \<Rightarrow> bool" where
  "all_keys_verified ae now img keys anns payload \<longleftrightarrow> keys \<noteq> [] \<and>
     (\<exists>t0 digest. (t0 = now \<or> ae_fresh ae 60 t0 now) \<and>
        cs_verify (ae_cosign ae) t0 img
          \<lparr>vc_all_of = Some (map (\<lambda>k. SigPubKey None k anns) keys), vc_any_of = None\<rparr> = Inr digest \<and>
        ae_to_vec ae (ValueVerification \<lparr>ver_is_trusted = True, ver_digest = digest\<rparr>) = Inr payload)"

lemma pub_key_answer:
  assumes reach: "handler_reach ae h"
    and run: "answer_request ae now h (SigstorePubKeyVerify img keys anns) = (Answer (Inr payload), h')"
  shows "all_keys_verified ae now img keys anns payload"
proof -
  have "handle_request ae now h (SigstorePubKeyVerify img keys anns) = Ret (Inr payload, h')"
    using run unfolding answer_request_Answer .
  then obtain res c u where
    call: "cached_verification (ae_fresh ae) now (pub_key_key (img, keys, anns))
      (pub_key_check (ae_cosign ae) now (img, keys, anns)) (ac_pub_key (ch_caches h)) = Ret (res, c, u)"
    and payload: "Inr payload = handle_callback ae ValueVerification res"
    unfolding handle_request.simps verification_eqs by (rule on_cache_Ret)
  obtain r where res: "res = Inr r" and vec: "ae_to_vec ae (ValueVerification (cr_value r)) = Inr payload"
    using payload by (cases res) (auto simp: handle_callback_def eq_commute [of "Inr payload"])
  have "memo.justified (ae_fresh ae 60) (verified_by pub_key_key (pub_key_check (ae_cosign ae)))
      (ac_pub_key (ch_caches h))"
    using reach_ok [OF reach] by (simp add: handler_ok_def caches_ok_def)
  from cached_verification_sound(2) [OF call this res]
  obtain t0 q0 where t0: "t0 = now \<or> ae_fresh ae 60 t0 now" and key: "pub_key_key q0 = pub_key_key (img, keys, anns)"
    and checked: "pub_key_check (ae_cosign ae) t0 q0 = Ret (Inr (cr_value r))" by blast
  have "q0 = (img, keys, anns)"
    using key by (cases q0) (simp add: pub_key_key_def pub_keys_cache_key_def image_keys_annotations_inj)
  then have v: "verify_public_key (ae_cosign ae) t0 img keys anns = Inr (cr_value r)"
    using checked by (simp add: pub_key_check_def)
  then have "cr_value r = \<lparr>ver_is_trusted = True, ver_digest = ver_digest (cr_value r)\<rparr>"
    by (cases "cr_value r") (simp add: verify_public_key_ok)
  with v vec t0 show ?thesis
    unfolding all_keys_verified_def by (metis verify_public_key_ok)
qed

subsection \<open>Listings\<close>

lemma list_all_answer:
  assumes reach: "handler_reach ae h" and plain: "plain_names (ae_kube ae)"
    and run: "answer_request ae now h (KubernetesListResourceAll a k ls fs) = (Answer (Inr payload), h')"
  shows "\<exists>c resource rf resource0. ch_kubernetes_client h' = Some c \<and>
    found (ae_kube ae) a k resource \<and> hm_get (kc_reflectors c) (compute_id resource None ls fs) = Some rf \<and>
    found (ae_kube ae) a k resource0 \<and> reflector_for (ae_kube ae) resource0 None ls fs rf \<and>
    ae_to_vec ae (ValueObjectList (listing_of (ae_kube ae) resource rf)) = Inr payload"
proof -
  have req: "handle_request ae now h (KubernetesListResourceAll a k ls fs) = Ret (Inr payload, h')"
    using run unfolding answer_request_Answer .
  obtain c where c: "ch_kubernetes_client h = Some c"
    using req by (cases "ch_kubernetes_client h")
      (auto simp: on_client_def list_resources_all_def with_client_def handle_callback_def)
  obtain r c' where list: "client_list_all (ae_kube ae) now a k ls fs c = (r, c')"
    by (cases "client_list_all (ae_kube ae) now a k ls fs c")
  obtain ol where r: "r = Inr ol" and vec: "ae_to_vec ae (ValueObjectList ol) = Inr payload"
      and h': "ch_kubernetes_client h' = Some c'"
    using req c list by (cases r) (auto simp: on_client_def list_resources_all_def with_client_def handle_callback_def)
  have ok: "client_ok (ae_kube ae) c" using reach_ok [OF reach] c by (simp add: handler_ok_def)
  have ok': "client_ok (ae_kube ae) c'" using op_okD [OF client_ops_ok(2) ok list] by simp
  have "listed (ae_kube ae) a k None ls fs ol c'"
    using op_ok_result [OF client_ops_ok(2) ok] list r by simp
  then obtain resource rf where f: "found (ae_kube ae) a k resource"
      and rf: "hm_get (kc_reflectors c') (compute_id resource None ls fs) = Some rf"
      and ol: "ol = listing_of (ae_kube ae) resource rf"
    unfolding listed_def by blast
  from reflector_serves_query [OF ok' plain f rf] f rf ol h' vec show ?thesis by blast
qed


subsection \<open>Requests that get no answer\<close>

lemma on_cache_panic:
  "no_panic (on_cache ae wrap f sel upd h) \<longleftrightarrow> no_panic (f (sel (ch_caches h)))"
  by (cases "f (sel (ch_caches h))") (auto simp: on_cache_def split: prod.splits)

lemma on_cache_and_client_panic:
  "no_panic (on_cache_and_client ae wrap f sel upd h) \<longleftrightarrow>
   no_panic (f (sel (ch_caches h)) (ch_kubernetes_client h))"
  by (cases "f (sel (ch_caches h)) (ch_kubernetes_client h)")
    (auto simp: on_cache_and_client_def split: prod.splits)

lemma on_client_panic: "no_panic (on_client ae wrap f h)"
  by (simp add: on_client_def split: prod.splits)

lemma cached_verification_panic:
  "no_panic (cached_verification fresh now key v c) \<longleftrightarrow>
   cache_get (fresh 60) now key c \<noteq> None \<or> no_panic v"
  by (cases v) (auto simp: cached_verification_def cached_call_def split: option.splits)

lemma dns_panic:
  "no_panic (bind_exec (handle_dns_lookup ae now host) (\<lambda>response. Ret (response, h))) \<longleftrightarrow>
   (\<forall>ips. ae_lookup_host ae now host = Inr ips \<longrightarrow> is_ok (ae_to_vec ae (ValueLookup \<lparr>lr_ips = ips\<rparr>)))"
  by (auto simp: handle_dns_lookup_def is_ok_def split: sum.splits)

text \<open>The requests whose task panics.\<close>

fun unanswered ::
  "('src, 'layers, 'cv, 'store, 'ev, 'der, 'ee, 'anchor) async_env \<Rightarrow> instant
   \<Rightarrow> ('src, 'store, 'ev) callback_handler \<Rightarrow> CallbackRequestType \<Rightarrow> bool" where
  "unanswered ae now h (SigstoreKeylessPrefixVerify img url_prefixes anns) =
     (cache_get (ae_fresh ae 60) now (keyless_cache_key (cs_debug_keyless_prefix (ae_cosign ae)) img url_prefixes anns)
        (ac_keyless_prefix (ch_caches h)) = None \<and>
      (\<exists>p \<in> set url_prefixes. \<not> is_ok (cs_parse_url (ae_cosign ae) (keyless_prefix_url_prefix p))))"
| "unanswered ae now h (DNSLookupHost host) =
     (\<exists>ips. ae_lookup_host ae now host = Inr ips \<and> \<not> is_ok (ae_to_vec ae (ValueLookup \<lparr>lr_ips = ips\<rparr>)))"
| "unanswered ae now h req = False"

lemma handle_request_panic: "\<not> no_panic (handle_request ae now h req) \<longleftrightarrow> unanswered ae now h req"
  by (cases req)
    (auto simp: on_cache_panic on_cache_and_client_panic on_client_panic verification_eqs
      cached_verification_panic dns_panic get_oci_digest_cached_def get_oci_manifest_cached_def
      get_oci_manifest_and_config_cached_def cached_query_no_panic get_resource_cached_def
      can_i_cached_def cached_call_no_panic check_defs verify_keyless_prefix_panics keyless_key_def
      split: prod.splits)

text \<open>C14: the handler answers every request but two kinds, and keeps running after those: the
  verification against URL prefixes when one of them is no URL and no earlier result is cached,
  and the lookup of a host whose addresses cannot be serialized. The requester of those finds its
  response channel closed, and the handler is unchanged. Every other request gets an answer, an
  error included.\<close>

theorem handler_answers:
  "if unanswered ae now h req then answer_request ae now h req = (Dropped, h)
   else \<exists>r h'. answer_request ae now h req = (Answer r, h') \<and> handle_request ae now h req = Ret (r, h')"
proof (cases "handle_request ae now h req")
  case (Ret res)
  then have "no_panic (handle_request ae now h req)" by simp
  then have "\<not> unanswered ae now h req" using handle_request_panic by blast
  moreover obtain r h' where "res = (r, h')" by (cases res)
  ultimately show ?thesis using Ret by (auto simp: answer_request_Answer simp del: handle_request.simps)
next
  case (Panic m)
  then have "\<not> no_panic (handle_request ae now h req)" by simp
  then have "unanswered ae now h req" using handle_request_panic by blast
  then show ?thesis using Panic by (simp add: answer_request_def del: handle_request.simps)
qed

end
