(* ===== verification/Channel.thy ===== *)
theory Channel
  imports HandlerSafety HostCallback
begin

text \<open>
  The two sides of the callback channel together: synchronous code (\<open>src/runtimes/callback.rs\<close>,
  \<open>src/runtimes/rego/context_aware.rs\<close>) sends a request and blocks, the handler of
  \<open>src/callback_handler.rs\<close> answers. Seen from the synchronous code of one evaluation, the handler is
  a \<^theory_text>\<open>peer\<close>: its reply depends on what it was asked before. \<^theory_text>\<open>ts n\<close> is the time of the request
  number \<open>n\<close>.
\<close>

subsection \<open>The loop answers what it received\<close>

text \<open>Abstractly the loop is a fold over the requests that come before the shutdown message.\<close>

fun answer_all ::
  "('src, 'layers, 'cv, 'store, 'ev, 'der, 'ee, 'anchor) async_env
   \<Rightarrow> ('src, 'store, 'ev) callback_handler \<Rightarrow> (instant \<times> CallbackRequestType) list
   \<Rightarrow> reply list \<times> ('src, 'store, 'ev) callback_handler" where
  "answer_all ae h [] = ([], h)"
| "answer_all ae h ((now, req) # reqs) =
     (case answer_request ae now h req of (r, h') \<Rightarrow>
       (case answer_all ae h' reqs of (rs, h'') \<Rightarrow> (r # rs, h'')))"

fun received :: "(instant \<times> loop_event) list \<Rightarrow> (instant \<times> CallbackRequestType) list" where
  "received [] = []"
| "received ((now, Received req) # evs) = (now, req) # received evs"
| "received ((now, ev) # evs) = received evs"


lemma answer_all_length: "answer_all ae h reqs = (rs, h') \<Longrightarrow> length rs = length reqs"
  by (induction ae h reqs arbitrary: rs h' rule: answer_all.induct) (auto split: prod.splits)

lemma answer_all_reach:
  "handler_reach ae h \<Longrightarrow> answer_all ae h reqs = (rs, h') \<Longrightarrow> handler_reach ae h'"
  by (induction ae h reqs arbitrary: rs h' rule: answer_all.induct)
    (auto split: prod.splits intro: handler_reach.handled)

subsection \<open>The handler as a peer\<close>

fun handler_after ::
  "('src, 'layers, 'cv, 'store, 'ev, 'der, 'ee, 'anchor) async_env \<Rightarrow> (nat \<Rightarrow> instant)
   \<Rightarrow> ('src, 'store, 'ev) callback_handler \<Rightarrow> nat \<Rightarrow> CallbackRequestType list
   \<Rightarrow> ('src, 'store, 'ev) callback_handler" where
  "handler_after ae ts h n [] = h"
| "handler_after ae ts h n (req # reqs) =
     handler_after ae ts (snd (answer_request ae (ts n) h req)) (Suc n) reqs"

definition handler_peer ::
  "('src, 'layers, 'cv, 'store, 'ev, 'der, 'ee, 'anchor) async_env \<Rightarrow> (nat \<Rightarrow> instant)
   \<Rightarrow> ('src, 'store, 'ev) callback_handler \<Rightarrow> peer" where
  "handler_peer ae ts h = (\<lambda>sent req.
     fst (answer_request ae (ts (length sent)) (handler_after ae ts h 0 sent) req))"

lemma handler_after_reach: "handler_reach ae h \<Longrightarrow> handler_reach ae (handler_after ae ts h n reqs)"
proof (induction reqs arbitrary: h n)
  case (Cons req reqs)
  have "handler_reach ae (snd (answer_request ae (ts n) h req))"
    by (rule handler_reach.handled [OF Cons.prems]) (rule prod.collapse [symmetric])
  then show ?case by (simp add: Cons.IH)
qed simp

text \<open>
  Other evaluations use the same handler, and the background tasks of its reflectors run on. So in
  general what the synchronous side gets is the answer of some reachable handler.
\<close>

definition served_by ::
  "('src, 'layers, 'cv, 'store, 'ev, 'der, 'ee, 'anchor) async_env \<Rightarrow> (nat \<Rightarrow> instant) \<Rightarrow> peer
   \<Rightarrow> 'src oci_client \<Rightarrow> bool" where
  "served_by ae ts chan oc \<longleftrightarrow> (\<forall>sent req r. chan sent req = Answer r \<longrightarrow>
     (\<exists>h h'. handler_reach ae h \<and> ch_oci_client h = oc \<and>
        answer_request ae (ts (length sent)) h req = (Answer r, h')))"

lemma answer_request_oci:
  assumes "handler_reach ae h"
  shows "ch_oci_client (snd (answer_request ae now h req)) = ch_oci_client h"
proof (cases "handle_request ae now h req")
  case (Ret res)
  obtain r h' where res: "res = (r, h')" by (cases res)
  have "ch_oci_client h' = ch_oci_client h"
    using handle_request_ok [OF reach_ok [OF assms], of now req] Ret res
    unfolding steps_ok_def by blast
  moreover have "answer_request ae now h req = (Answer r, h')"
    unfolding answer_request_Answer using Ret res by simp
  ultimately show ?thesis by simp
next
  case (Panic m)
  then show ?thesis unfolding answer_request_def Panic by simp
qed

lemma handler_after_oci: "handler_reach ae h \<Longrightarrow> ch_oci_client (handler_after ae ts h n reqs) = ch_oci_client h"
proof (induction reqs arbitrary: h n)
  case (Cons req reqs)
  have "handler_reach ae (snd (answer_request ae (ts n) h req))"
    by (rule handler_reach.handled [OF Cons.prems]) (rule prod.collapse [symmetric])
  moreover have "ch_oci_client (snd (answer_request ae (ts n) h req)) = ch_oci_client h"
    by (rule answer_request_oci [OF Cons.prems])
  ultimately show ?case by (simp add: Cons.IH)
qed simp

lemma handler_peer_served:
  "handler_reach ae h \<Longrightarrow> served_by ae ts (handler_peer ae ts h) (ch_oci_client h)"
  unfolding served_by_def handler_peer_def
  by (metis handler_after_oci handler_after_reach prod.collapse)

lemma send_to_handler:
  assumes "served_by ae ts chan oc" "ctx_callback_channel ctx = Some chan"
    and "send_request_and_wait_for_response ctx req st = (Inr payload, st')"
  obtains h h' where "handler_reach ae h" "ch_oci_client h = oc"
    "answer_request ae (ts (length (hs_sent st))) h req = (Answer (Inr payload), h')"
proof -
  have "chan (hs_sent st) req = Answer (Inr payload)"
    using assms(2,3)
    by (auto simp: send_request_and_wait_for_response_def split: reply.splits sum.splits)
  then show ?thesis using assms(1) that unfolding served_by_def by blast
qed

subsection \<open>An example of the asynchronous side\<close>

definition example_kube :: "(DynamicObject list, DynamicObject) kube_api" where
  "example_kube = \<lparr>
     ka_watch = \<lparr>wa_writer = (\<lambda>r. []), wa_apply = (\<lambda>ev s. s @ [ev]), wa_modify = (\<lambda>f ev. f ev),
       wa_state = (\<lambda>s. s), wa_clear_managed_fields = (\<lambda>obj. obj), wa_remove_annotation = (\<lambda>a obj. obj),
       wa_until_ready = (\<lambda>now r ns ls fs. Inr
         [\<lparr>do_name = Some ''web'', do_namespace = Some ''default'', do_json = Null\<rparr>])\<rparr>,
     ka_core_resources = (\<lambda>now v. Inr [\<lparr>apir_name = ''pods'', apir_kind = ''Pod'', apir_namespaced = True\<rparr>]),
     ka_group_resources = (\<lambda>now v. Inl (anyhow ''not found'')),
     ka_get_opt = (\<lambda>now r ns name. Inr None),
     ka_create_review = (\<lambda>now r. Inr None)\<rparr>"

definition example_webpki :: "(bytes, bytes, bytes) webpki" where
  "example_webpki = \<lparr>wp_from_pem_slice = Inr, wp_from_slice = (\<lambda>b. b), wp_end_entity = Inr, wp_anchor = Inr,
     wp_tls_server_roots = [], wp_verify_for_usage = (\<lambda>ee roots inter t. if roots = [] then Inl UnknownIssuer else Inr ()),
     wp_parse_from_rfc3339 = (\<lambda>s. None), wp_display = (\<lambda>e. [])\<rparr>"

definition example_registry :: "unit registry" where
  "example_registry = \<lparr>rg_whole = Inr, rg_manifest_digest = (\<lambda>now img src. Inr ''sha256:1''),
     rg_manifest = (\<lambda>now img src. Inr Null), rg_manifest_and_config = (\<lambda>now img src. Inr (Null, ''sha256:1'', Null))\<rparr>"

text \<open>\<^theory_text>\<open>to_vec\<close> of the example writes a verification as its digest, and other values as nothing.\<close>

definition example_async ::
  "(unit, unit, bytes, DynamicObject list, DynamicObject, bytes, bytes, bytes) async_env" where
  "example_async = \<lparr>ae_fresh = (\<lambda>l t now. now < t + l), ae_registry = example_registry,
     ae_cosign = example_cosign, ae_kube = example_kube, ae_webpki = example_webpki,
     ae_timestamp = (\<lambda>now. of_nat now), ae_lookup_host = (\<lambda>now host. Inr [''10.0.0.1'']),
     ae_to_vec = (\<lambda>v. case v of ValueVerification r \<Rightarrow> Inr (ver_digest r)
        | ValueLookup r \<Rightarrow> Inl (anyhow ''unreachable'') | _ \<Rightarrow> Inr [])\<rparr>"

definition example_handler :: "(unit, DynamicObject list, DynamicObject) callback_handler" where
  "example_handler = \<lparr>ch_oci_client = oci_client_new None, ch_kubernetes_client = Some kube_client_new,
     ch_caches = empty_caches, ch_channel_size = default_channel_buff_size\<rparr>"

lemma example_handler_reach: "handler_reach example_async example_handler"
  unfolding example_handler_def by (rule handler_reach.built) simp

lemma example_async_sel:
  "ae_fresh example_async = (\<lambda>l t now. now < t + l)" "ae_cosign example_async = example_cosign"
  "ae_kube example_async = example_kube" "ae_registry example_async = example_registry"
  "ae_to_vec example_async (ValueVerification r) = Inr (ver_digest r)"
  "ae_to_vec example_async (ValueObjectList ol) = Inr []"
  by (simp_all add: example_async_def)

lemma example_pub_key_answer:
  "answer_request example_async now example_handler (SigstorePubKeyVerify ''signed'' [''key''] None) =
     (Answer (Inr ''sha256:1''), example_handler\<lparr>ch_caches := empty_caches\<lparr>ac_pub_key :=
        [(pub_keys_cache_key ''signed'' [''key''] None,
          return_new \<lparr>ver_is_trusted = True, ver_digest = ''sha256:1''\<rparr>, now)]\<rparr>\<rparr>)"
proof -
  have "verify_public_key example_cosign now ''signed'' [''key''] None =
      Inr \<lparr>ver_is_trusted = True, ver_digest = ''sha256:1''\<rparr>"
    by (simp add: verify_public_key_def verify_all_of_def example_cosign_def)
  then show ?thesis
    by (simp add: answer_request_def on_cache_def get_sigstore_pub_key_verification_cached_def
        cached_verification_def cached_call_def example_handler_def empty_caches_def cache_get_def
        cache_set_def hm_get_def example_async_sel handle_callback_def return_new_def)
qed


subsection \<open>What policies and the Rego runtime get\<close>

text \<open>C6: an image a policy is told to trust was verified. When a policy asks, through the host
  callback, for the verification of an image against public keys and gets an answer, then there
  is at least one key, and the verifier accepted that very image against all of the keys with the
  annotations the policy named, at the time of the request or at a time whose results are still
  fresh; the answer is the digest it found. This holds whatever other evaluations asked the
  handler before, and with the cache between the two: its keys do not confuse two requests.\<close>

theorem policy_verified_image:
  assumes "served_by ae ts chan oc" and "ctx_callback_channel ctx = Some chan"
    and "de_verify_v2 c payload = Inr (V2PubKeyVerify img keys anns)"
    and "host_callback c ctx ''kubewarden'' ''oci'' ''v2/verify'' payload st = Ret (Inr answer, st')"
  shows "keys \<noteq> [] \<and>
    (\<exists>t digest. (t = ts (length (hs_sent st)) \<or> ae_fresh ae 60 t (ts (length (hs_sent st)))) \<and>
       cs_verify (ae_cosign ae) t img
         \<lparr>vc_all_of = Some (map (\<lambda>k. SigPubKey None k anns) keys), vc_any_of = None\<rparr> = Inr digest \<and>
       ae_to_vec ae (ValueVerification \<lparr>ver_is_trusted = True, ver_digest = digest\<rparr>) = Inr answer)"
proof -
  have "send_request_and_wait_for_response ctx (SigstorePubKeyVerify img keys anns) st = (Inr answer, st')"
    using assms(3,4) by (simp add: host_callback_def oci_callback_def decode_and_send_def)
  from send_to_handler [OF assms(1,2) this] obtain h h' where
    "handler_reach ae h" "answer_request ae (ts (length (hs_sent st))) h (SigstorePubKeyVerify img keys anns)
      = (Answer (Inr answer), h')" by blast
  from pub_key_answer [OF this] show ?thesis by (simp add: all_keys_verified_def)
qed

definition channel_codec :: codec where
  "channel_codec = \<lparr>de_verify_v1 = (\<lambda>b. Inl ''v1''), de_verify_v2 = (\<lambda>b. Inr (V2PubKeyVerify b [''key''] None)),
     de_string = (\<lambda>b. Inr b), de_certificate = (\<lambda>b. Inl ''cert''), de_list_namespace = (\<lambda>b. Inl ''ns''),
     de_list_all = (\<lambda>b. Inl ''all''), de_get_resource = (\<lambda>b. Inl ''get''), de_can_i = (\<lambda>b. Inl ''can''),
     de_json = (\<lambda>b. Inl ''json''), to_upper = (\<lambda>s. s)\<rparr>"

definition example_channel_context :: EvaluationContext where
  "example_channel_context = \<lparr>ctx_policy_id = ''p'',
     ctx_callback_channel = Some (handler_peer example_async (\<lambda>n. n) example_handler),
     ctx_aware_resources_allow_list = [], ctx_epoch_deadline = None\<rparr>"

theorem policy_verified_image_witness:
  "\<exists>st'. host_callback channel_codec example_channel_context ''kubewarden'' ''oci'' ''v2/verify'' ''signed'' host_init
      = Ret (Inr ''sha256:1'', st') \<and>
    cs_verify example_cosign 0 ''signed''
      \<lparr>vc_all_of = Some [SigPubKey None ''key'' None], vc_any_of = None\<rparr> = Inr ''sha256:1''"
proof -
  have v2: "de_verify_v2 channel_codec ''signed'' = Inr (V2PubKeyVerify ''signed'' [''key''] None)"
    by (simp add: channel_codec_def)
  have chan: "ctx_callback_channel example_channel_context = Some (handler_peer example_async (\<lambda>n. n) example_handler)"
    by (simp add: example_channel_context_def)
  have run: "host_callback channel_codec example_channel_context ''kubewarden'' ''oci'' ''v2/verify'' ''signed'' host_init
      = Ret (Inr ''sha256:1'', host_init\<lparr>hs_sent := [SigstorePubKeyVerify ''signed'' [''key''] None]\<rparr>)"
    by (simp add: host_callback_def oci_callback_def decode_and_send_def v2 chan
        send_request_and_wait_for_response_def handler_peer_def host_init_def example_pub_key_answer)
  from policy_verified_image [OF handler_peer_served [OF example_handler_reach] chan v2 run]
  obtain t where "cs_verify example_cosign t ''signed''
      \<lparr>vc_all_of = Some [SigPubKey None ''key'' None], vc_any_of = None\<rparr> = Inr ''sha256:1''"
    by (auto simp: example_async_sel host_init_def)
  then have "cs_verify example_cosign 0 ''signed''
      \<lparr>vc_all_of = Some [SigPubKey None ''key'' None], vc_any_of = None\<rparr> = Inr ''sha256:1''"
    by (simp add: example_cosign_def)
  with run show ?thesis by blast
qed

text \<open>C20: a listing is that of the reflector that was started for exactly this API version, kind
  and pair of selectors, over the whole cluster, and that was only changed by the events of its
  watch since then; another query never answers it, because names of Kubernetes have no vertical
  bar. The kind was found on the API server, and the reflector is kept for the next request.\<close>

theorem listing_from_reflector:
  assumes "handler_reach ae h" and "plain_names (ae_kube ae)"
    and "answer_request ae now h (KubernetesListResourceAll a k ls fs) = (Answer (Inr payload), h')"
  shows "\<exists>c resource rf. ch_kubernetes_client h' = Some c \<and> found (ae_kube ae) a k resource \<and>
    hm_get (kc_reflectors c) (compute_id resource None ls fs) = Some rf \<and>
    (\<exists>resource0. found (ae_kube ae) a k resource0 \<and> reflector_for (ae_kube ae) resource0 None ls fs rf) \<and>
    ae_to_vec ae (ValueObjectList
      \<lparr>ol_api_version = a, ol_kind = k @ ''List'',
       ol_items = wa_state (ka_watch (ae_kube ae)) (rf_reader rf)\<rparr>) = Inr payload"
proof -
  have "listing_of (ae_kube ae) resource rf =
      \<lparr>ol_api_version = a, ol_kind = k @ ''List'', ol_items = wa_state (ka_watch (ae_kube ae)) (rf_reader rf)\<rparr>"
    if "found (ae_kube ae) a k resource" for resource rf
    using found_names [OF that] by (simp add: listing_of_def)
  with list_all_answer [OF assms] show ?thesis by metis
qed

lemma example_kube_plain: "plain_names example_kube"
  by (auto simp: plain_names_def found_def find_resource_def api_resources_def example_kube_def
      split: if_splits)

theorem listing_from_reflector_witness:
  "\<exists>h' c resource. answer_request example_async 0 example_handler
      (KubernetesListResourceAll ''v1'' ''Pod'' None None) = (Answer (Inr []), h') \<and>
     ch_kubernetes_client h' = Some c \<and>
     (\<exists>rf. hm_get (kc_reflectors c) (compute_id resource None None None) = Some rf)"
proof -
  have "\<exists>h'. answer_request example_async 0 example_handler
      (KubernetesListResourceAll ''v1'' ''Pod'' None None) = (Answer (Inr []), h')"
    by (simp add: answer_request_def on_client_def list_resources_all_def with_client_def
        example_handler_def kube_client_new_def client_list_all_def bind_st_def build_kube_resource_def
        find_resource_def api_resources_def group_and_version_def example_async_sel example_kube_def
        list_resources_from_reflector_def get_reflector_reader_def hm_get_def create_and_run_def
        Let_def handle_callback_def)
  then obtain h' where run: "answer_request example_async 0 example_handler
      (KubernetesListResourceAll ''v1'' ''Pod'' None None) = (Answer (Inr []), h')" by blast
  have "plain_names (ae_kube example_async)" by (simp add: example_async_sel example_kube_plain)
  from listing_from_reflector [OF example_handler_reach this run] run show ?thesis by blast
qed

end
