(* ===== verification/ConcurrentKube.thy ===== *)
theory ConcurrentKube
  imports ConcurrentSafety Channel
begin

text \<open>
  The properties of the concurrent client: what its answers say under every interleaving, that a
  task needs few actions and is never blocked for good, that a task which is not interrupted is the
  operation of \<open>KubeClient\<close>, and the race between two tasks that list the same resources.
\<close>

subsection \<open>Runs of one task\<close>

lemma run_job_action: "job_action ka now j s = Some (j', s') \<Longrightarrow> run_job ka now j s = run_job ka now j' s'"
  by (cases j) (auto split: sum.splits)

lemma run_job_steps:
  assumes "job_within j m" "concurrent_client ka tr s js" "\<forall>(t, a) \<in> set tr. t \<le> now"
    "i < length js" "js ! i = (call, j)" "run_job ka now j s = (r, s')"
  shows "\<exists>n \<le> m. concurrent_client ka (tr @ replicate n (now, Task i)) s' (js[i := (call, JobDone r)])"
  using assms
proof (induction m arbitrary: j tr s js)
  case 0
  then have "j = JobDone r \<and> s' = s" by (cases j) auto
  then show ?case using 0 by (metis append_Nil2 list_update_id order_refl replicate_0)
next
  case (Suc m)
  show ?case
  proof (cases "job_action ka now j s")
    case None
    then have "j = JobDone r \<and> s' = s" using Suc.prems(6) by (auto simp: job_action_None)
    then show ?thesis
      using Suc.prems by (intro exI [of _ 0]) (metis append_Nil2 list_update_id replicate_0 zero_le)
  next
    case (Some step)
    obtain j1 s1 where act: "job_action ka now j s = Some (j1, s1)" using Some by (cases step) simp
    let ?js = "js[i := (call, j1)]" and ?tr = "tr @ [(now, Task i)]"
    have "concurrent_client ka ?tr s1 ?js"
      by (rule interleaved.task [OF Suc.prems(2-4)]) (simp add: Suc.prems(5) task_action_def act)
    moreover have "job_within j1 m" using job_within_action [OF Suc.prems(1) act] by simp
    moreover have "run_job ka now j1 s1 = (r, s')" using run_job_action [OF act] Suc.prems(6) by simp
    ultimately obtain n where
      "n \<le> m" "concurrent_client ka (?tr @ replicate n (now, Task i)) s' (?js[i := (call, JobDone r)])"
      using Suc.IH [of j1 ?tr s1 ?js] Suc.prems(3,4) by auto
    then show ?thesis by (intro exI [of _ "Suc n"]) simp
  qed
qed

text \<open>An executable scheduler, for the examples: the moves of a run in the order they are made.\<close>

datatype 'ev move = Start client_call | Step nat | WatchSeen nat 'ev | WatchApplied nat

fun actor_of :: "'ev move \<Rightarrow> actor" where
  "actor_of (Start call) = Spawn"
| "actor_of (Step i) = Task i"
| "actor_of (WatchSeen h ev) = Background"
| "actor_of (WatchApplied h) = Background"

fun play_move ::
  "('store, 'ev) kube_api \<Rightarrow> instant \<Rightarrow> 'ev move \<Rightarrow> ('store, 'ev) shared_client \<times> 'store client_task list
   \<Rightarrow> (('store, 'ev) shared_client \<times> 'store client_task list) option" where
  "play_move ka now (Start call) (s, js) = Some (s, js @ [(call, client_job ka call)])"
| "play_move ka now (Step i) (s, js) =
     (if i < length js then map_option (\<lambda>(t, s'). (s', js[i := t])) (task_action ka now (js ! i) s) else None)"
| "play_move ka now (WatchSeen h ev) (s, js) =
     (if h < length (sc_created s) \<and> rf_pending (sc_created s ! h) = None
      then Some (s\<lparr>sc_created := (sc_created s)[h := watch_seen (ka_watch ka) now ev (sc_created s ! h)]\<rparr>, js)
      else None)"
| "play_move ka now (WatchApplied h) (s, js) =
     (if h < length (sc_created s) \<and> rf_pending (sc_created s ! h) \<noteq> None
      then Some (s\<lparr>sc_created := (sc_created s)[h := watch_applied (ka_watch ka) (sc_created s ! h)]\<rparr>, js)
      else None)"

fun play ::
  "('store, 'ev) kube_api \<Rightarrow> (instant \<times> 'ev move) list \<Rightarrow> ('store, 'ev) shared_client \<times> 'store client_task list
   \<Rightarrow> (('store, 'ev) shared_client \<times> 'store client_task list) option" where
  "play ka [] st = Some st"
| "play ka ((now, m) # ms) st = (case play_move ka now m st of None \<Rightarrow> None | Some st' \<Rightarrow> play ka ms st')"

lemma play_move_run:
  assumes run: "concurrent_client ka tr s js" and t: "\<forall>(t, a) \<in> set tr. t \<le> now"
    and m: "play_move ka now m (s, js) = Some (s', js')"
  shows "concurrent_client ka (tr @ [(now, actor_of m)]) s' js'"
proof (cases m)
  case (Start call)
  then show ?thesis using m interleaved.spawn [OF run t] by (auto simp: new_task_def)
next
  case (Step i)
  then show ?thesis using m interleaved.task [OF run t, of i] by (auto split: if_splits)
next
  case (WatchSeen h ev)
  then show ?thesis
    using m interleaved.background [OF run t, of s'] watch_background.intros [OF _ watch_step.seen, of h s ka now ev]
    by (auto split: if_splits)
next
  case (WatchApplied h)
  then show ?thesis
    using m interleaved.background [OF run t, of s'] watch_background.intros [OF _ watch_step.applied, of h s ka now]
    by (auto split: if_splits)
qed

lemma play_run:
  assumes "concurrent_client ka tr s js" "sorted (map fst tr @ map fst ms)"
    and "play ka ms (s, js) = Some (s', js')"
  shows "concurrent_client ka (tr @ map (\<lambda>(t, m). (t, actor_of m)) ms) s' js'"
  using assms
proof (induction ms arbitrary: tr s js)
  case (Cons tm ms)
  obtain now m where tm: "tm = (now, m)" by (cases tm)
  obtain s1 js1 where m: "play_move ka now m (s, js) = Some (s1, js1)" and rest: "play ka ms (s1, js1) = Some (s', js')"
    using Cons.prems(3) by (auto simp: tm split: option.splits)
  have "\<forall>(t, a) \<in> set tr. t \<le> now" using Cons.prems(2) by (auto simp: sorted_append tm)
  from Cons.IH [OF play_move_run [OF Cons.prems(1) this m] _ rest] Cons.prems(2)
  show ?case by (simp add: tm)
qed simp

lemmas played = play_run [OF interleaved.start, simplified]

subsection \<open>Properties\<close>

text \<open>C7: what a finished task answers, however the tasks and the watches interleaved. A listing holds
  the objects of a reflector that was created for exactly the API version, kind, namespace and
  selectors of the call and changed only by its own watch; it carries the names of the kind as the
  API server gave them. A result is reported unchanged only by such a reflector. Single objects,
  plural names and reviews are answers the API server gave to this call.\<close>

theorem concurrent_answers:
  assumes "plain_names ka" "concurrent_client ka tr s js" "(call, JobDone (Inr v)) \<in> set js"
  shows "answer_ok ka call v"
proof -
  have "task_safe ka (call, JobDone (Inr v)) s"
    using concurrent.interleaved_safe [OF assms(2) shared_client_new_ok] assms(3) by blast
  then show ?thesis using assms(1) by (simp add: task_safe_def)
qed

text \<open>C8: a request that nothing interrupts is what the handler computes in one step. Whatever other
  requests have left half done, a new task that runs to its end at one time changes the maps as the
  handler of \<open>CallbackHandler\<close> does when it holds these maps, and its answer, serialized, is the
  reply of that handler.\<close>

theorem undisturbed_request:
  assumes run: "concurrent_client (ae_kube ae) tr s js" and t: "\<forall>(t, a) \<in> set tr. t \<le> now"
    and call: "request_call req = Some call" and h: "ch_kubernetes_client h = Some (abs_client s)"
  shows "\<exists>n r s'. n \<le> client_actions \<and>
    concurrent_client (ae_kube ae) (tr @ (now, Spawn) # replicate n (now, Task (length js))) s'
      (js @ [(call, JobDone r)]) \<and>
    answer_request ae now h req = (Answer (call_reply ae r), h\<lparr>ch_kubernetes_client := Some (abs_client s')\<rparr>)"
proof -
  let ?ka = "ae_kube ae"
  obtain r s' where alone: "run_job ?ka now (client_job ?ka call) s = (r, s')"
    by (cases "run_job ?ka now (client_job ?ka call) s")
  have "places_ok s"
    using concurrent.interleaved_safe [OF run shared_client_new_ok] shared_ok_places by blast
  then have "client_answer ?ka now call (abs_client s) = (r, abs_client s')"
    using refines_client_job [of ?ka now call] alone unfolding refines_def by blast
  from handle_request_call [OF call h this]
  have "answer_request ae now h req = (Answer (call_reply ae r), h\<lparr>ch_kubernetes_client := Some (abs_client s')\<rparr>)"
    by (simp add: answer_request_def)
  moreover have "concurrent_client ?ka (tr @ [(now, Spawn)]) s (js @ [(call, client_job ?ka call)])"
    by (rule interleaved.spawn [OF run t]) (simp add: new_task_def)
  from run_job_steps [OF client_job_within this _ _ _ alone, of "length js"] t obtain n where
    "n \<le> client_actions"
    "concurrent_client ?ka ((tr @ [(now, Spawn)]) @ replicate n (now, Task (length js))) s' (js @ [(call, JobDone r)])"
    by fastforce
  ultimately show ?thesis by (intro exI conjI) simp_all
qed


subsection \<open>Examples\<close>

abbreviation list_pods :: client_call where
  "list_pods \<equiv> CallListAll ''v1'' ''Pod'' None None"

definition example_pod :: "string \<Rightarrow> DynamicObject" where
  "example_pod name = \<lparr>do_name = Some name, do_namespace = Some ''default'', do_json = Null\<rparr>"

definition pod_list :: "DynamicObject list \<Rightarrow> ObjectList" where
  "pod_list pods = \<lparr>ol_api_version = ''v1'', ol_kind = ''PodList'', ol_items = pods\<rparr>"

text \<open>
  Two tasks list the pods at the same time. Both find no reflector and create one, task 1 first; a
  pod reaches the reflector of task 1 only. Task 0 registers its reflector and reads it, then task 1
  replaces it by its own. A third task asks for changes since the listing of task 0, a fourth lists.
\<close>

definition race_moves :: "(instant \<times> DynamicObject move) list" where
  "race_moves =
     [(0, Start list_pods), (0, Start list_pods),
      (0, Step 1), (0, Step 1), (0, Step 1), (0, Step 1), (0, Step 1),
      (0, Step 0), (0, Step 0), (0, Step 0),
      (1, WatchSeen 0 (example_pod ''api'')), (1, WatchApplied 0),
      (2, Step 0), (2, Step 0),
      (3, Step 1), (3, Step 1),
      (4, Start (CallHasChanged ''v1'' ''Pod'' None None 2)), (4, Step 2), (4, Step 2), (4, Step 2),
      (5, Start list_pods), (5, Step 3), (5, Step 3), (5, Step 3)]"

text \<open>The answers of the tasks that have finished.\<close>

definition task_answer :: "'store client_task \<Rightarrow> (client_call \<times> (lib_error + callback_value)) option" where
  "task_answer t = (case snd t of JobDone r \<Rightarrow> Some (fst t, r) | _ \<Rightarrow> None)"

lemma task_answer_Some: "task_answer t = Some (call, r) \<longleftrightarrow> t = (call, JobDone r)"
  by (cases t) (auto simp: task_answer_def split: job.splits)

definition race_answers :: "(client_call \<times> (lib_error + callback_value)) list" where
  "race_answers =
     [(list_pods, Inr (ValueObjectList (pod_list [example_pod ''web'']))),
      (list_pods, Inr (ValueObjectList (pod_list [example_pod ''web'', example_pod ''api'']))),
      (CallHasChanged ''v1'' ''Pod'' None None 2, Inr (ValueBool False)),
      (list_pods, Inr (ValueObjectList (pod_list [example_pod ''web'', example_pod ''api''])))]"

lemma race_played:
  "case play example_kube race_moves (shared_client_new, []) of None \<Rightarrow> False
   | Some (s, js) \<Rightarrow> map task_answer js = map Some race_answers \<and>
       length (sc_created s) = 2 \<and> map snd (sc_reflectors s) = [0]"
  by code_simp

lemma race_run:
  "\<exists>s js. concurrent_client example_kube (map (\<lambda>(t, m). (t, actor_of m)) race_moves) s js \<and>
     map task_answer js = map Some race_answers \<and> length (sc_created s) = 2 \<and> map snd (sc_reflectors s) = [0]"
proof -
  obtain s js where p: "play example_kube race_moves (shared_client_new, []) = Some (s, js)"
    and facts: "map task_answer js = map Some race_answers" "length (sc_created s) = 2" "map snd (sc_reflectors s) = [0]"
    using race_played by (auto split: option.splits)
  have "concurrent_client example_kube (map (\<lambda>(t, m). (t, actor_of m)) race_moves) s js"
    by (rule played [OF _ p]) (simp add: race_moves_def)
  then show ?thesis using facts by (intro exI conjI)
qed

lemma race_tasks:
  assumes "map task_answer js = map Some race_answers"
  shows "js = map (\<lambda>(call, r). (call, JobDone r)) race_answers"
proof (rule nth_equalityI)
  show len: "length js = length (map (\<lambda>(call, r). (call, JobDone r)) race_answers)"
    using assms by (metis length_map)
  fix i assume "i < length js"
  then have "task_answer (js ! i) = Some (race_answers ! i)"
    using assms len by (metis length_map nth_map)
  then show "js ! i = map (\<lambda>(call, r). (call, JobDone r)) race_answers ! i"
    using \<open>i < length js\<close> len by (cases "race_answers ! i") (simp add: task_answer_Some)
qed

theorem concurrent_answers_witness:
  "answer_ok example_kube list_pods (ValueObjectList (pod_list [example_pod ''web'']))"
proof -
  obtain s js where run: "concurrent_client example_kube (map (\<lambda>(t, m). (t, actor_of m)) race_moves) s js"
    and "map task_answer js = map Some race_answers" using race_run by metis
  then have "(list_pods, JobDone (Inr (ValueObjectList (pod_list [example_pod ''web''])))) \<in> set js"
    using race_tasks by (fastforce simp: race_answers_def)
  from concurrent_answers [OF example_kube_plain run this] show ?thesis .
qed

theorem undisturbed_request_witness:
  "\<exists>n r s'. n \<le> client_actions \<and>
     concurrent_client example_kube ((3, Spawn) # replicate n (3, Task 0)) s' [(list_pods, JobDone r)] \<and>
     answer_request example_async 3 example_handler (KubernetesListResourceAll ''v1'' ''Pod'' None None) =
       (Answer (call_reply example_async r), example_handler\<lparr>ch_kubernetes_client := Some (abs_client s')\<rparr>)"
  using undisturbed_request [OF interleaved.start, where now = 3 and ae = example_async and h = example_handler
      and req = "KubernetesListResourceAll ''v1'' ''Pod'' None None" and call = list_pods]
  by (simp add: abs_client_def shared_client_new_def kube_client_new_def example_handler_def example_async_sel)


subsection \<open>The race\<close>


end
