(* ===== verification/SingleFlight.thy ===== *)
theory SingleFlight
  imports Interleaving TimedCache
begin

text \<open>
  The attribute \<^theory_text>\<open>cached\<close> with \<open>sync_writes\<close>, as concurrent tasks see it: a call takes the lock of the
  cache, looks its key up, and on a miss keeps the lock while it computes, action by action, until
  it has stored its result. \<open>TimedCache\<close> has the same call in one step.
\<close>

text \<open>A call waits with its key and its computation, computes since a time, or has its answer.\<close>

datatype ('k, 'j, 'v) flight =
    Waiting 'k 'j
  | Computing 'k instant 'j
  | Answered 'k instant instant "lib_error + 'v cached_return"

record ('k, 'v, 's) flight_state =
  fl_locked :: bool
  fl_cache :: "('k, 'v cached_return) timed_cache"
  fl_shared :: 's

definition flight_start :: "'s \<Rightarrow> ('k, 'v, 's) flight_state" where
  "flight_start s = \<lparr>fl_locked = False, fl_cache = [], fl_shared = s\<rparr>"

text \<open>
  \<^theory_text>\<open>act\<close> and \<^theory_text>\<open>result\<close> are the actions and the result of the computations. A waiting call whose lock
  is taken cannot act.
\<close>

fun flight_action ::
  "(instant \<Rightarrow> instant \<Rightarrow> bool) \<Rightarrow> (instant \<Rightarrow> 'j \<Rightarrow> 's \<Rightarrow> ('j \<times> 's) option) \<Rightarrow> ('j \<Rightarrow> (lib_error + 'v) option)
   \<Rightarrow> instant \<Rightarrow> ('k, 'j, 'v) flight \<Rightarrow> ('k, 'v, 's) flight_state
   \<Rightarrow> (('k, 'j, 'v) flight \<times> ('k, 'v, 's) flight_state) option" where
  "flight_action fresh act result now (Waiting k j) st =
     (if fl_locked st then None
      else case cache_get fresh now k (fl_cache st) of
        Some r \<Rightarrow> Some (Answered k now now (Inr (r\<lparr>cr_was_cached := True\<rparr>)), st)
      | None \<Rightarrow> Some (Computing k now j, st\<lparr>fl_locked := True\<rparr>))"
| "flight_action fresh act result now (Computing k since j) st =
     (case result j of
        None \<Rightarrow> map_option (\<lambda>(j', s'). (Computing k since j', st\<lparr>fl_shared := s'\<rparr>)) (act now j (fl_shared st))
      | Some (Inl e) \<Rightarrow> Some (Answered k since now (Inl e), st\<lparr>fl_locked := False\<rparr>)
      | Some (Inr v) \<Rightarrow> Some (Answered k since now (Inr (return_new v)),
          st\<lparr>fl_locked := False, fl_cache := cache_set now k (return_new v) (fl_cache st)\<rparr>))"
| "flight_action fresh act result now (Answered k since t r) st = None"

inductive flight_env ::
  "(instant \<Rightarrow> 's \<Rightarrow> 's \<Rightarrow> bool) \<Rightarrow> instant \<Rightarrow> ('k, 'v, 's) flight_state \<Rightarrow> ('k, 'v, 's) flight_state \<Rightarrow> bool"
  for env now where
  "env now (fl_shared st) s' \<Longrightarrow> flight_env env now st (st\<lparr>fl_shared := s'\<rparr>)"

inductive_cases flight_env_elim: "flight_env env now st st'"

fun waiting :: "('k, 'j, 'v) flight \<Rightarrow> bool" where
  "waiting (Waiting k j) = True"
| "waiting _ = False"

fun computing :: "('k, 'j, 'v) flight \<Rightarrow> bool" where
  "computing (Computing k since j) = True"
| "computing _ = False"

abbreviation flights ::
  "(instant \<Rightarrow> instant \<Rightarrow> bool) \<Rightarrow> (instant \<Rightarrow> 'j \<Rightarrow> 's \<Rightarrow> ('j \<times> 's) option) \<Rightarrow> ('j \<Rightarrow> (lib_error + 'v) option)
   \<Rightarrow> (instant \<Rightarrow> 's \<Rightarrow> 's \<Rightarrow> bool) \<Rightarrow> 's \<Rightarrow> (instant \<times> actor) list \<Rightarrow> ('k, 'v, 's) flight_state
   \<Rightarrow> ('k, 'j, 'v) flight list \<Rightarrow> bool" where
  "flights fresh act result env s0 \<equiv>
     interleaved (flight_action fresh act result) (flight_env env) waiting (flight_start s0)"

subsection \<open>One computation at a time\<close>

definition one_computes :: "('k, 'v, 's) flight_state \<Rightarrow> ('k, 'j, 'v) flight list \<Rightarrow> bool" where
  "one_computes st js \<longleftrightarrow> length (filter computing js) = (if fl_locked st then 1 else 0)"

lemma length_filter_update:
  "i < length xs \<Longrightarrow> length (filter P (xs[i := x])) + (if P (xs ! i) then 1 else 0) =
   length (filter P xs) + (if P x then 1 else 0)"
proof (induction xs arbitrary: i)
  case (Cons y ys)
  then show ?case by (cases i) auto
qed simp

lemma one_computes_locked:
  assumes "one_computes st js" "i < length js" "computing (js ! i)"
  shows "fl_locked st"
proof -
  have "filter computing js \<noteq> []" using assms(2,3) by (metis filter_empty_conv nth_mem)
  then show ?thesis using assms(1) by (auto simp: one_computes_def split: if_splits)
qed

lemma one_computes_unlocked:
  "one_computes st js \<Longrightarrow> \<not> fl_locked st \<Longrightarrow> i < length js \<Longrightarrow> \<not> computing (js ! i)"
  using one_computes_locked by blast

lemma one_computes_only:
  assumes "one_computes st js" "i < length js" "computing (js ! i)" "i' < length js" "i' \<noteq> i"
  shows "\<not> computing (js ! i')"
proof -
  let ?js = "js[i := Answered undefined undefined undefined undefined]"
  have "length (filter computing ?js) = 0"
    using length_filter_update [OF assms(2), of computing] assms(1,3) one_computes_locked [OF assms(1-3)]
    by (simp add: one_computes_def)
  then have "\<not> computing (?js ! i')" using assms(4) by (metis filter_empty_conv length_0_conv length_list_update nth_mem)
  then show ?thesis using assms(5) by simp
qed

lemma one_computes_step:
  assumes ok: "one_computes st js" and i: "i < length js"
    and act: "flight_action fresh act result now (js ! i) st = Some (j', st')"
  shows "one_computes st' (js[i := j'])"
proof -
  note count = length_filter_update [OF i, of computing j']
  show ?thesis
  proof (cases "js ! i")
    case (Waiting k j)
    then show ?thesis using ok act count
      by (auto simp: one_computes_def split: if_splits option.splits)
  next
    case (Computing k since j)
    have "fl_locked st" by (rule one_computes_locked [OF ok i]) (simp add: Computing)
    then show ?thesis using ok act count Computing
      by (auto simp: one_computes_def split: option.splits sum.splits)
  next
    case (Answered k since t r)
    then show ?thesis using act by simp
  qed
qed

lemma flights_one_computes:
  "flights fresh act result env s0 tr st js \<Longrightarrow> one_computes st js"
proof (induction rule: interleaved.induct)
  case start
  show ?case by (simp add: one_computes_def flight_start_def)
next
  case (spawn tr s js now j)
  then show ?case by (cases j) (simp_all add: one_computes_def)
next
  case (task tr s js now i j s')
  then show ?case using one_computes_step by blast
next
  case (background tr s js now s')
  then show ?case by (auto elim!: flight_env_elim simp: one_computes_def)
qed

text \<open>No deadlock: as long as a call is unanswered, some task can act, at any time.\<close>

lemma flights_never_stuck:
  assumes run: "flights fresh act result env s0 tr st js"
    and acts: "\<And>j s. result j = None \<Longrightarrow> act now j s \<noteq> None"
    and open_call: "i < length js" "waiting (js ! i) \<or> computing (js ! i)"
  shows "\<exists>i' < length js. flight_action fresh act result now (js ! i') st \<noteq> None"
proof (cases "fl_locked st")
  case True
  then have "filter computing js \<noteq> []"
    using flights_one_computes [OF run] by (auto simp: one_computes_def)
  then obtain i' where i': "i' < length js" "computing (js ! i')"
    by (metis filter_False in_set_conv_nth)
  then obtain k since j where j: "js ! i' = Computing k since j" by (cases "js ! i'") auto
  have "flight_action fresh act result now (js ! i') st \<noteq> None"
  proof (cases "result j")
    case None
    then show ?thesis using acts [OF None] by (simp add: j)
  next
    case (Some r)
    then show ?thesis by (cases r) (simp_all add: j)
  qed
  then show ?thesis using i' by blast
next
  case False
  then have "waiting (js ! i)"
    using one_computes_unlocked [OF flights_one_computes [OF run] _ open_call(1)] open_call(2) by blast
  then have "flight_action fresh act result now (js ! i) st \<noteq> None"
    using False by (cases "js ! i") (auto split: option.splits)
  then show ?thesis using open_call(1) by blast
qed

subsection \<open>A result is computed once while it is fresh\<close>

lemma flight_action_cases:
  assumes "flight_action fresh act result now fl st = Some (fl', st')"
  obtains (hit) k j r where "fl = Waiting k j" "fl' = Answered k now now (Inr (r\<lparr>cr_was_cached := True\<rparr>))" "st' = st"
  | (missed) k j where "fl = Waiting k j" "cache_get fresh now k (fl_cache st) = None"
      "fl' = Computing k now j" "\<not> fl_locked st" "fl_cache st' = fl_cache st"
  | (continue) k since j j' where "fl = Computing k since j" "fl' = Computing k since j'"
      "fl_cache st' = fl_cache st"
  | (failed) k since j e where "fl = Computing k since j" "fl' = Answered k since now (Inl e)"
      "fl_cache st' = fl_cache st"
  | (finished) k since j v where "fl = Computing k since j" "fl' = Answered k since now (Inr (return_new v))"
      "fl_cache st' = cache_set now k (return_new v) (fl_cache st)"
proof (cases fl)
  case (Waiting k j)
  then show ?thesis using assms hit missed by (auto split: if_splits option.splits)
next
  case (Computing k since j)
  then show ?thesis using assms continue failed finished by (auto split: option.splits sum.splits)
qed (use assms in simp)

text \<open>The call computed its result itself, from the time \<open>s\<close> to the time \<open>t\<close>.\<close>

definition computed :: "('k, 'j, 'v) flight \<Rightarrow> 'k \<Rightarrow> instant \<Rightarrow> instant \<Rightarrow> bool" where
  "computed fl k s t \<longleftrightarrow> (\<exists>v. fl = Answered k s t (Inr (return_new v)))"

lemma computed_simps [simp]:
  "\<not> computed (Waiting k j) k' s t" "\<not> computed (Computing k since j) k' s t"
  "\<not> computed (Answered k since t0 (Inl e)) k' s t"
  "\<not> computed (Answered k since t0 (Inr (r\<lparr>cr_was_cached := True\<rparr>))) k' s t"
  "computed (Answered k since t0 (Inr (return_new v))) k' s t \<longleftrightarrow> k' = k \<and> s = since \<and> t = t0"
  by (auto simp: computed_def return_new_def dest: arg_cong [where f = cr_was_cached])

text \<open>One computation had ended, and its result was no longer fresh, when the other began.\<close>

definition expired_before :: "(instant \<Rightarrow> instant \<Rightarrow> bool) \<Rightarrow> instant \<Rightarrow> instant \<Rightarrow> bool" where
  "expired_before fresh t s \<longleftrightarrow> t \<le> s \<and> \<not> fresh t s"

definition flights_ok ::
  "(instant \<Rightarrow> instant \<Rightarrow> bool) \<Rightarrow> (instant \<times> actor) list \<Rightarrow> ('k, 'v, 's) flight_state
   \<Rightarrow> ('k, 'j, 'v) flight list \<Rightarrow> bool" where
  "flights_ok fresh tr st js \<longleftrightarrow> (\<forall>i < length js. \<forall>k s t. computed (js ! i) k s t \<longrightarrow>
     (\<exists>a \<in> set tr. t \<le> fst a) \<and> (\<exists>r t0. hm_get (fl_cache st) k = Some (r, t0) \<and> t \<le> t0) \<and>
     (\<forall>i' < length js. \<forall>s' j. js ! i' = Computing k s' j \<longrightarrow> expired_before fresh t s') \<and>
     (\<forall>i' < length js. \<forall>s' t'. i' \<noteq> i \<longrightarrow> computed (js ! i') k s' t' \<longrightarrow>
        expired_before fresh t s' \<or> expired_before fresh t' s))"

definition fresh_mono :: "(instant \<Rightarrow> instant \<Rightarrow> bool) \<Rightarrow> bool" where
  "fresh_mono fresh \<longleftrightarrow> (\<forall>t t0 now. fresh t now \<longrightarrow> t \<le> t0 \<longrightarrow> fresh t0 now)"

lemma flights_okD:
  assumes "flights_ok fresh tr st js" "i < length js" "computed (js ! i) k s t"
  shows "\<exists>a \<in> set tr. t \<le> fst a" "\<exists>r t0. hm_get (fl_cache st) k = Some (r, t0) \<and> t \<le> t0"
    "i' < length js \<Longrightarrow> js ! i' = Computing k s' j \<Longrightarrow> expired_before fresh t s'"
    "i' < length js \<Longrightarrow> i' \<noteq> i \<Longrightarrow> computed (js ! i') k s' t' \<Longrightarrow>
       expired_before fresh t s' \<or> expired_before fresh t' s"
  using assms unfolding flights_ok_def by blast+

text \<open>A step in which nobody stores a result.\<close>

lemma flights_ok_transfer:
  assumes ok: "flights_ok fresh tr st js" and len: "length js' = length js"
    and was: "\<And>i k s t. i < length js \<Longrightarrow> computed (js' ! i) k s t \<Longrightarrow> computed (js ! i) k s t"
    and expired: "\<And>i i' k s j s' t. i < length js \<Longrightarrow> i' < length js \<Longrightarrow> computed (js ! i) k s t \<Longrightarrow>
      js' ! i' = Computing k s' j \<Longrightarrow> expired_before fresh t s'"
    and "fl_cache st' = fl_cache st" "set tr \<subseteq> set tr'"
  shows "flights_ok fresh tr' st' js'"
  unfolding flights_ok_def
proof (intro allI impI)
  fix i k s t
  assume "i < length js'" and "computed (js' ! i) k s t"
  then have i: "i < length js" and c: "computed (js ! i) k s t" using was len by auto
  note d = flights_okD [OF ok i c]
  show "(\<exists>a \<in> set tr'. t \<le> fst a) \<and> (\<exists>r t0. hm_get (fl_cache st') k = Some (r, t0) \<and> t \<le> t0) \<and>
     (\<forall>i' < length js'. \<forall>s' j. js' ! i' = Computing k s' j \<longrightarrow> expired_before fresh t s') \<and>
     (\<forall>i' < length js'. \<forall>s' t'. i' \<noteq> i \<longrightarrow> computed (js' ! i') k s' t' \<longrightarrow>
        expired_before fresh t s' \<or> expired_before fresh t' s)"
    using d(1,2) assms(5,6) expired [OF i _ c] d(4) was len by (simp, blast)
qed

lemma flights_ok_step:
  assumes ok: "flights_ok fresh tr st js" and one: "one_computes st js" and mono: "fresh_mono fresh"
    and t: "\<forall>(t, a) \<in> set tr. t \<le> now" and i: "i < length js"
    and act: "flight_action fresh act result now (js ! i) st = Some (fl', st')"
  shows "flights_ok fresh (tr @ [(now, a)]) st' (js[i := fl'])"
proof -
  have before: "t \<le> now" if "i' < length js" "computed (js ! i') k s t" for i' k s t
    using flights_okD(1) [OF ok that] t by fastforce
  have transfer: "flights_ok fresh (tr @ [(now, a)]) st' (js[i := fl'])"
    if "\<And>k s t. \<not> computed fl' k s t" "fl_cache st' = fl_cache st"
      "\<And>i' k s j s' t. i' < length js \<Longrightarrow> computed (js ! i') k s t \<Longrightarrow> fl' = Computing k s' j \<Longrightarrow>
         expired_before fresh t s'"
  proof (rule flights_ok_transfer [OF ok])
    fix i1 k s t assume "i1 < length js" "computed (js[i := fl'] ! i1) k s t"
    then show "computed (js ! i1) k s t" using that(1) i by (cases "i1 = i") auto
  next
    fix i1 i' k s j s' t
    assume "i1 < length js" "i' < length js" "computed (js ! i1) k s t" "js[i := fl'] ! i' = Computing k s' j"
    then show "expired_before fresh t s'"
      using that(3) [of i1 k s t s' j] flights_okD(3) [OF ok] i by (cases "i' = i") auto
  qed (use that(2) in auto)
  show ?thesis
    using act
  proof (cases rule: flight_action_cases)
    case (missed k j)
    have "expired_before fresh t now" if c: "i' < length js" "computed (js ! i') k s t" for i' s t
    proof -
      obtain r t0 where "hm_get (fl_cache st) k = Some (r, t0)" "t \<le> t0"
        using flights_okD(2) [OF ok c] by blast
      then have "\<not> fresh t now"
        using missed(2) mono by (auto simp: cache_get_def fresh_mono_def split: if_splits)
      then show ?thesis using before [OF c] by (simp add: expired_before_def)
    qed
    then show ?thesis using missed by (intro transfer) auto
  next
    case (continue k since j j')
    then show ?thesis using flights_okD(3) [OF ok _ _ i] by (intro transfer) auto
  next
    case (finished k since j v)
    have alone: "js ! i' \<noteq> Computing k' s' j'" if "i' < length js" "i' \<noteq> i" for i' k' s' j'
      using one_computes_only [OF one i _ that] finished(1) by auto
    have expired: "expired_before fresh t since" if "i' < length js" "computed (js ! i') k s t" for i' s t
      by (rule flights_okD(3) [OF ok that i finished(1)])
    show ?thesis
      unfolding flights_ok_def
    proof (intro allI impI)
      fix i1 k1 s1 t1
      assume i1: "i1 < length (js[i := fl'])" and c1: "computed (js[i := fl'] ! i1) k1 s1 t1"
      have old: "i1 \<noteq> i \<Longrightarrow> computed (js ! i1) k1 s1 t1" using c1 by simp
      have new: "i1 = i \<Longrightarrow> k1 = k \<and> s1 = since \<and> t1 = now" using c1 i finished(2) by simp
      show "(\<exists>b \<in> set (tr @ [(now, a)]). t1 \<le> fst b) \<and>
        (\<exists>r t0. hm_get (fl_cache st') k1 = Some (r, t0) \<and> t1 \<le> t0) \<and>
        (\<forall>i' < length (js[i := fl']). \<forall>s' j. js[i := fl'] ! i' = Computing k1 s' j \<longrightarrow> expired_before fresh t1 s') \<and>
        (\<forall>i' < length (js[i := fl']). \<forall>s' t'. i' \<noteq> i1 \<longrightarrow> computed (js[i := fl'] ! i') k1 s' t' \<longrightarrow>
          expired_before fresh t1 s' \<or> expired_before fresh t' s1)"
      proof (intro conjI allI impI)
        show "\<exists>b \<in> set (tr @ [(now, a)]). t1 \<le> fst b"
          using before [of i1 k1 s1 t1] old new i1 by (cases "i1 = i") auto
        show "\<exists>r t0. hm_get (fl_cache st') k1 = Some (r, t0) \<and> t1 \<le> t0"
          using before [of i1 k1 s1 t1] flights_okD(2) [OF ok, of i1 k1 s1 t1] old new i1 finished(3)
          by (cases "i1 = i") (auto simp: cache_set_def hm_get_insert)
      next
        fix i' s' j'
        assume "i' < length (js[i := fl'])" "js[i := fl'] ! i' = Computing k1 s' j'"
        then show "expired_before fresh t1 s'"
          using alone i finished(2) by (cases "i' = i") auto
      next
        fix i' s' t'
        assume "i' < length (js[i := fl'])" "i' \<noteq> i1" "computed (js[i := fl'] ! i') k1 s' t'"
        then show "expired_before fresh t1 s' \<or> expired_before fresh t' s1"
          using flights_okD(4) [OF ok, of i1 k1 s1 t1 i' s' t'] expired old new i1 i finished(2)
          by (cases "i1 = i"; cases "i' = i") auto
      qed
    qed
  qed (rule transfer; simp)+
qed

lemma flights_ok_run:
  assumes "flights fresh act result env s0 tr st js" "fresh_mono fresh"
  shows "flights_ok fresh tr st js"
  using assms
proof (induction rule: interleaved.induct)
  case start
  show ?case by (simp add: flights_ok_def)
next
  case (spawn tr st js now j)
  then show ?case
    by (cases j) (auto simp: flights_ok_def nth_append less_Suc_eq split: if_splits)
next
  case (task tr st js now i j st')
  from flights_ok_step [OF task.IH [OF task.prems] flights_one_computes [OF task.hyps(1)] task.prems task.hyps(2-4)]
  show ?case .
next
  case (background tr st js now st')
  then have "fl_cache st' = fl_cache st" by (auto elim: flight_env_elim)
  with background show ?case
    by (intro flights_ok_transfer [OF background.IH]) (auto dest: flights_okD(3) [OF background.IH])
qed

end
