(* ===== verification/ConcurrentCaches.thy ===== *)
theory ConcurrentCaches
  imports SingleFlight ConcurrentSafety Channel
begin

text \<open>
  The cached functions of the asynchronous side as concurrent tasks: the queries of a registry
  (\<open>src/callback_handler/oci.rs\<close>), which are one question to a service, and the two cached functions
  of the Kubernetes client (\<open>src/callback_handler/kubernetes.rs\<close>), whose computations are the jobs of
  \<open>ConcurrentClient\<close>. The lock of the cache is taken before the locks of the client, so no two tasks
  can wait for each other.
\<close>

subsection \<open>Questions to a service\<close>

datatype 'v question = Ask "instant \<Rightarrow> lib_error + 'v" | Told "lib_error + 'v"

fun ask_action :: "instant \<Rightarrow> 'v question \<Rightarrow> unit \<Rightarrow> ('v question \<times> unit) option" where
  "ask_action now (Ask query) s = Some (Told (query now), s)"
| "ask_action now (Told r) s = None"

fun ask_result :: "'v question \<Rightarrow> (lib_error + 'v) option" where
  "ask_result (Ask query) = None"
| "ask_result (Told r) = Some r"

definition digest_flight ::
  "'src registry \<Rightarrow> 'src oci_client \<Rightarrow> string \<Rightarrow> (string, string question, string) flight" where
  "digest_flight rg client img = Waiting img (Ask (\<lambda>now. oci_digest rg client now img))"

definition manifest_flight ::
  "'src registry \<Rightarrow> 'src oci_client \<Rightarrow> string \<Rightarrow> (string, json question, json) flight" where
  "manifest_flight rg client img = Waiting img (Ask (\<lambda>now. oci_manifest rg client now img))"

definition manifest_and_config_flight ::
  "'src registry \<Rightarrow> 'src oci_client \<Rightarrow> string
   \<Rightarrow> (string, ManifestAndConfigResponse question, ManifestAndConfigResponse) flight" where
  "manifest_and_config_flight rg client img =
     Waiting img (Ask (\<lambda>now. oci_manifest_and_config rg client now img))"

subsection \<open>Cached functions of the Kubernetes client\<close>

fun job_result :: "('store, 'a) job \<Rightarrow> (lib_error + 'a) option" where
  "job_result (JobDone r) = Some r"
| "job_result _ = None"

definition resource_flight ::
  "('store, 'ev) kube_api \<Rightarrow> string \<Rightarrow> string \<Rightarrow> string \<Rightarrow> string option
   \<Rightarrow> (string, ('store, DynamicObject) job, DynamicObject) flight" where
  "resource_flight ka api_version kind name namespace =
     Waiting (get_resource_cache_key api_version kind name namespace)
       (job_get_resource ka api_version kind name namespace)"

definition can_i_flight ::
  "('store, 'ev) kube_api \<Rightarrow> SubjectAccessReview \<Rightarrow> (SubjectAccessReview, ('store, json) job, json) flight" where
  "can_i_flight ka request = Waiting request (job_can_i ka request)"

text \<open>
  Other tasks use the client at the same time, through the other cache or none: the background of
  the calls of one cache is any change of the maps of the client.
\<close>

lemma kube_flights_never_stuck:
  assumes "flights fresh (job_action ka) job_result env s0 tr st js"
    and "i < length js" "waiting (js ! i) \<or> computing (js ! i)"
  shows "\<exists>i' < length js. flight_action fresh (job_action ka) job_result now (js ! i') st \<noteq> None"
proof (rule flights_never_stuck [OF assms(1) _ assms(2,3)])
  show "job_action ka now j s \<noteq> None" if "job_result j = None" for j now s
    using that by (cases j) (auto split: sum.splits)
qed

lemma query_flights_never_stuck:
  assumes "flights fresh ask_action ask_result env s0 tr st js"
    and "i < length js" "waiting (js ! i) \<or> computing (js ! i)"
  shows "\<exists>i' < length js. flight_action fresh ask_action ask_result now (js ! i') st \<noteq> None"
proof (rule flights_never_stuck [OF assms(1) _ assms(2,3)])
  show "ask_action now j s \<noteq> None" if "ask_result j = None" for j now s
    using that by (cases j) simp_all
qed

subsection \<open>One flight\<close>

text \<open>
  A call that nothing interrupts is the call of \<open>TimedCache\<close> in one step, here for a question to a
  service: it takes one action on a hit and three on a miss.
\<close>

lemma undisturbed_flight:
  assumes "\<not> fl_locked st" and "i < length js" and "js ! i = Waiting k (Ask query)"
    and "cached_call fresh now k
      (\<lambda>u. Ret (bind_result (query now) (\<lambda>v. Inr (return_new v)), u)) (fl_cache st) () = Ret (res, c', u)"
  shows "\<exists>n \<le> 3. run_tasks (flight_action fresh ask_action ask_result) (replicate n (now, i)) (st, js) =
    Some (st\<lparr>fl_cache := c'\<rparr>, js[i := Answered k now now res])"
  using assms(4)
proof (cases rule: cached_call_cases)
  case (hit r)
  then show ?thesis using assms(1-3) by (intro exI [of _ 1]) simp
next
  case (failed e)
  then have "query now = Inl e" by (cases "query now") auto
  then show ?thesis using assms(1-3) failed
    by (intro exI [of _ 3]) (cases st, simp add: numeral_3_eq_3)
next
  case (computed r)
  then obtain v where "query now = Inr v" "r = return_new v" by (cases "query now") auto
  then show ?thesis using assms(1-3) computed
    by (intro exI [of _ 3]) (cases st, simp add: numeral_3_eq_3)
qed


text \<open>
  Three tasks ask for the digest of an image. The second waits for the first and gets its result
  from the cache, the third asks after the minute and computes it again.
\<close>

definition digest_tasks :: "(string, string question, string) flight list" where
  "digest_tasks = replicate 3 (digest_flight example_registry (oci_client_new None) ''web'')"

definition digest_moves :: "(instant \<times> nat) list" where
  "digest_moves = [(0, 0), (0, 0), (1, 0), (2, 1), (70, 2), (71, 2), (72, 2)]"

lemma digests_run:
  "\<exists>st. flights (\<lambda>t now. now < t + 60) ask_action ask_result (\<lambda>now s s'. False) ()
     (replicate 3 (0, Spawn) @ map (\<lambda>(t, i). (t, Task i)) digest_moves) st
     [Answered ''web'' 0 1 (Inr (return_new ''sha256:1'')),
      Answered ''web'' 2 2 (Inr \<lparr>cr_value = ''sha256:1'', cr_was_cached = True\<rparr>),
      Answered ''web'' 70 72 (Inr (return_new ''sha256:1''))]"
proof -
  have "run_tasks (flight_action (\<lambda>t now. now < t + 60) ask_action ask_result) digest_moves
      (flight_start (), digest_tasks) =
    Some (\<lparr>fl_locked = False, fl_cache = [(''web'', return_new ''sha256:1'', 72)], fl_shared = ()\<rparr>,
     [Answered ''web'' 0 1 (Inr (return_new ''sha256:1'')),
      Answered ''web'' 2 2 (Inr \<lparr>cr_value = ''sha256:1'', cr_was_cached = True\<rparr>),
      Answered ''web'' 70 72 (Inr (return_new ''sha256:1''))])"
    by (simp add: digest_moves_def digest_tasks_def digest_flight_def flight_start_def numeral_3_eq_3
        oci_digest_def example_registry_def oci_client_new_def cache_get_def cache_set_def hm_get_def return_new_def)
  from run_tasks_interleaved [OF spawn_all [of digest_tasks waiting] _ this] show ?thesis
    by (fastforce simp: digest_tasks_def digest_flight_def digest_moves_def numeral_3_eq_3)
qed


end
