(* ===== verification/ArtifactHub.thy ===== *)
theory ArtifactHub
  imports EvalContext
begin

text \<open>
  \<open>src/policy_artifacthub.rs\<close>: the file \<open>artifacthub-pkg.yml\<close> of a policy, made from the annotations
  of its metadata. Versions, URLs, image references, mail addresses and YAML belong to other
  crates: the parameter \<^theory_text>\<open>hub_lib\<close>, whose errors are their \<open>Display\<close> texts.
\<close>

subsection \<open>Errors and annotations\<close>

datatype ArtifactHubError =
    NoAnnotations
  | NoSemverVersion string
  | EmptyQuestionsUI
  | MissingAnnotation string
  | MalformedURL string string
  | MalformedCSV string
  | MalformedCSVEmail string
  | MalformedEmail string string
  | MalformedBoolString string

fun display_artifacthub_error :: "ArtifactHubError \<Rightarrow> string" where
  "display_artifacthub_error NoAnnotations =
     ''no annotations in policy metadata. policy metadata must specify annotations''"
| "display_artifacthub_error (NoSemverVersion e) = ''policy version must be in semver: '' @ e"
| "display_artifacthub_error EmptyQuestionsUI = ''questions-ui content cannot be empty''"
| "display_artifacthub_error (MissingAnnotation a) =
     ''policy metadata must specify '' @ [dquote] @ a @ [dquote] @ '' in annotations''"
| "display_artifacthub_error (MalformedURL annot e) =
     ''annotation '' @ [dquote] @ debug_str annot @ [dquote] @
     '' in policy metadata must be a well formed URL: '' @ debug_str e"
| "display_artifacthub_error (MalformedCSV a) =
     ''annotation '' @ [dquote] @ a @ [dquote] @ '' in policy metadata is malformed, must be csv values''"
| "display_artifacthub_error (MalformedCSVEmail a) =
     ''annotation '' @ [dquote] @ a @ [dquote] @ '' in policy metadata is malformed, must be csv values of '' @
     [dquote] @ ''name <email>'' @ [dquote]"
| "display_artifacthub_error (MalformedEmail annot e) =
     ''annotation '' @ [dquote] @ debug_str annot @ [dquote] @
     '' in policy metadata must be a well formed email: '' @ debug_str e"
| "display_artifacthub_error (MalformedBoolString a) =
     ''annotation '' @ [dquote] @ a @ [dquote] @ '' in policy metadata is malformed, must be a string '' @
     [dquote] @ ''true'' @ [dquote] @ '' or '' @ [dquote] @ ''false'' @ [dquote]"

text \<open>\<open>src/constants.rs\<close>.\<close>

definition annotation_policy_title :: string where
  "annotation_policy_title = ''io.kubewarden.policy.title''"

definition annotation_policy_version :: string where
  "annotation_policy_version = ''io.kubewarden.policy.version''"

definition annotation_policy_description :: string where
  "annotation_policy_description = ''io.kubewarden.policy.description''"

definition annotation_policy_author :: string where
  "annotation_policy_author = ''io.kubewarden.policy.author''"

definition annotation_policy_url :: string where
  "annotation_policy_url = ''io.kubewarden.policy.url''"

definition annotation_policy_ociurl :: string where
  "annotation_policy_ociurl = ''io.kubewarden.policy.ociUrl''"

definition annotation_policy_source :: string where
  "annotation_policy_source = ''io.kubewarden.policy.source''"

definition annotation_policy_license :: string where
  "annotation_policy_license = ''io.kubewarden.policy.license''"

definition annotation_github_release_tag :: string where
  "annotation_github_release_tag = ''com.github.release.tag''"

definition annotation_artifacthub_resources :: string where
  "annotation_artifacthub_resources = ''io.artifacthub.resources''"

definition annotation_artifacthub_displayname :: string where
  "annotation_artifacthub_displayname = ''io.artifacthub.displayName''"

definition annotation_artifacthub_keywords :: string where
  "annotation_artifacthub_keywords = ''io.artifacthub.keywords''"

definition annotation_artifacthub_hiddenui :: string where
  "annotation_artifacthub_hiddenui = ''io.kubewarden.hidden-ui''"

definition artifacthub_mutation :: string where
  "artifacthub_mutation = ''kubewarden/mutation''"

definition artifacthub_contextaware_resources :: string where
  "artifacthub_contextaware_resources = ''kubewarden/contextAwareResources''"

definition artifacthub_resources :: string where
  "artifacthub_resources = ''kubewarden/resources''"

definition artifacthub_hiddenui :: string where
  "artifacthub_hiddenui = ''kubewarden/hidden-ui''"

definition artifacthub_rules :: string where
  "artifacthub_rules = ''kubewarden/rules''"

definition artifacthub_questionsui :: string where
  "artifacthub_questionsui = ''kubewarden/questions-ui''"

lemmas annotation_defs = annotation_policy_title_def annotation_policy_version_def
  annotation_policy_description_def annotation_policy_author_def annotation_policy_url_def
  annotation_policy_ociurl_def annotation_policy_source_def annotation_policy_license_def
  annotation_github_release_tag_def annotation_artifacthub_resources_def
  annotation_artifacthub_displayname_def annotation_artifacthub_keywords_def
  annotation_artifacthub_hiddenui_def

lemmas artifacthub_defs = artifacthub_mutation_def artifacthub_contextaware_resources_def
  artifacthub_resources_def artifacthub_hiddenui_def artifacthub_rules_def artifacthub_questionsui_def

subsection \<open>The package\<close>

datatype ConstLinkName = LinkPolicy | LinkSource

datatype ConstContainerImageName = ContainerPolicy

record ContainerImage =
  ci_name :: ConstContainerImageName
  ci_image :: string

record 'url Link =
  link_name :: ConstLinkName
  link_url :: 'url

record Maintainer =
  mt_name :: string
  mt_email :: string

record Recommendation =
  rec_url :: string

record Provider =
  prov_name :: string

definition default_recommendation :: Recommendation where
  "default_recommendation = \<lparr>rec_url = ''https://artifacthub.io/packages/helm/kubewarden/kubewarden-controller''\<rparr>"

definition default_provider :: Provider where
  "default_provider = \<lparr>prov_name = ''kubewarden''\<rparr>"

record ('ver, 'url, 'time) ArtifactHubPkg =
  ah_version :: 'ver
  ah_name :: string
  ah_display_name :: string
  ah_created_at :: 'time
  ah_description :: string
  ah_license :: "string option"
  ah_home_url :: "'url option"
  ah_containers_images :: "ContainerImage list option"
  ah_keywords :: "string list option"
  ah_links :: "'url Link list option"
  ah_install :: "string option"
  ah_maintainers :: "Maintainer list option"
  ah_provider :: Provider
  ah_recommendations :: "Recommendation list"
  ah_annotations :: "(string, string) btmap"

text \<open>
  \<^theory_text>\<open>hl_reference\<close> parses an image reference and prints it in full; \<^theory_text>\<open>hl_message_to\<close> parses a mail and
  gives the names and addresses of its header \<open>To\<close>, when it has one.
\<close>

record ('ver, 'url) hub_lib =
  hl_version :: "string \<Rightarrow> string + 'ver"
  hl_display_version :: "'ver \<Rightarrow> string"
  hl_url :: "string \<Rightarrow> string + 'url"
  hl_host_str :: "'url \<Rightarrow> string option"
  hl_as_str :: "'url \<Rightarrow> string"
  hl_byte_serialize :: "bytes \<Rightarrow> string"
  hl_reference :: "string \<Rightarrow> string + string"
  hl_message_to :: "bytes \<Rightarrow> unit + (string option \<times> string option) list option"
  hl_email :: "string \<Rightarrow> string + string"
  hl_yaml_resources :: "ContextAwareResource btset \<Rightarrow> lib_error + string"
  hl_yaml_rules :: "Rule list \<Rightarrow> lib_error + string"


subsection \<open>Reading the annotations\<close>

type_synonym annots = "(string, string) btmap"

definition parse_name :: "annots \<Rightarrow> ArtifactHubError + string" where
  "parse_name metadata_annots =
     ok_or (MissingAnnotation annotation_policy_title) (bt_get metadata_annots annotation_policy_title)"

definition parse_display_name :: "annots \<Rightarrow> ArtifactHubError + string" where
  "parse_display_name metadata_annots =
     ok_or (MissingAnnotation annotation_artifacthub_displayname)
       (bt_get metadata_annots annotation_artifacthub_displayname)"

definition parse_description :: "annots \<Rightarrow> ArtifactHubError + string" where
  "parse_description metadata_annots =
     ok_or (MissingAnnotation annotation_policy_description)
       (bt_get metadata_annots annotation_policy_description)"

definition parse_home_url ::
  "('ver, 'url) hub_lib \<Rightarrow> annots \<Rightarrow> ArtifactHubError + 'url option" where
  "parse_home_url hl metadata_annots =
     (case bt_get metadata_annots annotation_policy_url of
        Some s \<Rightarrow> bind_result (map_err (MalformedURL annotation_policy_url) (hl_url hl s)) (\<lambda>url. Inr (Some url))
      | None \<Rightarrow> Inr None)"

text \<open>The image reference with the version of the policy as its tag.\<close>

definition oci_reference ::
  "('ver, 'url) hub_lib \<Rightarrow> string \<Rightarrow> 'ver \<Rightarrow> ArtifactHubError + string" where
  "oci_reference hl s version =
     map_err (MalformedURL annotation_policy_ociurl)
       (hl_reference hl (s @ '':v'' @ hl_display_version hl version))"

definition parse_oci_url ::
  "('ver, 'url) hub_lib \<Rightarrow> annots \<Rightarrow> 'ver \<Rightarrow> ArtifactHubError + string option" where
  "parse_oci_url hl metadata_annots version =
     (case bt_get metadata_annots annotation_policy_ociurl of
        Some s \<Rightarrow> bind_result (oci_reference hl s version) (\<lambda>oci_url. Inr (Some oci_url))
      | None \<Rightarrow> Inr None)"

definition parse_containers_images ::
  "('ver, 'url) hub_lib \<Rightarrow> annots \<Rightarrow> 'ver \<Rightarrow> ArtifactHubError + ContainerImage list option" where
  "parse_containers_images hl metadata_annots version =
     (case bt_get metadata_annots annotation_policy_ociurl of
        Some s \<Rightarrow> bind_result (oci_reference hl s version) (\<lambda>oci_url.
          Inr (Some [\<lparr>ci_name = ContainerPolicy, ci_image = oci_url\<rparr>]))
      | None \<Rightarrow> Inl (MissingAnnotation annotation_policy_ociurl))"

definition parse_keywords :: "annots \<Rightarrow> ArtifactHubError + string list option" where
  "parse_keywords metadata_annots =
     (case bt_get metadata_annots annotation_artifacthub_keywords of
        Some s \<Rightarrow>
          (let csv = map (\<lambda>s. trim_end_matches (CHR '' '') (trim_start_matches (CHR '' '') s))
                 (split_on (CHR '','') s)
           in if list_ex (\<lambda>word. word = []) csv then Inl (MalformedCSV annotation_artifacthub_keywords)
              else Inr (Some csv))
      | None \<Rightarrow> Inr None)"

definition parse_links ::
  "('ver, 'url) hub_lib \<Rightarrow> annots \<Rightarrow> 'ver \<Rightarrow> string option \<Rightarrow> ArtifactHubError + 'url Link list option" where
  "parse_links hl metadata_annots version gh_release_tag =
     (case bt_get metadata_annots annotation_policy_source of
        Some s \<Rightarrow>
          bind_result (map_err (MalformedURL annotation_policy_source) (hl_url hl s)) (\<lambda>policy_source.
            if hl_host_str hl policy_source = Some ''github.com'' then
              (let release = (case gh_release_tag of
                   Some tag \<Rightarrow> hl_byte_serialize hl tag
                 | None \<Rightarrow> ''v'' @ hl_display_version hl version)
               in bind_result (map_err (MalformedURL annotation_policy_source)
                    (hl_url hl (hl_as_str hl policy_source @ ''/releases/download/'' @ release @ ''/policy.wasm'')))
                    (\<lambda>url. Inr (Some [\<lparr>link_name = LinkPolicy, link_url = url\<rparr>,
                       \<lparr>link_name = LinkSource, link_url = policy_source\<rparr>])))
            else Inr (Some [\<lparr>link_name = LinkSource, link_url = policy_source\<rparr>]))
      | None \<Rightarrow> Inr None)"

definition newline :: string where
  "newline = [CHR 0x0A]"

definition backtick :: string where
  "backtick = [CHR 0x60]"

definition compose_install :: "string \<Rightarrow> string" where
  "compose_install oci_url =
     ''The policy can be obtained using ['' @ backtick @ ''kwctl'' @ backtick @
     ''](https://github.com/kubewarden/kwctl):'' @ newline @
     backtick @ backtick @ backtick @ ''console'' @ newline @
     ''kwctl pull '' @ oci_url @ newline @
     backtick @ backtick @ backtick @ newline @
     ''Then, generate the policy manifest and tune it to your liking. For example:'' @ newline @
     backtick @ backtick @ backtick @ ''console'' @ newline @
     ''kwctl scaffold manifest -t ClusterAdmissionPolicy registry://'' @ oci_url @ newline @
     backtick @ backtick @ backtick @ newline"

definition parse_maintainer ::
  "('ver, 'url) hub_lib \<Rightarrow> string option \<times> string option \<Rightarrow> ArtifactHubError + Maintainer" where
  "parse_maintainer hl = (\<lambda>(name, address).
     bind_result (map_err (MalformedEmail annotation_policy_author) (hl_email hl (unwrap_or [] address))) (\<lambda>email.
       Inr \<lparr>mt_name = unwrap_or [] name, mt_email = email\<rparr>))"

definition parse_maintainers ::
  "('ver, 'url) hub_lib \<Rightarrow> annots \<Rightarrow> ArtifactHubError + Maintainer list option" where
  "parse_maintainers hl metadata_annots =
     (case bt_get metadata_annots annotation_policy_author of
        Some s \<Rightarrow>
          bind_result (map_err (\<lambda>e. MalformedCSVEmail annotation_policy_author)
            (hl_message_to hl (''To: '' @ s))) (\<lambda>msg_to.
          bind_result (ok_or (MalformedCSVEmail annotation_policy_author) msg_to) (\<lambda>addr.
          bind_result (try_map (parse_maintainer hl) addr) (\<lambda>maintainers. Inr (Some maintainers))))
      | None \<Rightarrow> Inr None)"

text \<open>
  \<^theory_text>\<open>to_string\<close> of the YAML library may fail, which panics. \<^theory_text>\<open>FromStr\<close> is the one of \<^theory_text>\<open>String\<close>, the
  type of the map's values: it copies the text and never fails.
\<close>

definition string_from_str :: "string \<Rightarrow> unit + string" where
  "string_from_str s = Inr s"

definition expect_yaml :: "string \<Rightarrow> lib_error + string \<Rightarrow> string exec" where
  "expect_yaml msg r = (case r of Inr s \<Rightarrow> Ret s | Inl e \<Rightarrow> Panic (msg @ '': '' @ le_debug e))"

definition parse_annotations ::
  "('ver, 'url) hub_lib \<Rightarrow> annots \<Rightarrow> Metadata \<Rightarrow> string option \<Rightarrow> (ArtifactHubError + annots) exec" where
  "parse_annotations hl metadata_annots metadata questions =
     (let annotations = bt_insert artifacthub_mutation (if md_mutating metadata then ''true'' else ''false'') []
      in bind_exec
        (if md_context_aware_resources metadata = [] then Ret annotations
         else bind_exec (expect_yaml ''cannot convert context_aware_resources to yaml''
                (hl_yaml_resources hl (md_context_aware_resources metadata))) (\<lambda>yaml.
           Ret (bt_insert artifacthub_contextaware_resources yaml annotations))) (\<lambda>annotations.
      bind_exec (expect_yaml ''cannot convert rules to yaml'' (hl_yaml_rules hl (md_rules metadata))) (\<lambda>rules.
      let annotations = bt_insert artifacthub_rules rules annotations;
          annotations = (case questions of
              Some s \<Rightarrow> bt_insert artifacthub_questionsui s annotations
            | None \<Rightarrow> annotations)
      in Ret (bind_result
        (case bt_get metadata_annots annotation_artifacthub_hiddenui of
           Some string_bool \<Rightarrow>
             bind_result (map_err (\<lambda>e. MalformedBoolString annotation_artifacthub_hiddenui)
               (string_from_str string_bool)) (\<lambda>v. Inr (bt_insert artifacthub_hiddenui v annotations))
         | None \<Rightarrow> Inr annotations) (\<lambda>annotations.
        Inr (case bt_get metadata_annots annotation_artifacthub_resources of
               Some s \<Rightarrow> bt_insert artifacthub_resources s annotations
             | None \<Rightarrow> annotations))))))"

definition validate_inputs ::
  "('ver, 'url) hub_lib \<Rightarrow> Metadata \<Rightarrow> string option
   \<Rightarrow> ArtifactHubError + (annots \<times> 'ver \<times> string option)" where
  "validate_inputs hl metadata questions =
     bind_result (ok_or NoAnnotations (md_annotations metadata)) (\<lambda>metadata_annots.
     if metadata_annots = [] then Inl NoAnnotations else
     bind_result (ok_or (MissingAnnotation annotation_policy_version)
       (bt_get metadata_annots annotation_policy_version)) (\<lambda>version.
     let gh_release_tag = bt_get metadata_annots annotation_github_release_tag
     in bind_result (map_err NoSemverVersion (hl_version hl version)) (\<lambda>semver_version.
        if questions = Some [] then Inl EmptyQuestionsUI
        else Inr (metadata_annots, semver_version, gh_release_tag))))"

definition from_metadata ::
  "('ver, 'url) hub_lib \<Rightarrow> Metadata \<Rightarrow> 'time \<Rightarrow> string option
   \<Rightarrow> (ArtifactHubError + ('ver, 'url, 'time) ArtifactHubPkg) exec" where
  "from_metadata hl metadata created_at questions =
     (case bind_result (validate_inputs hl metadata questions) (\<lambda>(metadata_annots, semver_version, gh_release_tag).
        bind_result (parse_name metadata_annots) (\<lambda>name.
        bind_result (parse_display_name metadata_annots) (\<lambda>display_name.
        bind_result (parse_description metadata_annots) (\<lambda>description.
        bind_result (parse_home_url hl metadata_annots) (\<lambda>home_url.
        bind_result (parse_containers_images hl metadata_annots semver_version) (\<lambda>containers_images.
        bind_result (parse_keywords metadata_annots) (\<lambda>keywords.
        bind_result (parse_links hl metadata_annots semver_version gh_release_tag) (\<lambda>links.
        bind_result (parse_oci_url hl metadata_annots semver_version) (\<lambda>oci_url.
        bind_result (parse_maintainers hl metadata_annots) (\<lambda>maintainers.
          Inr (metadata_annots, \<lparr>ah_version = semver_version, ah_name = name, ah_display_name = display_name,
            ah_created_at = created_at, ah_description = description,
            ah_license = bt_get metadata_annots annotation_policy_license, ah_home_url = home_url,
            ah_containers_images = containers_images, ah_keywords = keywords, ah_links = links,
            ah_install = map_option compose_install oci_url, ah_maintainers = maintainers,
            ah_provider = default_provider, ah_recommendations = [default_recommendation],
            ah_annotations = []\<rparr>))))))))))) of
        Inl e \<Rightarrow> Ret (Inl e)
      | Inr (metadata_annots, artifacthubpkg) \<Rightarrow>
          try_exec (parse_annotations hl metadata_annots metadata questions) (\<lambda>annotations.
            Ret (Inr (artifacthubpkg\<lparr>ah_annotations := annotations\<rparr>))))"


subsection \<open>Which metadata make a package\<close>

text \<open>An annotation that may be missing but has to satisfy \<^theory_text>\<open>P\<close> when it is there.\<close>

definition optional_ok :: "annots \<Rightarrow> string \<Rightarrow> (string \<Rightarrow> bool) \<Rightarrow> bool" where
  "optional_ok a k P \<longleftrightarrow> (case bt_get a k of None \<Rightarrow> True | Some s \<Rightarrow> P s)"

definition keywords_ok :: "string \<Rightarrow> bool" where
  "keywords_ok s \<longleftrightarrow> (\<forall>w \<in> set (split_on (CHR '','') s). \<exists>c \<in> set w. c \<noteq> CHR '' '')"

definition source_ok :: "('ver, 'url) hub_lib \<Rightarrow> string \<Rightarrow> string \<Rightarrow> bool" where
  "source_ok hl release s \<longleftrightarrow> (\<exists>url. hl_url hl s = Inr url \<and>
     (hl_host_str hl url = Some ''github.com'' \<longrightarrow>
        is_ok (hl_url hl (hl_as_str hl url @ ''/releases/download/'' @ release @ ''/policy.wasm''))))"

definition author_ok :: "('ver, 'url) hub_lib \<Rightarrow> string \<Rightarrow> bool" where
  "author_ok hl s \<longleftrightarrow> (\<exists>addrs. hl_message_to hl (''To: '' @ s) = Inr (Some addrs) \<and>
     (\<forall>a \<in> set addrs. is_ok (hl_email hl (unwrap_or [] (snd a)))))"

definition release_name :: "('ver, 'url) hub_lib \<Rightarrow> annots \<Rightarrow> 'ver \<Rightarrow> string" where
  "release_name hl a version =
     (case bt_get a annotation_github_release_tag of
        Some tag \<Rightarrow> hl_byte_serialize hl tag
      | None \<Rightarrow> ''v'' @ hl_display_version hl version)"

lemma dropWhile_all: "(\<forall>x \<in> set (dropWhile P w). P x) \<longleftrightarrow> (\<forall>x \<in> set w. P x)"
  by (induction w) auto

lemma trimmed_empty:
  "trim_end_matches c (trim_start_matches c w) = [] \<longleftrightarrow> (\<forall>x \<in> set w. x = c)"
  unfolding trim_end_matches_def trim_start_matches_def
  by (simp add: dropWhile_eq_Nil_conv dropWhile_all [of "\<lambda>x. x = c" w])

lemma parse_keywords_ok:
  "is_ok (parse_keywords a) \<longleftrightarrow> optional_ok a annotation_artifacthub_keywords keywords_ok"
proof (cases "bt_get a annotation_artifacthub_keywords")
  case (Some s)
  have "list_ex (\<lambda>word. word = []) (map (\<lambda>s. trim_end_matches (CHR '' '') (trim_start_matches (CHR '' '') s))
      (split_on (CHR '','') s)) \<longleftrightarrow> \<not> keywords_ok s"
    unfolding list_ex_iff set_map keywords_ok_def
    by (simp add: image_iff eq_commute [of "[]"] trimmed_empty del: split_on.simps)
  then show ?thesis
    using Some by (simp add: parse_keywords_def optional_ok_def Let_def del: split_on.simps)
qed (simp add: parse_keywords_def optional_ok_def)

lemma parse_links_ok:
  "is_ok (parse_links hl a version (bt_get a annotation_github_release_tag)) \<longleftrightarrow>
   optional_ok a annotation_policy_source (source_ok hl (release_name hl a version))"
  unfolding is_ok_iff
  by (cases "bt_get a annotation_policy_source"; cases "bt_get a annotation_github_release_tag")
    (auto simp: parse_links_def optional_ok_def source_ok_def release_name_def is_ok_iff split: if_splits)

lemma try_map_is_ok: "is_ok (try_map f xs) \<longleftrightarrow> (\<forall>x \<in> set xs. is_ok (f x))"
proof (induction xs)
  case (Cons x xs)
  then show ?case by (cases "f x"; cases "try_map f xs") auto
qed simp

lemma parse_maintainers_ok:
  "is_ok (parse_maintainers hl a) \<longleftrightarrow> optional_ok a annotation_policy_author (author_ok hl)"
proof (cases "bt_get a annotation_policy_author")
  case (Some s)
  have one: "is_ok (parse_maintainer hl x) \<longleftrightarrow> is_ok (hl_email hl (unwrap_or [] (snd x)))" for x
    by (cases x; cases "hl_email hl (unwrap_or [] (snd x))") (auto simp: parse_maintainer_def)
  show ?thesis
  proof (cases "hl_message_to hl (''To: '' @ s)")
    case (Inl e)
    then show ?thesis using Some by (simp add: parse_maintainers_def optional_ok_def author_ok_def)
  next
    case (Inr m)
    show ?thesis
    proof (cases m)
      case None
      then show ?thesis using Some Inr by (simp add: parse_maintainers_def optional_ok_def author_ok_def)
    next
      case (Some addrs)
      have "is_ok (bind_result (try_map (parse_maintainer hl) addrs) (\<lambda>ms. Inr (Some ms))) \<longleftrightarrow>
          is_ok (try_map (parse_maintainer hl) addrs)"
        by (cases "try_map (parse_maintainer hl) addrs") auto
      then show ?thesis
        using Some Inr \<open>bt_get a annotation_policy_author = Some s\<close>
        by (simp add: parse_maintainers_def optional_ok_def author_ok_def try_map_is_ok one)
    qed
  qed
qed (simp add: parse_maintainers_def optional_ok_def)

text \<open>The annotations of the package, when both YAML texts can be made: never an error.\<close>

lemma parse_annotations_returns:
  "(\<exists>anns. parse_annotations hl a md questions = Ret (Inr anns)) \<longleftrightarrow>
   (md_context_aware_resources md = [] \<or> is_ok (hl_yaml_resources hl (md_context_aware_resources md))) \<and>
   is_ok (hl_yaml_rules hl (md_rules md))"
  by (cases "hl_yaml_resources hl (md_context_aware_resources md)"; cases "hl_yaml_rules hl (md_rules md)";
      cases "bt_get a annotation_artifacthub_hiddenui"; cases "md_context_aware_resources md = []")
    (simp_all add: parse_annotations_def expect_yaml_def string_from_str_def Let_def del: bt_insert.simps)

lemma parse_annotations_no_error:
  "parse_annotations hl a md questions \<noteq> Ret (Inl e)"
  by (cases "hl_yaml_resources hl (md_context_aware_resources md)"; cases "hl_yaml_rules hl (md_rules md)";
      cases "bt_get a annotation_artifacthub_hiddenui"; cases "md_context_aware_resources md = []")
    (simp_all add: parse_annotations_def expect_yaml_def string_from_str_def Let_def del: bt_insert.simps)


text \<open>The parts of a package that may fail before its annotations are made.\<close>

definition parts_ok ::
  "('ver, 'url) hub_lib \<Rightarrow> annots \<Rightarrow> 'ver \<Rightarrow> bool" where
  "parts_ok hl a version \<longleftrightarrow>
     is_ok (parse_name a) \<and> is_ok (parse_display_name a) \<and> is_ok (parse_description a) \<and>
     is_ok (parse_home_url hl a) \<and> is_ok (parse_containers_images hl a version) \<and> is_ok (parse_keywords a) \<and>
     is_ok (parse_links hl a version (bt_get a annotation_github_release_tag)) \<and>
     is_ok (parse_oci_url hl a version) \<and> is_ok (parse_maintainers hl a)"

lemma from_metadata_returns:
  "(\<exists>pkg. from_metadata hl md created_at questions = Ret (Inr pkg)) \<longleftrightarrow>
   (\<exists>a version tag. validate_inputs hl md questions = Inr (a, version, tag) \<and>
      parts_ok hl a version \<and> (\<exists>anns. parse_annotations hl a md questions = Ret (Inr anns)))"
proof (cases "validate_inputs hl md questions")
  case (Inl e)
  then show ?thesis by (simp add: from_metadata_def)
next
  case (Inr i)
  obtain a version tag where i: "i = (a, version, tag)" by (cases i)
  have tag: "tag = bt_get a annotation_github_release_tag"
    using Inr i by (auto simp: validate_inputs_def Let_def split: if_splits)
  have ret: "(\<exists>pkg. try_exec (parse_annotations hl a md questions) (\<lambda>anns. Ret (Inr (f anns))) = Ret (Inr pkg)) \<longleftrightarrow>
      (\<exists>anns. parse_annotations hl a md questions = Ret (Inr anns))"
    for f :: "annots \<Rightarrow> ('a, 'b, 'c) ArtifactHubPkg"
    by (cases "parse_annotations hl a md questions") (auto simp: try_exec_def split: sum.splits)
  show ?thesis
    unfolding from_metadata_def Inr i bind_result_simps prod.case parts_ok_def tag
    by (cases "parse_name a", simp,
      cases "parse_display_name a", simp,
      cases "parse_description a", simp,
      cases "parse_home_url hl a", simp,
      cases "parse_containers_images hl a version", simp,
      cases "parse_keywords a", simp,
      cases "parse_links hl a version (bt_get a annotation_github_release_tag)", simp,
      cases "parse_oci_url hl a version", simp,
      cases "parse_maintainers hl a", simp,
      simp)
qed

lemma oci_parts_ok:
  "is_ok (parse_containers_images hl a version) \<longleftrightarrow>
     (\<exists>s. bt_get a annotation_policy_ociurl = Some s \<and>
        is_ok (hl_reference hl (s @ '':v'' @ hl_display_version hl version)))"
  "is_ok (parse_containers_images hl a version) \<Longrightarrow> is_ok (parse_oci_url hl a version)"
  unfolding is_ok_iff
  by (auto simp: parse_containers_images_def parse_oci_url_def oci_reference_def split: option.splits)

lemma required_parts_ok:
  "is_ok (parse_name a) \<longleftrightarrow> bt_get a annotation_policy_title \<noteq> None"
  "is_ok (parse_display_name a) \<longleftrightarrow> bt_get a annotation_artifacthub_displayname \<noteq> None"
  "is_ok (parse_description a) \<longleftrightarrow> bt_get a annotation_policy_description \<noteq> None"
  unfolding is_ok_iff
  by (auto simp: parse_name_def parse_display_name_def parse_description_def)

lemma parse_home_url_ok:
  "is_ok (parse_home_url hl a) \<longleftrightarrow> optional_ok a annotation_policy_url (\<lambda>s. is_ok (hl_url hl s))"
  unfolding is_ok_iff
  by (auto simp: parse_home_url_def optional_ok_def is_ok_iff split: option.splits)

lemma validate_inputs_ok:
  "validate_inputs hl md questions = Inr (a, version, tag) \<longleftrightarrow>
   md_annotations md = Some a \<and> a \<noteq> [] \<and> questions \<noteq> Some [] \<and>
   tag = bt_get a annotation_github_release_tag \<and>
   (\<exists>v. bt_get a annotation_policy_version = Some v \<and> hl_version hl v = Inr version)"
  by (auto simp: validate_inputs_def Let_def)

text \<open>C37: the metadata that make a package. They need annotations with a semantic version, a title, a
  display name, a description and an image reference that parses with the version as its tag;
  the home URL, the source, the keywords and the author are checked when they are there: no
  keyword may be blank, a source on github.com must still be a URL with the path of its release,
  and every author an e-mail address. A text of questions must not be empty. The annotation
  that hides the policy in a user interface may be any text.\<close>

theorem artifacthub_accepts:
  "(\<exists>pkg. from_metadata hl md created_at questions = Ret (Inr pkg)) \<longleftrightarrow>
   (\<exists>a v version. md_annotations md = Some a \<and> a \<noteq> [] \<and>
      bt_get a annotation_policy_version = Some v \<and> hl_version hl v = Inr version \<and> questions \<noteq> Some [] \<and>
      bt_get a annotation_policy_title \<noteq> None \<and> bt_get a annotation_artifacthub_displayname \<noteq> None \<and>
      bt_get a annotation_policy_description \<noteq> None \<and>
      optional_ok a annotation_policy_url (\<lambda>s. is_ok (hl_url hl s)) \<and>
      (\<exists>s. bt_get a annotation_policy_ociurl = Some s \<and>
         is_ok (hl_reference hl (s @ '':v'' @ hl_display_version hl version))) \<and>
      optional_ok a annotation_artifacthub_keywords keywords_ok \<and>
      optional_ok a annotation_policy_source (source_ok hl (release_name hl a version)) \<and>
      optional_ok a annotation_policy_author (author_ok hl) \<and>
      (md_context_aware_resources md = [] \<or> is_ok (hl_yaml_resources hl (md_context_aware_resources md))) \<and>
      is_ok (hl_yaml_rules hl (md_rules md)))"
  unfolding from_metadata_returns validate_inputs_ok parts_ok_def required_parts_ok parse_home_url_ok
    parse_keywords_ok parse_links_ok parse_maintainers_ok parse_annotations_returns
  using oci_parts_ok [of hl] by blast


text \<open>The text that hides the policy is copied, whatever it is: its parser cannot fail.\<close>

lemma hidden_ui_unchecked:
  assumes "parse_annotations hl a md questions = Ret (Inr anns)"
    and "bt_get a annotation_artifacthub_hiddenui = Some s"
  shows "bt_get anns artifacthub_hiddenui = Some s"
  using assms
  by (auto simp: parse_annotations_def Let_def string_from_str_def bt_get_insert artifacthub_hiddenui_def
      artifacthub_resources_def split: option.splits if_splits simp del: bt_insert.simps)

end
