(* ===== verification/TestPolicy.thy ===== *)
theory TestPolicy
  imports Wapc
begin

text \<open>
  \<open>crates/context-aware-test-policy/src/\<close>: a waPC policy of the repository that uses the
  context-aware capabilities, as a \<^theory_text>\<open>guest\<close> of the waPC runtime. The policy SDK and the types of
  Kubernetes it decodes are the parameter \<^theory_text>\<open>policy_sdk\<close>; the records below hold the fields the policy
  reads. An \<open>unwrap\<close> on an absent field is a trap of the guest, the value \<^theory_text>\<open>Panic\<close>.
\<close>

record ObjectMeta =
  om_name :: "string option"
  om_namespace :: "string option"
  om_labels :: "(string, string) btmap option"

record PodSpec =
  pod_service_account_name :: "string option"
  pod_service_account :: "string option"

text \<open>The specification of a deployment, that of its template and the two may be absent.\<close>

record Deployment =
  dp_metadata :: ObjectMeta
  dp_spec :: "PodSpec option option"

record access_review =
  ar_user :: string
  ar_group :: "string option"
  ar_verb :: string
  ar_resource :: string
  ar_namespace :: "string option"

record policy_sdk =
  ps_validation_request :: "bytes \<Rightarrow> string + json"
  ps_deployment :: "json \<Rightarrow> string + Deployment"
  ps_access_review :: "access_review \<Rightarrow> SubjectAccessReview"
  ps_can_i :: "CanIRequest \<Rightarrow> (string + bool) guest"
  ps_list_namespaces :: "ListAllResourcesRequest \<Rightarrow> (string + ObjectMeta list) guest"
  ps_list_deployments :: "ListResourcesByNamespaceRequest \<Rightarrow> (string + ObjectMeta list) guest"
  ps_get_service :: "GetResourceRequest \<Rightarrow> (string + ObjectMeta) guest"
  ps_accept_request :: "string + bytes"
  ps_reject_request :: "string option \<Rightarrow> u16 option \<Rightarrow> string + bytes"

text \<open>\<open>CallResult\<close>, or a trap.\<close>

type_synonym call_result = "(string + bytes) exec"

primrec bind_guest :: "'a guest \<Rightarrow> ('a \<Rightarrow> 'b guest) \<Rightarrow> 'b guest" where
  "bind_guest (GuestDone a) f = f a"
| "bind_guest (GuestCall binding ns op payload k) f =
     GuestCall binding ns op payload (\<lambda>r. bind_guest (k r) f)"

definition try_guest :: "(string + 'a) guest \<Rightarrow> ('a \<Rightarrow> call_result guest) \<Rightarrow> call_result guest" where
  "try_guest m f = bind_guest m (\<lambda>r. case r of Inl e \<Rightarrow> GuestDone (Ret (Inl e)) | Inr a \<Rightarrow> f a)"

definition accept_call :: "policy_sdk \<Rightarrow> call_result guest" where
  "accept_call sdk = GuestDone (Ret (ps_accept_request sdk))"

definition reject_call :: "policy_sdk \<Rightarrow> string \<Rightarrow> u16 \<Rightarrow> call_result guest" where
  "reject_call sdk message code = GuestDone (Ret (ps_reject_request sdk (Some message) (Some code)))"

subsection \<open>The policy\<close>

definition component_label :: string where
  "component_label = ''app.kubernetes.io/component''"

definition has_label :: "string \<Rightarrow> string \<Rightarrow> ObjectMeta \<Rightarrow> bool" where
  "has_label k v meta =
     (case om_labels meta of Some labels \<Rightarrow> bt_get labels k = Some v | None \<Rightarrow> False)"

definition service_account :: "Deployment \<Rightarrow> PodSpec \<Rightarrow> string" where
  "service_account deployment pod =
     (let ns = unwrap_or [] (om_namespace (dp_metadata deployment))
      in case (case pod_service_account_name pod of Some sa \<Rightarrow> Some sa | None \<Rightarrow> pod_service_account pod) of
           Some sa \<Rightarrow> ''system:serviceaccount:'' @ ns @ '':'' @ sa
         | None \<Rightarrow> ''system:serviceaccount:'' @ ns @ '':default'')"

definition can_create_pods :: "policy_sdk \<Rightarrow> string \<Rightarrow> CanIRequest" where
  "can_create_pods sdk user =
     \<lparr>ci_subject_access_review = ps_access_review sdk
        \<lparr>ar_user = user, ar_group = Some [], ar_verb = ''create'', ar_resource = ''pods'',
         ar_namespace = Some ''kube-system''\<rparr>,
      ci_disable_cache = False\<rparr>"

definition namespaces_of_customer :: "string \<Rightarrow> ListAllResourcesRequest" where
  "namespaces_of_customer customer_id =
     \<lparr>la_api_version = ''v1'', la_kind = ''Namespace'',
      la_label_selector = Some (''customer-id='' @ customer_id), la_field_selector = None\<rparr>"

definition deployments_in :: "string \<Rightarrow> ListResourcesByNamespaceRequest" where
  "deployments_in ns =
     \<lparr>ln_api_version = ''apps/v1'', ln_kind = ''Deployment'', ln_namespace = ns,
      ln_label_selector = None, ln_field_selector = None\<rparr>"

definition auth_service_in :: "string \<Rightarrow> GetResourceRequest" where
  "auth_service_in ns =
     \<lparr>gr_api_version = ''v1'', gr_kind = ''Service'', gr_name = ''api-auth-service'',
      gr_namespace = Some ns, gr_disable_cache = False\<rparr>"

definition check_service :: "policy_sdk \<Rightarrow> string \<Rightarrow> call_result guest" where
  "check_service sdk ns =
     try_guest (ps_get_service sdk (auth_service_in ns)) (\<lambda>service.
       case om_labels service of
         Some labels \<Rightarrow>
           if bt_get labels ''app.kubernetes.io/part-of'' \<noteq> Some ''api''
           then reject_call sdk ''No API authentication service found'' 404
           else accept_call sdk
       | None \<Rightarrow> reject_call sdk ''API authentication service must have labels'' 404)"

definition check_components :: "policy_sdk \<Rightarrow> string \<Rightarrow> call_result guest" where
  "check_components sdk ns =
     try_guest (ps_list_deployments sdk (deployments_in ns)) (\<lambda>deployments.
       if \<not> list_ex (has_label component_label ''database'') deployments
       then reject_call sdk ''No database component found'' 404
       else if \<not> list_ex (has_label component_label ''frontend'') deployments
       then reject_call sdk ''No frontend component found'' 404
       else check_service sdk ns)"

definition check_namespace :: "policy_sdk \<Rightarrow> Deployment \<Rightarrow> string \<Rightarrow> call_result guest" where
  "check_namespace sdk deployment customer_id =
     try_guest (ps_list_namespaces sdk (namespaces_of_customer customer_id)) (\<lambda>namespaces.
       case namespaces of
         [] \<Rightarrow> reject_call sdk (''Label customer-id ('' @ customer_id @ '') must match namespace label'') 404
       | _ # _ # _ \<Rightarrow> reject_call sdk (''Multiple namespaces found with label '' @ squote @ ''customer-id='' @
                        customer_id @ squote) 400
       | [item] \<Rightarrow>
           (case om_name item of
              None \<Rightarrow> GuestDone (Panic ''called Option::unwrap() on a None value'')
            | Some ns \<Rightarrow>
                if om_namespace (dp_metadata deployment) \<noteq> Some ns
                then reject_call sdk ''Deployment must be created in the matching customer namespace'' 400
                else check_components sdk ns))"

definition check_customer ::
  "policy_sdk \<Rightarrow> Deployment \<Rightarrow> (string, string) btmap \<Rightarrow> call_result guest" where
  "check_customer sdk deployment labels =
     (case bt_get labels ''customer-id'' of
        Some customer_id \<Rightarrow> check_namespace sdk deployment customer_id
      | None \<Rightarrow> reject_call sdk ''Label customer-id is required for API deployments'' 400)"

definition test_validate :: "policy_sdk \<Rightarrow> bytes \<Rightarrow> call_result guest" where
  "test_validate sdk payload =
     try_guest (GuestDone (ps_validation_request sdk payload)) (\<lambda>object.
     try_guest (GuestDone (ps_deployment sdk object)) (\<lambda>deployment.
     case dp_spec deployment of
       Some (Some pod) \<Rightarrow>
         (case om_labels (dp_metadata deployment) of
            None \<Rightarrow> accept_call sdk
          | Some labels \<Rightarrow>
              if bt_get labels component_label \<noteq> Some ''api'' then accept_call sdk
              else
                try_guest (ps_can_i sdk (can_create_pods sdk (service_account deployment pod))) (\<lambda>allowed.
                  if allowed then reject_call sdk ''Service account has high risk permissions'' 404
                  else check_customer sdk deployment labels))
     | _ \<Rightarrow> GuestDone (Panic ''called Option::unwrap() on a None value'')))"

text \<open>The policy has no settings, and any are valid.\<close>

definition settings_validate :: "unit \<Rightarrow> string + unit" where
  "settings_validate self = Inr ()"

subsection \<open>Lemmas\<close>

lemma run_bind_guest:
  "run_guest cb (bind_guest m f) st = bind_exec (run_guest cb m st) (\<lambda>(a, st'). run_guest cb (f a) st')"
proof (induction m arbitrary: st)
  case (GuestCall binding ns op payload k)
  show ?case
  proof (cases "cb binding ns op payload st")
    case (Ret res)
    then show ?thesis using GuestCall by (cases res) simp
  qed simp
qed simp

lemma run_try_guest:
  "run_guest cb m st = Ret (r, st') \<Longrightarrow> run_guest cb (try_guest m f) st =
     (case r of Inl e \<Rightarrow> Ret (Ret (Inl e), st') | Inr a \<Rightarrow> run_guest cb (f a) st')"
  by (cases r) (simp_all add: try_guest_def run_bind_guest)

lemma run_try_guest_OkD:
  assumes "run_guest cb (try_guest m f) st = Ret (Ret (Inr b), st')"
  shows "\<exists>a st1. run_guest cb m st = Ret (Inr a, st1) \<and> run_guest cb (f a) st1 = Ret (Ret (Inr b), st')"
  using assms
  by (cases "run_guest cb m st") (auto simp: try_guest_def run_bind_guest split: sum.splits)

lemma try_guest_done [simp]: "try_guest (GuestDone (Inr a)) f = f a"
  by (simp add: try_guest_def)

lemma run_calls [simp]:
  "run_guest cb (accept_call sdk) st = Ret (Ret (ps_accept_request sdk), st)"
  "run_guest cb (reject_call sdk m c) st = Ret (Ret (ps_reject_request sdk (Some m) (Some c)), st)"
  by (simp_all add: accept_call_def reject_call_def)

subsection \<open>The verdict under the answers of a cluster\<close>

text \<open>The answer of a cluster to each of the calls, an error included.\<close>

record cluster =
  cl_can_i :: "CanIRequest \<Rightarrow> string + bool"
  cl_namespaces :: "ListAllResourcesRequest \<Rightarrow> string + ObjectMeta list"
  cl_deployments :: "ListResourcesByNamespaceRequest \<Rightarrow> string + ObjectMeta list"
  cl_service :: "GetResourceRequest \<Rightarrow> string + ObjectMeta"

type_synonym 's callback = "string \<Rightarrow> string \<Rightarrow> string \<Rightarrow> bytes \<Rightarrow> 's \<Rightarrow> ((string + bytes) \<times> 's) exec"

definition answers :: "'s callback \<Rightarrow> 'a guest \<Rightarrow> 'a \<Rightarrow> bool" where
  "answers cb m a = (\<forall>st. \<exists>st'. run_guest cb m st = Ret (a, st'))"

definition serves :: "'s callback \<Rightarrow> policy_sdk \<Rightarrow> cluster \<Rightarrow> bool" where
  "serves cb sdk cl \<longleftrightarrow>
     (\<forall>r. answers cb (ps_can_i sdk r) (cl_can_i cl r)) \<and>
     (\<forall>r. answers cb (ps_list_namespaces sdk r) (cl_namespaces cl r)) \<and>
     (\<forall>r. answers cb (ps_list_deployments sdk r) (cl_deployments cl r)) \<and>
     (\<forall>r. answers cb (ps_get_service sdk r) (cl_service cl r))"

text \<open>The SDK prints an acceptance, and one that is no rejection.\<close>

definition verdicts_differ :: "policy_sdk \<Rightarrow> bool" where
  "verdicts_differ sdk \<longleftrightarrow> is_ok (ps_accept_request sdk) \<and>
     (\<forall>m c. ps_reject_request sdk m c \<noteq> ps_accept_request sdk)"

definition decides :: "'s callback \<Rightarrow> policy_sdk \<Rightarrow> call_result guest \<Rightarrow> bool \<Rightarrow> bool" where
  "decides cb sdk g b =
     (\<forall>st. \<exists>v st'. run_guest cb g st = Ret (v, st') \<and> (v = Ret (ps_accept_request sdk) \<longleftrightarrow> b))"

lemma answers_done [simp, intro]: "answers cb (GuestDone a) a"
  by (simp add: answers_def)

lemma decides_accept [simp]: "decides cb sdk (accept_call sdk) True"
  by (simp add: decides_def)

lemma decides_reject [simp]: "verdicts_differ sdk \<Longrightarrow> decides cb sdk (reject_call sdk m c) False"
  by (simp add: decides_def verdicts_differ_def)

lemma decides_panic [simp]: "decides cb sdk (GuestDone (Panic p)) False"
  by (simp add: decides_def)

lemma decides_try:
  assumes "verdicts_differ sdk" "answers cb m r"
    and "case r of Inl e \<Rightarrow> \<not> b | Inr a \<Rightarrow> decides cb sdk (f a) b"
  shows "decides cb sdk (try_guest m f) b"
  unfolding decides_def
proof
  fix st
  obtain st' where run: "run_guest cb m st = Ret (r, st')"
    using assms(2) by (auto simp: answers_def)
  show "\<exists>v st'. run_guest cb (try_guest m f) st = Ret (v, st') \<and> (v = Ret (ps_accept_request sdk) \<longleftrightarrow> b)"
  proof (cases r)
    case (Inl e)
    then have "\<not> b" "Inl e \<noteq> ps_accept_request sdk"
      using assms(1,3) by (auto simp: verdicts_differ_def is_ok_iff)
    then show ?thesis using Inl by (simp add: run_try_guest [OF run])
  next
    case (Inr a)
    then show ?thesis using assms(3) by (simp add: run_try_guest [OF run] decides_def)
  qed
qed

text \<open>What the readme of the policy asks of an API deployment.\<close>

definition service_ready :: "cluster \<Rightarrow> string \<Rightarrow> bool" where
  "service_ready cl ns =
     (\<exists>service. cl_service cl (auth_service_in ns) = Inr service \<and>
        has_label ''app.kubernetes.io/part-of'' ''api'' service)"

definition components_ready :: "cluster \<Rightarrow> string \<Rightarrow> bool" where
  "components_ready cl ns =
     (\<exists>ds. cl_deployments cl (deployments_in ns) = Inr ds \<and>
        (\<exists>d \<in> set ds. has_label component_label ''database'' d) \<and>
        (\<exists>d \<in> set ds. has_label component_label ''frontend'' d))"

definition customer_namespace :: "cluster \<Rightarrow> string \<Rightarrow> string \<Rightarrow> bool" where
  "customer_namespace cl customer_id ns =
     (\<exists>item. cl_namespaces cl (namespaces_of_customer customer_id) = Inr [item] \<and> om_name item = Some ns)"

definition readme_rules :: "policy_sdk \<Rightarrow> cluster \<Rightarrow> Deployment \<Rightarrow> PodSpec \<Rightarrow> bool" where
  "readme_rules sdk cl d pod \<longleftrightarrow>
     cl_can_i cl (can_create_pods sdk (service_account d pod)) = Inr False \<and>
     (\<exists>customer_id ns. has_label ''customer-id'' customer_id (dp_metadata d) \<and>
        om_namespace (dp_metadata d) = Some ns \<and> customer_namespace cl customer_id ns \<and>
        components_ready cl ns \<and> service_ready cl ns)"

lemma decides_service:
  assumes "verdicts_differ sdk" "serves cb sdk cl"
  shows "decides cb sdk (check_service sdk ns) (service_ready cl ns)"
proof -
  have "answers cb (ps_get_service sdk (auth_service_in ns)) (cl_service cl (auth_service_in ns))"
    using assms(2) by (simp add: serves_def)
  then show ?thesis unfolding check_service_def
    by (rule decides_try [OF assms(1)])
      (use assms(1) in \<open>auto simp: service_ready_def has_label_def split: sum.splits option.splits\<close>)
qed

lemma decides_components:
  assumes "verdicts_differ sdk" "serves cb sdk cl"
  shows "decides cb sdk (check_components sdk ns) (components_ready cl ns \<and> service_ready cl ns)"
proof -
  have "answers cb (ps_list_deployments sdk (deployments_in ns)) (cl_deployments cl (deployments_in ns))"
    using assms(2) by (simp add: serves_def)
  then show ?thesis unfolding check_components_def
    by (rule decides_try [OF assms(1)])
      (use assms(1) decides_service [OF assms] in
        \<open>auto simp: components_ready_def list_ex_iff split: sum.splits\<close>)
qed

lemma decides_namespace:
  assumes "verdicts_differ sdk" "serves cb sdk cl"
  shows "decides cb sdk (check_namespace sdk d customer_id)
    (\<exists>ns. om_namespace (dp_metadata d) = Some ns \<and> customer_namespace cl customer_id ns \<and>
       components_ready cl ns \<and> service_ready cl ns)"
proof -
  have "answers cb (ps_list_namespaces sdk (namespaces_of_customer customer_id))
      (cl_namespaces cl (namespaces_of_customer customer_id))"
    using assms(2) by (simp add: serves_def)
  then show ?thesis unfolding check_namespace_def
    by (rule decides_try [OF assms(1)])
      (use assms(1) decides_components [OF assms] in
        \<open>auto simp: customer_namespace_def split: sum.splits list.splits option.splits\<close>)
qed

lemma decides_customer:
  assumes "verdicts_differ sdk" "serves cb sdk cl" "om_labels (dp_metadata d) = Some labels"
  shows "decides cb sdk (check_customer sdk d labels)
    (\<exists>customer_id ns. has_label ''customer-id'' customer_id (dp_metadata d) \<and>
       om_namespace (dp_metadata d) = Some ns \<and> customer_namespace cl customer_id ns \<and>
       components_ready cl ns \<and> service_ready cl ns)"
  using decides_namespace [OF assms(1,2), of d] assms(1,3)
  by (auto simp: check_customer_def has_label_def split: option.splits)

definition api_deployment :: "Deployment \<Rightarrow> bool" where
  "api_deployment d = has_label component_label ''api'' (dp_metadata d)"

lemma decides_validate:
  assumes "verdicts_differ sdk" "serves cb sdk cl"
    and "ps_validation_request sdk payload = Inr object" "ps_deployment sdk object = Inr d"
  shows "decides cb sdk (test_validate sdk payload)
    (\<exists>pod. dp_spec d = Some (Some pod) \<and> (api_deployment d \<longrightarrow> readme_rules sdk cl d pod))"
proof -
  have can_i: "answers cb (ps_can_i sdk r) (cl_can_i cl r)" for r
    using assms(2) by (simp add: serves_def)
  have "decides cb sdk (try_guest (ps_can_i sdk (can_create_pods sdk (service_account d pod)))
      (\<lambda>allowed. if allowed then reject_call sdk m c else check_customer sdk d labels))
      (readme_rules sdk cl d pod)" if "om_labels (dp_metadata d) = Some labels" for pod labels m c
    by (rule decides_try [OF assms(1) can_i])
      (use assms(1) decides_customer [OF assms(1,2) that] in
        \<open>auto simp: readme_rules_def split: sum.splits\<close>)
  then show ?thesis
    by (auto simp: test_validate_def assms api_deployment_def has_label_def split: option.splits)
qed


text \<open>A cluster where all is in place, and an SDK whose calls each ask the host once.\<close>

definition labelled :: "string \<Rightarrow> string \<Rightarrow> string \<Rightarrow> ObjectMeta" where
  "labelled name k v = \<lparr>om_name = Some name, om_namespace = Some ''acme'', om_labels = Some [(k, v)]\<rparr>"

definition example_cluster :: cluster where
  "example_cluster = \<lparr>cl_can_i = \<lambda>r. Inr False,
     cl_namespaces = \<lambda>r. Inr [labelled ''acme'' ''customer-id'' ''7''],
     cl_deployments = \<lambda>r. Inr [labelled ''web'' component_label ''frontend'', labelled ''pg'' component_label ''database''],
     cl_service = \<lambda>r. Inr (labelled ''api-auth-service'' ''app.kubernetes.io/part-of'' ''api'')\<rparr>"

definition example_deployment :: Deployment where
  "example_deployment = \<lparr>dp_metadata = \<lparr>om_name = Some ''api'', om_namespace = Some ''acme'',
       om_labels = Some [(component_label, ''api''), (''customer-id'', ''7'')]\<rparr>,
     dp_spec = Some (Some \<lparr>pod_service_account_name = None, pod_service_account = None\<rparr>)\<rparr>"

definition ask_host :: "string \<Rightarrow> bytes \<Rightarrow> (string + 'a) \<Rightarrow> (string + 'a) guest" where
  "ask_host op payload a =
     GuestCall ''kubewarden'' ''kubernetes'' op payload (\<lambda>r. GuestDone (bind_result r (\<lambda>_. a)))"

definition example_sdk :: policy_sdk where
  "example_sdk = \<lparr>ps_validation_request = \<lambda>payload. Inr Null, ps_deployment = \<lambda>object. Inr example_deployment,
     ps_access_review = \<lambda>review. SubjectAccessReview Null,
     ps_can_i = \<lambda>r. ask_host ''can_i'' [] (cl_can_i example_cluster r),
     ps_list_namespaces = \<lambda>r. ask_host ''list_resources_all'' (unwrap_or [] (la_label_selector r))
       (cl_namespaces example_cluster r),
     ps_list_deployments = \<lambda>r. ask_host ''list_resources_by_namespace'' (ln_namespace r) (cl_deployments example_cluster r),
     ps_get_service = \<lambda>r. ask_host ''get_resource'' (unwrap_or [] (gr_namespace r)) (cl_service example_cluster r),
     ps_accept_request = Inr ''accept'', ps_reject_request = \<lambda>m code. Inr ''reject''\<rparr>"

definition counting_host :: "nat callback" where
  "counting_host binding ns op payload n = Ret (Inr [], n + 1)"

lemma answers_ask: "answers counting_host (ask_host op payload a) a"
  by (simp add: answers_def ask_host_def counting_host_def)

lemma example_sdk_verdicts: "verdicts_differ example_sdk"
  by (simp add: verdicts_differ_def example_sdk_def)

lemma example_rules:
  "readme_rules example_sdk example_cluster example_deployment
     \<lparr>pod_service_account_name = None, pod_service_account = None\<rparr>"
  by (simp add: readme_rules_def has_label_def customer_namespace_def components_ready_def service_ready_def
      example_cluster_def example_deployment_def labelled_def bt_get_def component_label_def)


subsection \<open>The policy inside the runtime\<close>

text \<open>
  The calls of the SDK: each is one call to the host with the payload of its request, and fails when
  the host does.
\<close>

definition calls_host :: "string \<Rightarrow> (bytes \<Rightarrow> bool) \<Rightarrow> (string + 'a) guest \<Rightarrow> bool" where
  "calls_host op decodes m =
     (\<exists>payload k. m = GuestCall ''kubewarden'' ''kubernetes'' op payload k \<and> decodes payload \<and>
        (\<forall>e. \<exists>e'. k (Inl e) = GuestDone (Inl e')))"

definition sdk_calls :: "codec \<Rightarrow> policy_sdk \<Rightarrow> bool" where
  "sdk_calls c sdk \<longleftrightarrow>
     (\<forall>x. calls_host ''list_resources_all'' (\<lambda>p. de_list_all c p = Inr (namespaces_of_customer x))
        (ps_list_namespaces sdk (namespaces_of_customer x))) \<and>
     (\<forall>x. calls_host ''list_resources_by_namespace'' (\<lambda>p. de_list_namespace c p = Inr (deployments_in x))
        (ps_list_deployments sdk (deployments_in x))) \<and>
     (\<forall>x. calls_host ''get_resource'' (\<lambda>p. de_get_resource c p = Inr (auth_service_in x))
        (ps_get_service sdk (auth_service_in x)))"

text \<open>A read that succeeds was granted.\<close>

lemma granted_call:
  assumes "calls_host op (\<lambda>p. dec p = Inr q) m"
    and "\<And>p st. kubernetes_callback c ctx ''kubernetes'' op p st = guard_and_send ctx (dec p) api_version kind into st"
    and "run_guest (host_callback c ctx) m st = Ret (Inr a, st')"
  shows "can_access_kubernetes_resource ctx (api_version q) (kind q)"
proof (rule ccontr)
  assume denied: "\<not> can_access_kubernetes_resource ctx (api_version q) (kind q)"
  obtain payload k where m: "m = GuestCall ''kubewarden'' ''kubernetes'' op payload k" "dec payload = Inr q"
    and k: "\<forall>e. \<exists>e'. k (Inl e) = GuestDone (Inl e')"
    using assms(1) by (auto simp: calls_host_def)
  obtain e' where "k (Inl (access_denied (api_version q) (kind q))) = GuestDone (Inl e')" using k by blast
  then show False using assms(2,3) m denied by (simp add: host_callback_def guard_and_send_def)
qed

lemma granted_reads:
  assumes "sdk_calls c sdk"
  shows "run_guest (host_callback c ctx) (ps_list_namespaces sdk (namespaces_of_customer x)) st = Ret (Inr a1, st') \<Longrightarrow>
      can_access_kubernetes_resource ctx ''v1'' ''Namespace''"
    and "run_guest (host_callback c ctx) (ps_list_deployments sdk (deployments_in x)) st = Ret (Inr a2, st') \<Longrightarrow>
      can_access_kubernetes_resource ctx ''apps/v1'' ''Deployment''"
    and "run_guest (host_callback c ctx) (ps_get_service sdk (auth_service_in x)) st = Ret (Inr a3, st') \<Longrightarrow>
      can_access_kubernetes_resource ctx ''v1'' ''Service''"
proof -
  note sdk = assms [unfolded sdk_calls_def]
  show "run_guest (host_callback c ctx) (ps_list_namespaces sdk (namespaces_of_customer x)) st = Ret (Inr a1, st') \<Longrightarrow>
      can_access_kubernetes_resource ctx ''v1'' ''Namespace''"
    using granted_call [OF sdk [THEN conjunct1, rule_format], of c ctx la_api_version la_kind request_from_list_all x]
    by (simp add: kubernetes_callback_def namespaces_of_customer_def)
  show "run_guest (host_callback c ctx) (ps_list_deployments sdk (deployments_in x)) st = Ret (Inr a2, st') \<Longrightarrow>
      can_access_kubernetes_resource ctx ''apps/v1'' ''Deployment''"
    using granted_call [OF sdk [THEN conjunct2, THEN conjunct1, rule_format], of c ctx ln_api_version ln_kind
        request_from_list_namespace x]
    by (simp add: kubernetes_callback_def deployments_in_def)
  show "run_guest (host_callback c ctx) (ps_get_service sdk (auth_service_in x)) st = Ret (Inr a3, st') \<Longrightarrow>
      can_access_kubernetes_resource ctx ''v1'' ''Service''"
    using granted_call [OF sdk [THEN conjunct2, THEN conjunct2, rule_format], of c ctx gr_api_version gr_kind
        request_from_get_resource x]
    by (simp add: kubernetes_callback_def auth_service_in_def)
qed

text \<open>An answer that is no rejection was reached through every read.\<close>

definition no_rejection :: "policy_sdk \<Rightarrow> bytes \<Rightarrow> bool" where
  "no_rejection sdk b = (\<forall>m code. ps_reject_request sdk m code \<noteq> Inr b)"

lemma not_rejected [simp]: "no_rejection sdk b \<Longrightarrow> ps_reject_request sdk m code \<noteq> Inr b"
  by (simp add: no_rejection_def)

lemma accepted_service:
  assumes "sdk_calls c sdk"
    and "run_guest (host_callback c ctx) (check_service sdk ns) st = Ret (Ret (Inr b), st')"
  shows "can_access_kubernetes_resource ctx ''v1'' ''Service''"
  using run_try_guest_OkD [OF assms(2) [unfolded check_service_def]]
    granted_reads(3) [OF assms(1)] by blast

lemma accepted_components:
  assumes "sdk_calls c sdk" "no_rejection sdk b"
    and "run_guest (host_callback c ctx) (check_components sdk ns) st = Ret (Ret (Inr b), st')"
  shows "can_access_kubernetes_resource ctx ''apps/v1'' ''Deployment'' \<and>
    can_access_kubernetes_resource ctx ''v1'' ''Service''"
proof -
  obtain ds st1 where ds: "run_guest (host_callback c ctx) (ps_list_deployments sdk (deployments_in ns)) st = Ret (Inr ds, st1)"
    and "run_guest (host_callback c ctx) (check_service sdk ns) st1 = Ret (Ret (Inr b), st')"
    using run_try_guest_OkD [OF assms(3) [unfolded check_components_def]] assms(2)
    by (auto split: if_splits)
  then have "can_access_kubernetes_resource ctx ''v1'' ''Service''" by (intro accepted_service [OF assms(1)])
  moreover have "can_access_kubernetes_resource ctx ''apps/v1'' ''Deployment''"
    by (rule granted_reads(2) [OF assms(1) ds])
  ultimately show ?thesis by simp
qed

lemma accepted_namespace:
  assumes "sdk_calls c sdk" "no_rejection sdk b"
    and "run_guest (host_callback c ctx) (check_namespace sdk d customer_id) st = Ret (Ret (Inr b), st')"
  shows "can_access_kubernetes_resource ctx ''v1'' ''Namespace'' \<and>
    can_access_kubernetes_resource ctx ''apps/v1'' ''Deployment'' \<and>
    can_access_kubernetes_resource ctx ''v1'' ''Service''"
proof -
  obtain items st1 ns where items: "run_guest (host_callback c ctx) (ps_list_namespaces sdk (namespaces_of_customer customer_id)) st
      = Ret (Inr items, st1)"
    and "run_guest (host_callback c ctx) (check_components sdk ns) st1 = Ret (Ret (Inr b), st')"
    using run_try_guest_OkD [OF assms(3) [unfolded check_namespace_def]] assms(2)
    by (fastforce split: list.split_asm option.split_asm if_split_asm)
  then have "can_access_kubernetes_resource ctx ''apps/v1'' ''Deployment'' \<and>
      can_access_kubernetes_resource ctx ''v1'' ''Service''" by (intro accepted_components [OF assms(1,2)])
  moreover have "can_access_kubernetes_resource ctx ''v1'' ''Namespace''"
    by (rule granted_reads(1) [OF assms(1) items])
  ultimately show ?thesis by simp
qed

lemma accepted_validate:
  assumes "sdk_calls c sdk" "no_rejection sdk b"
    and "ps_validation_request sdk payload = Inr object" "ps_deployment sdk object = Inr d" "api_deployment d"
    and "run_guest (host_callback c ctx) (test_validate sdk payload) st = Ret (Ret (Inr b), st')"
  shows "can_access_kubernetes_resource ctx ''v1'' ''Namespace'' \<and>
    can_access_kubernetes_resource ctx ''apps/v1'' ''Deployment'' \<and>
    can_access_kubernetes_resource ctx ''v1'' ''Service''"
proof -
  obtain labels pod where labels: "om_labels (dp_metadata d) = Some labels" "bt_get labels component_label = Some ''api''"
    and pod: "dp_spec d = Some (Some pod)"
    using assms(3-6) by (auto simp: api_deployment_def has_label_def test_validate_def split: option.splits)
  with assms(3,4,6) have "run_guest (host_callback c ctx)
      (try_guest (ps_can_i sdk (can_create_pods sdk (service_account d pod)))
        (\<lambda>allowed. if allowed then reject_call sdk ''Service account has high risk permissions'' 404
          else check_customer sdk d labels)) st = Ret (Ret (Inr b), st')"
    by (simp add: test_validate_def)
  from run_try_guest_OkD [OF this] obtain st1 where
    "run_guest (host_callback c ctx) (check_customer sdk d labels) st1 = Ret (Ret (Inr b), st')"
    using assms(2) by (auto split: if_splits)
  then obtain customer_id where
    "run_guest (host_callback c ctx) (check_namespace sdk d customer_id) st1 = Ret (Ret (Inr b), st')"
    using assms(2) by (auto simp: check_customer_def split: option.splits)
  then show ?thesis by (rule accepted_namespace [OF assms(1,2)])
qed

lemma wapc_validate_allowed:
  assumes "wapc_validate c w bk s settings request st = Ret ((resp, s'), st')" "resp_allowed resp"
    and "json_to_string w (validate_params settings request) = Inr params"
  shows "\<exists>res s1 st1 v. wapc_call c bk s ''validate'' params st = Ret ((Inr res, s1), st1) \<and>
    de_response w res = Inr v \<and> vr_accepted v"
proof -
  obtain r s1 st1 where call: "wapc_call c bk s ''validate'' params st = Ret ((r, s1), st1)"
    using wapc_call_returns [of c bk s "''validate''" params st] by auto
  show ?thesis
  proof (cases r)
    case (Inl e)
    have "\<not> resp_allowed a" if "wapc_call_failed c bk s1 u e st1 = Ret ((a, s2), st2)" for a u s2 st2
      using that by (auto simp: wapc_call_failed_def split: if_splits)
    with Inl assms call show ?thesis by (auto simp: wapc_validate_def Let_def)
  next
    case (Inr res)
    with assms call have answer: "wapc_answer w (request_uid request) (request_object request) res = Ret resp"
      by (auto simp: wapc_validate_def Let_def)
    show ?thesis
    proof (cases "de_response w res")
      case (Inl e)
      with answer assms(2) show ?thesis by (auto simp: wapc_answer_def)
    next
      case (Inr v)
      have "response_of_answer w (request_uid request) (request_object request) v = Ret (Inr resp)"
        by (rule response_of_answer_ok [of w "request_uid request" "request_object request" v])
          (use answer Inr assms(2) in \<open>auto simp: wapc_answer_def\<close>)
      then have "vr_accepted v"
        using assms(2) from_response_ok(3) unfolding response_of_answer_def by blast
      with Inr \<open>r = Inr res\<close> call show ?thesis by auto
    qed
  qed
qed

text \<open>What the module of the policy makes of the result of its function: an error or a trap.\<close>

definition guest_outcome ::
  "(string \<Rightarrow> lib_error) \<Rightarrow> (string \<Rightarrow> lib_error) \<Rightarrow> call_result \<Rightarrow> lib_error + bytes" where
  "guest_outcome guest_error trap r =
     (case r of Ret v \<Rightarrow> map_err guest_error v | Panic p \<Rightarrow> Inl (trap p))"

text \<open>C39: a waPC stack that runs the context-aware test policy lets an API deployment through only when
  the context of the stack grants access to Namespaces, Deployments and Services: a read that is not
  granted becomes an error of the guest and that a rejection of the request. These are the resources
  the metadata of the policy lists.\<close>

theorem test_policy_needs_grants:
  assumes "sdk_calls c sdk"
    and "\<And>m code b v. ps_reject_request sdk m code = Inr b \<Longrightarrow> de_response w b = Inr v \<Longrightarrow> \<not> vr_accepted v"
    and "wb_call bk (ws_wapc_host s) ''validate'' params =
      bind_guest (test_validate sdk params) (\<lambda>r. GuestDone (guest_outcome guest_error trap r, host'))"
    and "json_to_string w (validate_params settings request) = Inr params"
    and "ps_validation_request sdk params = Inr object" "ps_deployment sdk object = Inr d" "api_deployment d"
    and "wapc_validate c w bk s settings request st = Ret ((resp, s'), st')" "resp_allowed resp"
  shows "\<forall>(api_version, kind) \<in> {(''v1'', ''Namespace''), (''apps/v1'', ''Deployment''), (''v1'', ''Service'')}.
    can_access_kubernetes_resource (ws_eval_ctx s) api_version kind"
proof -
  obtain res s1 st1 v where call: "wapc_call c bk s ''validate'' params st = Ret ((Inr res, s1), st1)"
    and v: "de_response w res = Inr v" "vr_accepted v"
    using wapc_validate_allowed [OF assms(8,9,4)] by blast
  have "no_rejection sdk res"
    using assms(2) v by (auto simp: no_rejection_def)
  moreover have "\<exists>st2. run_guest (host_callback c (ws_eval_ctx s)) (test_validate sdk params) st = Ret (Ret (Inr res), st2)"
    using call by (cases "run_guest (host_callback c (ws_eval_ctx s)) (test_validate sdk params) st")
      (auto simp: wapc_call_def assms(3) run_bind_guest guest_outcome_def split: exec.splits)
  ultimately show ?thesis
    using accepted_validate [OF assms(1) _ assms(5-7)] by auto
qed

text \<open>The policy with its resources granted, in an engine that runs it and a codec that reads its requests.\<close>

definition granted_context :: EvaluationContext where
  "granted_context = deny_all_context\<lparr>ctx_aware_resources_allow_list :=
     [ContextAwareResource ''apps/v1'' ''Deployment'', ContextAwareResource ''v1'' ''Namespace'',
      ContextAwareResource ''v1'' ''Service'']\<rparr>"

definition policy_codec :: codec where
  "policy_codec = example_codec\<lparr>de_list_all := \<lambda>p. Inr \<lparr>la_api_version = ''v1'', la_kind = ''Namespace'',
       la_label_selector = Some p, la_field_selector = None\<rparr>,
     de_list_namespace := \<lambda>p. Inr (deployments_in p), de_get_resource := \<lambda>p. Inr (auth_service_in p),
     de_can_i := \<lambda>p. Inr \<lparr>ci_subject_access_review = SubjectAccessReview Null, ci_disable_cache = False\<rparr>\<rparr>"

definition policy_wire :: "unit wire" where
  "policy_wire = example_wire\<lparr>de_response := \<lambda>b. Inr \<lparr>vr_accepted = (b = ''accept''), vr_message = None,
     vr_code = None, vr_mutated_object = None, vr_audit_annotations = None, vr_warnings = None\<rparr>\<rparr>"

definition example_error :: "string \<Rightarrow> lib_error" where
  "example_error e = \<lparr>le_display = e, le_debug = e\<rparr>"

definition policy_backend :: "(unit, unit, unit) wapc_backend" where
  "policy_backend = \<lparr>wb_rehydrate = \<lambda>pre d. Inr (), wb_host_new = \<lambda>e. GuestDone (Inr ()),
     wb_call = \<lambda>h op p. bind_guest (test_validate example_sdk p)
       (\<lambda>r. GuestDone (guest_outcome example_error example_error r, h)),
     wb_build_pre = Inr ()\<rparr>"

definition policy_stack :: "(unit, unit) WapcStack" where
  "policy_stack = \<lparr>ws_wapc_host = (), ws_stack_pre = (), ws_eval_ctx = granted_context\<rparr>"

lemma policy_sdk_calls: "sdk_calls policy_codec example_sdk"
  by (simp add: sdk_calls_def calls_host_def example_sdk_def ask_host_def policy_codec_def
      namespaces_of_customer_def deployments_in_def auth_service_in_def)

lemma run_ask_host:
  assumes "kubernetes_callback policy_codec granted_context ''kubernetes'' op p st = (Inr b, st')"
  shows "run_guest (host_callback policy_codec granted_context) (ask_host op p a) st = Ret (a, st')"
  using assms by (simp add: ask_host_def host_callback_def)

lemma policy_answers:
  "\<exists>st'. run_guest (host_callback policy_codec granted_context) (test_validate example_sdk p) st =
     Ret (Ret (Inr ''accept''), st')"
proof -
  have answered: "\<exists>st'. kubernetes_callback policy_codec granted_context ''kubernetes'' op p st = (Inr ''{}'', st')"
    if "op \<in> {''can_i'', ''list_resources_all'', ''list_resources_by_namespace'', ''get_resource''}" for op p st
    using that by (auto simp: kubernetes_callback_def guard_and_send_def decode_and_send_def policy_codec_def
        granted_context_def deny_all_context_def can_access_kubernetes_resource_def deployments_in_def
        auth_service_in_def send_request_and_wait_for_response_def)
  have ask: "answers (host_callback policy_codec granted_context) (ask_host op p a) a"
    if "op \<in> {''can_i'', ''list_resources_all'', ''list_resources_by_namespace'', ''get_resource''}"
    for op p and a :: "string + 'a"
    using answered [OF that] run_ask_host unfolding answers_def by blast
  have "serves (host_callback policy_codec granted_context) example_sdk example_cluster"
    by (simp add: serves_def example_sdk_def ask)
  then have "decides (host_callback policy_codec granted_context) example_sdk (test_validate example_sdk p) True"
    using decides_validate [OF example_sdk_verdicts, of "host_callback policy_codec granted_context"
        example_cluster p Null example_deployment] example_rules
    by (auto simp: example_sdk_def example_deployment_def)
  then show ?thesis by (simp add: decides_def example_sdk_def)
qed

theorem test_policy_needs_grants_witness:
  "(\<exists>resp s' st'. wapc_validate policy_codec policy_wire policy_backend policy_stack [] (Raw Null) host_init =
       Ret ((resp, s'), st') \<and> resp_allowed resp) \<and>
   can_access_kubernetes_resource granted_context ''v1'' ''Service''"
proof -
  obtain st1 where run: "run_guest (host_callback policy_codec granted_context) (test_validate example_sdk ''{}'') host_init
      = Ret (Ret (Inr ''accept''), st1)"
    using policy_answers by blast
  let ?resp = "\<lparr>resp_uid = [], resp_allowed = True, resp_patch_type = None, resp_patch = None,
    resp_status = None, resp_audit_annotations = None, resp_warnings = None\<rparr>"
  have eval: "wapc_validate policy_codec policy_wire policy_backend policy_stack [] (Raw Null) host_init =
      Ret ((?resp, policy_stack), st1)"
    by (simp add: wapc_validate_def wapc_call_def policy_wire_def example_wire_def policy_backend_def
        policy_stack_def run run_bind_guest guest_outcome_def wapc_answer_def response_of_answer_def
        from_policy_validation_response_def patch_of_def)
  have rejections: "\<not> vr_accepted v"
    if "ps_reject_request example_sdk m code = Inr b" "de_response policy_wire b = Inr v" for m code b v
    using that by (auto simp: example_sdk_def policy_wire_def)
  have "\<forall>(api_version, kind) \<in> {(''v1'', ''Namespace''), (''apps/v1'', ''Deployment''), (''v1'', ''Service'')}.
      can_access_kubernetes_resource (ws_eval_ctx policy_stack) api_version kind"
    by (rule test_policy_needs_grants [where d = example_deployment, OF policy_sdk_calls rejections _ _ _ _ _ eval])
      (simp_all add: example_sdk_def policy_wire_def example_wire_def policy_backend_def api_deployment_def
        has_label_def example_deployment_def bt_get_def)
  then show ?thesis using eval by (simp add: policy_stack_def)
qed

end
