(* ===== verification/BurregoCli.thy ===== *)
theory BurregoCli
  imports BurregoSafety
begin

text \<open>
  \<open>crates/burrego/examples/cli/main.rs\<close> and the default callbacks of
  \<open>crates/burrego/src/host_callbacks.rs\<close>: the command line around the evaluator. Files and JSON
  texts are the parameter \<^theory_text>\<open>cli_env\<close>; the parsing of the arguments (clap) and the set-up of the
  logger are left out. What is printed is a list of lines, those with \<^theory_text>\<open>True\<close> on the standard error.
\<close>

datatype Commands =
    Eval "string option" "string option" string string string
  | Builtins

record cli_env =
  cl_from_str :: "string \<Rightarrow> lib_error + json"
  cl_open :: "string \<Rightarrow> lib_error + bytes"
  cl_from_reader :: "bytes \<Rightarrow> lib_error + json"
  cl_to_string_pretty :: "json \<Rightarrow> lib_error + string"
  cl_engine_new :: "bool \<Rightarrow> lib_error + unit"
  cl_module_from_file :: "string \<Rightarrow> lib_error + unit"

datatype cli_error = CliAnyhow string | CliJson lib_error | CliBurrego BurregoError

datatype cli_end = Finished | Failed cli_error | ExitCode nat

type_synonym lines = "(bool \<times> string) list"

definition default_opa_abort :: "string \<Rightarrow> bool \<times> string" where
  "default_opa_abort msg = (True, ''OPA abort with message: '' @ debug_str msg)"

definition default_opa_println :: "string \<Rightarrow> bool \<times> string" where
  "default_opa_println msg = (False, ''Message coming from the policy: '' @ debug_str msg)"

definition printed :: "(bool \<times> string) list \<Rightarrow> lines" where
  "printed msgs = map (\<lambda>(is_abort, msg). if is_abort then default_opa_abort msg else default_opa_println msg) msgs"

subsection \<open>Entrypoints by number\<close>

text \<open>\<open>str::parse::<i32>\<close>: an optional sign and at least one digit, without overflow.\<close>

definition dec_digit :: "char \<Rightarrow> nat option" where
  "dec_digit c = (let n = of_char c in if 48 \<le> n \<and> n \<le> 57 then Some (n - 48) else None)"

fun dec_value :: "nat \<Rightarrow> string \<Rightarrow> nat option" where
  "dec_value acc [] = Some acc"
| "dec_value acc (c # cs) =
     (case dec_digit c of None \<Rightarrow> None | Some d \<Rightarrow> dec_value (10 * acc + d) cs)"

definition parse_sign :: "string \<Rightarrow> bool \<times> string" where
  "parse_sign s =
     (case s of
        [] \<Rightarrow> (False, [])
      | c # cs \<Rightarrow> if c = CHR ''-'' then (True, cs) else if c = CHR ''+'' then (False, cs) else (False, s))"

definition parse_i32 :: "string \<Rightarrow> i32 option" where
  "parse_i32 s =
     (let (negative, ds) = parse_sign s in
      if ds = [] then None
      else case dec_value 0 ds of
             None \<Rightarrow> None
           | Some n \<Rightarrow>
               (let i = (if negative then - int n else int n)
                in if - (2 ^ 31) \<le> i \<and> i < 2 ^ 31 then Some (word_of_int i) else None))"

lemma dec_digit_char: "d < 10 \<Longrightarrow> dec_digit (char_of (48 + d)) = Some d"
  by (simp add: dec_digit_def Let_def)

lemma dec_value_append: "dec_value acc (xs @ ys) = Option.bind (dec_value acc xs) (\<lambda>acc'. dec_value acc' ys)"
  by (induction xs arbitrary: acc) (auto split: option.split)

lemma dec_value_digits: "dec_value 0 (nat_digits n) = Some n"
proof (induction n rule: nat_digits.induct)
  case (1 n)
  show ?case
  proof (cases "n < 10")
    case True
    then show ?thesis by (simp add: nat_digits.simps [of n] dec_digit_char)
  next
    case False
    with 1 have "dec_value 0 (nat_digits (n div 10)) = Some (n div 10)" by simp
    then show ?thesis
      using False by (simp add: nat_digits.simps [of n] dec_value_append dec_digit_char)
  qed
qed

lemma dec_digit_start: "dec_value acc (c # cs) \<noteq> None \<Longrightarrow> c \<noteq> CHR ''-'' \<and> c \<noteq> CHR ''+''"
  by (auto simp: dec_digit_def)

text \<open>A number as it is printed is read back.\<close>

lemma nat_digits_nonempty: "nat_digits n \<noteq> []"
  by (subst nat_digits.simps) simp

lemma parse_sign_int: "parse_sign (int_str i) = (i < 0, nat_digits (nat \<bar>i\<bar>))"
proof -
  obtain c cs where ds: "nat_digits (nat \<bar>i\<bar>) = c # cs"
    using nat_digits_nonempty by (cases "nat_digits (nat \<bar>i\<bar>)") auto
  with dec_value_digits [of "nat \<bar>i\<bar>"] have "c \<noteq> CHR ''-'' \<and> c \<noteq> CHR ''+''"
    by (intro dec_digit_start [of 0 c cs]) simp
  then show ?thesis using ds by (auto simp: parse_sign_def int_str_def)
qed

lemma parse_int_str:
  assumes "- (2 ^ 31) \<le> i" "i < 2 ^ 31"
  shows "parse_i32 (int_str i) = Some (word_of_int i)"
  using assms by (auto simp: parse_i32_def parse_sign_int dec_value_digits nat_digits_nonempty)

subsection \<open>The commands\<close>

definition input_value :: "cli_env \<Rightarrow> string option \<Rightarrow> string option \<Rightarrow> cli_error + json" where
  "input_value env input input_path =
     (if input \<noteq> None \<and> input_path \<noteq> None
      then Inl (CliAnyhow (''Cannot use '' @ squote @ ''input'' @ squote @ '' and '' @ squote @ ''input-path'' @
             squote @ '' at the same time''))
      else case input of
        Some input_json \<Rightarrow>
          map_err (\<lambda>e. CliAnyhow (''Cannot parse input: '' @ le_debug e)) (cl_from_str env input_json)
      | None \<Rightarrow>
          (case input_path of
             Some input_filename \<Rightarrow>
               bind_result (map_err (\<lambda>e. CliAnyhow (''Cannot read input file: '' @ le_debug e))
                 (cl_open env input_filename)) (\<lambda>reader. map_err CliJson (cl_from_reader env reader))
           | None \<Rightarrow> Inr (json_obj [])))"

definition cli_build ::
  "cli_env \<Rightarrow> ('s, 're, 'patch, 'ver) opa_env \<Rightarrow> string \<Rightarrow> (BurregoError + 's Evaluator) exec" where
  "cli_build env m policy =
     builder_build (cl_engine_new env) (cl_module_from_file env) m
       (with_host_callbacks (with_policy_path builder_default policy))"

definition cli_entrypoint :: "'s Evaluator \<Rightarrow> string \<Rightarrow> BurregoError + i32" where
  "cli_entrypoint evaluator entrypoint =
     (case parse_i32 entrypoint of Some i \<Rightarrow> Inr i | None \<Rightarrow> entrypoint_id evaluator entrypoint)"

definition cli_evaluate ::
  "cli_env \<Rightarrow> ('s, 're, 'patch, 'ver) opa_env \<Rightarrow> 's Evaluator \<Rightarrow> i32 \<Rightarrow> json \<Rightarrow> bytes \<Rightarrow> (cli_end \<times> lines) exec" where
  "cli_evaluate env m evaluator entrypoint input data =
     bind_exec (evaluator_evaluate m evaluator entrypoint input data) (\<lambda>(r, evaluator').
       let out = printed (os_messages (ev_store evaluator')) in
       Ret (case r of
          Inl e \<Rightarrow> (Failed (CliBurrego e), out)
        | Inr evaluation_res \<Rightarrow>
            (case cl_to_string_pretty env evaluation_res of
               Inl e \<Rightarrow> (Failed (CliJson e), out)
             | Inr s \<Rightarrow> (Finished, out @ [(False, s)]))))"

definition list_item :: "string \<Rightarrow> string" where
  "list_item b = ''  - '' @ b"

definition eval_command ::
  "cli_env \<Rightarrow> ('s, 're, 'patch, 'ver) opa_env \<Rightarrow> string option \<Rightarrow> string option \<Rightarrow> string \<Rightarrow> string \<Rightarrow> string
   \<Rightarrow> (cli_end \<times> lines) exec" where
  "eval_command env m input input_path data entrypoint policy =
     (case input_value env input input_path of
        Inl e \<Rightarrow> Ret (Failed e, [])
      | Inr input_json \<Rightarrow>
          bind_exec (cli_build env m policy) (\<lambda>r.
          case r of
            Inl e \<Rightarrow> Ret (Failed (CliBurrego e), [])
          | Inr evaluator \<Rightarrow>
              (case opa_abi_version m of
                 Inl e \<Rightarrow> Ret (Failed (CliBurrego e), [])
               | Inr _ \<Rightarrow>
                   (let not_implemented = not_implemented_builtins m evaluator in
                    if not_implemented \<noteq> []
                    then Ret (ExitCode 1, (True, ''Cannot evaluate policy, these builtins are not yet implemented:'')
                           # map (\<lambda>b. (True, list_item b)) not_implemented)
                    else case cli_entrypoint evaluator entrypoint of
                           Inl e \<Rightarrow> Ret (Failed (CliBurrego e), [])
                         | Inr i \<Rightarrow> cli_evaluate env m evaluator i input_json data))))"

fun burrego_main ::
  "cli_env \<Rightarrow> ('s, 're, 'patch, 'ver) opa_env \<Rightarrow> Commands \<Rightarrow> (cli_end \<times> lines) exec" where
  "burrego_main env m Builtins =
     Ret (Finished, (False, ''These are the OPA builtins currently supported:'')
       # map (\<lambda>b. (False, list_item b)) (implemented_builtins m))"
| "burrego_main env m (Eval input input_path data entrypoint policy) =
     eval_command env m input input_path data entrypoint policy"

subsection \<open>Lemmas\<close>

lemma cli_build_fields:
  assumes "cli_build env m policy = Ret (Inr ev)"
  shows "not_implemented_builtins m ev = []"
proof -
  have "set (ev_used_builtins ev) \<subseteq> set (implemented_builtins m)"
    using evaluator_reachable_fields [OF evaluator_reachable.built [OF _ refl]] assms
    unfolding cli_build_def by blast
  then show ?thesis by (auto simp: not_implemented_builtins_def filter_empty_conv)
qed

lemma cli_evaluate_spec:
  assumes "module_safe m" "helper_safe (ev_helper ev)"
  shows "\<exists>fin out. cli_evaluate env m ev i input data = Ret (fin, out) \<and> (\<forall>n. fin \<noteq> ExitCode n) \<and>
    (fin = Finished \<longleftrightarrow>
      (\<exists>j ev' s. evaluator_evaluate m ev i input data = Ret (Inr j, ev') \<and> cl_to_string_pretty env j = Inr s)) \<and>
    (\<forall>j ev' s. evaluator_evaluate m ev i input data = Ret (Inr j, ev') \<and> cl_to_string_pretty env j = Inr s \<longrightarrow>
        out = printed (os_messages (ev_store ev')) @ [(False, s)])"
proof -
  obtain r ev' where "evaluator_evaluate m ev i input data = Ret (r, ev')"
    using evaluator_evaluate_total [OF assms, of i input data] by (cases "evaluator_evaluate m ev i input data") auto
  then show ?thesis
    by (cases r) (auto simp: cli_evaluate_def Let_def split: sum.split)
qed

text \<open>A successful run of the command: the evaluator it ends with and the result.\<close>

definition eval_succeeds ::
  "cli_env \<Rightarrow> ('s, 're, 'patch, 'ver) opa_env \<Rightarrow> BurregoError + 's Evaluator \<Rightarrow> cli_error + json \<Rightarrow> bytes \<Rightarrow> string
   \<Rightarrow> 's Evaluator \<Rightarrow> string \<Rightarrow> bool" where
  "eval_succeeds env m built input data entrypoint ev' s \<longleftrightarrow>
     (\<exists>j ev i res. input = Inr j \<and> built = Inr ev \<and> is_ok (opa_abi_version m) \<and>
        cli_entrypoint ev entrypoint = Inr i \<and> evaluator_evaluate m ev i j data = Ret (Inr res, ev') \<and>
        cl_to_string_pretty env res = Inr s)"


text \<open>The command on the small module.\<close>

definition example_cli :: cli_env where
  "example_cli = \<lparr>cl_from_str = \<lambda>s. Inr (String s), cl_open = \<lambda>f. Inl example_lib_error,
     cl_from_reader = \<lambda>b. Inl example_lib_error, cl_to_string_pretty = \<lambda>j. Inr ''true'',
     cl_engine_new = \<lambda>i. Inr (), cl_module_from_file = \<lambda>p. Inr ()\<rparr>"

lemma example_cli_build:
  "cli_build example_cli (example_module result run) ''p.wasm'' = Ret (Inr example_evaluator)"
  by (simp add: cli_build_def builder_build_def builder_validate_def with_host_callbacks_def with_policy_path_def
      builder_default_def example_cli_def example_built) (simp add: example_evaluator_def)


end
