(* ===== verification/Spec2Isabelle.thy ===== *)
theory Spec2Isabelle
  imports Metadata ResponseHandler Wapc Wasi InventoryTasks GroupEvaluator ConcurrentKube ConcurrentCaches ArtifactHub TestPolicy BurregoCli
begin

text \<open>
  A model of the Kubewarden policy evaluator (\<open>src/\<close>), of the Rego evaluator \<open>crates/burrego/\<close> under it,
  and of the policy \<open>crates/context-aware-test-policy/\<close>, with the theorems that make them correct.

  \<^bold>\<open>The program.\<close> A policy is a WebAssembly module with metadata. The evaluator runs it on admission
  requests of Kubernetes in one of three runtimes (waPC, WASI, Rego) and turns its answer into an
  admission response; a group of policies is decided by a Boolean expression over its members. While
  it runs, a policy may call its host: the host callback checks what the policy is allowed to read and
  sends a request over a channel to the callback handler, an asynchronous loop that verifies
  signatures, queries registries and the Kubernetes API through caches and reflectors, and replies.
  The Rego runtime asks the same handler for an inventory of the cluster before each evaluation. The
  final response is corrected by the admission response handler (monitor mode, mutations, custom
  messages).

  \<^bold>\<open>Theories and sources.\<close>
  \<^item> \<open>Prelude\<close>, \<open>BTreeMap\<close>, \<open>Strings\<close>, \<open>Json\<close>: results, panics, loops with early returns, ordered maps and
    hash maps (locale \<open>kv_map\<close>), the operations of \<open>str\<close>, UTF-8 and the Debug form, JSON values.
  \<^item> \<open>Requests\<close> (\<open>admission_request.rs\<close>, \<open>policy_evaluator.rs\<close>), \<open>Metadata\<close> (\<open>policy_metadata.rs\<close>),
    \<open>Response\<close> (\<open>admission_response.rs\<close>), \<open>ResponseHandler\<close> (\<open>admission_response_handler.rs\<close> and its
    modules; locale \<open>response_pass\<close>), \<open>ArtifactHub\<close> (\<open>policy_artifacthub.rs\<close>).
  \<^item> \<open>EvalContext\<close> (\<open>callback_requests.rs\<close>, \<open>evaluation_context.rs\<close>, \<open>policy_tracing.rs\<close>) and
    \<open>HostCallback\<close> (\<open>runtimes/callback.rs\<close>; locale \<open>gated_host\<close>): what a policy may ask and how.
  \<^item> \<open>RuntimeBase\<close> (locale \<open>policy_runtime\<close>), \<open>Wapc\<close> (\<open>runtimes/wapc/\<close>), \<open>Wasi\<close> (\<open>runtimes/wasi_cli/\<close>; locale
    \<open>byte_fifo\<close>), and for Rego \<open>ContextAware\<close>, \<open>Inventory\<close> (locale \<open>inventory\<close>), \<open>InventoryCache\<close>,
    \<open>RegoRuntime\<close> (\<open>runtimes/rego/\<close>).
  \<^item> \<open>Builtins\<close>, \<open>Burrego\<close>, \<open>BurregoEvaluator\<close>, \<open>BurregoSafety\<close>, \<open>BurregoCli\<close> (\<open>crates/burrego/\<close>): the
    builtins of Rego, the exchange through linear memory, the evaluator, when it cannot panic and
    where its deadline errors come from, and the command line.
  \<^item> \<open>PolicyEvaluator\<close> (\<open>policy_evaluator/\<close>, \<open>runtimes.rs\<close>), \<open>GroupEvaluator\<close> (\<open>policy_group_evaluator.rs\<close> and
    its directory).
  \<^item> The asynchronous side, \<open>callback_handler.rs\<close> and its directory: \<open>TimedCache\<close> (locale \<open>timed_store\<close>) and
    \<open>CacheKeys\<close> (the attribute \<open>cached\<close>), \<open>Oci\<close>, \<open>Sigstore\<close>, \<open>Crypto\<close>, \<open>Reflector\<close>, \<open>KubeClient\<close>,
    \<open>CallbackHandler\<close>, \<open>HandlerSafety\<close> (every reachable state) and \<open>Channel\<close> (both sides together).
  \<^item> Concurrency: \<open>Interleaving\<close> (tasks that share state; locales \<open>shared_tasks\<close>, \<open>bounded_tasks\<close>),
    \<open>ConcurrentClient\<close> (the operations of \<open>kubernetes/client.rs\<close> as trees of actions, one between two
    \<open>await\<close>s, and the refinement of \<open>KubeClient\<close>), \<open>ConcurrentSafety\<close> and \<open>ConcurrentKube\<close>;
    \<open>SingleFlight\<close> and \<open>ConcurrentCaches\<close> (the attribute \<open>cached\<close> with its lock), \<open>InventoryTasks\<close> (the global inventory
    cache shared by the threads that evaluate policies).
  \<^item> \<open>TestPolicy\<close> (\<open>crates/context-aware-test-policy/\<close>): a policy as a guest of the waPC runtime.
  \<^item> This theory: an evaluator of any runtime followed by the response handler.

  Definitions have the names of the source; a name taken by HOL or used twice in the source has the
  name of its type in front (\<open>wapc_validate\<close>, \<open>wasi_validate\<close>, \<open>rego_validate\<close>). Structs are records
  whose fields carry a prefix, enums are datatypes, integers keep their width.

  \<^bold>\<open>State and effects.\<close> State is passed explicitly: \<open>host_state\<close> keeps what synchronous code sent and
  logged, the stacks of the runtimes and the evaluators are records that an operation returns
  updated, the global inventory cache and the caches of the handler are arguments and results. Errors
  are values of a sum type and panics a constructor of \<open>exec\<close>, so \<open>unwrap\<close>, slices out of range and
  checked arithmetic are branches of the model. A guest is a tree of calls to its host (\<open>guest\<close>,
  \<open>wasi_guest\<close>, \<open>opa_eval\<close>), whatever its code is.

  \<^bold>\<open>What is shown.\<close>
  \<^item> Responses: monitor and protect mode, custom messages, the computation of a response from the
    answer of a policy, identifiers parsed and printed, the validation of metadata against a
    declarative form of its rules, the annotations that make an Artifact Hub package.
  \<^item> Safety of runtimes: each answers every sequence of requests with the right uid, without a panic
    (for a Rego or WASI module under stated conditions), sends granted requests only, and is reset
    after a timeout. The three are interpretations of \<open>policy_runtime\<close>, and so is the policy evaluator.
  \<^item> Rego: the inventories against the abstract lookup by path, the invariant of the inventory cache,
    the verdicts of Gatekeeper policies, the round trip and the bounds of the linear memory, the
    builtins that can panic, the life of an evaluator, the command line.
  \<^item> Groups: the verdict is the value of the expression over the verdicts of the members that were
    called, no member mutates, every request is answered; when the settings of a group are valid.
  \<^item> The handler: an image a policy is told to trust was verified with its keys (the cache keys do not
    confuse two requests), a listing comes from the reflector of exactly its query, when a request
    stays unanswered, when a loop ends, the window in which a reader misses a change, the verdict on
    certificates, and the one cache whose keys do confuse two requests.
  \<^item> The Kubernetes client under every interleaving of its tasks: what the answers say, that each task
    finishes within seven actions, that an undisturbed task is the sequential operation, and the race
    in which two listings start two reflectors and one of them is never asked again. A cached
    function runs once while its result is fresh, and the locks cannot block all tasks. Inventories
    of Gatekeeper policies stay up to date under concurrent evaluations.
  \<^item> The test policy: its verdict is the list of its readme, and inside the runtime it accepts nothing
    that needs a read its context does not grant.

  \<^bold>\<open>Parameters.\<close> What is not under \<open>src/\<close> is an argument: engines (\<open>wapc_backend\<close>, \<open>wasi_backend\<close>,
  \<open>opa_env\<close>, \<open>wasmtime\<close>), serde and SDK types (\<open>codec\<close>, \<open>wire\<close>, \<open>rego_codec\<close>, \<open>policy_sdk\<close>), the libraries
  behind builtins (\<open>builtin_env\<close>), the Rhai engine, the registry, cosign, webpki and the Kubernetes API
  (\<open>registry\<close>, \<open>cosign\<close>, \<open>webpki\<close>, \<open>kube_api\<close>, \<open>watch_api\<close>), the formats of Artifact Hub (\<open>hub_lib\<close>).
  Remote services answer by the time they are asked. What is assumed of them stands as a hypothesis
  of the theorems that need it: \<open>plain_names\<close> (names of Kubernetes have no vertical bar), \<open>module_safe\<close>,
  \<open>setup_safe\<close> and \<open>program_in_bounds\<close> (addresses a module hands out), \<open>sdk_calls\<close> (how the SDK calls the
  host), \<open>bexp_tree\<close> (the expression engine evaluates Boolean expressions left to right).

  \<^bold>\<open>Simplifications.\<close> The exported functions of a Rego module other than its evaluation call no host
  function. Locks are never poisoned, since a panic ends the model's run. The order in which a hash
  map is iterated is the order of the list that stands for it, and the theorems hold for any. A
  request of \<open>CallbackHandler\<close> runs in one step when it is received, while the background task of a
  reflector takes its two steps on its own (\<open>watch_step\<close>): for the cached functions this is the order
  in which they lock their caches, and for the Kubernetes client, whose maps are locked for a lookup
  or an insertion only, the interleaved model of \<open>ConcurrentClient\<close> says what the order hides. There a
  reflector is ready when its creation ends, with the time at which the creation started. How long a cached value is fresh is the parameter \<open>fresh\<close>. A JSON
  float is opaque. Printable Unicode is copied by the Debug form.

  \<^bold>\<open>Termination and bounds.\<close> Every definition is total: loops are structural on the list they consume
  (memory, resources, events) or on the tree of actions of a task, the UTF-8 decoder and the trimming
  of strings by a measure. No fuel is used. The loop of the handler consumes a list of events and says whether it has ended; a module that
  runs forever is interrupted by its engine, which is an outcome of the parameter. Pointers are
  \<open>32 word\<close>, their arithmetic wraps as in a release build, and the loop that reads a string has the
  overflow check of the counter written out.

  \<^bold>\<open>Not modelled.\<close> Logging (\<open>tracing\<close>) except the events of policies; the derived serializations nothing
  in the program reads back (the YAML of an Artifact Hub package); the parsing of command line
  arguments; module lists and re-exports (\<open>lib.rs\<close>); the tests, their fixtures and the mock of the
  Kubernetes API.
\<close>

section \<open>From the request to the enforced response\<close>

text \<open>
  The answers of an evaluator go through the handler of the policy's settings. \<^theory_text>\<open>enforced\<close> says what
  then holds of the final responses \<open>finals\<close> against the raw ones.
\<close>

definition enforced ::
  "AdmissionResponseHandler \<Rightarrow> ValidateRequest list \<Rightarrow> AdmissionResponse list \<Rightarrow> AdmissionResponse list \<Rightarrow> bool" where
  "enforced h requests raw finals \<longleftrightarrow>
     map resp_uid finals = map request_uid requests \<and> list_all patch_wf finals \<and>
     (if h_policy_mode h = Monitor
      then list_all (\<lambda>r. resp_allowed r \<and> resp_patch r = None) finals
      else list_all2 (\<lambda>r r'. resp_allowed r' = (resp_allowed r \<and> (h_allowed_to_mutate h \<or> resp_patch r = None)) \<and>
             resp_patch r' = (if h_allowed_to_mutate h then resp_patch r else None)) raw finals)"

lemma process_enforces:
  assumes "map resp_uid rs = map request_uid requests" "list_all patch_wf rs"
  shows "enforced h requests rs (map (process_response h) rs)"
  using assms process_monitor [of h] process_protect [of h] process_wf [of _ h]
  by (cases "h_policy_mode h")
    (auto simp: enforced_def list_all_iff list_all2_map2 list_all2_same process_keeps comp_def)



end
